(* ===== verification/Prelude.thy ===== *)
theory Prelude
  imports Main
begin

text \<open>
  The vocabulary every theory of the development shares: what a Go function can return, how
  calls are sequenced over the state of the outside world, and the clock.

  A Go function with an error result returns normally with a value, returns an error, or does
  not return to its caller at all (a run-time panic, or a call of \<open>log.Fatalln\<close>, which ends
  the process). \<open>outcome\<close> has one constructor for each of the three. A function that reads the
  clock or the random source, sends a request or talks to Kubernetes is a \<open>prog\<close>: it takes the
  state and returns its outcome with the new state, whatever the outcome is.
\<close>

named_theorems prog_simps \<open>unfolding rules of the sequencing combinators\<close>
named_theorems model_defs \<open>definitions of operations that proofs unfold together\<close>


section \<open>Errors, panics and outcomes\<close>

text \<open>
  \<open>ErrorNew\<close> is \<open>errors.New\<close>, \<open>Errorf\<close> a formatted error (its format and its arguments),
  \<open>ErrWrap\<close> an error wrapped with a prefix, \<open>ErrJoin\<close> what \<open>errors.Join\<close> makes of several, and
  \<open>ErrExternal\<close> an error that the outside world (network, Kubernetes, random source, a library)
  reports.
\<close>

datatype go_error =
    ErrorNew string
  | Errorf string "string list"
  | ErrWrap string go_error
  | ErrJoin "go_error list"
  | ErrExternal string

datatype go_panic =
    NilDeref
  | IndexOutOfRange
  | PanicWith string
  | FatalExit string

datatype 'a outcome =
    Ok 'a
  | Err go_error
  | Panic go_panic

fun is_Ok :: "'a outcome \<Rightarrow> bool" where
  "is_Ok (Ok x) = True"
| "is_Ok (Err e) = False"
| "is_Ok (Panic p) = False"

fun is_Panic :: "'a outcome \<Rightarrow> bool" where
  "is_Panic (Ok x) = False"
| "is_Panic (Err e) = False"
| "is_Panic (Panic p) = True"

text \<open>Sequencing of pure calls: the \<open>if err != nil \{ return nil, err \}\<close> of the source.\<close>

fun obind :: "'a outcome \<Rightarrow> ('a \<Rightarrow> 'b outcome) \<Rightarrow> 'b outcome" where
  "obind (Ok x) f = f x"
| "obind (Err e) f = Err e"
| "obind (Panic p) f = Panic p"

fun omap_err :: "(go_error \<Rightarrow> go_error) \<Rightarrow> 'a outcome \<Rightarrow> 'a outcome" where
  "omap_err g (Ok x) = Ok x"
| "omap_err g (Err e) = Err (g e)"
| "omap_err g (Panic p) = Panic p"

lemma obind_Ok_iff: "obind m f = Ok y \<longleftrightarrow> (\<exists>x. m = Ok x \<and> f x = Ok y)"
  by (cases m) auto

lemma obind_split: "P (obind m f) \<longleftrightarrow>
    (\<forall>x. m = Ok x \<longrightarrow> P (f x)) \<and> (\<forall>e. m = Err e \<longrightarrow> P (Err e)) \<and> (\<forall>p. m = Panic p \<longrightarrow> P (Panic p))"
  by (cases m) auto

lemma omap_err_Ok_iff [simp]: "omap_err g m = Ok y \<longleftrightarrow> m = Ok y"
  by (cases m) auto

text \<open>\<open>errors.Join\<close> leaves out errors that are \<open>nil\<close> and is \<open>nil\<close> when no other is left.\<close>

definition errors_Join :: "go_error option list \<Rightarrow> go_error option" where
  "errors_Join es = (case concat (map (\<lambda>e. case e of None \<Rightarrow> [] | Some e \<Rightarrow> [e]) es) of
       [] \<Rightarrow> None
     | errs \<Rightarrow> Some (ErrJoin errs))"

lemma errors_Join_simps [simp]:
  "errors_Join [None, e] = errors_Join [e]" "errors_Join [e, None] = errors_Join [e]"
  "errors_Join [None] = None" "errors_Join [Some a] = Some (ErrJoin [a])"
  "errors_Join [Some a, Some b] = Some (ErrJoin [a, b])"
  by (simp_all add: errors_Join_def)

lemma errors_Join_None_iff: "errors_Join es = None \<longleftrightarrow> (\<forall>e\<in>set es. e = None)"
  by (induction es) (auto simp: errors_Join_def split: option.splits list.splits)

text \<open>Dereferencing a pointer: \<open>None\<close> is Go's \<open>nil\<close>.\<close>

fun deref :: "'a option \<Rightarrow> 'a outcome" where
  "deref None = Panic NilDeref"
| "deref (Some x) = Ok x"

lemma deref_Ok_iff [simp]: "deref p = Ok x \<longleftrightarrow> p = Some x"
  by (cases p) auto

lemma deref_not_Err [simp]: "deref p \<noteq> Err e"
  by (cases p) auto

text \<open>Reading a slice by index: out of range is a run-time panic.\<close>

definition index :: "'a list \<Rightarrow> nat \<Rightarrow> 'a outcome" where
  "index xs i = (if i < length xs then Ok (xs ! i) else Panic IndexOutOfRange)"

lemma index_Ok_iff: "index xs i = Ok x \<longleftrightarrow> i < length xs \<and> xs ! i = x"
  by (auto simp: index_def)

lemma index_Cons_0 [simp]: "index (x # xs) 0 = Ok x"
  by (simp add: index_def)

lemma index_Nil [simp]: "index [] i = Panic IndexOutOfRange"
  by (simp add: index_def)


section \<open>Programs over the outside world\<close>

type_synonym ('w, 'a) prog = "'w \<Rightarrow> 'a outcome \<times> 'w"

definition ret :: "'a \<Rightarrow> ('w, 'a) prog" where
  "ret x = (\<lambda>w. (Ok x, w))"

definition fail :: "go_error \<Rightarrow> ('w, 'a) prog" where
  "fail e = (\<lambda>w. (Err e, w))"

definition crash :: "go_panic \<Rightarrow> ('w, 'a) prog" where
  "crash p = (\<lambda>w. (Panic p, w))"

definition lift :: "'a outcome \<Rightarrow> ('w, 'a) prog" where
  "lift r = (\<lambda>w. (r, w))"

definition bind :: "('w, 'a) prog \<Rightarrow> ('a \<Rightarrow> ('w, 'b) prog) \<Rightarrow> ('w, 'b) prog" where
  "bind m f = (\<lambda>w. case m w of
       (Ok x, w1) \<Rightarrow> f x w1
     | (Err e, w1) \<Rightarrow> (Err e, w1)
     | (Panic p, w1) \<Rightarrow> (Panic p, w1))"

text \<open>
  A call whose error the caller wraps, one whose error it looks at, and a read of the state that
  cannot fail.
\<close>

definition wrapping :: "string \<Rightarrow> ('w, 'a) prog \<Rightarrow> ('w, 'a) prog" where
  "wrapping msg m = (\<lambda>w. case m w of (r, w1) \<Rightarrow> (omap_err (ErrWrap msg) r, w1))"

definition attempt :: "('w, 'a) prog \<Rightarrow> ('w, go_error + 'a) prog" where
  "attempt m = (\<lambda>w. case m w of
       (Ok x, w1) \<Rightarrow> (Ok (Inr x), w1)
     | (Err e, w1) \<Rightarrow> (Ok (Inl e), w1)
     | (Panic p, w1) \<Rightarrow> (Panic p, w1))"

definition reading :: "('w \<Rightarrow> 'a \<times> 'w) \<Rightarrow> ('w, 'a) prog" where
  "reading f = (\<lambda>w. case f w of (x, w1) \<Rightarrow> (Ok x, w1))"

definition guard_prog :: "bool \<Rightarrow> go_error \<Rightarrow> ('w, unit) prog" where
  "guard_prog b e = (if b then ret () else fail e)"

text \<open>\<open>assert.AssertWith\<close> (\<open>internal/assert/assert.go\<close>) logs with \<open>log.Fatalln\<close>, which exits.\<close>

definition AssertWith :: "bool \<Rightarrow> string \<Rightarrow> ('w, unit) prog" where
  "AssertWith ok msg = (if ok then ret () else crash (FatalExit msg))"

lemma ret_apply [simp, prog_simps]: "ret x w = (Ok x, w)"
  by (simp add: ret_def)

lemma fail_apply [simp, prog_simps]: "fail e w = (Err e, w)"
  by (simp add: fail_def)

lemma crash_apply [simp, prog_simps]: "crash p w = (Panic p, w)"
  by (simp add: crash_def)

lemma lift_apply [simp, prog_simps]: "lift r w = (r, w)"
  by (simp add: lift_def)

lemma bind_Ok [simp]: "m w = (Ok x, w1) \<Longrightarrow> bind m f w = f x w1"
  by (simp add: bind_def)

lemma bind_Err [simp]: "m w = (Err e, w1) \<Longrightarrow> bind m f w = (Err e, w1)"
  by (simp add: bind_def)

lemma bind_Panic [simp]: "m w = (Panic p, w1) \<Longrightarrow> bind m f w = (Panic p, w1)"
  by (simp add: bind_def)

lemma bind_ret [simp, prog_simps]: "bind (ret x) f = f x"
  by (rule ext) simp

lemma bind_fail [simp, prog_simps]: "bind (fail e) f = fail e"
  by (rule ext) simp

lemma bind_crash [simp, prog_simps]: "bind (crash p) f = crash p"
  by (rule ext) simp

lemma bind_lift_Ok [simp, prog_simps]: "bind (lift (Ok x)) f = f x"
  by (rule ext) simp

lemma bind_lift_Err [simp, prog_simps]: "bind (lift (Err e)) f = fail e"
  by (rule ext) simp

lemma bind_lift_Panic [simp, prog_simps]: "bind (lift (Panic p)) f = crash p"
  by (rule ext) simp

lemma bind_assoc: "bind (bind m f) g = bind m (\<lambda>x. bind (f x) g)"
  by (rule ext) (auto simp: bind_def split: prod.splits outcome.splits)

text \<open>Inversion: a sequence that returned ran both of its parts to a normal return.\<close>

lemma bind_eq_Ok_iff:
  "bind m f w = (Ok y, w') \<longleftrightarrow> (\<exists>x w1. m w = (Ok x, w1) \<and> f x w1 = (Ok y, w'))"
  by (auto simp: bind_def split: prod.splits outcome.splits)

lemma bind_eq_OkE:
  assumes "bind m f w = (Ok y, w')"
  obtains x w1 where "m w = (Ok x, w1)" and "f x w1 = (Ok y, w')"
  using assms by (auto simp: bind_eq_Ok_iff)

lemma bind_eq_cases:
  assumes "bind m f w = (r, w')"
  obtains (Ok) x w1 where "m w = (Ok x, w1)" and "f x w1 = (r, w')"
  | (Err) e where "m w = (Err e, w')" and "r = Err e"
  | (Panic) p where "m w = (Panic p, w')" and "r = Panic p"
  using assms by (auto simp: bind_def split: prod.splits outcome.splits)

lemma reading_apply [simp, prog_simps]: "reading f w = (Ok (fst (f w)), snd (f w))"
  by (simp add: reading_def split: prod.splits)

lemma bind_reading [simp, prog_simps]: "bind (reading f) g w = g (fst (f w)) (snd (f w))"
  by (simp add: bind_def)

lemma guard_prog_simps [simp, prog_simps]:
  "guard_prog True e = ret ()" "guard_prog False e = fail e"
  by (simp_all add: guard_prog_def)

lemma AssertWith_simps [simp, prog_simps]:
  "AssertWith True msg = ret ()" "AssertWith False msg = crash (FatalExit msg)"
  by (simp_all add: AssertWith_def)

lemma wrapping_eq_Ok_iff [simp]: "wrapping msg m w = (Ok x, w1) \<longleftrightarrow> m w = (Ok x, w1)"
  by (auto simp: wrapping_def split: prod.splits)

lemma wrapping_Err: "m w = (Err e, w1) \<Longrightarrow> wrapping msg m w = (Err (ErrWrap msg e), w1)"
  by (simp add: wrapping_def)

lemma is_Ok_fst_iff: "is_Ok (fst p) \<longleftrightarrow> (\<exists>x s. p = (Ok x, s))"
  by (cases p; cases "fst p") auto

text \<open>Running a program on a part of a larger state.\<close>

definition on_part :: "('s \<Rightarrow> 'w) \<Rightarrow> ('w \<Rightarrow> 's \<Rightarrow> 's) \<Rightarrow> ('w, 'a) prog \<Rightarrow> ('s, 'a) prog" where
  "on_part rd wr m = (\<lambda>s. case m (rd s) of (r, w1) \<Rightarrow> (r, wr w1 s))"

lemma on_part_eq_Ok_iff:
  "on_part rd wr m s = (Ok x, s') \<longleftrightarrow> (\<exists>w1. m (rd s) = (Ok x, w1) \<and> s' = wr w1 s)"
  by (auto simp: on_part_def split: prod.splits)


section \<open>What a program leaves alone\<close>

text \<open>A program keeps a part of the state when it ends, however it ends, with that part as it was; a
  sequence keeps whatever each of its parts keeps.\<close>

definition keeps :: "('s \<Rightarrow> 'b) \<Rightarrow> ('s, 'a) prog \<Rightarrow> bool" where
  "keeps f m \<longleftrightarrow> (\<forall>s r s'. m s = (r, s') \<longrightarrow> f s' = f s)"

named_theorems keeps_intros \<open>rules for what programs leave alone\<close>

lemma keepsD: "keeps f m \<Longrightarrow> f (snd (m s)) = f s"
  by (simp add: keeps_def prod_eq_iff)

lemma keeps_bind [keeps_intros]: "keeps f m \<Longrightarrow> (\<And>x. keeps f (g x)) \<Longrightarrow> keeps f (bind m g)"
  unfolding keeps_def by (fastforce elim: bind_eq_cases)

lemma keeps_ret [keeps_intros]: "keeps f (ret x)"
  by (simp add: keeps_def)

lemma keeps_fail [keeps_intros]: "keeps f (fail e)"
  by (simp add: keeps_def)

lemma keeps_lift [keeps_intros]: "keeps f (lift r)"
  by (simp add: keeps_def)

lemma keeps_if [keeps_intros]: "keeps f m \<Longrightarrow> keeps f m' \<Longrightarrow> keeps f (if b then m else m')"
  by simp

lemma keeps_wrapping [keeps_intros]: "keeps f m \<Longrightarrow> keeps f (wrapping msg m)"
  by (auto simp: keeps_def wrapping_def split: prod.splits)

lemma keeps_reading [keeps_intros]: "(\<And>s. f (snd (g s)) = f s) \<Longrightarrow> keeps f (reading g)"
  by (auto simp: keeps_def)


section \<open>Time\<close>

text \<open>
  An instant is the number of nanoseconds since Go's zero time (January 1 of year 1, UTC), so
  that \<open>time.Time\{\}\<close> is 0. A duration is a number of nanoseconds; \<open>Time.Sub\<close> saturates at
  the ends of the \<open>int64\<close> range, as Go documents.
\<close>

type_synonym instant = int
type_synonym duration = int
type_synonym 'w clock = "'w \<Rightarrow> instant \<times> 'w"

definition Nanosecond :: duration where "Nanosecond = 1"
definition Second :: duration where "Second = 1000000000"
definition Minute :: duration where "Minute = 60 * Second"
definition Hour :: duration where "Hour = 60 * Minute"

definition max_duration :: duration where "max_duration = 2 ^ 63 - 1"
definition min_duration :: duration where "min_duration = - (2 ^ 63)"

definition time_Sub :: "instant \<Rightarrow> instant \<Rightarrow> duration" where
  "time_Sub a b = max min_duration (min max_duration (a - b))"

definition time_IsZero :: "instant \<Rightarrow> bool" where
  "time_IsZero t \<longleftrightarrow> t = 0"

lemmas time_units = Nanosecond_def Second_def Minute_def Hour_def

lemma time_Sub_le_iff:
  assumes "min_duration \<le> d" and "d < max_duration"
  shows "time_Sub a b \<le> d \<longleftrightarrow> a - b \<le> d"
  using assms by (auto simp: time_Sub_def)

end
