(* ===== verification/Caching.thy ===== *)
theory Caching
  imports Prelude
begin

text \<open>
  The cache of one value, \<open>internal/caching/cached_atom.go\<close>, twice: \<open>CachedAtom_Get\<close> is a call of
  \<open>Get\<close> run to its end, over a state that holds the atom among other things; \<open>cache_step\<close> is the
  same code as a step relation of many goroutines under the read-write mutex, one step between
  two points where another goroutine may run. The first is what the HTTP client uses, the
  second shows that the double check under the write lock prevents repeated fetches.
\<close>

record 'v cached_atom =
  current :: "'v option"
  currentFetchedAt :: instant
  expireAfter :: duration

definition NewCachedAtom :: "duration \<Rightarrow> 'v cached_atom" where
  "NewCachedAtom d = \<lparr>current = None, currentFetchedAt = 0, expireAfter = d\<rparr>"

text \<open>The two conditions of \<open>Get\<close>, before and after taking the write lock.\<close>

definition atom_expired :: "'v cached_atom \<Rightarrow> instant \<Rightarrow> bool" where
  "atom_expired c now \<longleftrightarrow>
     time_IsZero (currentFetchedAt c) \<or> expireAfter c < time_Sub now (currentFetchedAt c)"

definition atom_refreshed :: "'v cached_atom \<Rightarrow> instant \<Rightarrow> bool" where
  "atom_refreshed c now \<longleftrightarrow> time_Sub now (currentFetchedAt c) \<le> expireAfter c"


section \<open>A call of \<open>Get\<close>\<close>

text \<open>
  \<open>rd\<close> and \<open>wr\<close> read and write the atom inside the state; the retriever runs on the whole state
  and may return a \<open>nil\<close> pointer. An error of the retriever is returned and nothing is stored.
\<close>

definition CachedAtom_Get ::
  "('s \<Rightarrow> 'v cached_atom) \<Rightarrow> ('v cached_atom \<Rightarrow> 's \<Rightarrow> 's) \<Rightarrow> 's clock \<Rightarrow>
   ('s, 'v option) prog \<Rightarrow> ('s, 'v option) prog"
where
  "CachedAtom_Get rd wr clock retriever =
     bind (reading clock) (\<lambda>now s.
       if atom_expired (rd s) now then
         bind (reading clock) (\<lambda>now s.
           if atom_refreshed (rd s) now then (Ok (current (rd s)), s)
           else bind retriever (\<lambda>value s.
             (Ok value, wr ((rd s)\<lparr>current := value, currentFetchedAt := now\<rparr>) s)) s) s
       else (Ok (current (rd s)), s))"

text \<open>
  The interface between the cache and the state that holds it: what is written is read back,
  and neither the clock nor the retriever touches this atom.
\<close>

locale atom_cell =
  fixes rd :: "'s \<Rightarrow> 'v cached_atom"
    and wr :: "'v cached_atom \<Rightarrow> 's \<Rightarrow> 's"
    and clock :: "'s clock"
    and retriever :: "('s, 'v option) prog"
  assumes rd_wr: "rd (wr c s) = c"
    and rd_clock: "rd (snd (clock s)) = rd s"
    and rd_retriever: "rd (snd (retriever s)) = rd s"
begin

lemma rd_retriever_eq: "retriever s = (r, s') \<Longrightarrow> rd s' = rd s"
  using rd_retriever [of s] by simp

text \<open>A live entry is returned as it is: the retriever does not run, the clock is read once.\<close>

lemma Get_hit:
  assumes "\<not> atom_expired (rd s) (fst (clock s))"
  shows "CachedAtom_Get rd wr clock retriever s = (Ok (current (rd s)), snd (clock s))"
  using assms by (simp add: CachedAtom_Get_def rd_clock)

text \<open>What a miss does, with the second reading of the clock.\<close>

lemma Get_miss:
  assumes "atom_expired (rd s) (fst (clock s))"
  shows "CachedAtom_Get rd wr clock retriever s =
    (let s1 = snd (clock s); now = fst (clock s1); s2 = snd (clock s1) in
     if atom_refreshed (rd s) now then (Ok (current (rd s)), s2)
     else (case retriever s2 of
         (Ok v, s3) \<Rightarrow> (Ok v, wr ((rd s)\<lparr>current := v, currentFetchedAt := now\<rparr>) s3)
       | (Err e, s3) \<Rightarrow> (Err e, s3)
       | (Panic p, s3) \<Rightarrow> (Panic p, s3)))"
  using assms
  by (auto simp: CachedAtom_Get_def rd_clock Let_def bind_def rd_retriever_eq
      split: prod.splits outcome.splits)

lemma Get_cases:
  assumes "CachedAtom_Get rd wr clock retriever s = (r, s')"
  obtains (hit) "r = Ok (current (rd s))" and "rd s' = rd s"
  | (fetched) v t s1 s2 where "r = Ok v" and "retriever s1 = (Ok v, s2)"
      and "rd s' = (rd s)\<lparr>current := v, currentFetchedAt := t\<rparr>"
      and "\<not> atom_refreshed (rd s) t"
      and "s' = wr ((rd s)\<lparr>current := v, currentFetchedAt := t\<rparr>) s2"
  | (failed) s1 where "retriever s1 = (r, s')" and "rd s' = rd s" and "\<not> is_Ok r"
proof (cases "atom_expired (rd s) (fst (clock s))")
  case False
  from Get_hit [OF False] assms have "(Ok (current (rd s)), snd (clock s)) = (r, s')"
    by simp
  then show ?thesis using hit by (auto simp: rd_clock)
next
  case True
  let ?s2 = "snd (clock (snd (clock s)))"
  obtain ro s3 where ret: "retriever ?s2 = (ro, s3)" by (cases "retriever ?s2")
  then have "rd s3 = rd s" using rd_retriever_eq [OF ret] by (simp add: rd_clock)
  with ret show ?thesis
    using assms hit fetched failed unfolding Get_miss [OF True]
    by (cases ro) (auto simp: Let_def rd_clock rd_wr split: if_splits)
qed

text \<open>An error or a panic leaves the atom as it was, and comes from the retriever.\<close>

lemma Get_error_unchanged:
  assumes "CachedAtom_Get rd wr clock retriever s = (r, s')" and "\<not> is_Ok r"
  shows "rd s' = rd s" and "\<exists>s1. retriever s1 = (r, s')"
  using assms by (auto elim!: Get_cases)

text \<open>The lifetime of an atom never changes, and a filled atom stays filled.\<close>

lemma Get_expireAfter:
  assumes "CachedAtom_Get rd wr clock retriever s = (r, s')"
  shows "expireAfter (rd s') = expireAfter (rd s)"
  using assms by (auto elim!: Get_cases)

end

text \<open>
  An atom is well-formed when it holds a value as soon as it was ever fetched; the caller of
  \<open>Get\<close> then never sees a \<open>nil\<close> pointer without an error.
\<close>

definition atom_ok :: "'v cached_atom \<Rightarrow> bool" where
  "atom_ok c \<longleftrightarrow> (currentFetchedAt c \<noteq> 0 \<longrightarrow> current c \<noteq> None)"

lemma atom_ok_New [simp]: "atom_ok (NewCachedAtom d)"
  by (simp add: atom_ok_def NewCachedAtom_def)

context atom_cell
begin

lemma Get_atom_ok:
  assumes "CachedAtom_Get rd wr clock retriever s = (r, s')" and "atom_ok (rd s)"
    and "\<And>s1 v s2. retriever s1 = (Ok v, s2) \<Longrightarrow> v \<noteq> None"
  shows "atom_ok (rd s')"
  using assms by (auto elim!: Get_cases simp: atom_ok_def)

end


text \<open>A call of \<open>Get\<close> leaves alone what the clock, the retriever and the write leave alone.\<close>

lemma CachedAtom_Get_keeps:
  assumes "keeps f (reading clock)" and "keeps f retriever" and "\<And>c s. f (wr c s) = f s"
  shows "keeps f (CachedAtom_Get rd wr clock retriever)"
proof -
  have clock: "f (snd (clock s)) = f s" for s
    using assms(1) by (simp add: keeps_def)
  have ret: "retriever s = (r, s') \<Longrightarrow> f s' = f s" for s r s'
    using assms(2) by (simp add: keeps_def)
  show ?thesis
    unfolding keeps_def CachedAtom_Get_def
    by (auto simp: bind_def clock assms(3) split: prod.splits outcome.splits if_splits
        dest!: ret)
qed


section \<open>Many goroutines\<close>

text \<open>
  The points of \<open>Get\<close> at which a goroutine can be. \<open>Fetching t\<close> holds the write lock and has
  read the clock as \<open>t\<close>; \<open>Finished\<close> has released every lock.
\<close>

datatype 'v cache_pc =
    Starting
  | Reading
  | Upgrading
  | Locked
  | Fetching instant
  | Finished "'v option outcome"

record 'v cache_sys =
  pc :: "nat \<Rightarrow> 'v cache_pc"
  readers :: "nat set"
  writer :: "nat option"
  atom :: "'v cached_atom"
  time_now :: instant
  fetch_log :: "instant list"

text \<open>
  \<open>fetch_log\<close> is a history variable: the times stored by successful fetches, the last one first.
  Time passes at any moment. A goroutine whose call is over may start another.
\<close>

inductive cache_step :: "'v cache_sys \<Rightarrow> 'v cache_sys \<Rightarrow> bool" where
  rlock: "pc s i = Starting \<Longrightarrow> writer s = None \<Longrightarrow>
    cache_step s (s\<lparr>pc := (pc s)(i := Reading), readers := insert i (readers s)\<rparr>)"
| hit: "pc s i = Reading \<Longrightarrow> \<not> atom_expired (atom s) (time_now s) \<Longrightarrow>
    cache_step s (s\<lparr>pc := (pc s)(i := Finished (Ok (current (atom s)))), readers := readers s - {i}\<rparr>)"
| miss: "pc s i = Reading \<Longrightarrow> atom_expired (atom s) (time_now s) \<Longrightarrow>
    cache_step s (s\<lparr>pc := (pc s)(i := Upgrading), readers := readers s - {i}\<rparr>)"
| lock: "pc s i = Upgrading \<Longrightarrow> writer s = None \<Longrightarrow> readers s = {} \<Longrightarrow>
    cache_step s (s\<lparr>pc := (pc s)(i := Locked), writer := Some i\<rparr>)"
| recheck_hit: "pc s i = Locked \<Longrightarrow> atom_refreshed (atom s) (time_now s) \<Longrightarrow>
    cache_step s (s\<lparr>pc := (pc s)(i := Finished (Ok (current (atom s)))), writer := None\<rparr>)"
| recheck_miss: "pc s i = Locked \<Longrightarrow> \<not> atom_refreshed (atom s) (time_now s) \<Longrightarrow>
    cache_step s (s\<lparr>pc := (pc s)(i := Fetching (time_now s))\<rparr>)"
| fetch_ok: "pc s i = Fetching t \<Longrightarrow>
    cache_step s (s\<lparr>pc := (pc s)(i := Finished (Ok v)), writer := None,
      atom := (atom s)\<lparr>current := v, currentFetchedAt := t\<rparr>, fetch_log := t # fetch_log s\<rparr>)"
| fetch_err: "pc s i = Fetching t \<Longrightarrow>
    cache_step s (s\<lparr>pc := (pc s)(i := Finished (Err e)), writer := None\<rparr>)"
| again: "pc s i = Finished r \<Longrightarrow> cache_step s (s\<lparr>pc := (pc s)(i := Starting)\<rparr>)"
| tick: "time_now s \<le> t \<Longrightarrow> cache_step s (s\<lparr>time_now := t\<rparr>)"

definition cache_init :: "duration \<Rightarrow> instant \<Rightarrow> 'v cache_sys" where
  "cache_init d t = \<lparr>pc = (\<lambda>_. Starting), readers = {}, writer = None, atom = NewCachedAtom d,
     time_now = t, fetch_log = []\<rparr>"

inductive cache_reachable :: "duration \<Rightarrow> instant \<Rightarrow> 'v cache_sys \<Rightarrow> bool" for d t where
  init: "cache_reachable d t (cache_init d t)"
| step: "cache_reachable d t s \<Longrightarrow> cache_step s s' \<Longrightarrow> cache_reachable d t s'"

text \<open>Who holds which lock, and that a fetch in progress is due.\<close>

fun holds_write :: "'v cache_pc \<Rightarrow> bool" where
  "holds_write Locked = True"
| "holds_write (Fetching t) = True"
| "holds_write _ = False"

definition locks_inv :: "'v cache_sys \<Rightarrow> bool" where
  "locks_inv s \<longleftrightarrow>
     (\<forall>i. pc s i = Reading \<longleftrightarrow> i \<in> readers s) \<and>
     (\<forall>i. holds_write (pc s i) \<longleftrightarrow> writer s = Some i) \<and>
     (writer s \<noteq> None \<longrightarrow> readers s = {})"

lemma locks_inv_init: "locks_inv (cache_init d t)"
  by (simp add: locks_inv_def cache_init_def)

text \<open>
  A step moves one goroutine and changes the locks; the invariant is kept when the new place of
  that goroutine fits the new locks and the other goroutines held none that changed.
\<close>

lemma locks_inv_holder:
  assumes "locks_inv s" and "holds_write (pc s i)"
  shows "writer s = Some i" and "readers s = {}" and "pc s j \<noteq> Reading"
    and "j \<noteq> i \<Longrightarrow> \<not> holds_write (pc s j)"
  using assms by (auto simp: locks_inv_def)

lemma locks_inv_release:
  assumes "locks_inv s" and "holds_write (pc s i)" and "\<not> holds_write p" and "p \<noteq> Reading"
  shows "locks_inv (s\<lparr>pc := (pc s)(i := p), writer := None\<rparr>)"
  using locks_inv_holder [OF assms(1,2)] assms(3,4) by (auto simp: locks_inv_def)

lemma locks_inv_move:
  assumes "locks_inv s" and "holds_write (pc s i) = holds_write p"
    and "(pc s i = Reading) = (p = Reading)"
  shows "locks_inv (s\<lparr>pc := (pc s)(i := p)\<rparr>)"
  using assms by (auto simp: locks_inv_def)

lemma locks_inv_irrelevant [simp]:
  "locks_inv (s\<lparr>atom := a\<rparr>) = locks_inv s"
  "locks_inv (s\<lparr>fetch_log := l\<rparr>) = locks_inv s"
  "locks_inv (s\<lparr>time_now := t\<rparr>) = locks_inv s"
  by (simp_all add: locks_inv_def)

lemma cache_step_locks: "cache_step s s' \<Longrightarrow> locks_inv s \<Longrightarrow> locks_inv s'"
proof (induction rule: cache_step.induct)
  case (rlock s i)
  then show ?case by (auto simp: locks_inv_def)
next
  case (hit s i)
  then show ?case by (auto simp: locks_inv_def)
next
  case (miss s i)
  then show ?case by (auto simp: locks_inv_def)
next
  case (lock s i)
  then show ?case by (auto simp: locks_inv_def)
next
  case (recheck_hit s i)
  then show ?case by (simp add: locks_inv_release)
next
  case (recheck_miss s i)
  then show ?case by (simp add: locks_inv_move)
next
  case (fetch_ok s i t v)
  then have "locks_inv (s\<lparr>pc := (pc s)(i := Finished (Ok v)), writer := None\<rparr>)"
    by (simp add: locks_inv_release)
  then show ?case by (simp add: locks_inv_def)
next
  case (fetch_err s i t e)
  then show ?case by (simp add: locks_inv_release)
next
  case (again s i r)
  then show ?case by (simp add: locks_inv_move)
next
  case (tick s t)
  then show ?case by simp
qed

lemma cache_reachable_locks: "cache_reachable d t s \<Longrightarrow> locks_inv s"
  by (induction rule: cache_reachable.induct) (auto intro: locks_inv_init cache_step_locks)

text \<open>Two successful fetches in a row are more than the lifetime apart.\<close>

fun spaced :: "duration \<Rightarrow> instant list \<Rightarrow> bool" where
  "spaced d (t # u # ts) \<longleftrightarrow> d < t - u \<and> spaced d (u # ts)"
| "spaced d _ \<longleftrightarrow> True"

definition fetches_inv :: "duration \<Rightarrow> 'v cache_sys \<Rightarrow> bool" where
  "fetches_inv d s \<longleftrightarrow>
     expireAfter (atom s) = d \<and>
     (fetch_log s = [] \<longrightarrow> currentFetchedAt (atom s) = 0) \<and>
     (\<forall>t ts. fetch_log s = t # ts \<longrightarrow> currentFetchedAt (atom s) = t) \<and>
     (\<forall>i t. pc s i = Fetching t \<longrightarrow> \<not> atom_refreshed (atom s) t) \<and>
     spaced d (fetch_log s)"

lemma not_refreshed_gap:
  assumes "\<not> atom_refreshed c t" and "min_duration \<le> expireAfter c"
  shows "expireAfter c < t - currentFetchedAt c"
  using assms by (auto simp: atom_refreshed_def time_Sub_def)

lemma fetches_inv_init: "fetches_inv d (cache_init d t)"
  by (simp add: fetches_inv_def cache_init_def NewCachedAtom_def)

lemma cache_step_fetches:
  assumes "cache_step s s'" and "locks_inv s" and "fetches_inv d s" and "min_duration \<le> d"
  shows "fetches_inv d s'"
  using assms
proof (induction rule: cache_step.induct)
  case (fetch_ok s i t v)
  then have others: "pc s j \<noteq> Fetching u" if "j \<noteq> i" for j u
    using locks_inv_holder(4) [of s i j] that by force
  from fetch_ok have "\<not> atom_refreshed (atom s) t" and "expireAfter (atom s) = d"
    by (auto simp: fetches_inv_def)
  with fetch_ok have "d < t - currentFetchedAt (atom s)"
    using not_refreshed_gap by blast
  then have "spaced d (t # fetch_log s)"
    using fetch_ok by (cases "fetch_log s") (auto simp: fetches_inv_def)
  with fetch_ok others show ?case by (auto simp: fetches_inv_def)
qed (auto simp: fetches_inv_def split: if_splits)

lemma cache_reachable_fetches:
  assumes "cache_reachable d t s" and "min_duration \<le> d"
  shows "fetches_inv d s"
  using assms
proof (induction rule: cache_reachable.induct)
  case init
  show ?case by (rule fetches_inv_init)
next
  case (step s s')
  then show ?case by (blast intro: cache_step_fetches cache_reachable_locks)
qed

inductive_cases cache_step_from: "cache_step s s'"

end
