(* ===== verification/GoStrings.thy ===== *)
theory GoStrings
  imports Prelude
begin

text \<open>
  The parts of Go's packages \<open>strings\<close> and \<open>strconv\<close> that the operator uses:
  \<open>strings.Split\<close> with a one-byte separator, \<open>HasPrefix\<close> and \<open>TrimPrefix\<close>, \<open>Fields\<close> and
  \<open>Join\<close>, \<open>strconv.Atoi\<close> and the decimal printing of \<open>\%d\<close>. A Go string is a list of bytes,
  here a \<open>string\<close>. The lemmas are what the components rely on: the last part of a split, the
  round trip of the decimal codec, and when a prefix was cut.
\<close>


section \<open>Splitting, prefixes, joining\<close>

text \<open>\<open>strings.Split(s, c)\<close>: never empty; the separator does not occur in the parts.\<close>

fun split_on :: "char \<Rightarrow> string \<Rightarrow> string list" where
  "split_on c [] = [[]]"
| "split_on c (x # xs) =
     (if x = c then [] # split_on c xs
      else (case split_on c xs of [] \<Rightarrow> [[x]] | y # ys \<Rightarrow> (x # y) # ys))"

lemma split_on_not_Nil [simp]: "split_on c s \<noteq> []"
  by (induction s) (auto split: list.splits)

lemma split_on_no_sep [simp]: "c \<notin> set s \<Longrightarrow> split_on c s = [s]"
  by (induction s) auto

lemma split_on_append_sep: "split_on c (s @ c # t) = split_on c s @ split_on c t"
proof (induction s)
  case Nil
  then show ?case by simp
next
  case (Cons x s)
  then show ?case by (cases "split_on c s") (auto simp: neq_Nil_conv)
qed

lemma last_split_on_sep [simp]: "c \<notin> set t \<Longrightarrow> last (split_on c (s @ c # t)) = t"
  by (simp add: split_on_append_sep)

lemma split_on_no_sep_in_parts: "p \<in> set (split_on c s) \<Longrightarrow> c \<notin> set p"
proof (induction s arbitrary: p)
  case Nil
  then show ?case by simp
next
  case (Cons x s)
  then show ?case by (cases "split_on c s") (auto split: if_splits)
qed

lemma length_split_on: "length (split_on c s) = Suc (count_list s c)"
proof (induction s)
  case Nil
  then show ?case by simp
next
  case (Cons x s)
  then show ?case by (cases "split_on c s") auto
qed

fun join_with :: "string \<Rightarrow> string list \<Rightarrow> string" where
  "join_with sep [] = []"
| "join_with sep [s] = s"
| "join_with sep (s # t # ts) = s @ sep @ join_with sep (t # ts)"

lemma join_with_Cons: "ps \<noteq> [] \<Longrightarrow> join_with sep (p # ps) = p @ sep @ join_with sep ps"
  by (cases ps) auto

lemma join_split_on: "join_with [c] (split_on c s) = s"
proof (induction s)
  case Nil
  then show ?case by simp
next
  case (Cons x s)
  then obtain y ys where split: "split_on c s = y # ys"
    by (cases "split_on c s") auto
  show ?case
  proof (cases "x = c")
    case True
    with Cons split show ?thesis by (simp add: join_with_Cons)
  next
    case False
    with Cons split show ?thesis by (cases ys) auto
  qed
qed

fun has_prefix :: "string \<Rightarrow> string \<Rightarrow> bool" where
  "has_prefix [] s = True"
| "has_prefix (p # ps) [] = False"
| "has_prefix (p # ps) (x # xs) = (p = x \<and> has_prefix ps xs)"

definition TrimPrefix :: "string \<Rightarrow> string \<Rightarrow> string" where
  "TrimPrefix s p = (if has_prefix p s then drop (length p) s else s)"

lemma has_prefix_iff: "has_prefix p s \<longleftrightarrow> (\<exists>t. s = p @ t)"
  by (induction p s rule: has_prefix.induct) auto

lemma has_prefix_append [simp]: "has_prefix p (p @ t)"
  by (simp add: has_prefix_iff)

lemma TrimPrefix_append [simp]: "TrimPrefix (p @ t) p = t"
  by (simp add: TrimPrefix_def)

text \<open>
  The source tests for a prefix by comparing the string with its trimmed form; for a prefix
  that is not empty the two agree exactly when the prefix is absent.
\<close>

lemma TrimPrefix_eq_self_iff: "p \<noteq> [] \<Longrightarrow> TrimPrefix s p = s \<longleftrightarrow> \<not> has_prefix p s"
  by (auto simp: TrimPrefix_def has_prefix_iff)

text \<open>
  \<open>strings.Fields\<close>: the maximal runs of characters that are not white space. \<open>space_width\<close> is the
  number of bytes of the white space that a string begins with, 0 if it begins with none: the
  ASCII spaces, and in UTF-8 those that \<open>unicode.IsSpace\<close> adds. None of their first bytes occurs
  inside another character, so that bytes can be looked at one by one.
\<close>

definition byte_of :: "string \<Rightarrow> nat \<Rightarrow> nat" where
  "byte_of s i = (if i < length s then of_char (s ! i) else 0)"

definition space_width :: "string \<Rightarrow> nat" where
  "space_width s =
     (let a = byte_of s 0; b = byte_of s 1; c = byte_of s 2 in
      if a \<in> {9, 10, 11, 12, 13, 32} then 1
      else if a = 0xC2 \<and> b \<in> {0x85, 0xA0} then 2
      else if a = 0xE1 \<and> b = 0x9A \<and> c = 0x80 then 3
      else if a = 0xE2 \<and> b = 0x80 \<and> (0x80 \<le> c \<and> c \<le> 0x8A \<or> c \<in> {0xA8, 0xA9, 0xAF}) then 3
      else if a = 0xE2 \<and> b = 0x81 \<and> c = 0x9F then 3
      else if a = 0xE3 \<and> b = 0x80 \<and> c = 0x80 then 3
      else 0)"

fun Fields_acc :: "string \<Rightarrow> string \<Rightarrow> string list" where
  "Fields_acc [] w = (if w = [] then [] else [rev w])"
| "Fields_acc (c # cs) w =
     (let n = space_width (c # cs) in
      if n = 0 then Fields_acc cs (c # w)
      else (if w = [] then [] else [rev w]) @ Fields_acc (drop (n - 1) cs) [])"

definition Fields :: "string \<Rightarrow> string list" where
  "Fields s = Fields_acc s []"

text \<open>A printable ASCII character other than the space is no part of white space.\<close>

definition visible :: "char \<Rightarrow> bool" where
  "visible c \<longleftrightarrow> (let n = (of_char c :: nat) in 32 < n \<and> n < 127)"

lemma space_width_visible [simp]: "visible c \<Longrightarrow> space_width (c # cs) = 0"
  by (auto simp: visible_def space_width_def byte_of_def Let_def)

lemma Fields_acc_visible:
  "\<forall>c\<in>set s. visible c \<Longrightarrow> Fields_acc s w = (if s = [] \<and> w = [] then [] else [rev w @ s])"
  by (induction s arbitrary: w) (auto simp: Let_def)

lemma Fields_single: "s \<noteq> [] \<Longrightarrow> \<forall>c\<in>set s. visible c \<Longrightarrow> Fields s = [s]"
  by (simp add: Fields_def Fields_acc_visible)


section \<open>Decimal numbers\<close>

definition digit_char :: "nat \<Rightarrow> char" where
  "digit_char d = char_of (48 + d)"

definition digit_of :: "char \<Rightarrow> nat option" where
  "digit_of c = (let n = of_char c in if 48 \<le> n \<and> n \<le> (57 :: nat) then Some (n - 48) else None)"

lemma digit_of_digit_char [simp]: "d < 10 \<Longrightarrow> digit_of (digit_char d) = Some d"
  by (simp add: digit_of_def digit_char_def)

lemma digit_char_range: "d < 10 \<Longrightarrow> 48 \<le> (of_char (digit_char d) :: nat) \<and> (of_char (digit_char d) :: nat) \<le> 57"
  by (simp add: digit_char_def)

fun nat_digits :: "nat \<Rightarrow> string" where
  "nat_digits n = (if n < 10 then [digit_char n] else nat_digits (n div 10) @ [digit_char (n mod 10)])"

declare nat_digits.simps [simp del]

definition itoa :: "int \<Rightarrow> string" where
  "itoa i = (if i < 0 then CHR ''-'' # nat_digits (nat (- i)) else nat_digits (nat i))"

fun digits_val :: "nat \<Rightarrow> string \<Rightarrow> nat option" where
  "digits_val acc [] = Some acc"
| "digits_val acc (c # cs) =
     (case digit_of c of None \<Rightarrow> None | Some d \<Rightarrow> digits_val (10 * acc + d) cs)"

text \<open>
  \<open>strconv.Atoi\<close> on a 64-bit platform: an optional sign, at least one decimal digit, nothing
  else, and a value that an \<open>int64\<close> can hold.
\<close>

definition atoi_digits :: "string \<Rightarrow> nat option" where
  "atoi_digits s = (if s = [] then None else digits_val 0 s)"

definition in_int64 :: "int \<Rightarrow> bool" where
  "in_int64 i \<longleftrightarrow> - (2 ^ 63) \<le> i \<and> i < 2 ^ 63"

definition atoi :: "string \<Rightarrow> int option" where
  "atoi s =
     (let r = (case s of
          [] \<Rightarrow> None
        | c # cs \<Rightarrow>
            if c = CHR ''-'' then map_option (\<lambda>n. - int n) (atoi_digits cs)
            else if c = CHR ''+'' then map_option int (atoi_digits cs)
            else map_option int (atoi_digits s))
      in case r of None \<Rightarrow> None | Some i \<Rightarrow> if in_int64 i then Some i else None)"

lemma nat_digits_not_Nil [simp]: "nat_digits n \<noteq> []"
  by (subst nat_digits.simps) simp

lemma nat_digits_set: "c \<in> set (nat_digits n) \<Longrightarrow> \<exists>d < 10. c = digit_char d"
proof (induction n rule: nat_digits.induct)
  case (1 n)
  show ?case
  proof (cases "n < 10")
    case True
    with 1 show ?thesis by (auto simp: nat_digits.simps [of n])
  next
    case False
    with 1 have "c \<in> set (nat_digits (n div 10)) \<or> c = digit_char (n mod 10)"
      by (simp add: nat_digits.simps [of n] disj_commute)
    then show ?thesis
    proof
      assume "c \<in> set (nat_digits (n div 10))"
      with False show ?thesis by (rule "1.IH")
    next
      assume "c = digit_char (n mod 10)"
      then show ?thesis by (intro exI [of _ "n mod 10"]) simp
    qed
  qed
qed

lemma nat_digits_digit: "c \<in> set (nat_digits n) \<Longrightarrow> digit_of c \<noteq> None"
  by (auto dest!: nat_digits_set)

lemma digits_val_append:
  "digits_val acc (s @ t) = (case digits_val acc s of None \<Rightarrow> None | Some n \<Rightarrow> digits_val n t)"
  by (induction s arbitrary: acc) (auto split: option.splits)

lemma digits_val_nat_digits: "digits_val 0 (nat_digits n) = Some n"
proof (induction n rule: nat_digits.induct)
  case (1 n)
  show ?case
  proof (cases "n < 10")
    case True
    then show ?thesis by (simp add: nat_digits.simps [of n])
  next
    case False
    with 1 show ?thesis by (simp add: nat_digits.simps [of n] digits_val_append)
  qed
qed

lemma digit_of_minus [simp]: "digit_of CHR ''-'' = None"
  by (simp add: digit_of_def)

lemma digit_of_plus [simp]: "digit_of CHR ''+'' = None"
  by (simp add: digit_of_def)

lemma digit_of_dot [simp]: "digit_of CHR ''.'' = None"
  by (simp add: digit_of_def)

lemma nat_digits_no_dot: "CHR ''.'' \<notin> set (nat_digits n)"
  using nat_digits_digit by fastforce

lemma itoa_not_Nil [simp]: "itoa i \<noteq> []"
  by (simp add: itoa_def)

lemma itoa_no_dot [simp]: "CHR ''.'' \<notin> set (itoa i)"
  by (simp add: itoa_def nat_digits_no_dot)

text \<open>The decimal codec round-trips on every \<open>int64\<close>.\<close>

lemma atoi_itoa [simp]: "in_int64 i \<Longrightarrow> atoi (itoa i) = Some i"
proof -
  assume range: "in_int64 i"
  show ?thesis
  proof (cases "i < 0")
    case True
    with range show ?thesis
      by (simp add: atoi_def itoa_def atoi_digits_def digits_val_nat_digits)
  next
    case False
    obtain c cs where digits: "nat_digits (nat i) = c # cs"
      by (cases "nat_digits (nat i)") auto
    then have "digit_of c \<noteq> None"
      using nat_digits_digit [of c "nat i"] by simp
    then have "c \<noteq> CHR ''-''" and "c \<noteq> CHR ''+''" by auto
    with digits digits_val_nat_digits [of "nat i"] False range show ?thesis
      by (simp add: atoi_def itoa_def atoi_digits_def)
  qed
qed

lemma atoi_in_int64: "atoi s = Some i \<Longrightarrow> in_int64 i"
  by (auto simp: atoi_def Let_def split: option.splits if_splits)

lemma atoi_Nil [simp]: "atoi [] = None"
  by (simp add: atoi_def)

end
