(* ===== verification/GoPath.thy ===== *)
theory GoPath
  imports GoStrings
begin

text \<open>
  Slash-separated paths as Go's package \<open>path\<close> handles them, used for the paths of configuration
  files and, through \<open>url.JoinPath\<close>, for the paths of requests. \<open>clean_segments\<close> is the loop of
  \<open>path.Clean\<close> on the parts between slashes: empty parts and \<open>.\<close> disappear, \<open>..\<close> removes the
  part before it, and at the root of an absolute path \<open>..\<close> is dropped.
\<close>

fun clean_segments :: "bool \<Rightarrow> string list \<Rightarrow> string list \<Rightarrow> string list" where
  "clean_segments rooted out [] = rev out"
| "clean_segments rooted out (p # ps) =
     (if p = [] \<or> p = ''.'' then clean_segments rooted out ps
      else if p = ''..'' then
        (case out of
           [] \<Rightarrow> if rooted then clean_segments rooted [] ps else clean_segments rooted [''..''] ps
         | q # qs \<Rightarrow> if q = ''..'' then clean_segments rooted (''..'' # out) ps
                     else clean_segments rooted qs ps)
      else clean_segments rooted (p # out) ps)"

definition path_IsAbs :: "string \<Rightarrow> bool" where
  "path_IsAbs s \<longleftrightarrow> (case s of [] \<Rightarrow> False | c # _ \<Rightarrow> c = CHR ''/'')"

definition path_Clean :: "string \<Rightarrow> string" where
  "path_Clean s =
     (let rooted = path_IsAbs s;
          out = (if rooted then ''/'' else []) @
                join_with ''/'' (clean_segments rooted [] (split_on CHR ''/'' s))
      in if out = [] then ''.'' else out)"

definition path_Join :: "string list \<Rightarrow> string" where
  "path_Join elems = (let es = filter (\<lambda>e. e \<noteq> []) elems in
     if es = [] then [] else path_Clean (join_with ''/'' es))"

text \<open>Parts that are ordinary names are left alone, in order.\<close>

definition plain_segment :: "string \<Rightarrow> bool" where
  "plain_segment p \<longleftrightarrow> p \<noteq> [] \<and> p \<noteq> ''.'' \<and> p \<noteq> ''..'' \<and> CHR ''/'' \<notin> set p"

lemma clean_segments_plain:
  "\<forall>p\<in>set ps. plain_segment p \<Longrightarrow> clean_segments r out ps = rev out @ ps"
  by (induction ps arbitrary: out) (auto simp: plain_segment_def)

lemma clean_segments_append_plain:
  "\<forall>p\<in>set ps. plain_segment p \<Longrightarrow>
     clean_segments r out (ps @ qs) = clean_segments r (rev ps @ out) qs"
  by (induction ps arbitrary: out) (auto simp: plain_segment_def)

text \<open>A cleaned absolute path has no empty, \<open>.\<close> or \<open>..\<close> part, so it cannot leave its root.\<close>

abbreviation proper_segment :: "string \<Rightarrow> bool" where
  "proper_segment p \<equiv> p \<noteq> [] \<and> p \<noteq> ''.'' \<and> p \<noteq> ''..''"

lemma clean_segments_rooted:
  "\<forall>p\<in>set out. proper_segment p \<Longrightarrow> p \<in> set (clean_segments True out ps) \<Longrightarrow> proper_segment p"
proof (induction ps arbitrary: out)
  case Nil
  then show ?case by simp
next
  case (Cons s ps)
  show ?case
  proof (cases "s = [] \<or> s = ''.''")
    case True
    then have "clean_segments True out (s # ps) = clean_segments True out ps" by auto
    with Cons show ?thesis by metis
  next
    case not_dot: False
    show ?thesis
    proof (cases "s = ''..''")
      case True
      then have "clean_segments True out (s # ps) =
          (case out of [] \<Rightarrow> clean_segments True [] ps
           | q # qs \<Rightarrow> if q = ''..'' then clean_segments True (''..'' # out) ps
                       else clean_segments True qs ps)"
        by simp
      also have "\<dots> = clean_segments True (tl out) ps"
        using Cons.prems(1) by (cases out) auto
      finally show ?thesis
        using Cons.IH [of "tl out"] Cons.prems by (metis list.set_sel(2) tl_Nil)
    next
      case False
      with not_dot have "clean_segments True out (s # ps) = clean_segments True (s # out) ps" by simp
      with Cons.IH [of "s # out"] Cons.prems not_dot False show ?thesis by (metis set_ConsD)
    qed
  qed
qed

end
