(* ===== verification/OperatorContext.thy ===== *)
theory OperatorContext
  imports GoStrings
begin

text \<open>
  The operator's identity and environment, \<open>internal/operatorcontext/operatorcontext.go\<close>. The
  tracer and the cancellation context are left out, except that \<open>Discover\<close> first asks whether
  the context was cancelled (\<open>ctx_err\<close>, the result of \<open>ctx.Err()\<close>). The random UUID of a run
  comes from the outside world.
\<close>

definition EnvironmentLocal :: string where "EnvironmentLocal = ''local''"
definition EnvironmentDev :: string where "EnvironmentDev = ''dev''"

record op_context =
  ServiceOwnerName :: string
  ServiceOwnerOrgNo :: string
  Environment :: string
  RunId :: string

definition IsLocal :: "op_context \<Rightarrow> bool" where
  "IsLocal c \<longleftrightarrow> Environment c = EnvironmentLocal"

definition IsDev :: "op_context \<Rightarrow> bool" where
  "IsDev c \<longleftrightarrow> Environment c = EnvironmentDev"

definition OverrideEnvironment :: "string \<Rightarrow> op_context \<Rightarrow> op_context" where
  "OverrideEnvironment env c = c\<lparr>Environment := env\<rparr>"

definition Discover :: "('w, string) prog \<Rightarrow> go_error option \<Rightarrow> ('w, op_context) prog" where
  "Discover uuid_NewRandom ctx_err = (case ctx_err of
       Some err \<Rightarrow> fail err
     | None \<Rightarrow> bind uuid_NewRandom (\<lambda>runId.
         ret \<lparr>ServiceOwnerName = ''local'',
              ServiceOwnerOrgNo = ''991825827'',
              Environment = EnvironmentLocal,
              RunId = runId\<rparr>))"

definition DiscoverOrDie :: "('w, string) prog \<Rightarrow> go_error option \<Rightarrow> ('w, op_context) prog" where
  "DiscoverOrDie uuid_NewRandom ctx_err = (\<lambda>w.
     case Discover uuid_NewRandom ctx_err w of
       (Err e, w1) \<Rightarrow> (Panic (PanicWith ''Discover''), w1)
     | (Ok c, w1) \<Rightarrow> (Ok c, w1)
     | (Panic p, w1) \<Rightarrow> (Panic p, w1))"

lemma Discover_local:
  "Discover uuid e w = (Ok c, w1) \<Longrightarrow> IsLocal c \<and> ServiceOwnerName c = ''local'' \<and> e = None"
  by (auto simp: Discover_def IsLocal_def bind_eq_Ok_iff split: option.splits)

lemma DiscoverOrDie_not_Err: "DiscoverOrDie uuid e w \<noteq> (Err err, w1)"
  by (auto simp: DiscoverOrDie_def split: prod.splits outcome.splits)

end
