(* ===== verification/Config.thy ===== *)
theory Config
  imports GoPath OperatorContext
begin

text \<open>
  Configuration, \<open>internal/config\<close>: the choice of a source (\<open>GetConfig\<close>), the two loaders, and
  the search for the project root. The koanf, validator and Azure libraries are parameters; the
  file system is the record \<open>file_system\<close>, which says for every working directory what is in it.
  Telemetry spans are left out.
\<close>


section \<open>Configuration records\<close>

record api_config =
  api_ClientId :: string
  api_AuthorityUrl :: string
  api_SelfServiceUrl :: string
  api_Jwk :: string
  api_Scope :: string

record controller_config =
  RequeueAfter :: duration

record config =
  MaskinportenApi :: api_config
  Controller :: controller_config

definition zero_config :: config where
  "zero_config = \<lparr>MaskinportenApi = \<lparr>api_ClientId = [], api_AuthorityUrl = [],
     api_SelfServiceUrl = [], api_Jwk = [], api_Scope = []\<rparr>,
     Controller = \<lparr>RequeueAfter = 0\<rparr>\<rparr>"

text \<open>
  What the validator promises for a configuration that it accepts, read off the tags: required
  strings are not empty and the requeue interval is between 5 seconds and 72 hours.
\<close>

definition valid_config :: "config \<Rightarrow> bool" where
  "valid_config c \<longleftrightarrow>
     api_ClientId (MaskinportenApi c) \<noteq> [] \<and> api_AuthorityUrl (MaskinportenApi c) \<noteq> [] \<and>
     api_SelfServiceUrl (MaskinportenApi c) \<noteq> [] \<and> api_Jwk (MaskinportenApi c) \<noteq> [] \<and>
     api_Scope (MaskinportenApi c) \<noteq> [] \<and>
     5 * Second \<le> RequeueAfter (Controller c) \<and> RequeueAfter (Controller c) \<le> 72 * Hour"


section \<open>The project root\<close>

text \<open>
  A working directory is the list of its path's parts, the innermost first; the root is the
  empty list and is its own parent. \<open>os.Getwd\<close> and \<open>os.Chdir\<close> may fail.
\<close>

type_synonym directory = "string list"

record file_system =
  fs_glob :: "directory \<Rightarrow> string \<Rightarrow> bool"
  fs_getwd :: "directory \<Rightarrow> bool"
  fs_chdir_up :: "directory \<Rightarrow> bool"
  fs_exists :: "directory \<Rightarrow> string \<Rightarrow> bool"

definition dir_text :: "directory \<Rightarrow> string" where
  "dir_text d = ''/'' @ join_with ''/'' (rev d)"

fun parent :: "directory \<Rightarrow> directory" where
  "parent [] = []"
| "parent (x # d) = d"

definition fileExists :: "file_system \<Rightarrow> directory \<Rightarrow> string \<Rightarrow> bool" where
  "fileExists fs d pattern = fs_glob fs d pattern"

definition is_root_dir :: "file_system \<Rightarrow> directory \<Rightarrow> bool" where
  "is_root_dir fs d \<longleftrightarrow> fileExists fs d ''./go.mod'' \<or> fileExists fs d ''./*.env''"

text \<open>
  The endless \<open>for\<close> of \<open>TryFindProjectRoot\<close>: the result is the text it returns and the working
  directory it leaves the process in, or \<open>None\<close> when it never returns.
\<close>

partial_function (option) TryFindProjectRoot ::
  "file_system \<Rightarrow> directory \<Rightarrow> (string \<times> directory) option"
where
  "TryFindProjectRoot fs d =
     (if is_root_dir fs d then
        (if fs_getwd fs d then Some (dir_text d, d) else Some ([], d))
      else if fs_chdir_up fs d then TryFindProjectRoot fs (parent d)
      else Some ([], d))"

definition GetConfigFilePathForEnv :: "file_system \<Rightarrow> directory \<Rightarrow> string \<Rightarrow> (string \<times> directory) option" where
  "GetConfigFilePathForEnv fs d env =
     map_option (\<lambda>(rootDir, d'). (if rootDir = [] then [] else path_Join [rootDir, env @ ''.env''], d'))
       (TryFindProjectRoot fs d)"

text \<open>The search finds the nearest enclosing directory that looks like a project.\<close>

lemma TryFindProjectRoot_found:
  assumes "is_root_dir fs d" and "fs_getwd fs d" and "d0 = ups @ d"
    and "\<forall>n < length ups. \<not> is_root_dir fs (drop n d0)"
    and "\<forall>n < length ups. fs_chdir_up fs (drop n d0)"
  shows "TryFindProjectRoot fs d0 = Some (dir_text d, d)"
  using assms(3-5)
proof (induction ups arbitrary: d0)
  case Nil
  with assms(1,2) show ?case by (simp add: TryFindProjectRoot.simps)
next
  case (Cons u ups)
  have "\<not> is_root_dir fs d0" and "fs_chdir_up fs d0"
    using Cons.prems(2,3) by (force dest: spec [of _ 0])+
  moreover have "TryFindProjectRoot fs (ups @ d) = Some (dir_text d, d)"
  proof (rule Cons.IH [OF refl])
    show "\<forall>n<length ups. \<not> is_root_dir fs (drop n (ups @ d))"
      using Cons.prems(1,2) by (auto dest: spec [of _ "Suc _"])
    show "\<forall>n<length ups. fs_chdir_up fs (drop n (ups @ d))"
      using Cons.prems(1,3) by (auto dest: spec [of _ "Suc _"])
  qed
  ultimately show ?case
    using Cons.prems(1) by (simp add: TryFindProjectRoot.simps [of fs "u # ups @ d"])
qed

text \<open>
  Without such a directory, and with every \<open>Chdir\<close> succeeding, the loop ends up at the file
  system's root and never returns.
\<close>

lemma TryFindProjectRoot_diverges:
  assumes "\<forall>n. \<not> is_root_dir fs (drop n d)" and "\<forall>n. fs_chdir_up fs (drop n d)"
  shows "TryFindProjectRoot fs d = None"
proof (rule ccontr)
  assume "TryFindProjectRoot fs d \<noteq> None"
  then obtain r where ret: "TryFindProjectRoot fs d = Some r" by auto
  have "\<not> ((\<forall>n. \<not> is_root_dir fs (drop n d)) \<and> (\<forall>n. fs_chdir_up fs (drop n d)))"
  proof (rule TryFindProjectRoot.raw_induct
      [where P = "\<lambda>fs d r. \<not> ((\<forall>n. \<not> is_root_dir fs (drop n d)) \<and> (\<forall>n. fs_chdir_up fs (drop n d)))",
        OF _ ret])
    fix f fs d r
    assume IH: "\<And>fs d r. f fs d = Some r \<Longrightarrow>
        \<not> ((\<forall>n. \<not> is_root_dir fs (drop n d)) \<and> (\<forall>n. fs_chdir_up fs (drop n d)))"
      and eq: "(if is_root_dir fs d then
        (if fs_getwd fs d then Some (dir_text d, d) else Some ([], d))
        else if fs_chdir_up fs d then f fs (parent d) else Some ([], d)) = Some r"
    show "\<not> ((\<forall>n. \<not> is_root_dir fs (drop n d)) \<and> (\<forall>n. fs_chdir_up fs (drop n d)))"
    proof
      assume all: "(\<forall>n. \<not> is_root_dir fs (drop n d)) \<and> (\<forall>n. fs_chdir_up fs (drop n d))"
      then have "\<not> is_root_dir fs d" and "fs_chdir_up fs d"
        by (metis drop0)+
      with eq have "f fs (parent d) = Some r" by simp
      moreover have "drop n (parent d) = drop (Suc n) d" for n by (cases d) auto
      ultimately show False using IH [of fs "parent d" r] all by simp
    qed
  qed
  with assms show False by blast
qed


section \<open>Loading with koanf\<close>

text \<open>
  The koanf instance is a package variable: a second load adds to what the first one read. Its
  state is \<open>'k\<close>; \<open>koanf_Load\<close> reads a file of a directory into it.
\<close>

record 'k koanf_lib =
  koanf_Load :: "directory \<Rightarrow> string \<Rightarrow> 'k \<Rightarrow> 'k outcome"
  koanf_Unmarshal :: "'k \<Rightarrow> config outcome"

record 'k config_state =
  cwd :: directory
  koanf :: 'k

definition loadFromKoanf ::
  "file_system \<Rightarrow> 'k koanf_lib \<Rightarrow> op_context \<Rightarrow> string \<Rightarrow> 'k config_state \<Rightarrow>
     (config outcome \<times> 'k config_state) option"
where
  "loadFromKoanf fs K operatorContext configFilePath st =
     (case TryFindProjectRoot fs (cwd st) of
        None \<Rightarrow> None
      | Some (rootDir, d) \<Rightarrow>
          let st = st\<lparr>cwd := d\<rparr>;
              configFilePath = (if configFilePath = [] then Environment operatorContext @ ''.env''
                                else configFilePath)
          in
          if \<not> IsLocal operatorContext \<and> \<not> IsDev operatorContext then
            Some (Err (ErrorNew ''loading config from koanf is only supported for local environment''), st)
          else if \<not> fs_exists fs d configFilePath then
            (if path_IsAbs configFilePath
             then Some (Err (Errorf ''env file does not exist: %s'' [configFilePath]), st)
             else Some (Err (Errorf ''env file does not exist in %s: %s'' [rootDir, configFilePath]), st))
          else
            let configFilePath = (if \<not> path_IsAbs configFilePath
                                  then path_Join [rootDir, configFilePath] else configFilePath)
            in (case koanf_Load K d configFilePath (koanf st) of
                  Err e \<Rightarrow> Some (Err (ErrWrap ''error loading config'' e), st)
                | Panic p \<Rightarrow> Some (Panic p, st)
                | Ok k \<Rightarrow>
                    Some (omap_err (ErrWrap ''error unmarshalling config'') (koanf_Unmarshal K k),
                          st\<lparr>koanf := k\<rparr>)))"


section \<open>Loading from Azure Key Vault\<close>

text \<open>
  \<open>getSecret\<close> is \<open>azsecrets.Client.GetSecret\<close>, whose value may be a \<open>nil\<close> pointer;
  \<open>ParseDuration\<close> is the conversion of the requeue interval. A \<open>switch\<close> compares the bare
  secret key with labels that carry the section's name, as the source does.
\<close>

type_synonym 'w get_secret = "string \<Rightarrow> ('w, string option) prog"

definition kv_api_field ::
  "string \<Rightarrow> string option \<Rightarrow> config \<Rightarrow> config outcome"
where
  "kv_api_field secretKey value config =
     (let label = (\<lambda>name. ''MaskinportenApi'' @ ''.'' @ name); api = MaskinportenApi config in
      if secretKey = label ''ClientId'' then
        obind (deref value) (\<lambda>v. Ok (config\<lparr>MaskinportenApi := api\<lparr>api_ClientId := v\<rparr>\<rparr>))
      else if secretKey = label ''AuthorityUrl'' then
        obind (deref value) (\<lambda>v. Ok (config\<lparr>MaskinportenApi := api\<lparr>api_AuthorityUrl := v\<rparr>\<rparr>))
      else if secretKey = label ''Jwk'' then
        obind (deref value) (\<lambda>v. Ok (config\<lparr>MaskinportenApi := api\<lparr>api_Jwk := v\<rparr>\<rparr>))
      else if secretKey = label ''Scope'' then
        obind (deref value) (\<lambda>v. Ok (config\<lparr>MaskinportenApi := api\<lparr>api_Scope := v\<rparr>\<rparr>))
      else Ok config)"

fun kv_api_loop :: "'w get_secret \<Rightarrow> string list \<Rightarrow> config \<Rightarrow> ('w, config) prog" where
  "kv_api_loop getSecret [] config = ret config"
| "kv_api_loop getSecret (secretKey # keys) config =
     bind (wrapping (''error getting secret: '' @ secretKey)
             (getSecret (''MaskinportenApi'' @ ''.'' @ secretKey))) (\<lambda>value.
     bind (lift (kv_api_field secretKey value config)) (\<lambda>config.
     kv_api_loop getSecret keys config))"

definition loadMaskinportenApiFromAzureKeyVault :: "'w get_secret \<Rightarrow> config \<Rightarrow> ('w, config) prog" where
  "loadMaskinportenApiFromAzureKeyVault getSecret config =
     kv_api_loop getSecret [''ClientId'', ''Url'', ''Jwk'', ''Scope''] config"

definition kv_controller_field ::
  "(string \<Rightarrow> duration outcome) \<Rightarrow> string \<Rightarrow> string option \<Rightarrow> config \<Rightarrow> config outcome"
where
  "kv_controller_field ParseDuration secretKey value config =
     (if secretKey = ''Controller'' @ ''.'' @ ''RequeueAfter'' then
        obind (deref value) (\<lambda>v. obind (ParseDuration v) (\<lambda>d.
          Ok (config\<lparr>Controller := (Controller config)\<lparr>RequeueAfter := d\<rparr>\<rparr>)))
      else Ok config)"

fun kv_controller_loop ::
  "(string \<Rightarrow> duration outcome) \<Rightarrow> 'w get_secret \<Rightarrow> string list \<Rightarrow> config \<Rightarrow> ('w, config) prog"
where
  "kv_controller_loop ParseDuration getSecret [] config = ret config"
| "kv_controller_loop ParseDuration getSecret (secretKey # keys) config =
     bind (wrapping (''error getting secret: '' @ secretKey)
             (getSecret (''Controller'' @ ''.'' @ secretKey))) (\<lambda>value.
     bind (lift (kv_controller_field ParseDuration secretKey value config)) (\<lambda>config.
     kv_controller_loop ParseDuration getSecret keys config))"

definition loadControllerFromAzureKeyVault ::
  "(string \<Rightarrow> duration outcome) \<Rightarrow> 'w get_secret \<Rightarrow> config \<Rightarrow> ('w, config) prog"
where
  "loadControllerFromAzureKeyVault ParseDuration getSecret config =
     kv_controller_loop ParseDuration getSecret [''RequeueAfter''] config"

text \<open>
  The whole loader. Credentials are chosen by environment; \<open>newClient\<close> covers getting them and
  building the vault's client, and gives the client's \<open>GetSecret\<close>.
\<close>

datatype azure_credential = DefaultAzureCredential | WorkloadIdentityCredential

record 'w azure_lib =
  az_NewCredential :: "azure_credential \<Rightarrow> ('w, unit) prog"
  az_NewClient :: "string \<Rightarrow> ('w, 'w get_secret) prog"
  az_ParseDuration :: "string \<Rightarrow> duration outcome"

definition loadFromAzureKeyVault :: "'w azure_lib \<Rightarrow> op_context \<Rightarrow> ('w, config) prog" where
  "loadFromAzureKeyVault A operatorContext =
     bind (wrapping ''error getting credentials for loading config''
             (az_NewCredential A (if IsLocal operatorContext then DefaultAzureCredential
                                  else WorkloadIdentityCredential))) (\<lambda>cred.
     let url = ''https://altinn-'' @ Environment operatorContext @ ''-operator-kv.vault.azure.net'' in
     bind (wrapping ''error building client for Azure KV'' (az_NewClient A url)) (\<lambda>getSecret.
     bind (loadMaskinportenApiFromAzureKeyVault getSecret zero_config) (\<lambda>config.
     bind (loadControllerFromAzureKeyVault (az_ParseDuration A) getSecret config) (\<lambda>config.
     ret config))))"

lemma kv_api_loop_unchanged:
  "kv_api_loop getSecret keys c w = (Ok c', w') \<Longrightarrow>
     \<forall>k\<in>set keys. k \<in> {''ClientId'', ''Url'', ''Jwk'', ''Scope''} \<Longrightarrow> c' = c"
proof (induction getSecret keys c arbitrary: w rule: kv_api_loop.induct)
  case (1 getSecret c)
  then show ?case by simp
next
  case (2 getSecret k keys c)
  then have "kv_api_field k v c = Ok c" for v by (auto simp: kv_api_field_def)
  with 2 show ?case by (auto simp: bind_eq_Ok_iff)
qed

text \<open>No \<open>switch\<close> label is ever met: the loader returns the zero configuration or an error.\<close>

lemma loadFromAzureKeyVault_zero:
  assumes "loadFromAzureKeyVault A ctx w = (Ok c, w')"
  shows "c = zero_config"
proof -
  from assms obtain getSecret c1 w1 w2 where
    api: "kv_api_loop getSecret [''ClientId'', ''Url'', ''Jwk'', ''Scope''] zero_config w1 = (Ok c1, w2)"
    and ctl: "kv_controller_loop (az_ParseDuration A) getSecret [''RequeueAfter''] c1 w2 = (Ok c, w')"
    by (auto simp: loadFromAzureKeyVault_def loadMaskinportenApiFromAzureKeyVault_def
        loadControllerFromAzureKeyVault_def bind_eq_Ok_iff Let_def
        simp del: kv_api_loop.simps kv_controller_loop.simps)
  from api have "c1 = zero_config" by (rule kv_api_loop_unchanged) auto
  with ctl show ?thesis by (auto simp: bind_eq_Ok_iff kv_controller_field_def)
qed


section \<open>\<open>GetConfig\<close>\<close>

definition ConfigSourceDefault :: int where "ConfigSourceDefault = 0"
definition ConfigSourceKoanf :: int where "ConfigSourceKoanf = 1"
definition ConfigSourceAureKeyVault :: int where "ConfigSourceAureKeyVault = 2"

text \<open>
  The libraries together: koanf over the file system, Azure over the outside world \<open>'w\<close>, and the
  validator, which says what is wrong with a configuration. \<open>None\<close> is "does not return".
\<close>

record ('k, 'w) config_libs =
  lib_fs :: file_system
  lib_koanf :: "'k koanf_lib"
  lib_azure :: "'w azure_lib"
  lib_validate :: "config \<Rightarrow> go_error option"

definition from_koanf ::
  "('k, 'w) config_libs \<Rightarrow> op_context \<Rightarrow> string \<Rightarrow> 'k config_state \<times> 'w \<Rightarrow>
     (config outcome \<times> 'k config_state \<times> 'w) option"
where
  "from_koanf L operatorContext configFilePath = (\<lambda>(st, w).
     map_option (\<lambda>(r, st'). (r, st', w))
       (loadFromKoanf (lib_fs L) (lib_koanf L) operatorContext configFilePath st))"

definition load_config ::
  "('k, 'w) config_libs \<Rightarrow> op_context \<Rightarrow> int \<Rightarrow> string \<Rightarrow> 'k config_state \<times> 'w \<Rightarrow>
     (config outcome \<times> 'k config_state \<times> 'w) option"
where
  "load_config L operatorContext source configFilePath s =
     (if source = ConfigSourceKoanf then from_koanf L operatorContext configFilePath s
      else if source = ConfigSourceAureKeyVault then
        (case loadFromAzureKeyVault (lib_azure L) operatorContext (snd s) of
           (r, w) \<Rightarrow> Some (r, fst s, w))
      else if source = ConfigSourceDefault then
        (if Environment operatorContext = EnvironmentLocal then
           from_koanf L operatorContext configFilePath s
         else if Environment operatorContext = EnvironmentDev then
           from_koanf L operatorContext configFilePath s
         else Some (Err (Errorf ''could not resolve default config source for env: %s''
                           [Environment operatorContext]), s))
      else Some (Err (Errorf ''invalid config source: %d'' [itoa source]), s))"

definition GetConfig ::
  "('k, 'w) config_libs \<Rightarrow> op_context \<Rightarrow> int \<Rightarrow> string \<Rightarrow> 'k config_state \<times> 'w \<Rightarrow>
     (config outcome \<times> 'k config_state \<times> 'w) option"
where
  "GetConfig L operatorContext source configFilePath s =
     map_option (\<lambda>(r, s'). (obind r (\<lambda>cfg.
         case lib_validate L cfg of Some err \<Rightarrow> Err err | None \<Rightarrow> Ok cfg), s'))
       (load_config L operatorContext source configFilePath s)"

definition GetConfigOrDie ::
  "('k, 'w) config_libs \<Rightarrow> op_context \<Rightarrow> int \<Rightarrow> string \<Rightarrow> 'k config_state \<times> 'w \<Rightarrow>
     (config outcome \<times> 'k config_state \<times> 'w) option"
where
  "GetConfigOrDie L operatorContext source configFilePath s =
     map_option (\<lambda>(r, s'). (case r of Err e \<Rightarrow> Panic (PanicWith ''GetConfig'') | _ \<Rightarrow> r, s'))
       (GetConfig L operatorContext source configFilePath s)"

text \<open>The validator's promise, and what every returned configuration satisfies.\<close>

definition validator_sound :: "('k, 'w) config_libs \<Rightarrow> bool" where
  "validator_sound L \<longleftrightarrow> (\<forall>c. lib_validate L c = None \<longrightarrow> valid_config c)"

lemma GetConfig_valid:
  assumes "validator_sound L" and "GetConfig L ctx source path s = Some (Ok c, s')"
  shows "valid_config c"
  using assms
  by (auto simp: GetConfig_def validator_sound_def obind_Ok_iff split: option.splits)

lemma from_koanf_environment:
  "from_koanf L ctx path s = Some (Ok c, s') \<Longrightarrow> IsLocal ctx \<or> IsDev ctx"
  by (cases s) (auto simp: from_koanf_def loadFromKoanf_def Let_def split: option.splits if_splits prod.splits)

end
