(* ===== verification/InfraProperties.thy ===== *)
theory InfraProperties
  imports Caching Config
begin

text \<open>
  The properties of the two supporting parts: the cache of one value under concurrent use
  (\<open>internal/caching/cached_atom.go\<close>) and the configuration (\<open>internal/config\<close>).
\<close>


section \<open>The cache\<close>

text \<open>
  C16: However many goroutines call \<open>Get\<close>, at most one holds the write lock and may fetch at any
  time, and while it does no goroutine is in the read section.
\<close>

theorem cache_mutual_exclusion:
  assumes "cache_reachable d t s" and "holds_write (pc s i)"
  shows "(\<forall>j. holds_write (pc s j) \<longrightarrow> j = i) \<and> (\<forall>j. pc s j \<noteq> Reading)"
  using locks_inv_holder [OF cache_reachable_locks [OF assms(1)] assms(2)] by blast

definition one_fetching :: "nat \<Rightarrow> string cache_sys" where
  "one_fetching i = (let s = cache_init Minute Hour in s\<lparr>pc := (pc s)(i := Fetching Hour), writer := Some i\<rparr>)"

definition one_fetched :: "nat \<Rightarrow> string cache_sys" where
  "one_fetched i = (let s = cache_init Minute Hour in
     s\<lparr>pc := (pc s)(i := Finished (Ok (Some ''v''))),
       atom := \<lparr>current = Some ''v'', currentFetchedAt = Hour, expireAfter = Minute\<rparr>,
       fetch_log := [Hour]\<rparr>)"

lemma one_fetching_reachable: "cache_reachable Minute Hour (one_fetching i)"
proof -
  let ?s0 = "cache_init Minute Hour :: string cache_sys"
  let ?s1 = "?s0\<lparr>pc := (pc ?s0)(i := Reading), readers := {i}\<rparr>"
  let ?s2 = "?s0\<lparr>pc := (pc ?s0)(i := Upgrading)\<rparr>"
  let ?s3 = "?s0\<lparr>pc := (pc ?s0)(i := Locked), writer := Some i\<rparr>"
  have s1: "cache_step ?s0 ?s1"
    using cache_step.rlock [of ?s0 i] by (simp add: cache_init_def)
  have s2: "cache_step ?s1 ?s2"
    using cache_step.miss [of ?s1 i] by (simp add: cache_init_def NewCachedAtom_def atom_expired_def time_IsZero_def)
  have s3: "cache_step ?s2 ?s3"
    using cache_step.lock [of ?s2 i] by (simp add: cache_init_def)
  have s4: "cache_step ?s3 (one_fetching i)"
    using cache_step.recheck_miss [of ?s3 i]
    by (simp add: cache_init_def NewCachedAtom_def atom_refreshed_def time_Sub_def one_fetching_def
        time_units max_duration_def min_duration_def Let_def)
  show ?thesis
    by (rule cache_reachable.step [OF cache_reachable.step [OF cache_reachable.step [OF
        cache_reachable.step [OF cache_reachable.init s1] s2] s3] s4])
qed

lemma one_fetched_reachable: "cache_reachable Minute Hour (one_fetched i)"
proof (rule cache_reachable.step [OF one_fetching_reachable])
  show "cache_step (one_fetching i) (one_fetched i)"
    using cache_step.fetch_ok [of "one_fetching i" i Hour "Some ''v''"]
    by (simp add: one_fetching_def one_fetched_def cache_init_def NewCachedAtom_def Let_def)
qed

lemma cache_mutual_exclusion_witness:
  "\<not> holds_write (pc (one_fetching 3) 4) \<and> pc (one_fetching 3) 4 \<noteq> Reading"
proof -
  have "holds_write (pc (one_fetching 3) 3)"
    by (simp add: one_fetching_def cache_init_def Let_def)
  from cache_mutual_exclusion [OF one_fetching_reachable this] show ?thesis by force
qed

lemma spaced_nth: "spaced d l \<Longrightarrow> Suc n < length l \<Longrightarrow> d < l ! n - l ! Suc n"
proof (induction d l arbitrary: n rule: spaced.induct)
  case (1 d t u ts)
  then show ?case by (cases n) auto
qed auto

text \<open>
  C17: Any two consecutive successful fetches, by any goroutines, are more than the lifetime of
  the value apart: the second check under the write lock stops the goroutines that queued for
  it from fetching again.
\<close>

theorem cache_fetches_spaced:
  assumes "cache_reachable d t s" and "min_duration \<le> d"
    and "Suc n < length (fetch_log s)"
  shows "d < fetch_log s ! n - fetch_log s ! Suc n"
proof -
  have "spaced d (fetch_log s)"
    using cache_reachable_fetches [OF assms(1,2)] by (simp add: fetches_inv_def)
  then show ?thesis using assms(3) by (rule spaced_nth)
qed

lemma cache_fetches_spaced_witness:
  "\<exists>s :: string cache_sys. fetch_log s = [2 * Hour, Hour] \<and> Minute < fetch_log s ! 0 - fetch_log s ! 1"
proof -
  let ?s0 = "(one_fetched 0)\<lparr>time_now := 2 * Hour\<rparr>"
  let ?s1 = "?s0\<lparr>pc := (pc ?s0)(1 := Reading), readers := {1}\<rparr>"
  let ?s2 = "?s0\<lparr>pc := (pc ?s0)(1 := Upgrading)\<rparr>"
  let ?s3 = "?s0\<lparr>pc := (pc ?s0)(1 := Locked), writer := Some 1\<rparr>"
  let ?s4 = "?s0\<lparr>pc := (pc ?s0)(1 := Fetching (2 * Hour)), writer := Some 1\<rparr>"
  let ?s5 = "?s0\<lparr>pc := (pc ?s0)(1 := Finished (Ok (Some ''w''))), writer := None,
      atom := (atom ?s0)\<lparr>current := Some ''w'', currentFetchedAt := 2 * Hour\<rparr>,
      fetch_log := [2 * Hour, Hour]\<rparr>"
  note defs = one_fetched_def cache_init_def NewCachedAtom_def Let_def
  note times = time_units time_Sub_def max_duration_def min_duration_def time_IsZero_def
  have t0: "cache_step (one_fetched 0) ?s0"
    by (rule cache_step.tick) (simp add: defs times)
  have t1: "cache_step ?s0 ?s1"
    using cache_step.rlock [of ?s0 1] by (simp add: defs)
  have t2: "cache_step ?s1 ?s2"
    using cache_step.miss [of ?s1 1] by (simp add: defs atom_expired_def times)
  have t3: "cache_step ?s2 ?s3"
    using cache_step.lock [of ?s2 1] by (simp add: defs)
  have t4: "cache_step ?s3 ?s4"
    using cache_step.recheck_miss [of ?s3 1] by (simp add: defs atom_refreshed_def times)
  have t5: "cache_step ?s4 ?s5"
    using cache_step.fetch_ok [of ?s4 1 "2 * Hour" "Some ''w''"] by (simp add: defs)
  note steps = cache_reachable.step [OF cache_reachable.step [OF one_fetched_reachable t0] t1]
  have "cache_reachable Minute Hour ?s5"
    by (rule cache_reachable.step [OF cache_reachable.step [OF cache_reachable.step [OF
        cache_reachable.step [OF steps t2] t3] t4] t5])
  from cache_fetches_spaced [OF this, of 0]
  have "Minute < fetch_log ?s5 ! 0 - fetch_log ?s5 ! Suc 0"
    by (simp add: times)
  then show ?thesis by (intro exI [of _ ?s5]) simp
qed


section \<open>Configuration\<close>

text \<open>
  The Azure Key Vault loader never loads anything: the labels its two \<open>switch\<close> statements
  compare the secret's name with carry the section prefix, the names do not, so whatever the
  vault holds, the configuration it returns is the zero one.
\<close>

theorem key_vault_loads_nothing:
  assumes "loadFromAzureKeyVault A ctx w = (Ok c, w')"
  shows "c = zero_config"
  using assms by (rule loadFromAzureKeyVault_zero)

definition sample_vault :: "'w azure_lib" where
  "sample_vault = \<lparr>az_NewCredential = (\<lambda>c. ret ()),
     az_NewClient = (\<lambda>url. ret (\<lambda>name. ret (Some (''value of '' @ name)))),
     az_ParseDuration = (\<lambda>s. Ok (5 * Minute))\<rparr>"

definition local_ctx :: op_context where
  "local_ctx = \<lparr>ServiceOwnerName = ''ttd'', ServiceOwnerOrgNo = ''991825827'',
     Environment = ''local'', RunId = ''run-1''\<rparr>"

lemma sample_vault_run: "loadFromAzureKeyVault sample_vault local_ctx () =
    (Ok (fst (case loadFromAzureKeyVault sample_vault local_ctx () of (Ok c, w) \<Rightarrow> (c, w))), ())"
  by (simp add: loadFromAzureKeyVault_def sample_vault_def local_ctx_def IsLocal_def
      EnvironmentLocal_def wrapping_def bind_def ret_def Let_def lift_def
      loadMaskinportenApiFromAzureKeyVault_def loadControllerFromAzureKeyVault_def
      kv_api_field_def kv_controller_field_def)

lemma key_vault_loads_nothing_witness:
  "fst (loadFromAzureKeyVault sample_vault local_ctx ()) = Ok zero_config"
  using key_vault_loads_nothing [OF sample_vault_run] sample_vault_run by simp

text \<open>
  C19: A configuration that \<open>GetConfig\<close> returns has passed validation (every string set, the
  requeue interval between 5 seconds and 72 hours), was loaded in a local or a development
  environment, and did not come from the key vault, which always ends in an error.
\<close>

theorem returned_config:
  assumes "validator_sound L" and "GetConfig L ctx source path s = Some (Ok c, s')"
  shows "valid_config c \<and> (IsLocal ctx \<or> IsDev ctx) \<and>
    (source = ConfigSourceDefault \<or> source = ConfigSourceKoanf)"
proof -
  have valid: "valid_config c" using assms by (rule GetConfig_valid)
  from assms(2) have load: "load_config L ctx source path s = Some (Ok c, s')"
    by (auto simp: GetConfig_def obind_Ok_iff split: option.splits)
  have "source \<noteq> ConfigSourceAureKeyVault"
  proof
    assume vault: "source = ConfigSourceAureKeyVault"
    with load obtain w where "loadFromAzureKeyVault (lib_azure L) ctx (snd s) = (Ok c, w)"
      by (auto simp: load_config_def ConfigSourceAureKeyVault_def ConfigSourceKoanf_def split: prod.splits)
    then have "c = zero_config" by (rule loadFromAzureKeyVault_zero)
    with valid show False by (simp add: valid_config_def zero_config_def)
  qed
  with load valid show ?thesis
    by (auto simp: load_config_def split: if_splits prod.splits intro: from_koanf_environment
        dest!: from_koanf_environment)
qed

definition sample_api_config :: api_config where
  "sample_api_config = \<lparr>api_ClientId = ''operator'', api_AuthorityUrl = ''http://maskinporten'',
     api_SelfServiceUrl = ''http://selfservice'', api_Jwk = ''null'', api_Scope = ''scope''\<rparr>"

definition sample_config :: config where
  "sample_config = \<lparr>MaskinportenApi = sample_api_config, Controller = \<lparr>RequeueAfter = 5 * Minute\<rparr>\<rparr>"

definition sample_fs :: file_system where
  "sample_fs = \<lparr>fs_glob = (\<lambda>d p. d = [''repo''] \<and> p = ''./go.mod''), fs_getwd = (\<lambda>d. True),
     fs_chdir_up = (\<lambda>d. True), fs_exists = (\<lambda>d f. f = ''local.env'')\<rparr>"

definition sample_libs :: "(unit, 'w) config_libs" where
  "sample_libs = \<lparr>lib_fs = sample_fs,
     lib_koanf = \<lparr>koanf_Load = (\<lambda>d f k. Ok ()), koanf_Unmarshal = (\<lambda>k. Ok sample_config)\<rparr>,
     lib_azure = sample_vault,
     lib_validate = (\<lambda>c. if valid_config c then None else Some (ErrExternal ''validator''))\<rparr>"

lemma returned_config_witness:
  "valid_config sample_config \<and> (IsLocal local_ctx \<or> IsDev local_ctx)"
proof -
  have "validator_sound (sample_libs :: (unit, unit) config_libs)"
    by (simp add: validator_sound_def sample_libs_def)
  moreover have valid: "valid_config sample_config"
    by (simp add: valid_config_def sample_config_def sample_api_config_def time_units)
  have root: "TryFindProjectRoot sample_fs [''repo''] = Some (''/repo'', [''repo''])"
    by (simp add: TryFindProjectRoot.simps is_root_dir_def fileExists_def sample_fs_def dir_text_def)
  have load: "loadFromKoanf sample_fs \<lparr>koanf_Load = (\<lambda>d f k. Ok ()), koanf_Unmarshal = (\<lambda>k. Ok sample_config)\<rparr>
      local_ctx [] \<lparr>cwd = [''repo''], koanf = ()\<rparr> =
      Some (Ok sample_config, \<lparr>cwd = [''repo''], koanf = ()\<rparr>)"
    by (simp add: loadFromKoanf_def root Let_def local_ctx_def IsLocal_def EnvironmentLocal_def)
      (simp add: sample_fs_def)
  have "GetConfig sample_libs local_ctx ConfigSourceKoanf [] (\<lparr>cwd = [''repo''], koanf = ()\<rparr>, ()) =
      Some (Ok sample_config, (\<lparr>cwd = [''repo''], koanf = ()\<rparr>, ()))"
    using valid load
    by (simp add: GetConfig_def load_config_def from_koanf_def sample_libs_def)
  ultimately show ?thesis using returned_config by blast
qed

text \<open>
  C20: \<open>TryFindProjectRoot\<close> finds the nearest enclosing directory with a \<open>go.mod\<close> or an \<open>.env\<close>
  file and leaves the process there; when there is none and every \<open>Chdir\<close> succeeds, it never
  returns, since the parent of the file system's root is that root.
\<close>

theorem project_root_search:
  assumes "\<forall>n. fs_chdir_up fs (drop n d)" and "\<forall>n. fs_getwd fs (drop n d)"
  shows "TryFindProjectRoot fs d =
    (if \<exists>n\<le>length d. is_root_dir fs (drop n d)
     then let n = (LEAST n. is_root_dir fs (drop n d)) in Some (dir_text (drop n d), drop n d)
     else None)"
proof (cases "\<exists>n\<le>length d. is_root_dir fs (drop n d)")
  case True
  let ?n = "LEAST n. is_root_dir fs (drop n d)"
  from True have root: "is_root_dir fs (drop ?n d)" and le: "?n \<le> length d"
    by (auto intro: LeastI_ex Least_le [THEN order_trans])
  have "TryFindProjectRoot fs d = Some (dir_text (drop ?n d), drop ?n d)"
  proof (rule TryFindProjectRoot_found [where ups = "take ?n d"])
    show "\<forall>n<length (take ?n d). \<not> is_root_dir fs (drop n d)"
      using not_less_Least [where P = "\<lambda>n. is_root_dir fs (drop n d)"] by auto
  qed (use root assms in auto)
  with True show ?thesis by (simp add: Let_def)
next
  case False
  have "\<not> is_root_dir fs (drop n d)" for n
    using False by (cases "n \<le> length d") (force, metis drop_all nat_le_linear order_refl)
  then have "TryFindProjectRoot fs d = None"
    using assms(1) by (intro TryFindProjectRoot_diverges) auto
  with False show ?thesis by (simp only: if_False)
qed

definition empty_fs :: file_system where
  "empty_fs = sample_fs\<lparr>fs_glob := (\<lambda>d p. False)\<rparr>"

lemma project_root_search_witness:
  "TryFindProjectRoot empty_fs [''app'', ''home''] = None \<and>
   TryFindProjectRoot sample_fs [''internal'', ''repo''] = Some (''/repo'', [''repo''])"
proof
  show "TryFindProjectRoot empty_fs [''app'', ''home''] = None"
    by (subst project_root_search)
      (auto simp: empty_fs_def sample_fs_def is_root_dir_def fileExists_def)
  have least: "(LEAST n. is_root_dir sample_fs (drop n [''internal'', ''repo''])) = 1"
  proof (rule Least_equality)
    fix n assume "is_root_dir sample_fs (drop n [''internal'', ''repo''])"
    then show "1 \<le> n" by (cases n) (auto simp: sample_fs_def is_root_dir_def fileExists_def)
  qed (simp add: sample_fs_def is_root_dir_def fileExists_def)
  show "TryFindProjectRoot sample_fs [''internal'', ''repo''] = Some (''/repo'', [''repo''])"
    by (subst project_root_search)
      (auto simp: least Let_def dir_text_def, auto simp: sample_fs_def is_root_dir_def fileExists_def
        intro!: exI [of _ 1])
qed

end
