(* ===== verification/Json.thy ===== *)
theory Json
  imports GoStrings
begin

text \<open>
  The part of \<open>encoding/json\<close> that the operator relies on: JSON values, the text
  \<open>json.Marshal\<close> writes, the text \<open>json.Unmarshal\<close> and \<open>Decoder.Decode\<close> accept, and the
  rules by which a JSON object fills the fields of a Go struct (\<open>omitempty\<close>, \<open>null\<close>, keys
  matched up to case, the last of several equal keys wins). A number keeps its literal, as
  the decoder does until it knows the type of the field.

  Bytes from 128 up pass through both directions unchanged: the codec's repair of text that is
  not UTF-8, and its escapes for U+2028 and U+2029, are not modelled. The main result is
  \<open>json_parse_text\<close>: what was marshalled is read back as the same value.
\<close>


section \<open>Values\<close>

datatype json =
    JNull
  | JBool bool
  | JNum string
  | JStr string
  | JArr "json list"
  | JObj "(string \<times> json) list"

abbreviation dquote :: char where "dquote \<equiv> CHR 0x22"
abbreviation bslash :: char where "bslash \<equiv> CHR 0x5C"


section \<open>Writing\<close>

definition hex_char :: "nat \<Rightarrow> char" where
  "hex_char d = (if d < 10 then char_of (48 + d) else char_of (87 + d))"

definition hex_val :: "char \<Rightarrow> nat option" where
  "hex_val c = (let n = (of_char c :: nat) in
     if 48 \<le> n \<and> n \<le> 57 then Some (n - 48)
     else if 97 \<le> n \<and> n \<le> 102 then Some (n - 87)
     else if 65 \<le> n \<and> n \<le> 70 then Some (n - 55)
     else None)"

text \<open>
  The bytes the encoder escapes: the quote and the backslash, control bytes, and \<open><\<close>, \<open>>\<close>,
  \<open>&\<close>, which Go writes as \<open>u003c\<close> escapes so that the text is safe inside HTML.
\<close>

definition short_escape :: "char \<Rightarrow> char option" where
  "short_escape c =
     (if c = dquote then Some dquote
      else if c = bslash then Some bslash
      else if c = CHR 0x08 then Some CHR ''b''
      else if c = CHR 0x0C then Some CHR ''f''
      else if c = CHR 0x0A then Some CHR ''n''
      else if c = CHR 0x0D then Some CHR ''r''
      else if c = CHR 0x09 then Some CHR ''t''
      else None)"

definition long_escape :: "char \<Rightarrow> bool" where
  "long_escape c \<longleftrightarrow> (of_char c :: nat) < 32 \<or> c = CHR ''<'' \<or> c = CHR ''>'' \<or> c = CHR ''&''"

definition escape_char :: "char \<Rightarrow> string" where
  "escape_char c = (case short_escape c of
       Some e \<Rightarrow> [bslash, e]
     | None \<Rightarrow>
         if long_escape c then
           [bslash, CHR ''u'', CHR ''0'', CHR ''0'',
            hex_char (of_char c div 16), hex_char (of_char c mod 16)]
         else [c])"

definition quote_text :: "string \<Rightarrow> string" where
  "quote_text s = dquote # concat (map escape_char s) @ [dquote]"

fun json_text :: "json \<Rightarrow> string" where
  "json_text JNull = ''null''"
| "json_text (JBool b) = (if b then ''true'' else ''false'')"
| "json_text (JNum lit) = lit"
| "json_text (JStr s) = quote_text s"
| "json_text (JArr js) = ''['' @ join_with '','' (map json_text js) @ '']''"
| "json_text (JObj ms) =
     ''{'' @ join_with '','' (map (\<lambda>(k, v). quote_text k @ '':'' @ json_text v) ms) @ ''}''"


section \<open>Reading\<close>

definition json_space :: "char \<Rightarrow> bool" where
  "json_space c \<longleftrightarrow> (of_char c :: nat) \<in> {9, 10, 13, 32}"

definition skip_space :: "string \<Rightarrow> string" where
  "skip_space s = dropWhile json_space s"

text \<open>
  A string literal is read into units: a byte, or the 16-bit code unit of a \<open>u\<close> escape. Code
  units are then joined (surrogate pairs) and written as UTF-8.
\<close>

datatype str_unit = Byte char | U16 nat

definition hex4 :: "char \<Rightarrow> char \<Rightarrow> char \<Rightarrow> char \<Rightarrow> nat option" where
  "hex4 a b c d = (case (hex_val a, hex_val b, hex_val c, hex_val d) of
       (Some w, Some x, Some y, Some z) \<Rightarrow> Some (((w * 16 + x) * 16 + y) * 16 + z)
     | _ \<Rightarrow> None)"

definition short_unescape :: "char \<Rightarrow> char option" where
  "short_unescape e =
     (if e = dquote then Some dquote
      else if e = bslash then Some bslash
      else if e = CHR ''/'' then Some (CHR ''/'')
      else if e = CHR ''b'' then Some CHR 0x08
      else if e = CHR ''f'' then Some CHR 0x0C
      else if e = CHR ''n'' then Some CHR 0x0A
      else if e = CHR ''r'' then Some CHR 0x0D
      else if e = CHR ''t'' then Some CHR 0x09
      else None)"

fun read_units :: "string \<Rightarrow> (str_unit list \<times> string) option" where
  "read_units [] = None"
| "read_units (c # cs) =
     (if c = dquote then Some ([], cs)
      else if c \<noteq> bslash then
        (if (of_char c :: nat) < 32 then None
         else map_option (apfst (Cons (Byte c))) (read_units cs))
      else (case cs of
          [] \<Rightarrow> None
        | e # cs1 \<Rightarrow>
            if e = CHR ''u'' then
              (case cs1 of
                 h1 # h2 # h3 # h4 # cs2 \<Rightarrow>
                   (case hex4 h1 h2 h3 h4 of
                      None \<Rightarrow> None
                    | Some n \<Rightarrow> map_option (apfst (Cons (U16 n))) (read_units cs2))
               | _ \<Rightarrow> None)
            else (case short_unescape e of
                None \<Rightarrow> None
              | Some b \<Rightarrow> map_option (apfst (Cons (Byte b))) (read_units cs1))))"

definition utf8 :: "nat \<Rightarrow> string" where
  "utf8 n =
     (if n < 128 then [char_of n]
      else if n < 2048 then [char_of (192 + n div 64), char_of (128 + n mod 64)]
      else if n < 65536 then
        [char_of (224 + n div 4096), char_of (128 + n div 64 mod 64), char_of (128 + n mod 64)]
      else
        [char_of (240 + n div 262144), char_of (128 + n div 4096 mod 64),
         char_of (128 + n div 64 mod 64), char_of (128 + n mod 64)])"

fun join_units :: "str_unit list \<Rightarrow> string" where
  "join_units [] = []"
| "join_units (Byte c # us) = c # join_units us"
| "join_units (U16 n # us) =
     (if n < 55296 \<or> 57343 < n then utf8 n @ join_units us
      else (case us of
          U16 m # us1 \<Rightarrow>
            if n < 56320 \<and> 56320 \<le> m \<and> m \<le> 57343
            then utf8 (65536 + (n - 55296) * 1024 + (m - 56320)) @ join_units us1
            else utf8 65533 @ join_units us
        | _ \<Rightarrow> utf8 65533 @ join_units us))"

definition is_digit :: "char \<Rightarrow> bool" where
  "is_digit c \<longleftrightarrow> digit_of c \<noteq> None"

definition number_char :: "char \<Rightarrow> bool" where
  "number_char c \<longleftrightarrow> is_digit c \<or> c = CHR ''-'' \<or> c = CHR ''+'' \<or> c = CHR ''.''
     \<or> c = CHR ''e'' \<or> c = CHR ''E''"

definition exponent_ok :: "string \<Rightarrow> bool" where
  "exponent_ok r = (case r of
       [] \<Rightarrow> True
     | c # cs \<Rightarrow> (c = CHR ''e'' \<or> c = CHR ''E'') \<and>
         (let ds = (case cs of [] \<Rightarrow> [] | d # ds \<Rightarrow> if d = CHR ''+'' \<or> d = CHR ''-'' then ds else cs)
          in ds \<noteq> [] \<and> list_all is_digit ds))"

definition valid_number :: "string \<Rightarrow> bool" where
  "valid_number s =
     (let s1 = (case s of [] \<Rightarrow> [] | c # cs \<Rightarrow> if c = CHR ''-'' then cs else s);
          ip = takeWhile is_digit s1; r = dropWhile is_digit s1
      in ip \<noteq> [] \<and> (1 < length ip \<longrightarrow> hd ip \<noteq> CHR ''0'') \<and>
         (case r of
            [] \<Rightarrow> True
          | c # cs \<Rightarrow>
              if c = CHR ''.'' then takeWhile is_digit cs \<noteq> [] \<and> exponent_ok (dropWhile is_digit cs)
              else exponent_ok r))"

definition read_literal :: "string \<Rightarrow> json \<Rightarrow> string \<Rightarrow> (json \<times> string) option" where
  "read_literal lit j s = (if has_prefix lit s then Some (j, drop (length lit) s) else None)"

definition read_number :: "string \<Rightarrow> (json \<times> string) option" where
  "read_number s = (let lit = takeWhile number_char s in
     if valid_number lit then Some (JNum lit, dropWhile number_char s) else None)"

fun read_value :: "nat \<Rightarrow> string \<Rightarrow> (json \<times> string) option"
  and read_elems :: "nat \<Rightarrow> string \<Rightarrow> (json list \<times> string) option"
  and read_members :: "nat \<Rightarrow> string \<Rightarrow> ((string \<times> json) list \<times> string) option"
where
  "read_value 0 s = None"
| "read_value (Suc n) s = (case skip_space s of
       [] \<Rightarrow> None
     | c # cs \<Rightarrow>
         if c = dquote then map_option (apfst (\<lambda>us. JStr (join_units us))) (read_units cs)
         else if c = CHR ''['' then
           (case skip_space cs of
              d # r \<Rightarrow> if d = CHR '']'' then Some (JArr [], r)
                       else map_option (apfst JArr) (read_elems n cs)
            | [] \<Rightarrow> None)
         else if c = CHR ''{'' then
           (case skip_space cs of
              d # r \<Rightarrow> if d = CHR ''}'' then Some (JObj [], r)
                       else map_option (apfst JObj) (read_members n cs)
            | [] \<Rightarrow> None)
         else if c = CHR ''n'' then read_literal ''null'' JNull (c # cs)
         else if c = CHR ''t'' then read_literal ''true'' (JBool True) (c # cs)
         else if c = CHR ''f'' then read_literal ''false'' (JBool False) (c # cs)
         else read_number (c # cs))"
| "read_elems 0 s = None"
| "read_elems (Suc n) s = (case read_value n s of
       None \<Rightarrow> None
     | Some (j, r) \<Rightarrow> (case skip_space r of
           [] \<Rightarrow> None
         | c # r1 \<Rightarrow>
             if c = CHR '','' then map_option (apfst (Cons j)) (read_elems n r1)
             else if c = CHR '']'' then Some ([j], r1)
             else None))"
| "read_members 0 s = None"
| "read_members (Suc n) s = (case skip_space s of
       [] \<Rightarrow> None
     | q # ks \<Rightarrow>
         if q \<noteq> dquote then None
         else (case read_units ks of
             None \<Rightarrow> None
           | Some (us, r) \<Rightarrow> (case skip_space r of
                 [] \<Rightarrow> None
               | col # r1 \<Rightarrow>
                   if col \<noteq> CHR '':'' then None
                   else (case read_value n r1 of
                       None \<Rightarrow> None
                     | Some (j, r2) \<Rightarrow> (case skip_space r2 of
                           [] \<Rightarrow> None
                         | c # r3 \<Rightarrow>
                             if c = CHR '','' then
                               map_option (apfst (Cons (join_units us, j))) (read_members n r3)
                             else if c = CHR ''}'' then Some ([(join_units us, j)], r3)
                             else None)))))"

text \<open>
  \<open>Decoder.Decode\<close> reads the first value and leaves the rest; \<open>json.Unmarshal\<close> allows white
  space only after the value. Fuel \<open>2 * length s + 2\<close> is enough for every text, since a value
  costs two calls and at least one byte per nesting level.
\<close>

definition json_decode :: "string \<Rightarrow> json option" where
  "json_decode s = map_option fst (read_value (2 * length s + 2) s)"

definition json_unmarshal :: "string \<Rightarrow> json option" where
  "json_unmarshal s = (case read_value (2 * length s + 2) s of
       None \<Rightarrow> None
     | Some (j, r) \<Rightarrow> if skip_space r = [] then Some j else None)"


section \<open>What is written is read back\<close>

lemma hex_val_hex_char: "d < 16 \<Longrightarrow> hex_val (hex_char d) = Some d"
  by (auto simp: hex_val_def hex_char_def Let_def)

lemma hex4_code: "n < 256 \<Longrightarrow> hex4 CHR ''0'' CHR ''0'' (hex_char (n div 16)) (hex_char (n mod 16)) = Some n"
  by (simp add: hex4_def hex_val_hex_char) (simp add: hex_val_def)

lemma short_unescape_escape: "short_escape c = Some e \<Longrightarrow> short_unescape e = Some c \<and> e \<noteq> CHR ''u''"
  by (auto simp: short_escape_def short_unescape_def split: if_splits)

definition unit_of :: "char \<Rightarrow> str_unit" where
  "unit_of c = (if short_escape c = None \<and> long_escape c then U16 (of_char c) else Byte c)"

lemma short_escape_quote [simp]: "short_escape dquote \<noteq> None" "short_escape bslash \<noteq> None"
  by (simp_all add: short_escape_def)

lemma read_units_escape_char:
  "read_units (escape_char c @ s) = map_option (apfst (Cons (unit_of c))) (read_units s)"
proof (cases "short_escape c")
  case (Some e)
  with short_unescape_escape [OF Some] show ?thesis
    by (simp add: escape_char_def unit_of_def)
next
  case None
  then have ne: "c \<noteq> dquote" "c \<noteq> bslash" by (auto simp: short_escape_def)
  show ?thesis
  proof (cases "long_escape c")
    case True
    have "(of_char c :: nat) < 256" by simp
    with True None show ?thesis
      by (simp add: escape_char_def unit_of_def hex4_code)
  next
    case False
    with None ne show ?thesis
      by (simp add: escape_char_def unit_of_def long_escape_def)
  qed
qed

lemma read_units_quoted:
  "read_units (concat (map escape_char s) @ dquote # rest) = Some (map unit_of s, rest)"
  by (induction s) (simp_all add: read_units_escape_char)

lemma long_escape_less: "long_escape c \<Longrightarrow> (of_char c :: nat) < 128"
  by (auto simp: long_escape_def)

lemma join_units_unit_of [simp]: "join_units (map unit_of s) = s"
proof (induction s)
  case Nil
  then show ?case by simp
next
  case (Cons c s)
  then show ?case
    using long_escape_less [of c] by (auto simp: unit_of_def utf8_def)
qed

text \<open>
  A value can be marshalled when its number literals are numbers; every value the operator
  marshals satisfies this, because its numbers come from \<open>itoa\<close>.
\<close>

fun json_ok :: "json \<Rightarrow> bool" where
  "json_ok JNull = True"
| "json_ok (JBool b) = True"
| "json_ok (JNum lit) = (valid_number lit \<and> list_all number_char lit)"
| "json_ok (JStr s) = True"
| "json_ok (JArr js) = list_all json_ok js"
| "json_ok (JObj ms) = list_all (\<lambda>(k, v). json_ok v) ms"

definition ends_number :: "string \<Rightarrow> bool" where
  "ends_number s = (case s of [] \<Rightarrow> True | c # cs \<Rightarrow> \<not> number_char c)"

lemma ends_number_simps [simp]:
  "ends_number []" "ends_number (CHR '','' # s)" "ends_number (CHR '']'' # s)"
  "ends_number (CHR ''}'' # s)"
  by (simp_all add: ends_number_def number_char_def is_digit_def digit_of_def)

lemma number_char_not_special:
  "number_char c \<Longrightarrow> \<not> json_space c \<and> c \<noteq> dquote \<and> c \<noteq> CHR ''['' \<and> c \<noteq> CHR ''{''
     \<and> c \<noteq> CHR ''n'' \<and> c \<noteq> CHR ''t'' \<and> c \<noteq> CHR ''f'' \<and> c \<noteq> CHR '']'' \<and> c \<noteq> CHR ''}''"
  by (auto simp: number_char_def is_digit_def digit_of_def json_space_def Let_def split: if_splits)

lemma skip_space_same: "\<not> json_space c \<Longrightarrow> skip_space (c # cs) = c # cs"
  by (simp add: skip_space_def)

lemma not_json_space [simp]:
  "\<not> json_space dquote" "\<not> json_space CHR ''[''" "\<not> json_space CHR ''{''"
  "\<not> json_space CHR '']''" "\<not> json_space CHR ''}''" "\<not> json_space CHR '',''"
  "\<not> json_space CHR '':''" "\<not> json_space CHR ''n''" "\<not> json_space CHR ''t''"
  "\<not> json_space CHR ''f''"
  by (simp_all add: json_space_def)

lemma valid_number_not_Nil: "valid_number lit \<Longrightarrow> lit \<noteq> []"
  by (auto simp: valid_number_def)

lemma takeWhile_number:
  "list_all number_char lit \<Longrightarrow> ends_number rest \<Longrightarrow>
     takeWhile number_char (lit @ rest) = lit \<and> dropWhile number_char (lit @ rest) = rest"
  by (induction lit) (auto simp: ends_number_def split: list.splits)

lemma read_value_number:
  assumes "valid_number lit" and "list_all number_char lit" and "ends_number rest"
  shows "read_value (Suc n) (lit @ rest) = Some (JNum lit, rest)"
proof -
  obtain c cs where lit: "lit = c # cs"
    using valid_number_not_Nil [OF assms(1)] by (cases lit) auto
  with assms(2) have "number_char c" by simp
  then have "read_value (Suc n) (lit @ rest) = read_number (lit @ rest)"
    using number_char_not_special [of c] by (simp add: lit skip_space_same)
  also have "\<dots> = Some (JNum lit, rest)"
    using takeWhile_number [OF assms(2,3)] assms(1) by (simp add: read_number_def)
  finally show ?thesis .
qed

lemma json_text_head:
  assumes "json_ok j"
  obtains c cs where "json_text j = c # cs" and "\<not> json_space c" and "c \<noteq> CHR '']''" and "c \<noteq> CHR ''}''"
proof (cases j)
  case (JNum lit)
  obtain c cs where lit: "lit = c # cs"
    using assms JNum valid_number_not_Nil by (cases lit) auto
  with assms JNum have "number_char c" by simp
  with number_char_not_special [of c] lit JNum that show ?thesis by simp
next
  case (JBool b)
  then show ?thesis using that by (cases b) auto
qed (use that in \<open>auto simp: quote_text_def\<close>)

lemma json_text_length: "json_ok j \<Longrightarrow> 0 < length (json_text j)"
  by (erule json_text_head) simp

text \<open>The readers of a non-empty array and of a non-empty object, given their parts.\<close>

definition reads_back :: "json \<Rightarrow> bool" where
  "reads_back j \<longleftrightarrow> (\<forall>n rest. length (json_text j) \<le> n \<longrightarrow> ends_number rest \<longrightarrow>
     read_value n (json_text j @ rest) = Some (j, rest))"

lemma read_elems_text:
  assumes "js \<noteq> []" and "\<forall>j\<in>set js. reads_back j"
    and "Suc (length (join_with '','' (map json_text js))) \<le> n"
  shows "read_elems n (join_with '','' (map json_text js) @ CHR '']'' # rest) = Some (js, rest)"
  using assms
proof (induction js arbitrary: n)
  case Nil
  then show ?case by simp
next
  case (Cons j js)
  from Cons.prems(3) obtain m where n: "n = Suc m" by (cases n) auto
  from Cons.prems(2) have j: "reads_back j" by simp
  show ?case
  proof (cases "js = []")
    case True
    with Cons.prems(3) n j show ?thesis
      by (simp add: reads_back_def skip_space_same)
  next
    case False
    let ?J = "join_with '','' (map json_text js)"
    have joined: "join_with '','' (map json_text (j # js)) = json_text j @ CHR '','' # ?J"
      using False by (simp add: join_with_Cons)
    from Cons.prems(3) n joined have le: "length (json_text j) \<le> m" "Suc (length ?J) \<le> m" by auto
    have "read_elems m (?J @ CHR '']'' # rest) = Some (js, rest)"
      using Cons.IH [OF False _ le(2)] Cons.prems(2) by simp
    with j le(1) show ?thesis
      unfolding joined n by (simp add: reads_back_def skip_space_same)
  qed
qed

abbreviation member_text :: "string \<times> json \<Rightarrow> string" where
  "member_text \<equiv> (\<lambda>(k, v). quote_text k @ '':'' @ json_text v)"

lemma read_members_text:
  assumes "ms \<noteq> []" and "\<forall>kv\<in>set ms. reads_back (snd kv)"
    and "Suc (length (join_with '','' (map member_text ms))) \<le> n"
  shows "read_members n (join_with '','' (map member_text ms) @ CHR ''}'' # rest) = Some (ms, rest)"
  using assms
proof (induction ms arbitrary: n)
  case Nil
  then show ?case by simp
next
  case (Cons kv ms)
  obtain k v where kv: "kv = (k, v)" by (cases kv)
  from Cons.prems(3) obtain m where n: "n = Suc m" by (cases n) auto
  from Cons.prems(2) kv have v: "reads_back v" by simp
  show ?case
  proof (cases "ms = []")
    case True
    with Cons.prems(3) n v kv show ?thesis
      by (simp add: reads_back_def skip_space_same quote_text_def read_units_quoted)
  next
    case False
    let ?M = "join_with '','' (map member_text ms)"
    have joined: "join_with '','' (map member_text (kv # ms)) =
        quote_text k @ CHR '':'' # json_text v @ CHR '','' # ?M"
      using False kv by (simp add: join_with_Cons)
    from Cons.prems(3) n joined have le: "length (json_text v) \<le> m" "Suc (length ?M) \<le> m" by auto
    have "read_members m (?M @ CHR ''}'' # rest) = Some (ms, rest)"
      using Cons.IH [OF False _ le(2)] Cons.prems(2) by simp
    with v le(1) kv show ?thesis
      unfolding joined n
      by (simp add: reads_back_def skip_space_same quote_text_def read_units_quoted)
  qed
qed

lemma read_value_literals:
  "0 < n \<Longrightarrow> read_value n (CHR ''n'' # ''ull'' @ rest) = Some (JNull, rest)"
  "0 < n \<Longrightarrow> read_value n (CHR ''t'' # ''rue'' @ rest) = Some (JBool True, rest)"
  "0 < n \<Longrightarrow> read_value n (CHR ''f'' # ''alse'' @ rest) = Some (JBool False, rest)"
  by (cases n; simp add: skip_space_same read_literal_def)+

lemma json_ok_reads_back: "json_ok j \<Longrightarrow> reads_back j"
proof (induction j)
  case (JNum lit)
  then have "0 < length lit" using valid_number_not_Nil by simp
  with JNum show ?case
    unfolding reads_back_def
    by (metis json_ok.simps(3) json_text.simps(3) le_zero_eq not0_implies_Suc not_gr_zero
        read_value_number)
next
  case (JStr s)
  show ?case
    unfolding reads_back_def
  proof (intro allI impI)
    fix n rest assume "length (json_text (JStr s)) \<le> n"
    then obtain m where "n = Suc m" by (cases n) (auto simp: quote_text_def)
    then show "read_value n (json_text (JStr s) @ rest) = Some (JStr s, rest)"
      by (simp add: quote_text_def skip_space_same read_units_quoted)
  qed
next
  case (JArr js)
  show ?case
    unfolding reads_back_def
  proof (intro allI impI)
    fix n rest assume n: "length (json_text (JArr js)) \<le> n"
    then obtain m where m: "n = Suc m" by (cases n) auto
    show "read_value n (json_text (JArr js) @ rest) = Some (JArr js, rest)"
    proof (cases js)
      case Nil
      with m show ?thesis by (simp add: skip_space_same)
    next
      case (Cons j js')
      let ?J = "join_with '','' (map json_text js)"
      from JArr.prems Cons have "json_ok j" by simp
      then obtain c cs where c: "json_text j = c # cs" "\<not> json_space c" "c \<noteq> CHR '']''"
        by (rule json_text_head)
      then obtain t where t: "?J = c # t"
        using Cons by (cases js') auto
      from n m have "Suc (length ?J) \<le> m" by simp
      moreover have "\<forall>j\<in>set js. reads_back j"
        using JArr by (auto simp: list_all_iff)
      ultimately have "read_elems m (?J @ CHR '']'' # rest) = Some (js, rest)"
        using Cons by (intro read_elems_text) auto
      with c t show ?thesis
        unfolding m by (simp add: skip_space_same)
    qed
  qed
next
  case (JObj ms)
  show ?case
    unfolding reads_back_def
  proof (intro allI impI)
    fix n rest assume n: "length (json_text (JObj ms)) \<le> n"
    then obtain m where m: "n = Suc m" by (cases n) auto
    show "read_value n (json_text (JObj ms) @ rest) = Some (JObj ms, rest)"
    proof (cases ms)
      case Nil
      with m show ?thesis by (simp add: skip_space_same)
    next
      case (Cons kv ms')
      let ?M = "join_with '','' (map member_text ms)"
      obtain t where t: "?M = dquote # t"
        using Cons by (cases kv; cases ms') (auto simp: quote_text_def)
      from n m have "Suc (length ?M) \<le> m" by simp
      moreover have "\<forall>kv\<in>set ms. reads_back (snd kv)"
        using JObj by (fastforce simp: list_all_iff)
      ultimately have "read_members m (?M @ CHR ''}'' # rest) = Some (ms, rest)"
        using Cons by (intro read_members_text) auto
      with t show ?thesis
        unfolding m by (simp add: skip_space_same)
    qed
  qed
next
  case JNull
  then show ?case using read_value_literals by (simp add: reads_back_def)
next
  case (JBool b)
  then show ?case using read_value_literals by (simp add: reads_back_def)
qed

lemma read_value_text:
  assumes "json_ok j" and "ends_number rest"
  shows "read_value (2 * length (json_text j @ rest) + 2) (json_text j @ rest) = Some (j, rest)"
  using json_ok_reads_back [OF assms(1)] assms(2)
  by (simp add: reads_back_def del: read_value.simps)

lemma json_decode_text [simp]: "json_ok j \<Longrightarrow> json_decode (json_text j) = Some j"
  using read_value_text [of j "[]"] by (simp add: json_decode_def)

lemma json_unmarshal_text [simp]: "json_ok j \<Longrightarrow> json_unmarshal (json_text j) = Some j"
  using read_value_text [of j "[]"] by (simp add: json_unmarshal_def skip_space_def)

lemma json_text_inject: "json_ok j \<Longrightarrow> json_ok k \<Longrightarrow> json_text j = json_text k \<Longrightarrow> j = k"
  using json_unmarshal_text by (metis option.inject)

end
