(* ===== verification/JsonFields.thy ===== *)
theory JsonFields
  imports Json
begin

text \<open>
  How \<open>encoding/json\<close> moves the fields of a Go struct to and from a JSON object. A decoder takes
  the value the field already has: \<open>null\<close> leaves a string, number or boolean as it is and makes a
  pointer or a slice \<open>nil\<close>; a value of the wrong kind is an error. Keys match a field up to case,
  several values for one field are decoded in turn, and keys of no field are skipped.

  The lemmas reduce the round trip of a whole struct to one rewriting step per field.
\<close>

type_synonym 'a decoder = "'a \<Rightarrow> json \<Rightarrow> 'a option"

named_theorems codec_simps \<open>field-by-field evaluation of encoded structs\<close>


section \<open>Fields of an object\<close>

definition fold_char :: "char \<Rightarrow> char" where
  "fold_char c = (let n = (of_char c :: nat) in if 65 \<le> n \<and> n \<le> 90 then char_of (n + 32) else c)"

definition fold_name :: "string \<Rightarrow> string" where
  "fold_name s = map fold_char s"

definition field_values :: "string \<Rightarrow> (string \<times> json) list \<Rightarrow> json list" where
  "field_values name ms = map snd (filter (\<lambda>kv. fold_name (fst kv) = fold_name name) ms)"

fun dec_values :: "'a decoder \<Rightarrow> 'a \<Rightarrow> json list \<Rightarrow> 'a option" where
  "dec_values d x [] = Some x"
| "dec_values d x (j # js) = Option.bind (d x j) (\<lambda>y. dec_values d y js)"

definition dec_field :: "'a decoder \<Rightarrow> 'a \<Rightarrow> string \<Rightarrow> (string \<times> json) list \<Rightarrow> 'a option" where
  "dec_field d x name ms = dec_values d x (field_values name ms)"

lemma field_values_Nil [simp, codec_simps]: "field_values name [] = []"
  by (simp add: field_values_def)

lemma field_values_append [simp, codec_simps]:
  "field_values name (ms @ ms') = field_values name ms @ field_values name ms'"
  by (simp add: field_values_def)

lemma field_values_Cons [codec_simps]:
  "field_values name ((k, v) # ms) =
     (if fold_name k = fold_name name then v # field_values name ms else field_values name ms)"
  by (simp add: field_values_def)


section \<open>Decoders of Go's types\<close>

definition dec_string :: "string decoder" where
  "dec_string x j = (case j of JNull \<Rightarrow> Some x | JStr s \<Rightarrow> Some s | _ \<Rightarrow> None)"

definition dec_bool :: "bool decoder" where
  "dec_bool x j = (case j of JNull \<Rightarrow> Some x | JBool b \<Rightarrow> Some b | _ \<Rightarrow> None)"

text \<open>A number fills an \<open>int64\<close> when its literal is a decimal integer in range.\<close>

definition dec_int :: "int decoder" where
  "dec_int x j = (case j of JNull \<Rightarrow> Some x | JNum lit \<Rightarrow> atoi lit | _ \<Rightarrow> None)"

definition dec_ptr :: "'a decoder \<Rightarrow> 'a \<Rightarrow> 'a option decoder" where
  "dec_ptr d zero p j = (case j of
       JNull \<Rightarrow> Some None
     | _ \<Rightarrow> map_option Some (d (case p of None \<Rightarrow> zero | Some x \<Rightarrow> x) j))"

text \<open>A slice is \<open>None\<close> when it is Go's \<open>nil\<close>, else the list of its elements.\<close>

type_synonym 'a slice = "'a list option"

definition dec_slice :: "'a decoder \<Rightarrow> 'a \<Rightarrow> 'a slice decoder" where
  "dec_slice d zero p j = (case j of
       JNull \<Rightarrow> Some None
     | JArr js \<Rightarrow> map_option Some (those (map (d zero) js))
     | _ \<Rightarrow> None)"

definition dec_object :: "((string \<times> json) list \<Rightarrow> 'a option) \<Rightarrow> 'a decoder" where
  "dec_object f x j = (case j of JNull \<Rightarrow> Some x | JObj ms \<Rightarrow> f ms | _ \<Rightarrow> None)"


section \<open>Encoders, with and without \<open>omitempty\<close>\<close>

definition enc_int :: "int \<Rightarrow> json" where
  "enc_int i = JNum (itoa i)"

fun ptr_values :: "('a \<Rightarrow> json) \<Rightarrow> 'a option \<Rightarrow> json list" where
  "ptr_values enc None = []"
| "ptr_values enc (Some x) = [enc x]"

fun slice_values :: "('a \<Rightarrow> json) \<Rightarrow> 'a slice \<Rightarrow> json list" where
  "slice_values enc None = []"
| "slice_values enc (Some []) = []"
| "slice_values enc (Some (x # xs)) = [JArr (map enc (x # xs))]"

definition ptr_field :: "string \<Rightarrow> ('a \<Rightarrow> json) \<Rightarrow> 'a option \<Rightarrow> (string \<times> json) list" where
  "ptr_field name enc p = map (Pair name) (ptr_values enc p)"

definition slice_field :: "string \<Rightarrow> ('a \<Rightarrow> json) \<Rightarrow> 'a slice \<Rightarrow> (string \<times> json) list" where
  "slice_field name enc p = map (Pair name) (slice_values enc p)"

text \<open>
  What \<open>omitempty\<close> does to a slice: an empty one is left out, so that it comes back as \<open>nil\<close>.
\<close>

fun omit_empty :: "'a slice \<Rightarrow> 'a slice" where
  "omit_empty None = None"
| "omit_empty (Some []) = None"
| "omit_empty (Some (x # xs)) = Some (x # xs)"

lemma omit_empty_idem [simp]: "omit_empty (omit_empty p) = omit_empty p"
  by (cases p rule: omit_empty.cases) auto

lemma omit_empty_eq_self_iff: "omit_empty p = p \<longleftrightarrow> p \<noteq> Some []"
  by (cases p rule: omit_empty.cases) auto

lemma field_values_ptr_field [codec_simps]:
  "field_values name (ptr_field name' enc p) =
     (if fold_name name' = fold_name name then ptr_values enc p else [])"
  by (cases p) (auto simp: ptr_field_def field_values_def)

lemma field_values_slice_field [codec_simps]:
  "field_values name (slice_field name' enc p) =
     (if fold_name name' = fold_name name then slice_values enc p else [])"
  by (cases p rule: omit_empty.cases) (auto simp: slice_field_def field_values_def)


section \<open>Round trips of single fields\<close>

definition decodes :: "'a decoder \<Rightarrow> 'a \<Rightarrow> ('a \<Rightarrow> json) \<Rightarrow> 'a \<Rightarrow> bool" where
  "decodes d zero enc x \<longleftrightarrow> enc x \<noteq> JNull \<and> d zero (enc x) = Some x"

lemma decodes_string [simp, codec_simps]: "decodes dec_string z JStr s"
  by (simp add: decodes_def dec_string_def)

lemma decodes_bool [simp, codec_simps]: "decodes dec_bool z JBool b"
  by (simp add: decodes_def dec_bool_def)

lemma decodes_int [codec_simps]: "in_int64 i \<Longrightarrow> decodes dec_int z enc_int i"
  by (simp add: decodes_def dec_int_def enc_int_def)

lemma dec_values_ptr [codec_simps]:
  "(\<And>x. p = Some x \<Longrightarrow> decodes d zero enc x) \<Longrightarrow>
     dec_values (dec_ptr d zero) None (ptr_values enc p) = Some p"
  by (cases p) (auto simp: decodes_def dec_ptr_def split: json.splits)

lemma those_map_decodes:
  "(\<And>x. x \<in> set xs \<Longrightarrow> decodes d zero enc x) \<Longrightarrow> those (map (d zero \<circ> enc) xs) = Some xs"
  by (induction xs) (auto simp: decodes_def)

lemma dec_values_slice [codec_simps]:
  "(\<And>x xs. p = Some xs \<Longrightarrow> x \<in> set xs \<Longrightarrow> decodes d zero enc x) \<Longrightarrow>
     dec_values (dec_slice d zero) None (slice_values enc p) = Some (omit_empty p)"
proof (cases p rule: omit_empty.cases)
  case (3 x xs)
  assume "\<And>y ys. p = Some ys \<Longrightarrow> y \<in> set ys \<Longrightarrow> decodes d zero enc y"
  with 3 have "those (map (d zero \<circ> enc) (x # xs)) = Some (x # xs)"
    by (intro those_map_decodes) auto
  with 3 show ?thesis by (simp add: dec_slice_def)
qed auto

lemma dec_values_string [codec_simps]: "dec_values dec_string z [JStr s] = Some s"
  by (simp add: dec_string_def)


section \<open>Encoded structs are JSON that can be written\<close>

abbreviation json_members_ok :: "(string \<times> json) list \<Rightarrow> bool" where
  "json_members_ok \<equiv> list_all (\<lambda>(k, v). json_ok v)"

lemma json_members_ok_ptr [simp]:
  "json_members_ok (ptr_field name enc p) \<longleftrightarrow> (\<forall>x. p = Some x \<longrightarrow> json_ok (enc x))"
  by (cases p) (auto simp: ptr_field_def)

lemma json_members_ok_slice [simp]:
  "json_members_ok (slice_field name enc p) \<longleftrightarrow> (\<forall>xs. p = Some xs \<longrightarrow> (\<forall>x\<in>set xs. json_ok (enc x)))"
  by (cases p rule: omit_empty.cases) (auto simp: slice_field_def list_all_iff)

lemma list_all_digits: "list_all is_digit (nat_digits n)"
  using nat_digits_digit by (force simp: list_all_iff is_digit_def)

lemma nat_digits_head: "nat_digits n \<noteq> [CHR ''0''] \<Longrightarrow> hd (nat_digits n) \<noteq> CHR ''0''"
proof (induction n rule: nat_digits.induct)
  case (1 n)
  show ?case
  proof (cases "n < 10")
    case True
    then have d: "nat_digits n = [digit_char n]" by (simp add: nat_digits.simps [of n])
    with 1 show ?thesis by simp
  next
    case False
    then have n: "nat_digits n = nat_digits (n div 10) @ [digit_char (n mod 10)]"
      by (simp add: nat_digits.simps [of n])
    have "nat_digits (n div 10) \<noteq> [CHR ''0'']"
    proof
      assume "nat_digits (n div 10) = [CHR ''0'']"
      then have "digits_val 0 (nat_digits (n div 10)) = Some 0"
        by (simp add: digit_of_def)
      with False show False by (simp add: digits_val_nat_digits)
    qed
    with False 1 n show ?thesis by simp
  qed
qed

lemma valid_number_digits: "valid_number (nat_digits n)"
proof -
  obtain c cs where cs: "nat_digits n = c # cs" by (cases "nat_digits n") auto
  then have digits: "list_all is_digit (c # cs)" using list_all_digits [of n] by simp
  then have "c \<noteq> CHR ''-''" by (auto simp: is_digit_def)
  moreover have "1 < length (c # cs) \<longrightarrow> c \<noteq> CHR ''0''"
    using nat_digits_head [of n] cs by auto
  ultimately show ?thesis
    using digits by (simp add: valid_number_def cs list_all_iff takeWhile_eq_all_conv [THEN iffD2]
        dropWhile_eq_Nil_conv [THEN iffD2])
qed

lemma valid_number_minus_digits: "valid_number (CHR ''-'' # nat_digits n)"
proof -
  obtain c cs where cs: "nat_digits n = c # cs" by (cases "nat_digits n") auto
  then have digits: "list_all is_digit (c # cs)" using list_all_digits [of n] by simp
  moreover have "1 < length (c # cs) \<longrightarrow> c \<noteq> CHR ''0''"
    using nat_digits_head [of n] cs by auto
  ultimately show ?thesis
    by (simp add: valid_number_def cs list_all_iff takeWhile_eq_all_conv [THEN iffD2]
        dropWhile_eq_Nil_conv [THEN iffD2])
qed

lemma json_ok_enc_int [simp]: "json_ok (enc_int i)"
proof -
  have "list_all number_char (nat_digits n)" for n
    using list_all_digits [of n] by (auto simp: list_all_iff number_char_def)
  then show ?thesis
    by (simp add: enc_int_def itoa_def valid_number_digits valid_number_minus_digits number_char_def)
qed

end
