(* ===== verification/Jwk.thy ===== *)
theory Jwk
  imports JsonFields
begin

text \<open>
  JSON web keys, \<open>internal/crypto/jwks.go\<close>: the wrapper \<open>Jwk\<close> around a key of the go-jose
  library, key sets \<open>Jwks\<close>, and the conversion of a key set to its public half that the
  operator uploads to Maskinporten. The go-jose library is a parameter, the record \<open>jose_lib\<close>;
  what the code relies on is collected in \<open>jose_laws\<close>. Pointers \<open>*Jwk\<close> may be \<open>nil\<close> (a JSON
  key set may hold \<open>null\<close>), so a key set is a list of optional keys, and the methods that
  dereference their receiver panic on \<open>nil\<close>.
\<close>


section \<open>Keys and certificates\<close>

text \<open>The standard library's \<open>pkix.Name\<close>, \<open>x509.SignatureAlgorithm\<close> and \<open>x509.Certificate\<close>.\<close>

record pkix_name =
  Organization :: "string list"
  CommonName :: string

datatype x509_algorithm =
    UnknownSignatureAlgorithm | MD2WithRSA | MD5WithRSA | SHA1WithRSA
  | SHA256WithRSA | SHA384WithRSA | SHA512WithRSA
  | DSAWithSHA1 | DSAWithSHA256
  | ECDSAWithSHA1 | ECDSAWithSHA256 | ECDSAWithSHA384 | ECDSAWithSHA512
  | SHA256WithRSAPSS | SHA384WithRSAPSS | SHA512WithRSAPSS | PureEd25519

datatype key_usage = KeyUsageDigitalSignature | KeyUsageKeyEncipherment
datatype ext_key_usage = ExtKeyUsageServerAuth

record rsa_public =
  rsa_N :: int
  rsa_E :: int

record rsa_private =
  PublicKey :: rsa_public
  rsa_D :: int

record certificate =
  SerialNumber :: int
  Subject :: pkix_name
  Issuer :: pkix_name
  NotBefore :: instant
  NotAfter :: instant
  KeyUsage :: "key_usage list"
  ExtKeyUsage :: "ext_key_usage list"
  BasicConstraintsValid :: bool
  SignatureAlgorithm :: x509_algorithm
  CertPublicKey :: "rsa_public option"

text \<open>
  The dynamic type of \<open>jose.JSONWebKey.Key\<close>; keys of other kinds than RSA are told apart by a
  number only, since the operator never makes one.
\<close>

datatype key_material =
    NoKey
  | RsaPrivate rsa_private
  | RsaPublic rsa_public
  | OtherKey nat

record jose_jwk =
  jose_Key :: key_material
  jose_KeyID :: string
  jose_Algorithm :: string
  jose_Use :: string
  jose_Certificates :: "certificate list"

datatype jwk = Jwk (inner: jose_jwk)

type_synonym jwk_ptr = "jwk option"

record jwks =
  Keys :: "jwk_ptr list"


section \<open>The go-jose library\<close>

record jose_lib =
  jose_IsPublic :: "jose_jwk \<Rightarrow> bool"
  jose_Public :: "jose_jwk \<Rightarrow> jose_jwk"
  jose_Marshal :: "jose_jwk \<Rightarrow> json outcome"
  jose_Unmarshal :: "json \<Rightarrow> jose_jwk option"

text \<open>
  What the code relies on. An RSA private key is not public, and its \<open>Public\<close> is the same key
  entry with the public half as its key; an RSA public key is public; \<open>Public\<close> never yields
  private material, whatever the kind of key; and reading a marshalled key gives it back.
\<close>

definition jose_laws :: "jose_lib \<Rightarrow> bool" where
  "jose_laws J \<longleftrightarrow>
     (\<forall>k sk. jose_Key k = RsaPrivate sk \<longrightarrow> \<not> jose_IsPublic J k) \<and>
     (\<forall>k sk. jose_Key k = RsaPrivate sk \<longrightarrow>
        jose_Public J k = k\<lparr>jose_Key := RsaPublic (PublicKey sk)\<rparr>) \<and>
     (\<forall>k pk. jose_Key k = RsaPublic pk \<longrightarrow> jose_IsPublic J k) \<and>
     (\<forall>k sk. jose_Key (jose_Public J k) \<noteq> RsaPrivate sk) \<and>
     (\<forall>k j. jose_Marshal J k = Ok j \<longrightarrow> json_ok j \<and> j \<noteq> JNull \<and> jose_Unmarshal J j = Some k)"

lemma jose_private_not_public:
  "jose_laws J \<Longrightarrow> jose_Key k = RsaPrivate sk \<Longrightarrow> \<not> jose_IsPublic J k"
  by (auto simp: jose_laws_def)

lemma jose_Public_private:
  "jose_laws J \<Longrightarrow> jose_Key k = RsaPrivate sk \<Longrightarrow>
     jose_Public J k = k\<lparr>jose_Key := RsaPublic (PublicKey sk)\<rparr>"
  by (auto simp: jose_laws_def)

lemma jose_public_is_public: "jose_laws J \<Longrightarrow> jose_Key k = RsaPublic pk \<Longrightarrow> jose_IsPublic J k"
  by (auto simp: jose_laws_def)

lemma jose_Public_not_private: "jose_laws J \<Longrightarrow> jose_Key (jose_Public J k) \<noteq> RsaPrivate sk"
  by (auto simp: jose_laws_def)

lemma jose_roundtrip:
  "jose_laws J \<Longrightarrow> jose_Marshal J k = Ok j \<Longrightarrow> json_ok j \<and> j \<noteq> JNull \<and> jose_Unmarshal J j = Some k"
  by (auto simp: jose_laws_def)


section \<open>Methods of \<open>Jwk\<close>\<close>

definition NewJwks :: "jwk_ptr list \<Rightarrow> jwks" where
  "NewJwks keys = \<lparr>Keys = keys\<rparr>"

definition NewJwk :: "certificate list \<Rightarrow> rsa_private \<Rightarrow> string \<Rightarrow> string \<Rightarrow> string \<Rightarrow> jwk" where
  "NewJwk certificates key keyId use algorithm =
     Jwk \<lparr>jose_Key = RsaPrivate key, jose_KeyID = keyId, jose_Algorithm = algorithm,
          jose_Use = use, jose_Certificates = certificates\<rparr>"

definition Jwk_MarshalJSON :: "jose_lib \<Rightarrow> jwk \<Rightarrow> json outcome" where
  "Jwk_MarshalJSON J j = jose_Marshal J (inner j)"

definition Jwk_UnmarshalJSON :: "jose_lib \<Rightarrow> jwk decoder" where
  "Jwk_UnmarshalJSON J j b = map_option Jwk (jose_Unmarshal J b)"

definition Jwk_KeyID :: "jwk_ptr \<Rightarrow> string outcome" where
  "Jwk_KeyID j = obind (deref j) (\<lambda>k. Ok (jose_KeyID (inner k)))"

definition Jwk_Algorithm :: "jwk_ptr \<Rightarrow> string outcome" where
  "Jwk_Algorithm j = obind (deref j) (\<lambda>k. Ok (jose_Algorithm (inner k)))"

definition Jwk_IsPublic :: "jose_lib \<Rightarrow> jwk_ptr \<Rightarrow> bool outcome" where
  "Jwk_IsPublic J j = obind (deref j) (\<lambda>k. Ok (jose_IsPublic J (inner k)))"

text \<open>The public half of a key, without the certificates (the \<open>x5c\<close> field of its JSON).\<close>

definition Jwk_Public :: "jose_lib \<Rightarrow> jwk_ptr \<Rightarrow> jwk_ptr outcome" where
  "Jwk_Public J j = obind (Jwk_IsPublic J j) (\<lambda>is_public.
     if is_public then Ok j
     else obind (deref j) (\<lambda>k.
       Ok (Some (Jwk ((jose_Public J (inner k))\<lparr>jose_Certificates := []\<rparr>)))))"

text \<open>\<open>Certificates\<close> tolerates a \<open>nil\<close> receiver.\<close>

definition Jwk_Certificates :: "jwk_ptr \<Rightarrow> certificate list" where
  "Jwk_Certificates j = (case j of None \<Rightarrow> [] | Some k \<Rightarrow> jose_Certificates (inner k))"

lemma Jwk_KeyID_Some [simp]: "Jwk_KeyID (Some k) = Ok (jose_KeyID (inner k))"
  by (simp add: Jwk_KeyID_def)

lemma Jwk_KeyID_None [simp]: "Jwk_KeyID None = Panic NilDeref"
  by (simp add: Jwk_KeyID_def)

lemma Jwk_IsPublic_Some [simp]: "Jwk_IsPublic J (Some k) = Ok (jose_IsPublic J (inner k))"
  by (simp add: Jwk_IsPublic_def)

lemma Jwk_IsPublic_None [simp]: "Jwk_IsPublic J None = Panic NilDeref"
  by (simp add: Jwk_IsPublic_def)

lemma Jwk_Certificates_simps [simp]:
  "Jwk_Certificates None = []" "Jwk_Certificates (Some k) = jose_Certificates (inner k)"
  by (simp_all add: Jwk_Certificates_def)


section \<open>\<open>Jwks.ToPublic\<close>\<close>

fun ToPublic_keys :: "jose_lib \<Rightarrow> jwk_ptr list \<Rightarrow> jwk_ptr list \<Rightarrow> jwk_ptr list outcome" where
  "ToPublic_keys J result [] = Ok result"
| "ToPublic_keys J result (jwk # jwks) =
     obind (Jwk_IsPublic J jwk) (\<lambda>is_public.
       if is_public
       then Err (ErrorNew ''keys in client info must be based on private/public key pairs'')
       else obind (Jwk_Public J jwk) (\<lambda>publicJwk. ToPublic_keys J (result @ [publicJwk]) jwks))"

definition ToPublic :: "jose_lib \<Rightarrow> jwks option \<Rightarrow> jwks outcome" where
  "ToPublic J j = (case j of
       None \<Rightarrow> Err (ErrorNew ''can't create public keyset from JWKS when it is not initialized'')
     | Some ks \<Rightarrow> obind (ToPublic_keys J [] (Keys ks)) (\<lambda>result. Ok \<lparr>Keys = result\<rparr>))"

text \<open>The entry that \<open>ToPublic\<close> makes of one private entry.\<close>

definition public_half :: "jose_lib \<Rightarrow> jwk \<Rightarrow> jwk" where
  "public_half J k = Jwk ((jose_Public J (inner k))\<lparr>jose_Certificates := []\<rparr>)"

lemma Jwk_Public_private:
  "\<not> jose_IsPublic J (inner k) \<Longrightarrow> Jwk_Public J (Some k) = Ok (Some (public_half J k))"
  by (simp add: Jwk_Public_def public_half_def)

lemma ToPublic_keys_Ok_iff:
  "ToPublic_keys J acc ks = Ok res \<longleftrightarrow>
     (\<exists>js. ks = map Some js \<and> (\<forall>k\<in>set js. \<not> jose_IsPublic J (inner k)) \<and>
        res = acc @ map (\<lambda>k. Some (public_half J k)) js)"
proof (induction J acc ks arbitrary: res rule: ToPublic_keys.induct)
  case (1 J acc)
  then show ?case by auto
next
  case (2 J acc k ks)
  show ?case
  proof (cases k)
    case None
    then show ?thesis by auto
  next
    case (Some key)
    show ?thesis
    proof (cases "jose_IsPublic J (inner key)")
      case True
      with Some show ?thesis by auto
    next
      case False
      have "ToPublic_keys J acc (k # ks) =
          ToPublic_keys J (acc @ [Some (public_half J key)]) ks"
        using False Some by (simp add: Jwk_Public_private)
      then show ?thesis
        using False Some 2 by (auto simp: Jwk_Public_private Cons_eq_map_conv)
    qed
  qed
qed

text \<open>
  The conversion succeeds exactly on sets of private keys, and then maps each key to its
  public half, in order.
\<close>

lemma ToPublic_Ok_iff:
  "ToPublic J (Some ks) = Ok pub \<longleftrightarrow>
     (\<exists>js. Keys ks = map Some js \<and> (\<forall>k\<in>set js. \<not> jose_IsPublic J (inner k)) \<and>
        Keys pub = map (\<lambda>k. Some (public_half J k)) js)"
proof -
  have "ToPublic J (Some ks) = Ok pub \<longleftrightarrow> ToPublic_keys J [] (Keys ks) = Ok (Keys pub)"
    by (cases pub) (auto simp: ToPublic_def obind_Ok_iff)
  then show ?thesis by (simp add: ToPublic_keys_Ok_iff)
qed

definition private_rsa_key :: "jwk \<Rightarrow> bool" where
  "private_rsa_key k \<longleftrightarrow> (\<exists>sk. jose_Key (inner k) = RsaPrivate sk)"

lemma public_half_private:
  "jose_laws J \<Longrightarrow> jose_Key (inner k) = RsaPrivate sk \<Longrightarrow>
     inner (public_half J k) =
       (inner k)\<lparr>jose_Key := RsaPublic (PublicKey sk), jose_Certificates := []\<rparr>"
  by (simp add: public_half_def jose_Public_private)

lemma public_half_not_private: "jose_laws J \<Longrightarrow> \<not> private_rsa_key (public_half J k)"
  by (simp add: public_half_def private_rsa_key_def jose_Public_not_private)

lemma public_half_is_public:
  "jose_laws J \<Longrightarrow> private_rsa_key k \<Longrightarrow> jose_IsPublic J (inner (public_half J k))"
  by (auto simp: private_rsa_key_def public_half_private intro!: jose_public_is_public)

lemma ToPublic_private_keys:
  assumes "jose_laws J" and "Keys ks = map Some js" and "\<forall>k\<in>set js. private_rsa_key k"
  shows "ToPublic J (Some ks) = Ok \<lparr>Keys = map (\<lambda>k. Some (public_half J k)) js\<rparr>"
  using assms by (auto simp: ToPublic_Ok_iff private_rsa_key_def dest: jose_private_not_public)


section \<open>JSON of key sets\<close>

fun omapM :: "('a \<Rightarrow> 'b outcome) \<Rightarrow> 'a list \<Rightarrow> 'b list outcome" where
  "omapM f [] = Ok []"
| "omapM f (x # xs) = obind (f x) (\<lambda>y. obind (omapM f xs) (\<lambda>ys. Ok (y # ys)))"

lemma omapM_Ok_iff: "omapM f xs = Ok ys \<longleftrightarrow> list_all2 (\<lambda>x y. f x = Ok y) xs ys"
  by (induction xs arbitrary: ys) (auto simp: obind_Ok_iff list_all2_Cons1)

text \<open>The zero value \<open>Jwk\{\}\<close>, which \<open>UnmarshalJSON\<close> overwrites.\<close>

definition zero_jwk :: jwk where
  "zero_jwk = Jwk \<lparr>jose_Key = NoKey, jose_KeyID = [], jose_Algorithm = [], jose_Use = [],
     jose_Certificates = []\<rparr>"

definition enc_jwk_ptr :: "jose_lib \<Rightarrow> jwk_ptr \<Rightarrow> json outcome" where
  "enc_jwk_ptr J p = (case p of None \<Rightarrow> Ok JNull | Some k \<Rightarrow> Jwk_MarshalJSON J k)"

definition dec_jwk_ptr :: "jose_lib \<Rightarrow> jwk_ptr decoder" where
  "dec_jwk_ptr J = dec_ptr (Jwk_UnmarshalJSON J) zero_jwk"

definition enc_jwks :: "jose_lib \<Rightarrow> jwks \<Rightarrow> json outcome" where
  "enc_jwks J ks = obind (omapM (enc_jwk_ptr J) (Keys ks)) (\<lambda>js. Ok (JObj [(''keys'', JArr js)]))"

text \<open>A missing or \<open>null\<close> list of keys is Go's \<open>nil\<close> slice, which behaves as the empty one.\<close>

definition dec_jwks_members :: "jose_lib \<Rightarrow> (string \<times> json) list \<Rightarrow> jwks option" where
  "dec_jwks_members J ms =
     map_option (\<lambda>keys. \<lparr>Keys = (case keys of None \<Rightarrow> [] | Some ks \<Rightarrow> ks)\<rparr>)
       (dec_field (dec_slice (dec_jwk_ptr J) None) None ''keys'' ms)"

definition dec_jwks :: "jose_lib \<Rightarrow> jwks decoder" where
  "dec_jwks J = dec_object (dec_jwks_members J)"

lemma dec_jwk_ptr_enc:
  assumes "jose_laws J" and "enc_jwk_ptr J p = Ok j"
  shows "dec_jwk_ptr J None j = Some p \<and> json_ok j"
proof (cases p)
  case None
  with assms(2) show ?thesis by (auto simp: enc_jwk_ptr_def dec_jwk_ptr_def dec_ptr_def)
next
  case (Some k)
  with assms(2) have "jose_Marshal J (inner k) = Ok j"
    by (simp add: enc_jwk_ptr_def Jwk_MarshalJSON_def)
  with assms(1) have "json_ok j \<and> j \<noteq> JNull \<and> jose_Unmarshal J j = Some (inner k)"
    by (rule jose_roundtrip)
  with Some show ?thesis
    by (cases j) (auto simp: dec_jwk_ptr_def dec_ptr_def Jwk_UnmarshalJSON_def)
qed

lemma jwks_roundtrip:
  assumes "jose_laws J" and "enc_jwks J ks = Ok j"
  shows "dec_jwks J z j = Some ks" and "json_ok j" and "j \<noteq> JNull"
proof -
  obtain js where js: "omapM (enc_jwk_ptr J) (Keys ks) = Ok js" and j: "j = JObj [(''keys'', JArr js)]"
    using assms(2) by (auto simp: enc_jwks_def obind_Ok_iff)
  from js have "list_all2 (\<lambda>p j. enc_jwk_ptr J p = Ok j) (Keys ks) js"
    by (simp add: omapM_Ok_iff)
  then have "list_all2 (\<lambda>p j. dec_jwk_ptr J None j = Some p \<and> json_ok j) (Keys ks) js"
    by (rule list_all2_mono) (use assms(1) dec_jwk_ptr_enc in auto)
  then have "those (map (dec_jwk_ptr J None) js) = Some (Keys ks) \<and> list_all json_ok js"
    by (induction rule: list_all2_induct) auto
  then show "dec_jwks J z j = Some ks" and "json_ok j" and "j \<noteq> JNull"
    by (simp_all add: j dec_jwks_def dec_object_def dec_jwks_members_def dec_field_def
        field_values_Cons dec_slice_def)
qed

end
