(* ===== verification/ClientTypes.thy ===== *)
theory ClientTypes
  imports Jwk
begin

text \<open>
  The messages of the Maskinporten self-service API, \<open>internal/maskinporten/client_request.go\<close> and
  \<open>client_response.go\<close>: one record per struct, with the struct's fields in its order, and the
  JSON that the struct tags define. A pointer field is an option, a slice field tells \<open>nil\<close>
  from empty. Every field of a request is \<open>omitempty\<close>, so an empty slice is sent as no field at
  all and arrives as \<open>nil\<close>: \<open>sent_add_client_request\<close> is a request as the other side sees it.

  Timestamps stay in their wire form, RFC 3339 text; the operator never computes with them.
\<close>


section \<open>Named string types\<close>

type_synonym application_type = string
type_synonym integration_type = string
type_synonym grant_type = string
type_synonym token_endpoint_auth_method = string
type_synonym refresh_token_usage = string
type_synonym code_challenge_method = string

definition ApplicationTypeWeb :: application_type where "ApplicationTypeWeb = ''web''"
definition ApplicationTypeBrowser :: application_type where "ApplicationTypeBrowser = ''browser''"
definition ApplicationTypeNative :: application_type where "ApplicationTypeNative = ''native''"

definition IntegrationTypeAnsattporten :: integration_type where
  "IntegrationTypeAnsattporten = ''ansattporten''"
definition IntegrationTypeApiKlient :: integration_type where
  "IntegrationTypeApiKlient = ''api_klient''"
definition IntegrationTypeEformidling :: integration_type where
  "IntegrationTypeEformidling = ''eformidling''"
definition IntegrationTypeIdporten :: integration_type where
  "IntegrationTypeIdporten = ''idporten''"
definition IntegrationTypeIdportenSaml2 :: integration_type where
  "IntegrationTypeIdportenSaml2 = ''idporten_saml2''"
definition IntegrationTypeKrr :: integration_type where
  "IntegrationTypeKrr = ''krr''"
definition IntegrationTypeMaskinporten :: integration_type where
  "IntegrationTypeMaskinporten = ''maskinporten''"

definition GrantTypeAuthorizationCode :: grant_type where
  "GrantTypeAuthorizationCode = ''authorization_code''"
definition GrantTypeImplicit :: grant_type where "GrantTypeImplicit = ''implicit''"
definition GrantTypeRefreshToken :: grant_type where "GrantTypeRefreshToken = ''refresh_token''"
definition GrantTypeJwtBearer :: grant_type where
  "GrantTypeJwtBearer = ''urn:ietf:params:oauth:grant-type:jwt-bearer''"

definition TokenEndpointAuthMethodPrivateKeyJwt :: token_endpoint_auth_method where
  "TokenEndpointAuthMethodPrivateKeyJwt = ''private_key_jwt''"
definition TokenEndpointAuthMethodNone :: token_endpoint_auth_method where
  "TokenEndpointAuthMethodNone = ''none''"


section \<open>Timestamps in text\<close>

text \<open>
  What \<open>time.Time.UnmarshalJSON\<close> accepts: a date and a time of day with two-digit parts in
  range, an optional fraction, and \<open>Z\<close> or an offset.
\<close>

type_synonym time_text = string

definition two_digits :: "char \<Rightarrow> char \<Rightarrow> nat option" where
  "two_digits a b = digits_val 0 [a, b]"

definition days_in_month :: "nat \<Rightarrow> nat \<Rightarrow> nat" where
  "days_in_month y m =
     (if m = 2 then (if y mod 4 = 0 \<and> (y mod 100 \<noteq> 0 \<or> y mod 400 = 0) then 29 else 28)
      else if m \<in> {4, 6, 9, 11} then 30 else 31)"

fun zone_ok :: "string \<Rightarrow> bool" where
  "zone_ok [s, h1, h2, c, m1, m2] =
     ((s = CHR ''+'' \<or> s = CHR ''-'') \<and> c = CHR '':'' \<and>
      (case (two_digits h1 h2, two_digits m1 m2) of
         (Some h, Some m) \<Rightarrow> h < 24 \<and> m < 60
       | _ \<Rightarrow> False))"
| "zone_ok s = (s = ''Z'')"

definition fraction_zone_ok :: "string \<Rightarrow> bool" where
  "fraction_zone_ok s = (case s of
       [] \<Rightarrow> False
     | c # cs \<Rightarrow>
         if c = CHR ''.'' then takeWhile is_digit cs \<noteq> [] \<and> zone_ok (dropWhile is_digit cs)
         else zone_ok s)"

fun rfc3339_ok :: "time_text \<Rightarrow> bool" where
  "rfc3339_ok (y1 # y2 # y3 # y4 # d1 # mo1 # mo2 # d2 # da1 # da2 # t # h1 # h2 # c1 # mi1 # mi2
      # c2 # s1 # s2 # rest) =
     (d1 = CHR ''-'' \<and> d2 = CHR ''-'' \<and> t = CHR ''T'' \<and> c1 = CHR '':'' \<and> c2 = CHR '':'' \<and>
      (case (digits_val 0 [y1, y2, y3, y4], two_digits mo1 mo2, two_digits da1 da2,
             two_digits h1 h2, two_digits mi1 mi2, two_digits s1 s2) of
         (Some y, Some mo, Some da, Some h, Some mi, Some s) \<Rightarrow>
           1 \<le> mo \<and> mo \<le> 12 \<and> 1 \<le> da \<and> da \<le> days_in_month y mo \<and> h < 24 \<and> mi < 60 \<and> s < 60
       | _ \<Rightarrow> False) \<and>
      fraction_zone_ok rest)"
| "rfc3339_ok _ = False"

definition dec_time :: "time_text decoder" where
  "dec_time x j = (case j of
       JNull \<Rightarrow> Some x
     | JStr s \<Rightarrow> if rfc3339_ok s then Some s else None
     | _ \<Rightarrow> None)"

lemma decodes_time [codec_simps]: "rfc3339_ok s \<Longrightarrow> decodes dec_time z JStr s"
  by (simp add: decodes_def dec_time_def)


section \<open>Requests\<close>

record add_client_request =
  ac_ClientId :: "string option"
  ac_ClientName :: "string option"
  ac_ClientOrgno :: "string option"
  ac_SupplierOrgno :: "string option"
  ac_Description :: "string option"
  ac_Active :: "bool option"
  ac_ApplicationType :: "application_type option"
  ac_IntegrationType :: "integration_type option"
  ac_Scopes :: "string slice"
  ac_GrantTypes :: "grant_type slice"
  ac_TokenEndpointAuthMethod :: "token_endpoint_auth_method option"
  ac_RefreshTokenLifetime :: "int option"
  ac_RefreshTokenUsage :: "refresh_token_usage option"
  ac_AccessTokenLifetime :: "int option"
  ac_AuthorizationLifetime :: "int option"
  ac_LogoUri :: "string option"
  ac_RedirectUris :: "string slice"
  ac_PostLogoutRedirectUris :: "string slice"
  ac_FrontchannelLogoutSessionRequired :: "bool option"
  ac_FrontchannelLogoutUri :: "string option"
  ac_SsoDisabled :: "bool option"
  ac_CodeChallengeMethod :: "code_challenge_method option"

record update_client_request =
  uc_ClientId :: "string option"
  uc_ClientName :: "string option"
  uc_ClientOrgno :: "string option"
  uc_SupplierOrgno :: "string option"
  uc_Description :: "string option"
  uc_Active :: "bool option"
  uc_ApplicationType :: "application_type option"
  uc_IntegrationType :: "integration_type option"
  uc_Scopes :: "string slice"
  uc_GrantTypes :: "grant_type slice"
  uc_TokenEndpointAuthMethod :: "token_endpoint_auth_method option"
  uc_RefreshTokenLifetime :: "int option"
  uc_RefreshTokenUsage :: "refresh_token_usage option"
  uc_AccessTokenLifetime :: "int option"
  uc_AuthorizationLifetime :: "int option"
  uc_LogoUri :: "string option"
  uc_RedirectUris :: "string slice"
  uc_PostLogoutRedirectUris :: "string slice"
  uc_FrontchannelLogoutSessionRequired :: "bool option"
  uc_FrontchannelLogoutUri :: "string option"
  uc_SsoDisabled :: "bool option"
  uc_CodeChallengeMethod :: "code_challenge_method option"

definition zero_add_client_request :: add_client_request where
  "zero_add_client_request = \<lparr>ac_ClientId = None, ac_ClientName = None,
       ac_ClientOrgno = None, ac_SupplierOrgno = None, ac_Description = None, ac_Active = None,
       ac_ApplicationType = None, ac_IntegrationType = None, ac_Scopes = None,
       ac_GrantTypes = None, ac_TokenEndpointAuthMethod = None, ac_RefreshTokenLifetime = None,
       ac_RefreshTokenUsage = None, ac_AccessTokenLifetime = None, ac_AuthorizationLifetime = None,
       ac_LogoUri = None, ac_RedirectUris = None, ac_PostLogoutRedirectUris = None,
       ac_FrontchannelLogoutSessionRequired = None, ac_FrontchannelLogoutUri = None,
       ac_SsoDisabled = None, ac_CodeChallengeMethod = None\<rparr>"

definition enc_add_client_request :: "add_client_request \<Rightarrow> json" where
  "enc_add_client_request r = JObj (
     ptr_field ''client_id'' JStr (ac_ClientId r) @
     ptr_field ''client_name'' JStr (ac_ClientName r) @
     ptr_field ''client_orgno'' JStr (ac_ClientOrgno r) @
     ptr_field ''supplier_orgno'' JStr (ac_SupplierOrgno r) @
     ptr_field ''description'' JStr (ac_Description r) @
     ptr_field ''active'' JBool (ac_Active r) @
     ptr_field ''application_type'' JStr (ac_ApplicationType r) @
     ptr_field ''integration_type'' JStr (ac_IntegrationType r) @
     slice_field ''scopes'' JStr (ac_Scopes r) @
     slice_field ''grant_types'' JStr (ac_GrantTypes r) @
     ptr_field ''token_endpoint_auth_method'' JStr (ac_TokenEndpointAuthMethod r) @
     ptr_field ''refresh_token_lifetime'' enc_int (ac_RefreshTokenLifetime r) @
     ptr_field ''refresh_token_usage'' JStr (ac_RefreshTokenUsage r) @
     ptr_field ''access_token_lifetime'' enc_int (ac_AccessTokenLifetime r) @
     ptr_field ''authorization_lifetime'' enc_int (ac_AuthorizationLifetime r) @
     ptr_field ''logo_uri'' JStr (ac_LogoUri r) @
     slice_field ''redirect_uris'' JStr (ac_RedirectUris r) @
     slice_field ''post_logout_redirect_uris'' JStr (ac_PostLogoutRedirectUris r) @
     ptr_field ''frontchannel_logout_session_required'' JBool (ac_FrontchannelLogoutSessionRequired r) @
     ptr_field ''frontchannel_logout_uri'' JStr (ac_FrontchannelLogoutUri r) @
     ptr_field ''sso_disabled'' JBool (ac_SsoDisabled r) @
     ptr_field ''code_challenge_method'' JStr (ac_CodeChallengeMethod r))"

definition dec_add_client_request_members :: "(string \<times> json) list \<Rightarrow> add_client_request option" where
  "dec_add_client_request_members ms =
     Option.bind (dec_field (dec_ptr dec_string []) None ''client_id'' ms) (\<lambda>x1.
     Option.bind (dec_field (dec_ptr dec_string []) None ''client_name'' ms) (\<lambda>x2.
     Option.bind (dec_field (dec_ptr dec_string []) None ''client_orgno'' ms) (\<lambda>x3.
     Option.bind (dec_field (dec_ptr dec_string []) None ''supplier_orgno'' ms) (\<lambda>x4.
     Option.bind (dec_field (dec_ptr dec_string []) None ''description'' ms) (\<lambda>x5.
     Option.bind (dec_field (dec_ptr dec_bool False) None ''active'' ms) (\<lambda>x6.
     Option.bind (dec_field (dec_ptr dec_string []) None ''application_type'' ms) (\<lambda>x7.
     Option.bind (dec_field (dec_ptr dec_string []) None ''integration_type'' ms) (\<lambda>x8.
     Option.bind (dec_field (dec_slice dec_string []) None ''scopes'' ms) (\<lambda>x9.
     Option.bind (dec_field (dec_slice dec_string []) None ''grant_types'' ms) (\<lambda>x10.
     Option.bind (dec_field (dec_ptr dec_string []) None ''token_endpoint_auth_method'' ms) (\<lambda>x11.
     Option.bind (dec_field (dec_ptr dec_int 0) None ''refresh_token_lifetime'' ms) (\<lambda>x12.
     Option.bind (dec_field (dec_ptr dec_string []) None ''refresh_token_usage'' ms) (\<lambda>x13.
     Option.bind (dec_field (dec_ptr dec_int 0) None ''access_token_lifetime'' ms) (\<lambda>x14.
     Option.bind (dec_field (dec_ptr dec_int 0) None ''authorization_lifetime'' ms) (\<lambda>x15.
     Option.bind (dec_field (dec_ptr dec_string []) None ''logo_uri'' ms) (\<lambda>x16.
     Option.bind (dec_field (dec_slice dec_string []) None ''redirect_uris'' ms) (\<lambda>x17.
     Option.bind (dec_field (dec_slice dec_string []) None ''post_logout_redirect_uris'' ms) (\<lambda>x18.
     Option.bind (dec_field (dec_ptr dec_bool False) None ''frontchannel_logout_session_required'' ms) (\<lambda>x19.
     Option.bind (dec_field (dec_ptr dec_string []) None ''frontchannel_logout_uri'' ms) (\<lambda>x20.
     Option.bind (dec_field (dec_ptr dec_bool False) None ''sso_disabled'' ms) (\<lambda>x21.
     Option.bind (dec_field (dec_ptr dec_string []) None ''code_challenge_method'' ms) (\<lambda>x22.
     Some \<lparr>ac_ClientId = x1, ac_ClientName = x2, ac_ClientOrgno = x3, ac_SupplierOrgno = x4,
       ac_Description = x5, ac_Active = x6, ac_ApplicationType = x7, ac_IntegrationType = x8,
       ac_Scopes = x9, ac_GrantTypes = x10, ac_TokenEndpointAuthMethod = x11,
       ac_RefreshTokenLifetime = x12, ac_RefreshTokenUsage = x13, ac_AccessTokenLifetime = x14,
       ac_AuthorizationLifetime = x15, ac_LogoUri = x16, ac_RedirectUris = x17,
       ac_PostLogoutRedirectUris = x18, ac_FrontchannelLogoutSessionRequired = x19,
       ac_FrontchannelLogoutUri = x20, ac_SsoDisabled = x21, ac_CodeChallengeMethod = x22\<rparr>))))))))))))))))))))))"

definition dec_add_client_request :: "add_client_request decoder" where
  "dec_add_client_request = dec_object (dec_add_client_request_members)"

definition enc_update_client_request :: "update_client_request \<Rightarrow> json" where
  "enc_update_client_request r = JObj (
     ptr_field ''client_id'' JStr (uc_ClientId r) @
     ptr_field ''client_name'' JStr (uc_ClientName r) @
     ptr_field ''client_orgno'' JStr (uc_ClientOrgno r) @
     ptr_field ''supplier_orgno'' JStr (uc_SupplierOrgno r) @
     ptr_field ''description'' JStr (uc_Description r) @
     ptr_field ''active'' JBool (uc_Active r) @
     ptr_field ''application_type'' JStr (uc_ApplicationType r) @
     ptr_field ''integration_type'' JStr (uc_IntegrationType r) @
     slice_field ''scopes'' JStr (uc_Scopes r) @
     slice_field ''grant_types'' JStr (uc_GrantTypes r) @
     ptr_field ''token_endpoint_auth_method'' JStr (uc_TokenEndpointAuthMethod r) @
     ptr_field ''refresh_token_lifetime'' enc_int (uc_RefreshTokenLifetime r) @
     ptr_field ''refresh_token_usage'' JStr (uc_RefreshTokenUsage r) @
     ptr_field ''access_token_lifetime'' enc_int (uc_AccessTokenLifetime r) @
     ptr_field ''authorization_lifetime'' enc_int (uc_AuthorizationLifetime r) @
     ptr_field ''logo_uri'' JStr (uc_LogoUri r) @
     slice_field ''redirect_uris'' JStr (uc_RedirectUris r) @
     slice_field ''post_logout_redirect_uris'' JStr (uc_PostLogoutRedirectUris r) @
     ptr_field ''frontchannel_logout_session_required'' JBool (uc_FrontchannelLogoutSessionRequired r) @
     ptr_field ''frontchannel_logout_uri'' JStr (uc_FrontchannelLogoutUri r) @
     ptr_field ''sso_disabled'' JBool (uc_SsoDisabled r) @
     ptr_field ''code_challenge_method'' JStr (uc_CodeChallengeMethod r))"

definition dec_update_client_request_members :: "(string \<times> json) list \<Rightarrow> update_client_request option" where
  "dec_update_client_request_members ms =
     Option.bind (dec_field (dec_ptr dec_string []) None ''client_id'' ms) (\<lambda>x1.
     Option.bind (dec_field (dec_ptr dec_string []) None ''client_name'' ms) (\<lambda>x2.
     Option.bind (dec_field (dec_ptr dec_string []) None ''client_orgno'' ms) (\<lambda>x3.
     Option.bind (dec_field (dec_ptr dec_string []) None ''supplier_orgno'' ms) (\<lambda>x4.
     Option.bind (dec_field (dec_ptr dec_string []) None ''description'' ms) (\<lambda>x5.
     Option.bind (dec_field (dec_ptr dec_bool False) None ''active'' ms) (\<lambda>x6.
     Option.bind (dec_field (dec_ptr dec_string []) None ''application_type'' ms) (\<lambda>x7.
     Option.bind (dec_field (dec_ptr dec_string []) None ''integration_type'' ms) (\<lambda>x8.
     Option.bind (dec_field (dec_slice dec_string []) None ''scopes'' ms) (\<lambda>x9.
     Option.bind (dec_field (dec_slice dec_string []) None ''grant_types'' ms) (\<lambda>x10.
     Option.bind (dec_field (dec_ptr dec_string []) None ''token_endpoint_auth_method'' ms) (\<lambda>x11.
     Option.bind (dec_field (dec_ptr dec_int 0) None ''refresh_token_lifetime'' ms) (\<lambda>x12.
     Option.bind (dec_field (dec_ptr dec_string []) None ''refresh_token_usage'' ms) (\<lambda>x13.
     Option.bind (dec_field (dec_ptr dec_int 0) None ''access_token_lifetime'' ms) (\<lambda>x14.
     Option.bind (dec_field (dec_ptr dec_int 0) None ''authorization_lifetime'' ms) (\<lambda>x15.
     Option.bind (dec_field (dec_ptr dec_string []) None ''logo_uri'' ms) (\<lambda>x16.
     Option.bind (dec_field (dec_slice dec_string []) None ''redirect_uris'' ms) (\<lambda>x17.
     Option.bind (dec_field (dec_slice dec_string []) None ''post_logout_redirect_uris'' ms) (\<lambda>x18.
     Option.bind (dec_field (dec_ptr dec_bool False) None ''frontchannel_logout_session_required'' ms) (\<lambda>x19.
     Option.bind (dec_field (dec_ptr dec_string []) None ''frontchannel_logout_uri'' ms) (\<lambda>x20.
     Option.bind (dec_field (dec_ptr dec_bool False) None ''sso_disabled'' ms) (\<lambda>x21.
     Option.bind (dec_field (dec_ptr dec_string []) None ''code_challenge_method'' ms) (\<lambda>x22.
     Some \<lparr>uc_ClientId = x1, uc_ClientName = x2, uc_ClientOrgno = x3, uc_SupplierOrgno = x4,
       uc_Description = x5, uc_Active = x6, uc_ApplicationType = x7, uc_IntegrationType = x8,
       uc_Scopes = x9, uc_GrantTypes = x10, uc_TokenEndpointAuthMethod = x11,
       uc_RefreshTokenLifetime = x12, uc_RefreshTokenUsage = x13, uc_AccessTokenLifetime = x14,
       uc_AuthorizationLifetime = x15, uc_LogoUri = x16, uc_RedirectUris = x17,
       uc_PostLogoutRedirectUris = x18, uc_FrontchannelLogoutSessionRequired = x19,
       uc_FrontchannelLogoutUri = x20, uc_SsoDisabled = x21, uc_CodeChallengeMethod = x22\<rparr>))))))))))))))))))))))"

definition dec_update_client_request :: "update_client_request decoder" where
  "dec_update_client_request = dec_object (dec_update_client_request_members)"

text \<open>The conversion between the two, \<open>ConvertAddRequestToUpdateRequest\<close> in \<open>client_state.go\<close>.\<close>

definition ConvertAddRequestToUpdateRequest :: "add_client_request \<Rightarrow> update_client_request" where
  "ConvertAddRequestToUpdateRequest req =
     \<lparr>uc_ClientId = ac_ClientId req,
      uc_ClientName = ac_ClientName req,
      uc_ClientOrgno = ac_ClientOrgno req,
      uc_SupplierOrgno = ac_SupplierOrgno req,
      uc_Description = ac_Description req,
      uc_Active = ac_Active req,
      uc_ApplicationType = ac_ApplicationType req,
      uc_IntegrationType = ac_IntegrationType req,
      uc_Scopes = ac_Scopes req,
      uc_GrantTypes = ac_GrantTypes req,
      uc_TokenEndpointAuthMethod = ac_TokenEndpointAuthMethod req,
      uc_RefreshTokenLifetime = ac_RefreshTokenLifetime req,
      uc_RefreshTokenUsage = ac_RefreshTokenUsage req,
      uc_AccessTokenLifetime = ac_AccessTokenLifetime req,
      uc_AuthorizationLifetime = ac_AuthorizationLifetime req,
      uc_LogoUri = ac_LogoUri req,
      uc_RedirectUris = ac_RedirectUris req,
      uc_PostLogoutRedirectUris = ac_PostLogoutRedirectUris req,
      uc_FrontchannelLogoutSessionRequired = ac_FrontchannelLogoutSessionRequired req,
      uc_FrontchannelLogoutUri = ac_FrontchannelLogoutUri req,
      uc_SsoDisabled = ac_SsoDisabled req,
      uc_CodeChallengeMethod = ac_CodeChallengeMethod req\<rparr>"


section \<open>Responses\<close>

record on_behalf_of =
  ob_OnBehalfOf :: "string option"
  ob_Name :: "string option"
  ob_Orgno :: "string option"
  ob_OrganizationName :: "string option"
  ob_Description :: "string option"
  ob_LogoUri :: "string option"
  ob_Created :: "time_text option"
  ob_LastUpdated :: "time_text option"

definition zero_on_behalf_of :: on_behalf_of where
  "zero_on_behalf_of = \<lparr>ob_OnBehalfOf = None, ob_Name = None, ob_Orgno = None,
       ob_OrganizationName = None, ob_Description = None, ob_LogoUri = None, ob_Created = None,
       ob_LastUpdated = None\<rparr>"

definition enc_on_behalf_of :: "on_behalf_of \<Rightarrow> json" where
  "enc_on_behalf_of r = JObj (
     ptr_field ''onbehalfof'' JStr (ob_OnBehalfOf r) @
     ptr_field ''name'' JStr (ob_Name r) @
     ptr_field ''orgno'' JStr (ob_Orgno r) @
     ptr_field ''organization_name'' JStr (ob_OrganizationName r) @
     ptr_field ''description'' JStr (ob_Description r) @
     ptr_field ''logo_uri'' JStr (ob_LogoUri r) @
     ptr_field ''created'' JStr (ob_Created r) @
     ptr_field ''last_updated'' JStr (ob_LastUpdated r))"

definition dec_on_behalf_of_members :: "(string \<times> json) list \<Rightarrow> on_behalf_of option" where
  "dec_on_behalf_of_members ms =
     Option.bind (dec_field (dec_ptr dec_string []) None ''onbehalfof'' ms) (\<lambda>x1.
     Option.bind (dec_field (dec_ptr dec_string []) None ''name'' ms) (\<lambda>x2.
     Option.bind (dec_field (dec_ptr dec_string []) None ''orgno'' ms) (\<lambda>x3.
     Option.bind (dec_field (dec_ptr dec_string []) None ''organization_name'' ms) (\<lambda>x4.
     Option.bind (dec_field (dec_ptr dec_string []) None ''description'' ms) (\<lambda>x5.
     Option.bind (dec_field (dec_ptr dec_string []) None ''logo_uri'' ms) (\<lambda>x6.
     Option.bind (dec_field (dec_ptr dec_time []) None ''created'' ms) (\<lambda>x7.
     Option.bind (dec_field (dec_ptr dec_time []) None ''last_updated'' ms) (\<lambda>x8.
     Some \<lparr>ob_OnBehalfOf = x1, ob_Name = x2, ob_Orgno = x3, ob_OrganizationName = x4,
       ob_Description = x5, ob_LogoUri = x6, ob_Created = x7, ob_LastUpdated = x8\<rparr>))))))))"

definition dec_on_behalf_of :: "on_behalf_of decoder" where
  "dec_on_behalf_of = dec_object (dec_on_behalf_of_members)"

record client_response =
  cr_ClientId :: string
  cr_ClientName :: "string option"
  cr_ClientOrgno :: "string option"
  cr_SupplierOrgno :: "string option"
  cr_Description :: "string option"
  cr_Active :: "bool option"
  cr_Created :: "time_text option"
  cr_LastUpdated :: "time_text option"
  cr_ApplicationType :: "application_type option"
  cr_IntegrationType :: "integration_type option"
  cr_Scopes :: "string slice"
  cr_GrantTypes :: "grant_type slice"
  cr_TokenEndpointAuthMethod :: "token_endpoint_auth_method option"
  cr_RefreshTokenLifetime :: "int option"
  cr_RefreshTokenUsage :: "refresh_token_usage option"
  cr_AccessTokenLifetime :: "int option"
  cr_AuthorizationLifetime :: "int option"
  cr_OnBehalfOf :: "on_behalf_of slice"
  cr_ClientSecret :: "string option"
  cr_Jwks :: "jwks option"
  cr_JwksUri :: "string option"
  cr_LogoUri :: "string option"
  cr_RedirectUris :: "string slice"
  cr_PostLogoutRedirectUris :: "string slice"
  cr_FrontchannelLogoutSessionRequired :: "bool option"
  cr_FrontchannelLogoutUri :: "string option"
  cr_SsoDisabled :: "bool option"
  cr_CodeChallengeMethod :: "code_challenge_method option"

definition zero_client_response :: client_response where
  "zero_client_response = \<lparr>cr_ClientId = [], cr_ClientName = None, cr_ClientOrgno = None,
       cr_SupplierOrgno = None, cr_Description = None, cr_Active = None, cr_Created = None,
       cr_LastUpdated = None, cr_ApplicationType = None, cr_IntegrationType = None,
       cr_Scopes = None, cr_GrantTypes = None, cr_TokenEndpointAuthMethod = None,
       cr_RefreshTokenLifetime = None, cr_RefreshTokenUsage = None, cr_AccessTokenLifetime = None,
       cr_AuthorizationLifetime = None, cr_OnBehalfOf = None, cr_ClientSecret = None,
       cr_Jwks = None, cr_JwksUri = None, cr_LogoUri = None, cr_RedirectUris = None,
       cr_PostLogoutRedirectUris = None, cr_FrontchannelLogoutSessionRequired = None,
       cr_FrontchannelLogoutUri = None, cr_SsoDisabled = None,
       cr_CodeChallengeMethod = None\<rparr>"

text \<open>The key set of a response is marshalled by go-jose, which may refuse it.\<close>

definition enc_jwks_field :: "jose_lib \<Rightarrow> jwks option \<Rightarrow> (string \<times> json) list outcome" where
  "enc_jwks_field J p = (case p of
       None \<Rightarrow> Ok []
     | Some ks \<Rightarrow> obind (enc_jwks J ks) (\<lambda>j. Ok [(''jwks'', j)]))"

definition enc_client_response :: "jose_lib \<Rightarrow> client_response \<Rightarrow> json outcome" where
  "enc_client_response J r = obind (enc_jwks_field J (cr_Jwks r)) (\<lambda>jwks_field. Ok (JObj (
     [(''client_id'', JStr (cr_ClientId r))] @
     ptr_field ''client_name'' JStr (cr_ClientName r) @
     ptr_field ''client_orgno'' JStr (cr_ClientOrgno r) @
     ptr_field ''supplier_orgno'' JStr (cr_SupplierOrgno r) @
     ptr_field ''description'' JStr (cr_Description r) @
     ptr_field ''active'' JBool (cr_Active r) @
     ptr_field ''created'' JStr (cr_Created r) @
     ptr_field ''last_updated'' JStr (cr_LastUpdated r) @
     ptr_field ''application_type'' JStr (cr_ApplicationType r) @
     ptr_field ''integration_type'' JStr (cr_IntegrationType r) @
     slice_field ''scopes'' JStr (cr_Scopes r) @
     slice_field ''grant_types'' JStr (cr_GrantTypes r) @
     ptr_field ''token_endpoint_auth_method'' JStr (cr_TokenEndpointAuthMethod r) @
     ptr_field ''refresh_token_lifetime'' enc_int (cr_RefreshTokenLifetime r) @
     ptr_field ''refresh_token_usage'' JStr (cr_RefreshTokenUsage r) @
     ptr_field ''access_token_lifetime'' enc_int (cr_AccessTokenLifetime r) @
     ptr_field ''authorization_lifetime'' enc_int (cr_AuthorizationLifetime r) @
     slice_field ''onbehalfof'' enc_on_behalf_of (cr_OnBehalfOf r) @
     ptr_field ''client_secret'' JStr (cr_ClientSecret r) @
     jwks_field @
     ptr_field ''jwks_uri'' JStr (cr_JwksUri r) @
     ptr_field ''logo_uri'' JStr (cr_LogoUri r) @
     slice_field ''redirect_uris'' JStr (cr_RedirectUris r) @
     slice_field ''post_logout_redirect_uris'' JStr (cr_PostLogoutRedirectUris r) @
     ptr_field ''frontchannel_logout_session_required'' JBool (cr_FrontchannelLogoutSessionRequired r) @
     ptr_field ''frontchannel_logout_uri'' JStr (cr_FrontchannelLogoutUri r) @
     ptr_field ''sso_disabled'' JBool (cr_SsoDisabled r) @
     ptr_field ''code_challenge_method'' JStr (cr_CodeChallengeMethod r))))"

definition dec_client_response_members :: "jose_lib \<Rightarrow> (string \<times> json) list \<Rightarrow> client_response option" where
  "dec_client_response_members J ms =
     Option.bind (dec_field dec_string [] ''client_id'' ms) (\<lambda>x1.
     Option.bind (dec_field (dec_ptr dec_string []) None ''client_name'' ms) (\<lambda>x2.
     Option.bind (dec_field (dec_ptr dec_string []) None ''client_orgno'' ms) (\<lambda>x3.
     Option.bind (dec_field (dec_ptr dec_string []) None ''supplier_orgno'' ms) (\<lambda>x4.
     Option.bind (dec_field (dec_ptr dec_string []) None ''description'' ms) (\<lambda>x5.
     Option.bind (dec_field (dec_ptr dec_bool False) None ''active'' ms) (\<lambda>x6.
     Option.bind (dec_field (dec_ptr dec_time []) None ''created'' ms) (\<lambda>x7.
     Option.bind (dec_field (dec_ptr dec_time []) None ''last_updated'' ms) (\<lambda>x8.
     Option.bind (dec_field (dec_ptr dec_string []) None ''application_type'' ms) (\<lambda>x9.
     Option.bind (dec_field (dec_ptr dec_string []) None ''integration_type'' ms) (\<lambda>x10.
     Option.bind (dec_field (dec_slice dec_string []) None ''scopes'' ms) (\<lambda>x11.
     Option.bind (dec_field (dec_slice dec_string []) None ''grant_types'' ms) (\<lambda>x12.
     Option.bind (dec_field (dec_ptr dec_string []) None ''token_endpoint_auth_method'' ms) (\<lambda>x13.
     Option.bind (dec_field (dec_ptr dec_int 0) None ''refresh_token_lifetime'' ms) (\<lambda>x14.
     Option.bind (dec_field (dec_ptr dec_string []) None ''refresh_token_usage'' ms) (\<lambda>x15.
     Option.bind (dec_field (dec_ptr dec_int 0) None ''access_token_lifetime'' ms) (\<lambda>x16.
     Option.bind (dec_field (dec_ptr dec_int 0) None ''authorization_lifetime'' ms) (\<lambda>x17.
     Option.bind (dec_field (dec_slice dec_on_behalf_of zero_on_behalf_of) None ''onbehalfof'' ms) (\<lambda>x18.
     Option.bind (dec_field (dec_ptr dec_string []) None ''client_secret'' ms) (\<lambda>x19.
     Option.bind (dec_field (dec_ptr (dec_jwks J) \<lparr>Keys = []\<rparr>) None ''jwks'' ms) (\<lambda>x20.
     Option.bind (dec_field (dec_ptr dec_string []) None ''jwks_uri'' ms) (\<lambda>x21.
     Option.bind (dec_field (dec_ptr dec_string []) None ''logo_uri'' ms) (\<lambda>x22.
     Option.bind (dec_field (dec_slice dec_string []) None ''redirect_uris'' ms) (\<lambda>x23.
     Option.bind (dec_field (dec_slice dec_string []) None ''post_logout_redirect_uris'' ms) (\<lambda>x24.
     Option.bind (dec_field (dec_ptr dec_bool False) None ''frontchannel_logout_session_required'' ms) (\<lambda>x25.
     Option.bind (dec_field (dec_ptr dec_string []) None ''frontchannel_logout_uri'' ms) (\<lambda>x26.
     Option.bind (dec_field (dec_ptr dec_bool False) None ''sso_disabled'' ms) (\<lambda>x27.
     Option.bind (dec_field (dec_ptr dec_string []) None ''code_challenge_method'' ms) (\<lambda>x28.
     Some \<lparr>cr_ClientId = x1, cr_ClientName = x2, cr_ClientOrgno = x3, cr_SupplierOrgno = x4,
       cr_Description = x5, cr_Active = x6, cr_Created = x7, cr_LastUpdated = x8,
       cr_ApplicationType = x9, cr_IntegrationType = x10, cr_Scopes = x11, cr_GrantTypes = x12,
       cr_TokenEndpointAuthMethod = x13, cr_RefreshTokenLifetime = x14, cr_RefreshTokenUsage = x15,
       cr_AccessTokenLifetime = x16, cr_AuthorizationLifetime = x17, cr_OnBehalfOf = x18,
       cr_ClientSecret = x19, cr_Jwks = x20, cr_JwksUri = x21, cr_LogoUri = x22,
       cr_RedirectUris = x23, cr_PostLogoutRedirectUris = x24,
       cr_FrontchannelLogoutSessionRequired = x25, cr_FrontchannelLogoutUri = x26,
       cr_SsoDisabled = x27, cr_CodeChallengeMethod = x28\<rparr>))))))))))))))))))))))))))))"

definition dec_client_response :: "jose_lib \<Rightarrow> client_response decoder" where
  "dec_client_response J = dec_object (dec_client_response_members J)"

text \<open>
  \<open>ApiError\<close> and \<open>ApiErrorResponse\<close>, the error bodies of the API. The client keeps an error body
  as text, so nothing decodes them.
\<close>

record api_error =
  ae_ErrorMessage :: "string option"
  ae_IsFieldError :: "bool option"
  ae_ObjectName :: "string option"
  ae_FieldIdentifier :: "string option"

record api_error_response =
  er_Status :: "int option"
  er_Timestamp :: "time_text option"
  er_CorrelationId :: "string option"
  er_Errors :: "api_error slice"
  er_Error :: "string option"
  er_ErrorDescription :: "string option"


section \<open>What the other side receives\<close>

definition sent_add_client_request :: "add_client_request \<Rightarrow> add_client_request" where
  "sent_add_client_request r = r\<lparr>ac_Scopes := omit_empty (ac_Scopes r),
       ac_GrantTypes := omit_empty (ac_GrantTypes r), ac_RedirectUris := omit_empty (ac_RedirectUris r), ac_PostLogoutRedirectUris := omit_empty (ac_PostLogoutRedirectUris r)\<rparr>"

definition add_client_request_ints_ok :: "add_client_request \<Rightarrow> bool" where
  "add_client_request_ints_ok r \<longleftrightarrow>
     (\<forall>i. ac_RefreshTokenLifetime r = Some i \<longrightarrow> in_int64 i) \<and>
     (\<forall>i. ac_AccessTokenLifetime r = Some i \<longrightarrow> in_int64 i) \<and>
     (\<forall>i. ac_AuthorizationLifetime r = Some i \<longrightarrow> in_int64 i)"

definition sent_update_client_request :: "update_client_request \<Rightarrow> update_client_request" where
  "sent_update_client_request r = r\<lparr>uc_Scopes := omit_empty (uc_Scopes r),
       uc_GrantTypes := omit_empty (uc_GrantTypes r), uc_RedirectUris := omit_empty (uc_RedirectUris r), uc_PostLogoutRedirectUris := omit_empty (uc_PostLogoutRedirectUris r)\<rparr>"

definition update_client_request_ints_ok :: "update_client_request \<Rightarrow> bool" where
  "update_client_request_ints_ok r \<longleftrightarrow>
     (\<forall>i. uc_RefreshTokenLifetime r = Some i \<longrightarrow> in_int64 i) \<and>
     (\<forall>i. uc_AccessTokenLifetime r = Some i \<longrightarrow> in_int64 i) \<and>
     (\<forall>i. uc_AuthorizationLifetime r = Some i \<longrightarrow> in_int64 i)"

definition sent_client_response :: "client_response \<Rightarrow> client_response" where
  "sent_client_response r = r\<lparr>cr_Scopes := omit_empty (cr_Scopes r),
       cr_GrantTypes := omit_empty (cr_GrantTypes r), cr_OnBehalfOf := omit_empty (cr_OnBehalfOf r), cr_RedirectUris := omit_empty (cr_RedirectUris r), cr_PostLogoutRedirectUris := omit_empty (cr_PostLogoutRedirectUris r)\<rparr>"

text \<open>The values that survive the codec: numbers in range, timestamps that parse.\<close>

definition on_behalf_of_ok :: "on_behalf_of \<Rightarrow> bool" where
  "on_behalf_of_ok r \<longleftrightarrow>
     (\<forall>t. ob_Created r = Some t \<longrightarrow> rfc3339_ok t) \<and> (\<forall>t. ob_LastUpdated r = Some t \<longrightarrow> rfc3339_ok t)"

definition client_response_ok :: "client_response \<Rightarrow> bool" where
  "client_response_ok r \<longleftrightarrow>
     (\<forall>i. cr_RefreshTokenLifetime r = Some i \<longrightarrow> in_int64 i) \<and>
     (\<forall>i. cr_AccessTokenLifetime r = Some i \<longrightarrow> in_int64 i) \<and>
     (\<forall>i. cr_AuthorizationLifetime r = Some i \<longrightarrow> in_int64 i) \<and>
     (\<forall>t. cr_Created r = Some t \<longrightarrow> rfc3339_ok t) \<and>
     (\<forall>t. cr_LastUpdated r = Some t \<longrightarrow> rfc3339_ok t) \<and>
     (\<forall>xs. cr_OnBehalfOf r = Some xs \<longrightarrow> (\<forall>x\<in>set xs. on_behalf_of_ok x))"

lemma field_names_simps [codec_simps]: "fold_name [] = []" "fold_name (c # cs) = fold_char c # fold_name cs"
  by (simp_all add: fold_name_def)

lemma enc_add_client_request_ok: "json_ok (enc_add_client_request r)"
  by (simp add: enc_add_client_request_def)

lemma enc_update_client_request_ok: "json_ok (enc_update_client_request r)"
  by (simp add: enc_update_client_request_def)

lemma fold_char_lower [codec_simps]:
  "fold_char c = (let n = (of_char c :: nat) in if 65 \<le> n \<and> n \<le> 90 then char_of (n + 32) else c)"
  by (rule fold_char_def)

text \<open>The names of the fields are their own folded forms, computed once.\<close>

lemma lower_names:
  "fold_name ''access_token_lifetime'' = ''access_token_lifetime''"
  "fold_name ''active'' = ''active''"
  "fold_name ''application_type'' = ''application_type''"
  "fold_name ''authorization_lifetime'' = ''authorization_lifetime''"
  "fold_name ''client_id'' = ''client_id''"
  "fold_name ''client_name'' = ''client_name''"
  "fold_name ''client_orgno'' = ''client_orgno''"
  "fold_name ''client_secret'' = ''client_secret''"
  "fold_name ''code_challenge_method'' = ''code_challenge_method''"
  "fold_name ''created'' = ''created''"
  "fold_name ''description'' = ''description''"
  "fold_name ''frontchannel_logout_session_required'' = ''frontchannel_logout_session_required''"
  "fold_name ''frontchannel_logout_uri'' = ''frontchannel_logout_uri''"
  "fold_name ''grant_types'' = ''grant_types''"
  "fold_name ''integration_type'' = ''integration_type''"
  "fold_name ''jwks'' = ''jwks''"
  "fold_name ''jwks_uri'' = ''jwks_uri''"
  "fold_name ''last_updated'' = ''last_updated''"
  "fold_name ''logo_uri'' = ''logo_uri''"
  "fold_name ''name'' = ''name''"
  "fold_name ''onbehalfof'' = ''onbehalfof''"
  "fold_name ''organization_name'' = ''organization_name''"
  "fold_name ''orgno'' = ''orgno''"
  "fold_name ''post_logout_redirect_uris'' = ''post_logout_redirect_uris''"
  "fold_name ''redirect_uris'' = ''redirect_uris''"
  "fold_name ''refresh_token_lifetime'' = ''refresh_token_lifetime''"
  "fold_name ''refresh_token_usage'' = ''refresh_token_usage''"
  "fold_name ''scopes'' = ''scopes''"
  "fold_name ''sso_disabled'' = ''sso_disabled''"
  "fold_name ''supplier_orgno'' = ''supplier_orgno''"
  "fold_name ''token_endpoint_auth_method'' = ''token_endpoint_auth_method''"
  by (simp_all add: field_names_simps fold_char_lower)

lemma add_client_request_roundtrip:
  assumes "add_client_request_ints_ok r"
  shows "dec_add_client_request z (enc_add_client_request r) = Some (sent_add_client_request r)"
  using assms
  by (simp add: dec_add_client_request_def dec_object_def enc_add_client_request_def
      dec_add_client_request_members_def dec_field_def codec_simps Let_def
      add_client_request_ints_ok_def sent_add_client_request_def lower_names
      del: field_names_simps fold_char_lower)

lemma update_client_request_roundtrip:
  assumes "update_client_request_ints_ok r"
  shows "dec_update_client_request z (enc_update_client_request r) = Some (sent_update_client_request r)"
  using assms
  by (simp add: dec_update_client_request_def dec_object_def enc_update_client_request_def
      dec_update_client_request_members_def dec_field_def codec_simps Let_def
      update_client_request_ints_ok_def sent_update_client_request_def lower_names
      del: field_names_simps fold_char_lower)

lemma on_behalf_of_roundtrip:
  assumes "on_behalf_of_ok r"
  shows "dec_on_behalf_of z (enc_on_behalf_of r) = Some r"
  using assms
  by (simp add: dec_on_behalf_of_def dec_object_def enc_on_behalf_of_def
      dec_on_behalf_of_members_def dec_field_def codec_simps Let_def on_behalf_of_ok_def)

lemma enc_on_behalf_of_ok: "json_ok (enc_on_behalf_of r)"
  by (simp add: enc_on_behalf_of_def)

lemma decodes_on_behalf_of [codec_simps]:
  "on_behalf_of_ok r \<Longrightarrow> decodes dec_on_behalf_of zero_on_behalf_of enc_on_behalf_of r"
  by (simp add: decodes_def on_behalf_of_roundtrip) (simp add: enc_on_behalf_of_def)

lemma client_response_roundtrip:
  assumes "client_response_ok r" and "cr_Jwks r = None" and "enc_client_response J r = Ok j"
  shows "dec_client_response J z j = Some (sent_client_response r) \<and> json_ok j"
proof
  have j: "JObj (
     [(''client_id'', JStr (cr_ClientId r))] @
     ptr_field ''client_name'' JStr (cr_ClientName r) @
     ptr_field ''client_orgno'' JStr (cr_ClientOrgno r) @
     ptr_field ''supplier_orgno'' JStr (cr_SupplierOrgno r) @
     ptr_field ''description'' JStr (cr_Description r) @
     ptr_field ''active'' JBool (cr_Active r) @
     ptr_field ''created'' JStr (cr_Created r) @
     ptr_field ''last_updated'' JStr (cr_LastUpdated r) @
     ptr_field ''application_type'' JStr (cr_ApplicationType r) @
     ptr_field ''integration_type'' JStr (cr_IntegrationType r) @
     slice_field ''scopes'' JStr (cr_Scopes r) @
     slice_field ''grant_types'' JStr (cr_GrantTypes r) @
     ptr_field ''token_endpoint_auth_method'' JStr (cr_TokenEndpointAuthMethod r) @
     ptr_field ''refresh_token_lifetime'' enc_int (cr_RefreshTokenLifetime r) @
     ptr_field ''refresh_token_usage'' JStr (cr_RefreshTokenUsage r) @
     ptr_field ''access_token_lifetime'' enc_int (cr_AccessTokenLifetime r) @
     ptr_field ''authorization_lifetime'' enc_int (cr_AuthorizationLifetime r) @
     slice_field ''onbehalfof'' enc_on_behalf_of (cr_OnBehalfOf r) @
     ptr_field ''client_secret'' JStr (cr_ClientSecret r) @
     ptr_field ''jwks_uri'' JStr (cr_JwksUri r) @
     ptr_field ''logo_uri'' JStr (cr_LogoUri r) @
     slice_field ''redirect_uris'' JStr (cr_RedirectUris r) @
     slice_field ''post_logout_redirect_uris'' JStr (cr_PostLogoutRedirectUris r) @
     ptr_field ''frontchannel_logout_session_required'' JBool (cr_FrontchannelLogoutSessionRequired r) @
     ptr_field ''frontchannel_logout_uri'' JStr (cr_FrontchannelLogoutUri r) @
     ptr_field ''sso_disabled'' JBool (cr_SsoDisabled r) @
     ptr_field ''code_challenge_method'' JStr (cr_CodeChallengeMethod r)) = j"
    using assms(2,3) by (simp add: enc_client_response_def enc_jwks_field_def)
  show "dec_client_response J z j = Some (sent_client_response r)"
    using assms(1,2) unfolding j [symmetric]
    by (simp add: dec_client_response_def dec_object_def
      dec_client_response_members_def dec_field_def codec_simps Let_def lower_names
      client_response_ok_def sent_client_response_def del: field_names_simps fold_char_lower)
      (cases r; simp add: dec_string_def)
  show "json_ok j"
    unfolding j [symmetric] by (simp add: enc_on_behalf_of_ok)
qed

end
