(* ===== verification/GoFlag.thy ===== *)
theory GoFlag
  imports ClientTypes
begin

text \<open>
  What the command line tool uses of Go's packages \<open>flag\<close> and \<open>time\<close>: parsing of flags, and of points
  in time in the layout \<open>RFC3339\<close>.
\<close>


section \<open>Flags\<close>

text \<open>
  \<open>FlagSet.Parse\<close> with \<open>ExitOnError\<close>. A flag is \<open>-name\<close> or \<open>--name\<close>, with or without \<open>=value\<close>; a
  string flag without one takes the next argument, and so does a flag whose own \<open>Set\<close> says what
  it accepts (\<open>VarFlag\<close>). Parsing ends at the first argument that is not
  a flag, or after \<open>--\<close>; the tools ignore what is left. \<open>Parsed\<close> holds the settings in order; a
  request for help ends the process with 0, an error with 2.
\<close>

datatype flag_kind = BoolFlag | StringFlag | VarFlag "string \<Rightarrow> bool"

datatype flag_value = FlagBool bool | FlagString string

datatype flag_result = Parsed "(string \<times> flag_value) list" | FlagHelp | FlagError

datatype flag_arg = NotFlag | BadSyntax | Flag string "string option"

definition split_flag :: "string \<Rightarrow> flag_arg" where
  "split_flag name =
     (let n = takeWhile (\<lambda>c. c \<noteq> CHR ''='') name
      in Flag n (if n = name then None else Some (drop (Suc (length n)) name)))"

definition read_flag :: "string \<Rightarrow> flag_arg" where
  "read_flag s =
     (if length s < 2 \<or> hd s \<noteq> CHR ''-'' \<or> s = ''--'' then NotFlag
      else
        let name = (if s ! 1 = CHR ''-'' then drop 2 s else drop 1 s)
        in if name = [] \<or> hd name = CHR ''-'' \<or> hd name = CHR ''='' then BadSyntax else split_flag name)"

definition ParseBool :: "string \<Rightarrow> bool option" where
  "ParseBool s =
     (if s \<in> {''1'', ''t'', ''T'', ''TRUE'', ''true'', ''True''} then Some True
      else if s \<in> {''0'', ''f'', ''F'', ''FALSE'', ''false'', ''False''} then Some False else None)"

fun parse_flags ::
  "(string \<rightharpoonup> flag_kind) \<Rightarrow> (string \<times> flag_value) list \<Rightarrow> string list \<Rightarrow> flag_result"
where
  "parse_flags formal acc [] = Parsed acc"
| "parse_flags formal acc (s # args) = (case read_flag s of
       NotFlag \<Rightarrow> Parsed acc
     | BadSyntax \<Rightarrow> FlagError
     | Flag name val \<Rightarrow> (case formal name of
           None \<Rightarrow> if name = ''help'' \<or> name = ''h'' then FlagHelp else FlagError
         | Some BoolFlag \<Rightarrow> (case ParseBool (case val of None \<Rightarrow> ''true'' | Some v \<Rightarrow> v) of
               None \<Rightarrow> FlagError
             | Some b \<Rightarrow> parse_flags formal (acc @ [(name, FlagBool b)]) args)
         | Some StringFlag \<Rightarrow> (case val of
               Some v \<Rightarrow> parse_flags formal (acc @ [(name, FlagString v)]) args
             | None \<Rightarrow> (case args of
                   [] \<Rightarrow> FlagError
                 | v # args' \<Rightarrow> parse_flags formal (acc @ [(name, FlagString v)]) args'))
         | Some (VarFlag accepts) \<Rightarrow> (case val of
               Some v \<Rightarrow> if accepts v then parse_flags formal (acc @ [(name, FlagString v)]) args else FlagError
             | None \<Rightarrow> (case args of
                   [] \<Rightarrow> FlagError
                 | v # args' \<Rightarrow> if accepts v then parse_flags formal (acc @ [(name, FlagString v)]) args'
                     else FlagError))))"

text \<open>The variable of a flag after parsing: the last setting, or its default.\<close>

definition string_flag :: "string \<Rightarrow> string \<Rightarrow> (string \<times> flag_value) list \<Rightarrow> string" where
  "string_flag name dflt vs = (case map_of (rev vs) name of Some (FlagString s) \<Rightarrow> s | _ \<Rightarrow> dflt)"

definition bool_flag :: "string \<Rightarrow> (string \<times> flag_value) list \<Rightarrow> bool" where
  "bool_flag name vs = (case map_of (rev vs) name of Some (FlagBool b) \<Rightarrow> b | _ \<Rightarrow> False)"

lemma flag_defaults [simp]: "string_flag name dflt [] = dflt" "bool_flag name [] = False"
  by (simp_all add: string_flag_def bool_flag_def)


section \<open>Points in time\<close>

text \<open>
  \<open>time.Parse\<close> with the layout \<open>2006-01-02T15:04:05Z07:00\<close>. It takes an hour of one digit, a fraction
  after a comma, of which nine digits count, and an offset of up to 24 hours and 60 minutes.
\<close>

definition days_before :: "int \<Rightarrow> nat \<Rightarrow> nat \<Rightarrow> int" where
  "days_before y m d = 365 * (y - 1) + (y - 1) div 4 - (y - 1) div 100 + (y - 1) div 400 +
     int (sum_list (map (days_in_month (nat y)) [1..<m])) + int d - 1"

fun parse_hour :: "string \<Rightarrow> (nat \<times> string) option" where
  "parse_hour (a # b # s) = (case digit_of a of
       None \<Rightarrow> None
     | Some x \<Rightarrow> (case digit_of b of None \<Rightarrow> Some (x, b # s) | Some y \<Rightarrow> Some (10 * x + y, s)))"
| "parse_hour s = None"

fun parse_fraction :: "string \<Rightarrow> int \<times> string" where
  "parse_fraction (p # d # s) =
     (if (p = CHR ''.'' \<or> p = CHR '','') \<and> is_digit d then
        let ds = takeWhile is_digit (d # s); n = take 9 ds
        in (int (the (digits_val 0 n)) * 10 ^ (9 - length n), dropWhile is_digit (d # s))
      else (0, p # d # s))"
| "parse_fraction s = (0, s)"

fun parse_zone :: "string \<Rightarrow> duration option" where
  "parse_zone [z] = (if z = CHR ''Z'' then Some 0 else None)"
| "parse_zone [s, h1, h2, c, m1, m2] = (case (two_digits h1 h2, two_digits m1 m2) of
       (Some h, Some m) \<Rightarrow>
         if c = CHR '':'' \<and> h \<le> 24 \<and> m \<le> 60 then
           (let offset = int (60 * h + m) * Minute
            in if s = CHR ''+'' then Some offset else if s = CHR ''-'' then Some (- offset) else None)
         else None
     | _ \<Rightarrow> None)"
| "parse_zone s = None"

fun parse_clock :: "string \<Rightarrow> (duration \<times> string) option" where
  "parse_clock s = (case parse_hour s of
       Some (h, c1 # m1 # m2 # c2 # s1 # s2 # rest) \<Rightarrow> (case (two_digits m1 m2, two_digits s1 s2) of
           (Some mi, Some se) \<Rightarrow>
             if c1 = CHR '':'' \<and> c2 = CHR '':'' \<and> h < 24 \<and> mi < 60 \<and> se < 60
             then (case parse_fraction rest of (ns, rest') \<Rightarrow>
                     Some (int h * Hour + int mi * Minute + int se * Second + ns, rest'))
             else None
         | _ \<Rightarrow> None)
     | _ \<Rightarrow> None)"

fun time_Parse :: "string \<Rightarrow> instant option" where
  "time_Parse (y1 # y2 # y3 # y4 # d1 # mo1 # mo2 # d2 # da1 # da2 # t # rest) =
     (case (digits_val 0 [y1, y2, y3, y4], two_digits mo1 mo2, two_digits da1 da2, parse_clock rest) of
        (Some y, Some mo, Some da, Some (day_time, zone)) \<Rightarrow>
          if d1 = CHR ''-'' \<and> d2 = CHR ''-'' \<and> t = CHR ''T'' \<and>
             1 \<le> mo \<and> mo \<le> 12 \<and> 1 \<le> da \<and> da \<le> days_in_month y mo
          then map_option (\<lambda>offset. days_before (int y) mo da * (24 * Hour) + day_time - offset) (parse_zone zone)
          else None
      | _ \<Rightarrow> None)"
| "time_Parse _ = None"

lemma time_Parse_examples:
  "time_Parse ''0001-01-01T00:00:00Z'' = Some 0"
  "time_Parse ''0001-01-01T01:00:00.5+01:00'' = Some 500000000"
  "time_Parse ''0001-02-29T00:00:00Z'' = None"
  by (simp_all add: digit_of_def is_digit_def two_digits_def days_in_month_def days_before_def time_units)

end
