(* ===== verification/GoProcess.thy ===== *)
theory GoProcess
  imports GoFlag
begin

text \<open>
  Programs that may end the process they run in. A \<open>process\<close> returns, exits with a code, or crashes;
  \<open>None\<close> is one that never ends. The three programs of the repository, the operator, the command
  line tool and the fakes, are of this kind.
\<close>

datatype 'a cli_result = Returned 'a | Exited nat | Crashed go_panic

type_synonym ('s, 'a) process = "'s \<Rightarrow> ('a cli_result \<times> 's) option"

definition cli_ret :: "'a \<Rightarrow> ('s, 'a) process" where
  "cli_ret x s = Some (Returned x, s)"

definition cli_bind :: "('s, 'a) process \<Rightarrow> ('a \<Rightarrow> ('s, 'b) process) \<Rightarrow> ('s, 'b) process" where
  "cli_bind m f s = (case m s of
       None \<Rightarrow> None
     | Some (Returned x, s1) \<Rightarrow> f x s1
     | Some (Exited n, s1) \<Rightarrow> Some (Exited n, s1)
     | Some (Crashed p, s1) \<Rightarrow> Some (Crashed p, s1))"

definition os_Exit :: "nat \<Rightarrow> ('s, 'a) process" where
  "os_Exit code s = Some (Exited code, s)"

definition cli_crash :: "go_panic \<Rightarrow> ('s, 'a) process" where
  "cli_crash p s = Some (Crashed p, s)"

text \<open>A call whose error ends the process with 1, and parsing the flags, which ends it as well.\<close>

definition or_exit :: "'a outcome \<Rightarrow> ('s, 'a) process" where
  "or_exit r s = Some (case r of Ok x \<Rightarrow> Returned x | Err e \<Rightarrow> Exited 1 | Panic p \<Rightarrow> Crashed p, s)"

definition parse_or_exit :: "(string \<rightharpoonup> flag_kind) \<Rightarrow> string list \<Rightarrow> ('s, (string \<times> flag_value) list) process" where
  "parse_or_exit formal args = (case parse_flags formal [] args of
       Parsed vs \<Rightarrow> cli_ret vs
     | FlagHelp \<Rightarrow> os_Exit 0
     | FlagError \<Rightarrow> os_Exit 2)"

text \<open>
  \<open>defer\<close>: what was deferred runs when the function returns or panics, and not when the process
  ends by \<open>os.Exit\<close> or \<open>log.Fatal\<close>.
\<close>

fun fatal_exit :: "'a cli_result \<Rightarrow> bool" where
  "fatal_exit (Exited n) = True"
| "fatal_exit (Crashed (FatalExit msg)) = True"
| "fatal_exit r = False"

definition deferring :: "('s \<Rightarrow> 's) \<Rightarrow> ('s, 'a) process \<Rightarrow> ('s, 'a) process" where
  "deferring d m s = (case m s of
       None \<Rightarrow> None
     | Some (r, s1) \<Rightarrow> Some (r, if fatal_exit r then s1 else d s1))"

lemma cli_bind_Some_iff:
  "cli_bind m f s = Some (r, s') \<longleftrightarrow>
     (\<exists>x s1. m s = Some (Returned x, s1) \<and> f x s1 = Some (r, s')) \<or>
     (\<exists>n. m s = Some (Exited n, s') \<and> r = Exited n) \<or>
     (\<exists>p. m s = Some (Crashed p, s') \<and> r = Crashed p)"
  by (auto simp: cli_bind_def split: option.splits prod.splits cli_result.splits)

lemma cli_bind_Returned:
  "cli_bind m f s = Some (Returned y, s') \<longleftrightarrow> (\<exists>x s1. m s = Some (Returned x, s1) \<and> f x s1 = Some (Returned y, s'))"
  by (auto simp: cli_bind_def split: option.splits prod.splits cli_result.splits)

lemma cli_Returned_simps [simp]:
  "cli_ret x s = Some (Returned y, s') \<longleftrightarrow> y = x \<and> s' = s"
  "os_Exit n s \<noteq> Some (Returned y, s')"
  "or_exit r s = Some (Returned y, s') \<longleftrightarrow> r = Ok y \<and> s' = s"
  by (auto simp: cli_ret_def os_Exit_def or_exit_def split: outcome.splits)

lemma parse_or_exit_Returned:
  "parse_or_exit formal args s = Some (Returned fs, s') \<longleftrightarrow> parse_flags formal [] args = Parsed fs \<and> s' = s"
  by (auto simp: parse_or_exit_def split: flag_result.splits)

text \<open>A part of the state that a process leaves alone, however it ends.\<close>

definition process_keeps :: "('s \<Rightarrow> 'b) \<Rightarrow> ('s, 'a) process \<Rightarrow> bool" where
  "process_keeps f m \<longleftrightarrow> (\<forall>s r s'. m s = Some (r, s') \<longrightarrow> f s' = f s)"

lemma process_keeps_bind [keeps_intros]:
  assumes "process_keeps f m" and "\<And>x. process_keeps f (g x)"
  shows "process_keeps f (cli_bind m g)"
  unfolding process_keeps_def
proof (intro allI impI)
  fix s r s' assume "cli_bind m g s = Some (r, s')"
  with assms show "f s' = f s" by (fastforce simp: cli_bind_Some_iff process_keeps_def)
qed

lemma process_keepsD: "process_keeps f m \<Longrightarrow> m s = Some (r, s') \<Longrightarrow> f s' = f s"
  by (auto simp: process_keeps_def)

definition exits_with :: "nat set \<Rightarrow> ('s, 'a) process \<Rightarrow> bool" where
  "exits_with N m \<longleftrightarrow> (\<forall>s n s'. m s = Some (Exited n, s') \<longrightarrow> n \<in> N)"

lemma exits_with_bind [keeps_intros]:
  assumes "exits_with N m" and "\<And>x. exits_with N (g x)"
  shows "exits_with N (cli_bind m g)"
  using assms by (fastforce simp: exits_with_def cli_bind_Some_iff)

lemma exits_withD: "exits_with N m \<Longrightarrow> m s = Some (Exited n, s') \<Longrightarrow> n \<in> N"
  by (auto simp: exits_with_def)

end
