(* ===== verification/Telemetry.thy ===== *)
theory Telemetry
  imports Prelude
begin

text \<open>
  The set-up of OpenTelemetry, \<open>internal/telemetry/telemetry.go\<close>. Its globals and the variable
  \<open>shutdownFuncs\<close>, which the returned function shares with \<open>ConfigureOTel\<close>, are the state; making an
  exporter and shutting a provider down are calls of libraries on the outside world.
\<close>

definition ServiceName :: string where "ServiceName = ''altinn-k8s-operator''"

record ('e, 'r) otel_provider =
  pv_exporter :: 'e
  pv_interval :: duration
  pv_resource :: 'r

datatype ('e, 'r) shutdown_func =
    TracerProvider_Shutdown "('e, 'r) otel_provider"
  | MeterProvider_Shutdown "('e, 'r) otel_provider"

record ('e, 'r, 'w) otel_lib =
  resource_New :: "string \<Rightarrow> ('w, 'r) prog"
  otlptracegrpc_New :: "('w, 'e) prog"
  otlpmetricgrpc_New :: "('w, 'e) prog"
  provider_Shutdown :: "('e, 'r) shutdown_func \<Rightarrow> 'w \<Rightarrow> go_error option \<times> 'w"

record ('e, 'r, 'w) telemetry =
  textMapPropagator :: "string list"
  tracerProvider :: "('e, 'r) otel_provider option"
  meterProvider :: "('e, 'r) otel_provider option"
  shutdownFuncs :: "('e, 'r) shutdown_func list"
  otel_world :: 'w

definition in_otel_world :: "('w, 'a) prog \<Rightarrow> (('e, 'r, 'w) telemetry, 'a) prog" where
  "in_otel_world = on_part otel_world (\<lambda>w t. t\<lparr>otel_world := w\<rparr>)"

definition set_otel :: "(('e, 'r, 'w) telemetry \<Rightarrow> ('e, 'r, 'w) telemetry) \<Rightarrow> (('e, 'r, 'w) telemetry, unit) prog" where
  "set_otel f = (\<lambda>t. (Ok (), f t))"

definition newPropagator :: "string list" where
  "newPropagator = [''TraceContext'', ''Baggage'']"

definition newTraceProvider :: "('e, 'r, 'w) otel_lib \<Rightarrow> 'r \<Rightarrow> (('e, 'r, 'w) telemetry, ('e, 'r) otel_provider) prog" where
  "newTraceProvider L res = bind (in_otel_world (otlptracegrpc_New L)) (\<lambda>traceExporter.
     ret \<lparr>pv_exporter = traceExporter, pv_interval = Second, pv_resource = res\<rparr>)"

definition newMeterProvider :: "('e, 'r, 'w) otel_lib \<Rightarrow> 'r \<Rightarrow> (('e, 'r, 'w) telemetry, ('e, 'r) otel_provider) prog" where
  "newMeterProvider L res = bind (in_otel_world (otlpmetricgrpc_New L)) (\<lambda>metricExporter.
     ret \<lparr>pv_exporter = metricExporter, pv_interval = 5 * Second, pv_resource = res\<rparr>)"

text \<open>The function \<open>shutdown\<close>: every function that was registered is called, and forgotten.\<close>

fun call_shutdown_funcs ::
  "('e, 'r, 'w) otel_lib \<Rightarrow> go_error option \<Rightarrow> ('e, 'r) shutdown_func list \<Rightarrow> 'w \<Rightarrow> go_error option \<times> 'w"
where
  "call_shutdown_funcs L err [] w = (err, w)"
| "call_shutdown_funcs L err (fn # fns) w =
     (case provider_Shutdown L fn w of (e, w1) \<Rightarrow> call_shutdown_funcs L (errors_Join [err, e]) fns w1)"

definition otel_shutdown ::
  "('e, 'r, 'w) otel_lib \<Rightarrow> ('e, 'r, 'w) telemetry \<Rightarrow> go_error option \<times> ('e, 'r, 'w) telemetry"
where
  "otel_shutdown L t = (case call_shutdown_funcs L None (shutdownFuncs t) (otel_world t) of
       (err, w) \<Rightarrow> (err, t\<lparr>shutdownFuncs := [], otel_world := w\<rparr>))"

definition handleErr :: "('e, 'r, 'w) otel_lib \<Rightarrow> go_error \<Rightarrow> (('e, 'r, 'w) telemetry, go_error option) prog" where
  "handleErr L inErr = (\<lambda>t. case otel_shutdown L t of (e, t1) \<Rightarrow> (Ok (errors_Join [Some inErr, e]), t1))"

text \<open>
  \<open>ConfigureOTel\<close> returns whether its first result is a function, which is then \<open>otel_shutdown\<close>, and its
  error. The error variable that \<open>handleErr\<close> sets is the result itself.
\<close>

definition ConfigureOTel :: "('e, 'r, 'w) otel_lib \<Rightarrow> (('e, 'r, 'w) telemetry, bool \<times> go_error option) prog" where
  "ConfigureOTel L =
     bind (set_otel (\<lambda>t. t\<lparr>shutdownFuncs := []\<rparr>)) (\<lambda>_.
     bind (attempt (in_otel_world (resource_New L ServiceName))) (\<lambda>res. case res of
         Inl err \<Rightarrow> ret (False, Some (ErrWrap ''failed to create resource'' err))
       | Inr res \<Rightarrow>
           bind (set_otel (\<lambda>t. t\<lparr>textMapPropagator := newPropagator\<rparr>)) (\<lambda>_.
           bind (attempt (newTraceProvider L res)) (\<lambda>tp. case tp of
               Inl err \<Rightarrow> bind (handleErr L err) (\<lambda>err. ret (True, err))
             | Inr tp \<Rightarrow>
                 bind (set_otel (\<lambda>t. t\<lparr>shutdownFuncs := shutdownFuncs t @ [TracerProvider_Shutdown tp],
                                       tracerProvider := Some tp\<rparr>)) (\<lambda>_.
                 bind (attempt (newMeterProvider L res)) (\<lambda>mp. case mp of
                     Inl err \<Rightarrow> bind (handleErr L err) (\<lambda>err. ret (True, err))
                   | Inr mp \<Rightarrow>
                       bind (set_otel (\<lambda>t. t\<lparr>shutdownFuncs := shutdownFuncs t @ [MeterProvider_Shutdown mp],
                                             meterProvider := Some mp\<rparr>)) (\<lambda>_.
                       ret (True, None))))))))"

text \<open>\<open>WrapTransport\<close>, on what Kubernetes' client makes of a wrapper.\<close>

definition WrapTransport :: "(('t \<Rightarrow> 't) \<Rightarrow> 'c \<Rightarrow> 'c) \<Rightarrow> ('t \<Rightarrow> 't) \<Rightarrow> 'c \<Rightarrow> 'c" where
  "WrapTransport config_Wrap otelhttp_NewTransport config = config_Wrap (\<lambda>rt. otelhttp_NewTransport rt) config"

end
