(* ===== verification/Crypto.thy ===== *)
theory Crypto
  imports Jwk OperatorContext "HOL-Library.Word"
begin

text \<open>
  \<open>internal/crypto/crypto.go\<close>: the service that creates the operator's key sets and rotates
  them. A key set holds the current key first and, after a rotation, the key it replaced; each
  key carries one self-signed certificate, whose \<open>NotAfter\<close> decides when to rotate, and a key id
  \<open>uuid.n\<close> whose last part counts rotations.

  What reads the random source is a field of \<open>random_source\<close>: \<open>rsa.GenerateKey\<close>, a full read of
  16 bytes, \<open>uuid.NewRandomFromReader\<close>, and the signing step of \<open>x509.CreateCertificate\<close>, of
  which only success or failure matters here.
\<close>

record 'w random_source =
  rsa_GenerateKey :: "int \<Rightarrow> ('w, rsa_private) prog"
  random_ReadFull :: "nat \<Rightarrow> ('w, 8 word list) prog"
  uuid_NewRandomFromReader :: "('w, string) prog"
  x509_sign :: "certificate \<Rightarrow> rsa_private \<Rightarrow> ('w, unit) prog"

record 'w crypto_service =
  cs_ctx :: op_context
  cs_clock :: "'w clock"
  cs_random :: "'w random_source"
  cs_signatureAlgo :: string
  cs_x509SignatureAlgo :: x509_algorithm
  cs_keySizeBits :: int


section \<open>Signature algorithms and the service\<close>

definition DefaultX509SignatureAlgo :: x509_algorithm where
  "DefaultX509SignatureAlgo = SHA512WithRSA"

definition DefaultKeySizeBits :: int where
  "DefaultKeySizeBits = 4096"

fun signatureAlgorithmFromX509 :: "x509_algorithm \<Rightarrow> string \<times> bool" where
  "signatureAlgorithmFromX509 SHA256WithRSA = (''RS256'', True)"
| "signatureAlgorithmFromX509 SHA384WithRSA = (''RS384'', True)"
| "signatureAlgorithmFromX509 SHA512WithRSA = (''RS512'', True)"
| "signatureAlgorithmFromX509 SHA256WithRSAPSS = (''PS256'', True)"
| "signatureAlgorithmFromX509 SHA384WithRSAPSS = (''PS384'', True)"
| "signatureAlgorithmFromX509 SHA512WithRSAPSS = (''PS512'', True)"
| "signatureAlgorithmFromX509 _ = ([], False)"

definition SignatureAlgorithmNameFromX509 :: "x509_algorithm \<Rightarrow> string \<times> bool" where
  "SignatureAlgorithmNameFromX509 algo = (case signatureAlgorithmFromX509 algo of
       (name, ok) \<Rightarrow> if \<not> ok then ([], False) else (name, True))"

definition DefaultSignatureAlgorithmName :: "('w, string) prog" where
  "DefaultSignatureAlgorithmName =
     (case SignatureAlgorithmNameFromX509 DefaultX509SignatureAlgo of (name, ok) \<Rightarrow>
        bind (AssertWith ok
                ''default x509 signature algorithm must map to a JOSE signature algorithm'')
          (\<lambda>_. ret name))"

definition NewService ::
  "op_context \<Rightarrow> 'w clock \<Rightarrow> 'w random_source \<Rightarrow> x509_algorithm \<Rightarrow> int \<Rightarrow> ('w, 'w crypto_service) prog"
where
  "NewService ctx clock random x509SignatureAlgo keySizeBits =
     bind (AssertWith (x509SignatureAlgo \<noteq> UnknownSignatureAlgorithm)
             ''x509 signature algorithm must be provided'') (\<lambda>_.
     bind (AssertWith (0 < keySizeBits) ''key size in bits must be positive'') (\<lambda>_.
     case signatureAlgorithmFromX509 x509SignatureAlgo of (signatureAlgo, ok) \<Rightarrow>
     bind (AssertWith ok ''unsupported x509 signature algorithm: %v'') (\<lambda>_.
     ret \<lparr>cs_ctx = ctx, cs_clock = clock, cs_random = random, cs_signatureAlgo = signatureAlgo,
          cs_x509SignatureAlgo = x509SignatureAlgo, cs_keySizeBits = keySizeBits\<rparr>)))"

definition NewDefaultService ::
  "op_context \<Rightarrow> 'w clock \<Rightarrow> 'w random_source \<Rightarrow> ('w, 'w crypto_service) prog"
where
  "NewDefaultService ctx clock random =
     NewService ctx clock random DefaultX509SignatureAlgo DefaultKeySizeBits"

text \<open>The default service always comes up, with RS512 as its signing algorithm.\<close>

lemma NewDefaultService_eq:
  "NewDefaultService ctx clock random =
     ret \<lparr>cs_ctx = ctx, cs_clock = clock, cs_random = random, cs_signatureAlgo = ''RS512'',
          cs_x509SignatureAlgo = SHA512WithRSA, cs_keySizeBits = 4096\<rparr>"
  by (rule ext) (simp add: NewDefaultService_def NewService_def DefaultX509SignatureAlgo_def
      DefaultKeySizeBits_def)


section \<open>Certificates\<close>

text \<open>\<open>big.Int.SetBytes\<close> reads its bytes as an unsigned big-endian number.\<close>

definition SetBytes :: "8 word list \<Rightarrow> int" where
  "SetBytes bs = foldl (\<lambda>acc b. acc * 256 + uint b) 0 bs"

definition generateCertSerialNumber :: "'w crypto_service \<Rightarrow> ('w, int) prog" where
  "generateCertSerialNumber s =
     bind (random_ReadFull (cs_random s) 16) (\<lambda>serialBytes.
     bind (AssertWith (length serialBytes = 16)
             ''Read should always fill slice when err is nil'') (\<lambda>_.
     let serial = SetBytes serialBytes in
     bind (AssertWith (sgn serial \<noteq> - 1)
             ''SetBytes should treat bytes as an unsigned integer'') (\<lambda>_.
     ret serial)))"

definition getIssuer :: pkix_name where
  "getIssuer = \<lparr>Organization = [''Digdir''], CommonName = ''Altinn Operator''\<rparr>"

text \<open>
  \<open>x509.CreateCertificate\<close> followed by \<open>x509.ParseCertificate\<close>: the issuer of the result is the
  subject of the parent certificate (the template's own issuer is not used), its times have
  whole seconds, and a negative serial number is refused.
\<close>

definition whole_seconds :: "instant \<Rightarrow> instant" where
  "whole_seconds t = t - t mod Second"

definition x509_CreateCertificate ::
  "'w random_source \<Rightarrow> certificate \<Rightarrow> certificate \<Rightarrow> rsa_public \<Rightarrow> rsa_private \<Rightarrow> ('w, certificate) prog"
where
  "x509_CreateCertificate random template parent pub priv =
     (if SerialNumber template < 0 then fail (ErrorNew ''x509: serial number must be positive'')
      else
        let cert = template\<lparr>Issuer := Subject parent,
                            NotBefore := whole_seconds (NotBefore template),
                            NotAfter := whole_seconds (NotAfter template),
                            CertPublicKey := Some pub\<rparr>
        in bind (x509_sign random cert priv) (\<lambda>_. ret cert))"

definition createCert ::
  "'w crypto_service \<Rightarrow> string \<Rightarrow> instant \<Rightarrow> ('w, certificate \<times> rsa_private) prog"
where
  "createCert s certCommonName notAfter =
     bind (wrapping ''error generating RSA key for jwks''
             (rsa_GenerateKey (cs_random s) (cs_keySizeBits s))) (\<lambda>rsaKey.
     bind (wrapping ''error generating serial number for jwks''
             (generateCertSerialNumber s)) (\<lambda>serial.
     bind (reading (cs_clock s)) (\<lambda>now.
     if now = notAfter \<or> notAfter < now then
       fail (Errorf ''notAfter (%s) must be after current time (%s)'' [itoa notAfter, itoa now])
     else
       let certTemplate = \<lparr>SerialNumber = serial,
             Subject = \<lparr>Organization = [ServiceOwnerName (cs_ctx s)], CommonName = certCommonName\<rparr>,
             Issuer = getIssuer,
             NotBefore = now,
             NotAfter = notAfter,
             KeyUsage = [KeyUsageKeyEncipherment, KeyUsageDigitalSignature],
             ExtKeyUsage = [ExtKeyUsageServerAuth],
             BasicConstraintsValid = True,
             SignatureAlgorithm = cs_x509SignatureAlgo s,
             CertPublicKey = None\<rparr>
       in bind (wrapping ''error generating cert for jwks''
             (x509_CreateCertificate (cs_random s) certTemplate certTemplate
                (PublicKey rsaKey) rsaKey)) (\<lambda>cert.
       ret (cert, rsaKey)))))"


section \<open>Creating a key set\<close>

definition createJWKS ::
  "'w crypto_service \<Rightarrow> certificate \<Rightarrow> rsa_private \<Rightarrow> int \<Rightarrow> ('w, jwks) prog"
where
  "createJWKS s cert rsaKey idx =
     bind (uuid_NewRandomFromReader (cs_random s)) (\<lambda>id.
     let keyId = id @ ''.'' @ itoa idx in
     ret (NewJwks [Some (NewJwk [cert] rsaKey keyId ''sig'' (cs_signatureAlgo s))]))"

definition CreateJwks :: "'w crypto_service \<Rightarrow> string \<Rightarrow> instant \<Rightarrow> ('w, jwks) prog" where
  "CreateJwks s certCommonName notAfter =
     bind (wrapping ''error creating JWKS cert'' (createCert s certCommonName notAfter))
       (\<lambda>(cert, rsaKey). createJWKS s cert rsaKey 0)"


section \<open>Rotating a key set\<close>

text \<open>
  The loop of \<open>RotateIfNeeded\<close> over the keys: each key must carry exactly one certificate; the
  active key is the first of those whose certificate expires last. The key id in an error
  message is read through the pointer, so a \<open>nil\<close> key panics there.
\<close>

definition certificate_count_error :: "jwk_ptr \<Rightarrow> 'a outcome" where
  "certificate_count_error key = obind (Jwk_KeyID key) (\<lambda>keyId.
     Err (Errorf ''unexpected number of certificates for key %s: %d''
            [keyId, itoa (int (length (Jwk_Certificates key)))]))"

fun active_key_loop :: "jwk_ptr \<Rightarrow> jwk_ptr list \<Rightarrow> jwk_ptr outcome" where
  "active_key_loop activeKey [] = Ok activeKey"
| "active_key_loop activeKey (key # keys) = (case activeKey of
       None \<Rightarrow>
         if length (Jwk_Certificates key) \<noteq> 1 then certificate_count_error key
         else active_key_loop key keys
     | Some a \<Rightarrow>
         if length (Jwk_Certificates key) \<noteq> 1 then certificate_count_error key
         else obind (index (Jwk_Certificates key) 0) (\<lambda>cert.
              obind (index (Jwk_Certificates activeKey) 0) (\<lambda>activeCert.
              active_key_loop (if NotAfter activeCert < NotAfter cert then key else activeKey) keys)))"

text \<open>Addition on Go's \<open>int\<close> wraps around at 64 bits.\<close>

definition wrap64 :: "int \<Rightarrow> int" where
  "wrap64 i = (i + 2 ^ 63) mod 2 ^ 64 - 2 ^ 63"

definition rotation_window :: duration where
  "rotation_window = Hour * 24 * 7"

definition RotateIfNeeded ::
  "'w crypto_service \<Rightarrow> string \<Rightarrow> instant \<Rightarrow> jwks option \<Rightarrow> ('w, jwks option) prog"
where
  "RotateIfNeeded s certCommonName notAfter currentJwks = (case currentJwks of
       None \<Rightarrow> fail (ErrorNew ''cant rotate cert for JWKS, JWKS was null'')
     | Some ks \<Rightarrow>
         bind (lift (active_key_loop None (Keys ks))) (\<lambda>activeKey.
         bind (reading (cs_clock s)) (\<lambda>now.
         let rotationThreshold = now + rotation_window in
         bind (lift (index (Jwk_Certificates activeKey) 0)) (\<lambda>activeCert.
         if rotationThreshold < NotAfter activeCert then ret None
         else
           bind (lift (Jwk_KeyID activeKey)) (\<lambda>keyId.
           let keyParts = split_on CHR ''.'' keyId; currentIndexStr = last keyParts in
           (case atoi currentIndexStr of
              None \<Rightarrow> fail (Errorf ''invalid key format: %s'' [keyId])
            | Some currentIndex \<Rightarrow>
                bind (wrapping ''error creating JWKS cert''
                        (createCert s certCommonName notAfter)) (\<lambda>(cert, rsaKey).
                bind (createJWKS s cert rsaKey (wrap64 (currentIndex + 1))) (\<lambda>newJwks.
                ret (Some (newJwks\<lparr>Keys := Keys newJwks @ [activeKey]\<rparr>))))))))))"


section \<open>Serial numbers and certificates\<close>

lemma SetBytes_bounds: "0 \<le> SetBytes bs \<and> SetBytes bs < 256 ^ length bs"
proof (induction bs rule: rev_induct)
  case Nil
  then show ?case by (simp add: SetBytes_def)
next
  case (snoc b bs)
  have "0 \<le> uint b" and "uint b < 256"
    using uint_lt2p [of b] by simp_all
  with snoc have "SetBytes bs * 256 + uint b < (SetBytes bs + 1) * 256" and "SetBytes bs + 1 \<le> 256 ^ length bs"
    by simp_all
  then have "SetBytes bs * 256 + uint b < 256 ^ length bs * 256"
    by (smt (verit) mult_right_mono)
  with snoc \<open>0 \<le> uint b\<close> show ?case by (simp add: SetBytes_def)
qed

lemma generateCertSerialNumber_cases:
  assumes "generateCertSerialNumber s w = (Ok serial, w1)"
  shows "0 \<le> serial" and "serial < 2 ^ 128"
proof -
  obtain bs where "length bs = 16" and "serial = SetBytes bs"
    using assms
    by (auto simp: generateCertSerialNumber_def bind_eq_Ok_iff AssertWith_def Let_def split: if_splits)
  with SetBytes_bounds [of bs] show "0 \<le> serial" and "serial < 2 ^ 128" by simp_all
qed

lemma createCert_Ok:
  assumes "createCert s cn notAfter w = (Ok (cert, key), w')"
  shows "Subject cert = \<lparr>Organization = [ServiceOwnerName (cs_ctx s)], CommonName = cn\<rparr>"
    and "Issuer cert = Subject cert"
    and "NotAfter cert = whole_seconds notAfter"
    and "CertPublicKey cert = Some (PublicKey key)"
    and "SignatureAlgorithm cert = cs_x509SignatureAlgo s"
    and "0 \<le> SerialNumber cert" and "SerialNumber cert < 2 ^ 128"
  using assms generateCertSerialNumber_cases
  by (auto simp: createCert_def x509_CreateCertificate_def bind_eq_Ok_iff Let_def split: if_splits)

lemma createCert_future:
  assumes "createCert s cn notAfter w = (Ok r, w')"
  shows "\<exists>w1. fst (cs_clock s w1) < notAfter"
  using assms
  by (auto simp: createCert_def bind_eq_Ok_iff split: if_splits)
    (metis linorder_neqE_linordered_idom)


section \<open>The active key\<close>

definition one_cert :: "jwk \<Rightarrow> bool" where
  "one_cert k \<longleftrightarrow> length (jose_Certificates (inner k)) = 1"

definition cert_expiry :: "jwk \<Rightarrow> instant" where
  "cert_expiry k = NotAfter (hd (jose_Certificates (inner k)))"

lemma one_certE:
  assumes "one_cert k"
  obtains c where "jose_Certificates (inner k) = [c]" and "cert_expiry k = NotAfter c"
  using assms by (cases "jose_Certificates (inner k)") (auto simp: one_cert_def cert_expiry_def)

text \<open>The key the loop is looking for: the first one that no other key outlives.\<close>

definition latest_key :: "jwk list \<Rightarrow> jwk option" where
  "latest_key js = find (\<lambda>k. \<forall>k'\<in>set js. cert_expiry k' \<le> cert_expiry k) js"

fun later_key :: "jwk \<Rightarrow> jwk list \<Rightarrow> jwk" where
  "later_key a [] = a"
| "later_key a (k # ks) = later_key (if cert_expiry a < cert_expiry k then k else a) ks"

lemma active_key_loop_later:
  assumes "one_cert a" and "\<forall>k\<in>set ks. one_cert k"
  shows "active_key_loop (Some a) (map Some ks) = Ok (Some (later_key a ks))"
  using assms
proof (induction ks arbitrary: a)
  case Nil
  then show ?case by simp
next
  case (Cons k ks)
  from Cons.prems obtain c where c: "jose_Certificates (inner k) = [c]" "cert_expiry k = NotAfter c"
    by (auto elim: one_certE)
  from Cons.prems(1) obtain d where d: "jose_Certificates (inner a) = [d]" "cert_expiry a = NotAfter d"
    by (rule one_certE)
  from Cons show ?case by (simp add: c d)
qed

lemma later_key_is_latest: "latest_key (a # ks) = Some (later_key a ks)"
proof (induction ks arbitrary: a)
  case Nil
  then show ?case by (simp add: latest_key_def)
next
  case (Cons k ks)
  show ?case
  proof (cases "cert_expiry a < cert_expiry k")
    case True
    then have "latest_key (a # k # ks) = latest_key (k # ks)"
      by (auto simp: latest_key_def intro!: arg_cong2 [where f = find] ext)
    with True Cons [of k] show ?thesis by simp
  next
    case False
    let ?P = "\<lambda>x. \<forall>k'\<in>set (a # ks). cert_expiry k' \<le> cert_expiry x"
    have "(\<lambda>x. \<forall>k'\<in>set (a # k # ks). cert_expiry k' \<le> cert_expiry x) = ?P"
      using False by (intro ext) force
    then have latest: "latest_key (a # k # ks) = find ?P (a # k # ks)"
      by (simp only: latest_key_def)
    have IH: "find ?P (a # ks) = Some (later_key a ks)"
      using Cons [of a] by (simp only: latest_key_def)
    have "find ?P (a # k # ks) = find ?P (a # ks)"
    proof (cases "?P a")
      case True
      then show ?thesis by simp
    next
      case not_a: False
      then have "\<not> ?P k" using False by force
      with not_a show ?thesis by (simp only: find.simps if_False)
    qed
    with latest IH False show ?thesis by simp
  qed
qed

lemma active_key_loop_latest:
  assumes "\<forall>k\<in>set js. one_cert k"
  shows "active_key_loop None (map Some js) = Ok (latest_key js)"
proof (cases js)
  case Nil
  then show ?thesis by (simp add: latest_key_def)
next
  case (Cons a ks)
  with assms show ?thesis
    by (simp add: later_key_is_latest active_key_loop_later one_cert_def)
qed

lemma latest_key_Some:
  assumes "latest_key js = Some k"
  shows "k \<in> set js" and "k' \<in> set js \<Longrightarrow> cert_expiry k' \<le> cert_expiry k"
  using assms by (auto simp: latest_key_def find_Some_iff)

lemma latest_key_head:
  "js \<noteq> [] \<Longrightarrow> \<forall>k\<in>set js. cert_expiry k \<le> cert_expiry (hd js) \<Longrightarrow> latest_key js = Some (hd js)"
  by (cases js) (auto simp: latest_key_def)


section \<open>The decision to rotate\<close>

text \<open>
  On a key set whose keys all carry one certificate, \<open>RotateIfNeeded\<close> is this function of the
  active key; the clock is read once for the decision.
\<close>

definition rotate_from :: "'w crypto_service \<Rightarrow> string \<Rightarrow> instant \<Rightarrow> jwk \<Rightarrow> ('w, jwks option) prog" where
  "rotate_from s cn notAfter k =
     (case atoi (last (split_on CHR ''.'' (jose_KeyID (inner k)))) of
        None \<Rightarrow> fail (Errorf ''invalid key format: %s'' [jose_KeyID (inner k)])
      | Some i \<Rightarrow>
          bind (wrapping ''error creating JWKS cert'' (createCert s cn notAfter)) (\<lambda>(cert, rsaKey).
          bind (createJWKS s cert rsaKey (wrap64 (i + 1))) (\<lambda>newJwks.
          ret (Some (newJwks\<lparr>Keys := Keys newJwks @ [Some k]\<rparr>)))))"

lemma RotateIfNeeded_eq:
  assumes "\<forall>k\<in>set js. one_cert k" and "latest_key js = Some k" and "Keys ks = map Some js"
  shows "RotateIfNeeded s cn notAfter (Some ks) w =
    (if fst (cs_clock s w) + rotation_window < cert_expiry k
     then (Ok None, snd (cs_clock s w))
     else rotate_from s cn notAfter k (snd (cs_clock s w)))"
proof -
  from latest_key_Some(1) [OF assms(2)] assms(1) obtain c
    where "jose_Certificates (inner k) = [c]" and "cert_expiry k = NotAfter c"
    by (auto elim: one_certE)
  then show ?thesis
    using active_key_loop_latest [OF assms(1)] assms(2,3)
    by (simp add: RotateIfNeeded_def rotate_from_def Let_def)
qed


section \<open>Key sets the service makes\<close>

definition key_index :: "jwk \<Rightarrow> int option" where
  "key_index k = atoi (last (split_on CHR ''.'' (jose_KeyID (inner k))))"

definition good_key :: "jwk \<Rightarrow> bool" where
  "good_key k \<longleftrightarrow> private_rsa_key k \<and> one_cert k \<and> key_index k \<noteq> None"

text \<open>
  The invariant: one or two private keys with one certificate each and a readable index, the
  current key first, and no key outlives it.
\<close>

definition good_jwks :: "jwks \<Rightarrow> bool" where
  "good_jwks ks \<longleftrightarrow> (\<exists>js. Keys ks = map Some js \<and> js \<noteq> [] \<and> length js \<le> 2 \<and>
     (\<forall>k\<in>set js. good_key k \<and> cert_expiry k \<le> cert_expiry (hd js)))"

definition current_key :: "jwks \<Rightarrow> jwk" where
  "current_key ks = the (hd (Keys ks))"

lemma good_jwksE:
  assumes "good_jwks ks"
  obtains js where "Keys ks = map Some js" and "js \<noteq> []" and "length js \<le> 2"
    and "\<forall>k\<in>set js. good_key k" and "\<forall>k\<in>set js. one_cert k" and "\<forall>k\<in>set js. private_rsa_key k"
    and "latest_key js = Some (hd js)" and "current_key ks = hd js"
  using assms
  by (auto simp: good_jwks_def good_key_def current_key_def hd_map intro!: latest_key_head)

lemma wrap64_in_int64: "in_int64 (wrap64 i)"
proof -
  have "0 \<le> (i + 2 ^ 63) mod 2 ^ 64" and "(i + 2 ^ 63) mod 2 ^ 64 < 2 ^ 64"
    by simp_all
  then show ?thesis by (simp add: in_int64_def wrap64_def)
qed

lemma wrap64_id: "in_int64 i \<Longrightarrow> wrap64 i = i"
  by (simp add: in_int64_def wrap64_def)

text \<open>The new key of a call of \<open>createJWKS\<close>.\<close>

lemma createJWKS_Ok:
  assumes "createJWKS s cert key i w = (Ok ks, w')" and "in_int64 i"
  obtains k where "Keys ks = [Some k]" and "good_key k" and "cert_expiry k = NotAfter cert"
    and "key_index k = Some i" and "jose_Certificates (inner k) = [cert]"
    and "jose_Algorithm (inner k) = cs_signatureAlgo s"
proof -
  from assms(1) obtain id where id: "ks = NewJwks [Some (NewJwk [cert] key (id @ ''.'' @ itoa i) ''sig'' (cs_signatureAlgo s))]"
    by (auto simp: createJWKS_def bind_eq_Ok_iff Let_def)
  show ?thesis
    by (rule that [of "NewJwk [cert] key (id @ ''.'' @ itoa i) ''sig'' (cs_signatureAlgo s)"])
      (use assms(2) in \<open>simp_all add: id NewJwks_def NewJwk_def good_key_def private_rsa_key_def
         one_cert_def key_index_def cert_expiry_def\<close>)
qed

lemma CreateJwks_Ok:
  assumes "CreateJwks s cn notAfter w = (Ok ks, w')"
  obtains k cert where "Keys ks = [Some k]" and "good_jwks ks" and "current_key ks = k"
    and "cert_expiry k = whole_seconds notAfter" and "key_index k = Some 0"
    and "jose_Certificates (inner k) = [cert]" and "Issuer cert = Subject cert"
    and "CommonName (Subject cert) = cn" and "jose_Algorithm (inner k) = cs_signatureAlgo s"
proof -
  from assms obtain cert key w1 where
    cert: "createCert s cn notAfter w = (Ok (cert, key), w1)"
    and jwks: "createJWKS s cert key 0 w1 = (Ok ks, w')"
    by (auto simp: CreateJwks_def bind_eq_Ok_iff)
  from jwks obtain k where "Keys ks = [Some k]" "good_key k" "cert_expiry k = NotAfter cert"
      "key_index k = Some 0" "jose_Certificates (inner k) = [cert]"
      "jose_Algorithm (inner k) = cs_signatureAlgo s"
    by (rule createJWKS_Ok) (simp add: in_int64_def)
  moreover from this have "good_jwks ks"
    by (auto simp: good_jwks_def intro!: exI [of _ "[k]"])
  ultimately show ?thesis
    using createCert_Ok [OF cert] that by (simp add: current_key_def)
qed

lemma rotate_from_Ok:
  assumes "rotate_from s cn notAfter k w = (Ok r, w')" and "good_key k"
    and "cert_expiry k \<le> whole_seconds notAfter"
  obtains ks n i where "r = Some ks" and "Keys ks = [Some n, Some k]" and "good_jwks ks"
    and "current_key ks = n" and "cert_expiry n = whole_seconds notAfter"
    and "key_index k = Some i" and "key_index n = Some (wrap64 (i + 1))"
    and "jose_Algorithm (inner n) = cs_signatureAlgo s"
proof -
  from assms(1) obtain i cert key w1 new w2 where
    i: "key_index k = Some i"
    and cert: "createCert s cn notAfter w = (Ok (cert, key), w1)"
    and jwks: "createJWKS s cert key (wrap64 (i + 1)) w1 = (Ok new, w2)"
    and r: "r = Some (new\<lparr>Keys := Keys new @ [Some k]\<rparr>)"
    by (auto simp: rotate_from_def key_index_def bind_eq_Ok_iff split: option.splits)
  from jwks obtain n where n: "Keys new = [Some n]" "good_key n" "cert_expiry n = NotAfter cert"
      "key_index n = Some (wrap64 (i + 1))" "jose_Algorithm (inner n) = cs_signatureAlgo s"
    by (rule createJWKS_Ok) (simp add: wrap64_in_int64)
  have expiry: "NotAfter cert = whole_seconds notAfter"
    using createCert_Ok [OF cert] by simp
  let ?ks = "new\<lparr>Keys := Keys new @ [Some k]\<rparr>"
  have "good_jwks ?ks"
    using n assms(2,3) expiry by (auto simp: good_jwks_def intro!: exI [of _ "[n, k]"])
  with n i r expiry that show ?thesis by (simp add: current_key_def)
qed


section \<open>Lineages of key sets\<close>

text \<open>
  The key sets that one service makes over time: created once, then rotated any number of
  times, each time with an expiry of the new certificate that reaches past the window in which
  rotation happens (the operator passes now + 30 days, the window is 7 days). The number
  counts the rotations.
\<close>

inductive lineage :: "'w crypto_service \<Rightarrow> jwks \<Rightarrow> nat \<Rightarrow> bool" for s where
  created: "CreateJwks s cn notAfter w = (Ok ks, w') \<Longrightarrow> lineage s ks 0"
| rotated: "lineage s ks n \<Longrightarrow>
     fst (cs_clock s w) + rotation_window \<le> whole_seconds notAfter \<Longrightarrow>
     RotateIfNeeded s cn notAfter (Some ks) w = (Ok (Some ks'), w') \<Longrightarrow> lineage s ks' (Suc n)"

lemma RotateIfNeeded_good:
  assumes "good_jwks ks" and "RotateIfNeeded s cn notAfter (Some ks) w = (Ok (Some ks'), w')"
    and "fst (cs_clock s w) + rotation_window \<le> whole_seconds notAfter"
  obtains n i where "Keys ks' = [Some n, Some (current_key ks)]" and "good_jwks ks'"
    and "current_key ks' = n" and "cert_expiry n = whole_seconds notAfter"
    and "key_index (current_key ks) = Some i" and "key_index n = Some (wrap64 (i + 1))"
    and "cert_expiry (current_key ks) \<le> fst (cs_clock s w) + rotation_window"
    and "jose_Algorithm (inner n) = cs_signatureAlgo s"
proof -
  from assms(1) obtain js where js: "Keys ks = map Some js" "js \<noteq> []" "\<forall>k\<in>set js. good_key k"
      "\<forall>k\<in>set js. one_cert k" "latest_key js = Some (hd js)" "current_key ks = hd js"
    by (rule good_jwksE)
  let ?k = "hd js"
  have eq: "RotateIfNeeded s cn notAfter (Some ks) w =
    (if fst (cs_clock s w) + rotation_window < cert_expiry ?k
     then (Ok None, snd (cs_clock s w))
     else rotate_from s cn notAfter ?k (snd (cs_clock s w)))"
    by (rule RotateIfNeeded_eq) (use js in auto)
  with assms(2) have rot: "rotate_from s cn notAfter ?k (snd (cs_clock s w)) = (Ok (Some ks'), w')"
    and due: "cert_expiry ?k \<le> fst (cs_clock s w) + rotation_window"
    by (auto split: if_splits)
  from js have good: "good_key ?k" by simp
  from due assms(3) have "cert_expiry ?k \<le> whole_seconds notAfter" by linarith
  with rot good obtain ks1 n i where "Some ks' = Some ks1" "Keys ks1 = [Some n, Some ?k]"
      "good_jwks ks1" "current_key ks1 = n" "cert_expiry n = whole_seconds notAfter"
      "key_index ?k = Some i" "key_index n = Some (wrap64 (i + 1))"
      "jose_Algorithm (inner n) = cs_signatureAlgo s"
    by (rule rotate_from_Ok)
  with due js(6) show ?thesis by (intro that [of n i]) simp_all
qed

lemma lineage_good:
  assumes "lineage s ks n" and "n < 2 ^ 63"
  shows "good_jwks ks \<and> key_index (current_key ks) = Some (int n) \<and>
     length (Keys ks) = (if n = 0 then 1 else 2)"
  using assms
proof (induction rule: lineage.induct)
  case (created cn notAfter w ks w')
  then show ?case by (auto elim: CreateJwks_Ok)
next
  case (rotated ks n w notAfter cn ks' w')
  then have IH: "good_jwks ks" "key_index (current_key ks) = Some (int n)" by auto
  from IH(1) rotated.hyps(3,2) obtain k i where "Keys ks' = [Some k, Some (current_key ks)]"
      "good_jwks ks'" "current_key ks' = k" "key_index (current_key ks) = Some i"
      "key_index k = Some (wrap64 (i + 1))"
    by (rule RotateIfNeeded_good)
  moreover have "in_int64 (int n + 1)" using rotated.prems by (simp add: in_int64_def)
  ultimately show ?case using IH(2) by (simp add: wrap64_id add.commute)
qed

end
