(* ===== verification/Resources.thy ===== *)
theory Resources
  imports JsonFields
begin

text \<open>
  The Kubernetes objects the operator works with: the \<open>MaskinportenClient\<close> resource,
  \<open>api/v1alpha1/maskinportenclient_types.go\<close>, with the part of its metadata that the operator
  reads or writes, and \<open>corev1.Secret\<close>. A map that may be \<open>nil\<close> is an option; the bytes of a
  secret's entry are a string.
\<close>

record maskinporten_client_status =
  st_ClientId :: string
  st_Authority :: string
  st_KeyIds :: "string slice"
  st_LastSynced :: "instant option"
  st_State :: string
  st_Reason :: string
  st_ObservedGeneration :: int
  st_LastActions :: "string slice"

record maskinporten_client =
  crd_Name :: string
  crd_Namespace :: string
  crd_Generation :: int
  crd_DeletionTimestamp :: "instant option"
  crd_Finalizers :: "string list"
  crd_Scopes :: "string slice"
  crd_Status :: maskinporten_client_status

definition SecretTypeOpaque :: string where "SecretTypeOpaque = ''Opaque''"

record k8s_secret =
  sec_Name :: string
  sec_Namespace :: string
  sec_Labels :: "string \<rightharpoonup> string"
  sec_Type :: string
  sec_Data :: "(string \<rightharpoonup> string) option"

text \<open>The entry of a secret under a key; a \<open>nil\<close> map has none.\<close>

definition secret_entry :: "k8s_secret \<Rightarrow> string \<Rightarrow> string option" where
  "secret_entry s k = (case sec_Data s of None \<Rightarrow> None | Some m \<Rightarrow> m k)"

end
