(* ===== verification/ClientState.thy ===== *)
theory ClientState
  imports ClientTypes Crypto Config Resources
begin

text \<open>
  The state of one Maskinporten client as the operator sees it, and the decision what to do
  about it: \<open>internal/maskinporten/client_state.go\<close>. A state is built from the resource, the
  API's answer and the secret (\<open>NewClientState\<close>); \<open>Reconcile\<close> turns it into a list of commands that
  the controller runs in order.

  The commands of one list share structs through pointers: the callback of the create command
  writes the new client id into the \<open>ApiState\<close> of its own command and into the secret contents of
  the next one. So the structs that commands point to live in a store, \<open>cmd_heap\<close>, a command
  holds their addresses, and a callback is a value of \<open>callback\<close> that \<open>run_callback\<close> interprets.
\<close>


section \<open>The contents of the secret\<close>

definition JsonFileName :: string where
  "JsonFileName = ''maskinporten-settings.json''"

record secret_content =
  sc_ClientId :: string
  sc_Authority :: string
  sc_Jwks :: "jwks option"
  sc_Jwk :: jwk_ptr

definition zero_secret_content :: secret_content where
  "zero_secret_content = \<lparr>sc_ClientId = [], sc_Authority = [], sc_Jwks = None, sc_Jwk = None\<rparr>"

definition enc_jwks_ptr :: "jose_lib \<Rightarrow> jwks option \<Rightarrow> json outcome" where
  "enc_jwks_ptr J p = (case p of None \<Rightarrow> Ok JNull | Some ks \<Rightarrow> enc_jwks J ks)"

definition enc_secret_content :: "jose_lib \<Rightarrow> secret_content \<Rightarrow> json outcome" where
  "enc_secret_content J c =
     obind (enc_jwks_ptr J (sc_Jwks c)) (\<lambda>jwks.
     obind (enc_jwk_ptr J (sc_Jwk c)) (\<lambda>jwk.
     Ok (JObj [(''clientId'', JStr (sc_ClientId c)), (''authority'', JStr (sc_Authority c)),
               (''jwks'', jwks), (''jwk'', jwk)])))"

definition dec_secret_content_members :: "jose_lib \<Rightarrow> (string \<times> json) list \<Rightarrow> secret_content option" where
  "dec_secret_content_members J ms =
     Option.bind (dec_field dec_string [] ''clientId'' ms) (\<lambda>x1.
     Option.bind (dec_field dec_string [] ''authority'' ms) (\<lambda>x2.
     Option.bind (dec_field (dec_ptr (dec_jwks J) \<lparr>Keys = []\<rparr>) None ''jwks'' ms) (\<lambda>x3.
     Option.bind (dec_field (dec_jwk_ptr J) None ''jwk'' ms) (\<lambda>x4.
     Some \<lparr>sc_ClientId = x1, sc_Authority = x2, sc_Jwks = x3, sc_Jwk = x4\<rparr>))))"

definition dec_secret_content :: "jose_lib \<Rightarrow> secret_content decoder" where
  "dec_secret_content J = dec_object (dec_secret_content_members J)"

definition SerializeTo :: "jose_lib \<Rightarrow> secret_content \<Rightarrow> k8s_secret option \<Rightarrow> k8s_secret outcome" where
  "SerializeTo J c secret = (case secret of
       None \<Rightarrow> Err (ErrorNew ''cant serialize to nil secret'')
     | Some s \<Rightarrow>
         obind (enc_secret_content J c) (\<lambda>j.
         let m = (case sec_Data s of None \<Rightarrow> Map.empty | Some m \<Rightarrow> m)
         in Ok (s\<lparr>sec_Data := Some (m(JsonFileName \<mapsto> json_text j))\<rparr>)))"

definition DeleteSecretStateContent :: "k8s_secret \<Rightarrow> k8s_secret" where
  "DeleteSecretStateContent s = s\<lparr>sec_Data := map_option (\<lambda>m. m(JsonFileName := None)) (sec_Data s)\<rparr>"

definition json_error :: go_error where
  "json_error = ErrExternal ''encoding/json''"

definition DeserializeSecretStateContent ::
  "jose_lib \<Rightarrow> k8s_secret option \<Rightarrow> secret_content option outcome"
where
  "DeserializeSecretStateContent J secret = (case secret of
       None \<Rightarrow> Err (ErrorNew ''cant deserialize from nil secret'')
     | Some s \<Rightarrow> (case sec_Data s of
         None \<Rightarrow> Ok None
       | Some m \<Rightarrow> (case m JsonFileName of
           None \<Rightarrow> Ok None
         | Some bytes \<Rightarrow>
             (case Option.bind (json_unmarshal bytes) (dec_secret_content J zero_secret_content) of
                None \<Rightarrow> Err json_error
              | Some content \<Rightarrow> Ok (Some content)))))"

lemma secret_content_roundtrip:
  assumes "jose_laws J" and "enc_secret_content J c = Ok j"
  shows "json_ok j" and "dec_secret_content J z j = Some c"
proof -
  obtain ks k where ks: "enc_jwks_ptr J (sc_Jwks c) = Ok ks" and k: "enc_jwk_ptr J (sc_Jwk c) = Ok k"
    and j: "j = JObj [(''clientId'', JStr (sc_ClientId c)), (''authority'', JStr (sc_Authority c)),
               (''jwks'', ks), (''jwk'', k)]"
    using assms(2) by (auto simp: enc_secret_content_def obind_Ok_iff)
  have key: "dec_jwk_ptr J None k = Some (sc_Jwk c) \<and> json_ok k"
    using assms(1) k by (rule dec_jwk_ptr_enc)
  have keys: "dec_ptr (dec_jwks J) \<lparr>Keys = []\<rparr> None ks = Some (sc_Jwks c) \<and> json_ok ks"
  proof (cases "sc_Jwks c")
    case None
    with ks show ?thesis by (auto simp: enc_jwks_ptr_def dec_ptr_def)
  next
    case (Some set)
    with ks have "enc_jwks J set = Ok ks" by (simp add: enc_jwks_ptr_def)
    from jwks_roundtrip [OF assms(1) this] Some show ?thesis
      by (cases ks) (auto simp: dec_ptr_def)
  qed
  show "json_ok j" using key keys by (simp add: j)
  show "dec_secret_content J z j = Some c"
    using key keys
    by (simp add: j dec_secret_content_def dec_object_def dec_secret_content_members_def
        dec_field_def field_values_Cons field_names_simps fold_char_def dec_string_def)
qed

text \<open>
  What the controller relies on when it keeps contents in a secret: what was written is read
  back, and nothing is found after a delete. \<open>sound\<close> is the condition under which reading back
  works; here it is the laws of the key library.
\<close>

locale secret_store =
  fixes sound :: bool
    and put :: "'c \<Rightarrow> 's \<Rightarrow> 's outcome"
    and get :: "'s \<Rightarrow> 'c option outcome"
    and del :: "'s \<Rightarrow> 's"
  assumes get_put: "sound \<Longrightarrow> put c s = Ok s' \<Longrightarrow> get s' = Ok (Some c)"
    and get_del: "get (del s) = Ok None"
    and put_any: "put c s = Ok s' \<Longrightarrow> \<exists>t'. put c t = Ok t'"
begin

lemma get_put_del: "sound \<Longrightarrow> put c (del s) = Ok s' \<Longrightarrow> get s' = Ok (Some c)"
  by (rule get_put)

text \<open>Whether contents can be written does not depend on what the store held, so what was once
  written can be written again, over anything.\<close>

lemma put_again:
  assumes "sound" and "put c s = Ok s'"
  obtains t' where "put c t = Ok t'" and "get t' = Ok (Some c)"
  using assms put_any [OF assms(2)] get_put by blast

lemma put_inject: "sound \<Longrightarrow> put c s = Ok s' \<Longrightarrow> put d t = Ok s' \<Longrightarrow> c = d"
  using get_put [of c s s'] get_put [of d t s'] by simp

end

definition put_content :: "jose_lib \<Rightarrow> secret_content \<Rightarrow> k8s_secret \<Rightarrow> k8s_secret outcome" where
  "put_content J c s = SerializeTo J c (Some s)"

definition get_content :: "jose_lib \<Rightarrow> k8s_secret \<Rightarrow> secret_content option outcome" where
  "get_content J s = DeserializeSecretStateContent J (Some s)"

interpretation sst: secret_store "jose_laws J" "put_content J" "get_content J" DeleteSecretStateContent
  for J
proof unfold_locales
  fix c s s'
  assume laws: "jose_laws J" and put: "put_content J c s = Ok s'"
  then obtain j m where j: "enc_secret_content J c = Ok j"
    and s': "s' = s\<lparr>sec_Data := Some (m(JsonFileName \<mapsto> json_text j))\<rparr>"
    by (auto simp: put_content_def SerializeTo_def obind_Ok_iff Let_def)
  from secret_content_roundtrip [OF laws j] show "get_content J s' = Ok (Some c)"
    by (simp add: s' get_content_def DeserializeSecretStateContent_def)
next
  fix s show "get_content J (DeleteSecretStateContent s) = Ok None"
    by (cases "sec_Data s")
      (simp_all add: get_content_def DeserializeSecretStateContent_def DeleteSecretStateContent_def)
next
  fix c s s' t
  assume "put_content J c s = Ok s'"
  then show "\<exists>t'. put_content J c t = Ok t'"
    by (auto simp: put_content_def SerializeTo_def obind_Ok_iff Let_def)
qed


section \<open>The state of a client\<close>

record api_state =
  as_ClientId :: string
  as_Req :: "add_client_request option"
  as_Jwks :: "jwks option"

record client_state =
  AppId :: string
  Crd :: maskinporten_client
  Api :: "api_state option"
  Secret_Content :: "secret_content option"
  Secret_Manifest :: k8s_secret

definition mapClientResponseToAddRequest :: "client_response \<Rightarrow> add_client_request" where
  "mapClientResponseToAddRequest api = zero_add_client_request\<lparr>
     ac_ClientName := cr_ClientName api,
     ac_Description := cr_Description api,
     ac_ClientOrgno := cr_ClientOrgno api,
     ac_GrantTypes := Some (case cr_GrantTypes api of None \<Rightarrow> [] | Some ts \<Rightarrow> ts),
     ac_Scopes := cr_Scopes api,
     ac_IntegrationType := cr_IntegrationType api,
     ac_ApplicationType := cr_ApplicationType api,
     ac_TokenEndpointAuthMethod := cr_TokenEndpointAuthMethod api\<rparr>"

definition NewClientState ::
  "maskinporten_client option \<Rightarrow> client_response option \<Rightarrow> jwks option \<Rightarrow> k8s_secret option \<Rightarrow>
   secret_content option \<Rightarrow> client_state outcome"
where
  "NewClientState crd api apiJwks secret secretStateContent = (case crd of
       None \<Rightarrow> Err (ErrorNew ''tried to hydrate client state without CRD'')
     | Some crd \<Rightarrow> (case secret of
         None \<Rightarrow> Err (Errorf ''null secret when hydrating for app: %s'' [crd_Name crd])
       | Some secret \<Rightarrow>
           if api = None \<and> apiJwks \<noteq> None then
             Err (ErrorNew ''unexpected condition, api resource was not created but api JWKS was'')
           else
             let nameSplit = split_on CHR ''-'' (crd_Name crd) in
             if length nameSplit < 2 then
               Err (Errorf ''unexpected name format for MaskinportenClient resource: %s'' [crd_Name crd])
             else obind (index nameSplit 1) (\<lambda>appId.
               let state = \<lparr>AppId = appId, Crd = crd, Api = None,
                            Secret_Content = secretStateContent, Secret_Manifest = secret\<rparr>
               in (case api of
                     None \<Rightarrow> Ok state
                   | Some api \<Rightarrow>
                       if cr_ClientId api = [] then
                         Err (ErrorNew ''received empty ClientId when building client state'')
                       else Ok (state\<lparr>Api := Some
                         \<lparr>as_ClientId = cr_ClientId api,
                          as_Req = Some (mapClientResponseToAddRequest api),
                          as_Jwks = apiJwks\<rparr>\<rparr>)))))"

text \<open>What every state that \<open>NewClientState\<close> builds satisfies.\<close>

definition client_state_ok :: "client_state \<Rightarrow> bool" where
  "client_state_ok s \<longleftrightarrow>
     CHR ''-'' \<notin> set (AppId s) \<and>
     (\<forall>a. Api s = Some a \<longrightarrow> as_ClientId a \<noteq> [] \<and> as_Req a \<noteq> None)"

lemma NewClientState_Ok:
  assumes "NewClientState crd api apiJwks secret content = Ok s"
  shows "client_state_ok s" and "crd = Some (Crd s)" and "secret = Some (Secret_Manifest s)"
    and "Secret_Content s = content"
    and "AppId s = split_on CHR ''-'' (crd_Name (Crd s)) ! 1"
    and "Api s = map_option (\<lambda>r. \<lparr>as_ClientId = cr_ClientId r,
           as_Req = Some (mapClientResponseToAddRequest r), as_Jwks = apiJwks\<rparr>) api"
proof -
  obtain c sec where c: "crd = Some c" "secret = Some sec"
    using assms by (auto simp: NewClientState_def split: option.splits)
  with assms have app: "1 < length (split_on CHR ''-'' (crd_Name c))"
    by (auto simp: NewClientState_def Let_def split: if_splits)
  let ?id = "split_on CHR ''-'' (crd_Name c) ! 1"
  have "?id \<in> set (split_on CHR ''-'' (crd_Name c))" using app by simp
  then have dash: "CHR ''-'' \<notin> set ?id" by (rule split_on_no_sep_in_parts)
  have "index (split_on CHR ''-'' (crd_Name c)) 1 = Ok ?id" using app by (simp add: index_def)
  with assms c app dash
  show "client_state_ok s" and "crd = Some (Crd s)" and "secret = Some (Secret_Manifest s)"
    and "Secret_Content s = content"
    and "AppId s = split_on CHR ''-'' (crd_Name (Crd s)) ! 1"
    and "Api s = map_option (\<lambda>r. \<lparr>as_ClientId = cr_ClientId r,
           as_Req = Some (mapClientResponseToAddRequest r), as_Jwks = apiJwks\<rparr>) api"
    by (auto simp: NewClientState_def client_state_ok_def Let_def split: if_splits option.splits)
qed


section \<open>Commands\<close>

type_synonym api_ref = nat
type_synonym sec_ref = nat

record cmd_heap =
  api_cells :: "api_state list"
  sec_cells :: "secret_content list"

datatype command_data =
    CreateClientInApiCommand api_ref
  | UpdateSecretContentCommand sec_ref
  | UpdateClientInApiCommand api_ref
  | DeleteClientInApiCommand string
  | DeleteSecretContentCommand

datatype callback = SetClientId api_ref sec_ref

record command =
  cmd_Data :: command_data
  cmd_Callback :: "callback option"

fun command_name :: "command_data \<Rightarrow> string" where
  "command_name (CreateClientInApiCommand a) = ''CreateClientInApiCommand''"
| "command_name (UpdateSecretContentCommand s) = ''UpdateSecretContentCommand''"
| "command_name (UpdateClientInApiCommand a) = ''UpdateClientInApiCommand''"
| "command_name (DeleteClientInApiCommand i) = ''DeleteClientInApiCommand''"
| "command_name DeleteSecretContentCommand = ''DeleteSecretContentCommand''"

definition CommandList_Strings :: "command list \<Rightarrow> string list" where
  "CommandList_Strings l = map (\<lambda>c. command_name (cmd_Data c)) l"

definition api_at :: "cmd_heap \<Rightarrow> api_ref \<Rightarrow> api_state" where
  "api_at h r = api_cells h ! r"

definition sec_at :: "cmd_heap \<Rightarrow> sec_ref \<Rightarrow> secret_content" where
  "sec_at h r = sec_cells h ! r"

text \<open>
  The callback of the create command; the response is a pointer, read twice.
\<close>

definition set_api_id :: "api_ref \<Rightarrow> string \<Rightarrow> cmd_heap \<Rightarrow> cmd_heap" where
  "set_api_id r i h = h\<lparr>api_cells := (api_cells h)[r := (api_at h r)\<lparr>as_ClientId := i\<rparr>]\<rparr>"

definition set_sec_id :: "sec_ref \<Rightarrow> string \<Rightarrow> cmd_heap \<Rightarrow> cmd_heap" where
  "set_sec_id r i h = h\<lparr>sec_cells := (sec_cells h)[r := (sec_at h r)\<lparr>sc_ClientId := i\<rparr>]\<rparr>"

fun run_callback :: "callback \<Rightarrow> client_response option \<Rightarrow> (cmd_heap, unit) prog" where
  "run_callback (SetClientId a s) resp = (case resp of
       None \<Rightarrow> crash NilDeref
     | Some r \<Rightarrow> (\<lambda>h. (Ok (), set_sec_id s (cr_ClientId r) (set_api_id a (cr_ClientId r) h))))"

text \<open>Allocation of the structs that \<open>Reconcile\<close> builds.\<close>

type_synonym 'w with_heap = "'w \<times> cmd_heap"

definition in_world :: "('w, 'a) prog \<Rightarrow> ('w with_heap, 'a) prog" where
  "in_world = on_part fst (\<lambda>w s. (w, snd s))"

definition in_heap :: "(cmd_heap, 'a) prog \<Rightarrow> ('w with_heap, 'a) prog" where
  "in_heap = on_part snd (\<lambda>h s. (fst s, h))"

definition new_api_state :: "api_state \<Rightarrow> ('w with_heap, api_ref) prog" where
  "new_api_state a = in_heap (\<lambda>h. (Ok (length (api_cells h)), h\<lparr>api_cells := api_cells h @ [a]\<rparr>))"

definition new_secret_content :: "secret_content \<Rightarrow> ('w with_heap, sec_ref) prog" where
  "new_secret_content c = in_heap (\<lambda>h. (Ok (length (sec_cells h)), h\<lparr>sec_cells := sec_cells h @ [c]\<rparr>))"

lemma in_world_apply [prog_simps]:
  "in_world m (w, h) = (case m w of (r, w1) \<Rightarrow> (r, (w1, h)))"
  by (simp add: in_world_def on_part_def)

lemma in_heap_apply [prog_simps]:
  "in_heap m (w, h) = (case m h of (r, h1) \<Rightarrow> (r, (w, h1)))"
  by (simp add: in_heap_def on_part_def)

lemma in_world_Ok_iff [simp]:
  "in_world m (w, h) = (Ok x, s') \<longleftrightarrow> (\<exists>w1. m w = (Ok x, w1) \<and> s' = (w1, h))"
  by (auto simp: in_world_apply split: prod.splits)

lemma new_api_state_apply [simp, prog_simps]:
  "new_api_state a (w, h) = (Ok (length (api_cells h)), (w, h\<lparr>api_cells := api_cells h @ [a]\<rparr>))"
  by (simp add: new_api_state_def in_heap_apply)

lemma new_secret_content_apply [simp, prog_simps]:
  "new_secret_content c (w, h) = (Ok (length (sec_cells h)), (w, h\<lparr>sec_cells := sec_cells h @ [c]\<rparr>))"
  by (simp add: new_secret_content_def in_heap_apply)


section \<open>The decision\<close>

definition getClientNamePrefix :: "op_context \<Rightarrow> string" where
  "getClientNamePrefix ctx =
     ''altinnoperator-'' @ ServiceOwnerName ctx @ ''-'' @ Environment ctx @ ''-''"

definition GetClientName :: "op_context \<Rightarrow> string \<Rightarrow> string" where
  "GetClientName ctx appId = getClientNamePrefix ctx @ appId"

definition buildApiReq :: "client_state \<Rightarrow> op_context \<Rightarrow> add_client_request" where
  "buildApiReq s ctx = zero_add_client_request\<lparr>
     ac_ClientName := Some (GetClientName ctx (AppId s)),
     ac_Description := Some (''Altinn Operator managed client for '' @ ServiceOwnerName ctx @
        ''/'' @ Environment ctx @ ''/'' @ AppId s),
     ac_ClientOrgno := Some (ServiceOwnerOrgNo ctx),
     ac_GrantTypes := Some [GrantTypeJwtBearer],
     ac_Scopes := crd_Scopes (Crd s),
     ac_IntegrationType := Some IntegrationTypeMaskinporten,
     ac_ApplicationType := Some ApplicationTypeWeb,
     ac_TokenEndpointAuthMethod := Some TokenEndpointAuthMethodPrivateKeyJwt\<rparr>"

definition getNotAfter :: "'w clock \<Rightarrow> ('w, instant) prog" where
  "getNotAfter clock = bind (reading clock) (\<lambda>now. ret (now + Hour * 24 * 30))"

definition plain_command :: "command_data \<Rightarrow> command" where
  "plain_command d = \<lparr>cmd_Data = d, cmd_Callback = None\<rparr>"

text \<open>The three branches of \<open>Reconcile\<close> that create keys or compare states, then \<open>Reconcile\<close>.\<close>

definition reconcile_delete :: "client_state \<Rightarrow> command list" where
  "reconcile_delete s =
     (if Secret_Content s \<noteq> None then [plain_command DeleteSecretContentCommand] else []) @
     (case Api s of None \<Rightarrow> [] | Some a \<Rightarrow> [plain_command (DeleteClientInApiCommand (as_ClientId a))])"

definition reconcile_create ::
  "jose_lib \<Rightarrow> client_state \<Rightarrow> op_context \<Rightarrow> config \<Rightarrow> 'w crypto_service \<Rightarrow> 'w clock \<Rightarrow>
   ('w with_heap, command list) prog"
where
  "reconcile_create J s ctx cfg crypto clock =
     bind (in_world (getNotAfter clock)) (\<lambda>notAfter.
     bind (in_world (CreateJwks crypto (AppId s) notAfter)) (\<lambda>jwks.
     bind (lift (ToPublic J (Some jwks))) (\<lambda>publicJwks.
     bind (new_api_state \<lparr>as_ClientId = [], as_Req = Some (buildApiReq s ctx),
                          as_Jwks = Some publicJwks\<rparr>) (\<lambda>apiState.
     bind (lift (index (Keys jwks) 0)) (\<lambda>jwk.
     bind (new_secret_content \<lparr>sc_ClientId = [],
                               sc_Authority = api_AuthorityUrl (MaskinportenApi cfg),
                               sc_Jwks = Some jwks, sc_Jwk = jwk\<rparr>) (\<lambda>secretStateContent.
     ret [\<lparr>cmd_Data = CreateClientInApiCommand apiState,
           cmd_Callback = Some (SetClientId apiState secretStateContent)\<rparr>,
          plain_command (UpdateSecretContentCommand secretStateContent)]))))))"

definition reconcile_restore ::
  "jose_lib \<Rightarrow> client_state \<Rightarrow> api_state \<Rightarrow> config \<Rightarrow> 'w crypto_service \<Rightarrow> 'w clock \<Rightarrow>
   ('w with_heap, command list) prog"
where
  "reconcile_restore J s api cfg crypto clock =
     bind (in_world (getNotAfter clock)) (\<lambda>notAfter.
     bind (in_world (CreateJwks crypto (AppId s) notAfter)) (\<lambda>jwks.
     bind (lift (ToPublic J (Some jwks))) (\<lambda>publicJwks.
     bind (new_api_state \<lparr>as_ClientId = as_ClientId api, as_Req = None,
                          as_Jwks = Some publicJwks\<rparr>) (\<lambda>apiState.
     bind (lift (index (Keys jwks) 0)) (\<lambda>jwk.
     bind (new_secret_content \<lparr>sc_ClientId = as_ClientId api,
                               sc_Authority = api_AuthorityUrl (MaskinportenApi cfg),
                               sc_Jwks = Some jwks, sc_Jwk = jwk\<rparr>) (\<lambda>secretStateContent.
     ret [plain_command (UpdateClientInApiCommand apiState),
          plain_command (UpdateSecretContentCommand secretStateContent)]))))))"


text \<open>
  The three parts of the update branch: new secret contents when the authority or the keys
  changed, an upload of the public keys when the keys changed, and an update of the client when
  the scopes changed.
\<close>

definition update_secret_cmds ::
  "api_state \<Rightarrow> secret_content \<Rightarrow> config \<Rightarrow> jwks option \<Rightarrow> ('w with_heap, command list) prog"
where
  "update_secret_cmds api content cfg rotated =
     (let authorityChanged = api_AuthorityUrl (MaskinportenApi cfg) \<noteq> sc_Authority content;
          jwksChanged = rotated \<noteq> None
      in if authorityChanged \<or> jwksChanged then
           (let jwks = (if \<not> jwksChanged then sc_Jwks content else rotated) in
            bind (lift (deref jwks)) (\<lambda>ks.
            bind (lift (index (Keys ks) 0)) (\<lambda>jwk.
            bind (new_secret_content \<lparr>sc_ClientId = as_ClientId api,
                                      sc_Authority = api_AuthorityUrl (MaskinportenApi cfg),
                                      sc_Jwks = jwks, sc_Jwk = jwk\<rparr>) (\<lambda>secretStateContent.
            ret [plain_command (UpdateSecretContentCommand secretStateContent)]))))
         else ret [])"

definition upload_jwks_cmds ::
  "jose_lib \<Rightarrow> api_state \<Rightarrow> jwks option \<Rightarrow> ('w with_heap, command list) prog"
where
  "upload_jwks_cmds J api rotated =
     (if rotated \<noteq> None then
        bind (lift (ToPublic J rotated)) (\<lambda>publicJwks.
        bind (new_api_state \<lparr>as_ClientId = as_ClientId api, as_Req = None,
                             as_Jwks = Some publicJwks\<rparr>) (\<lambda>apiState.
        ret [plain_command (UpdateClientInApiCommand apiState)]))
      else ret [])"

definition update_scopes_cmds ::
  "client_state \<Rightarrow> api_state \<Rightarrow> op_context \<Rightarrow> bool \<Rightarrow> ('w with_heap, command list) prog"
where
  "update_scopes_cmds s api ctx scopesChanged =
     (if scopesChanged then
        bind (new_api_state \<lparr>as_ClientId = as_ClientId api, as_Req = Some (buildApiReq s ctx),
                             as_Jwks = None\<rparr>) (\<lambda>apiState.
        ret [plain_command (UpdateClientInApiCommand apiState)])
      else ret [])"

definition reconcile_update ::
  "jose_lib \<Rightarrow> client_state \<Rightarrow> api_state \<Rightarrow> secret_content \<Rightarrow> op_context \<Rightarrow> config \<Rightarrow>
   'w crypto_service \<Rightarrow> 'w clock \<Rightarrow> ('w with_heap, command list) prog"
where
  "reconcile_update J s api content ctx cfg crypto clock =
     bind (lift (deref (as_Req api))) (\<lambda>req.
     let scopesChanged = crd_Scopes (Crd s) \<noteq> ac_Scopes req in
     bind (in_world (getNotAfter clock)) (\<lambda>notAfter.
     bind (in_world (RotateIfNeeded crypto (AppId s) notAfter (sc_Jwks content))) (\<lambda>rotated.
     bind (update_secret_cmds api content cfg rotated) (\<lambda>commands1.
     bind (upload_jwks_cmds J api rotated) (\<lambda>commands2.
     bind (update_scopes_cmds s api ctx scopesChanged) (\<lambda>commands3.
     ret (commands1 @ commands2 @ commands3)))))))"

definition Reconcile ::
  "jose_lib \<Rightarrow> client_state \<Rightarrow> op_context \<Rightarrow> config \<Rightarrow> 'w crypto_service \<Rightarrow> 'w clock \<Rightarrow>
   ('w with_heap, command list) prog"
where
  "Reconcile J s ctx cfg crypto clock =
     (if crd_DeletionTimestamp (Crd s) \<noteq> None then ret (reconcile_delete s)
      else (case Api s of
          None \<Rightarrow> reconcile_create J s ctx cfg crypto clock
        | Some api \<Rightarrow> (case Secret_Content s of
            None \<Rightarrow> reconcile_restore J s api cfg crypto clock
          | Some content \<Rightarrow> reconcile_update J s api content ctx cfg crypto clock)))"

definition empty_heap :: cmd_heap where
  "empty_heap = \<lparr>api_cells = [], sec_cells = []\<rparr>"



section \<open>What the commands mean\<close>

text \<open>
  The specification of \<open>Reconcile\<close> talks about actions, in which the structs behind the pointers
  are values: \<open>resolve\<close> reads a command in a store.
\<close>

datatype action =
    CreateClientAction "add_client_request option" "jwks option"
  | WriteSecretAction secret_content
  | UpdateClientAction string "add_client_request option" "jwks option"
  | DeleteClientAction string
  | DeleteSecretAction

fun resolve_data :: "cmd_heap \<Rightarrow> command_data \<Rightarrow> action" where
  "resolve_data h (CreateClientInApiCommand a) = CreateClientAction (as_Req (api_at h a)) (as_Jwks (api_at h a))"
| "resolve_data h (UpdateSecretContentCommand c) = WriteSecretAction (sec_at h c)"
| "resolve_data h (UpdateClientInApiCommand a) =
     UpdateClientAction (as_ClientId (api_at h a)) (as_Req (api_at h a)) (as_Jwks (api_at h a))"
| "resolve_data h (DeleteClientInApiCommand i) = DeleteClientAction i"
| "resolve_data h DeleteSecretContentCommand = DeleteSecretAction"

definition resolve :: "cmd_heap \<Rightarrow> command list \<Rightarrow> action list" where
  "resolve h cmds = map (\<lambda>c. resolve_data h (cmd_Data c)) cmds"

text \<open>The public half of a key set, and the contents that go into the secret.\<close>

definition public_set :: "jose_lib \<Rightarrow> jwks \<Rightarrow> jwks" where
  "public_set J ks = \<lparr>Keys = map (map_option (public_half J)) (Keys ks)\<rparr>"

definition content_for :: "string \<Rightarrow> config \<Rightarrow> jwks \<Rightarrow> secret_content" where
  "content_for clientId cfg ks = \<lparr>sc_ClientId = clientId,
     sc_Authority = api_AuthorityUrl (MaskinportenApi cfg), sc_Jwks = Some ks, sc_Jwk = hd (Keys ks)\<rparr>"

definition delete_plan :: "client_state \<Rightarrow> action list" where
  "delete_plan s = (if Secret_Content s = None then [] else [DeleteSecretAction]) @
     (case Api s of None \<Rightarrow> [] | Some a \<Rightarrow> [DeleteClientAction (as_ClientId a)])"

definition create_plan :: "jose_lib \<Rightarrow> client_state \<Rightarrow> op_context \<Rightarrow> config \<Rightarrow> string \<Rightarrow> jwks \<Rightarrow> action list" where
  "create_plan J s ctx cfg clientId ks =
     [CreateClientAction (Some (buildApiReq s ctx)) (Some (public_set J ks)),
      WriteSecretAction (content_for clientId cfg ks)]"

definition restore_plan :: "jose_lib \<Rightarrow> api_state \<Rightarrow> config \<Rightarrow> jwks \<Rightarrow> action list" where
  "restore_plan J api cfg ks =
     [UpdateClientAction (as_ClientId api) None (Some (public_set J ks)),
      WriteSecretAction (content_for (as_ClientId api) cfg ks)]"

definition update_plan ::
  "jose_lib \<Rightarrow> client_state \<Rightarrow> api_state \<Rightarrow> secret_content \<Rightarrow> op_context \<Rightarrow> config \<Rightarrow> jwks option \<Rightarrow> action list"
where
  "update_plan J s api content ctx cfg rotated =
     (case rotated of
        Some ks \<Rightarrow> [WriteSecretAction (content_for (as_ClientId api) cfg ks),
                    UpdateClientAction (as_ClientId api) None (Some (public_set J ks))]
      | None \<Rightarrow> if api_AuthorityUrl (MaskinportenApi cfg) \<noteq> sc_Authority content
                then [WriteSecretAction (content_for (as_ClientId api) cfg (the (sc_Jwks content)))]
                else []) @
     (if crd_Scopes (Crd s) \<noteq> ac_Scopes (the (as_Req api))
      then [UpdateClientAction (as_ClientId api) (Some (buildApiReq s ctx)) None] else [])"

lemma ToPublic_public_set: "ToPublic J (Some ks) = Ok pub \<Longrightarrow> pub = public_set J ks"
  by (cases pub) (auto simp: ToPublic_Ok_iff public_set_def)


section \<open>What each branch returns\<close>

lemma Reconcile_deleted:
  "crd_DeletionTimestamp (Crd s) \<noteq> None \<Longrightarrow>
     Reconcile J s ctx cfg crypto clock w = (Ok (reconcile_delete s), w)"
  by (simp add: Reconcile_def)

lemma getNotAfter_Ok_iff: "getNotAfter clock w = (Ok t, w1) \<longleftrightarrow>
    t = fst (clock w) + Hour * 24 * 30 \<and> w1 = snd (clock w)"
  by (auto simp: getNotAfter_def)

text \<open>The create branch: the client first, then the secret, which share the client id to come.\<close>

lemma reconcile_create_Ok:
  assumes "reconcile_create J s ctx cfg crypto clock (w, empty_heap) = (Ok cmds, (w', h))"
  obtains ks pub k notAfter where
      "cmds = [\<lparr>cmd_Data = CreateClientInApiCommand 0, cmd_Callback = Some (SetClientId 0 0)\<rparr>,
               plain_command (UpdateSecretContentCommand 0)]"
    and "api_cells h = [\<lparr>as_ClientId = [], as_Req = Some (buildApiReq s ctx), as_Jwks = Some pub\<rparr>]"
    and "sec_cells h = [\<lparr>sc_ClientId = [], sc_Authority = api_AuthorityUrl (MaskinportenApi cfg),
                         sc_Jwks = Some ks, sc_Jwk = Some k\<rparr>]"
    and "CreateJwks crypto (AppId s) notAfter (snd (clock w)) = (Ok ks, w')"
    and "notAfter = fst (clock w) + Hour * 24 * 30"
    and "ToPublic J (Some ks) = Ok pub" and "Keys ks = [Some k]"
proof -
  from assms obtain ks pub key where
    ks: "CreateJwks crypto (AppId s) (fst (clock w) + Hour * 24 * 30) (snd (clock w)) = (Ok ks, w')"
    and pub: "ToPublic J (Some ks) = Ok pub" and key: "index (Keys ks) 0 = Ok key"
    and cmds: "cmds = [\<lparr>cmd_Data = CreateClientInApiCommand 0, cmd_Callback = Some (SetClientId 0 0)\<rparr>,
               plain_command (UpdateSecretContentCommand 0)]"
    and h: "h = \<lparr>api_cells = [\<lparr>as_ClientId = [], as_Req = Some (buildApiReq s ctx), as_Jwks = Some pub\<rparr>],
       sec_cells = [\<lparr>sc_ClientId = [], sc_Authority = api_AuthorityUrl (MaskinportenApi cfg),
                         sc_Jwks = Some ks, sc_Jwk = key\<rparr>]\<rparr>"
    by (auto simp: reconcile_create_def bind_eq_Ok_iff getNotAfter_Ok_iff empty_heap_def)
  from ks obtain k where "Keys ks = [Some k]" by (rule CreateJwks_Ok)
  with key that [OF cmds _ _ ks refl pub this] h show ?thesis by simp
qed

lemma reconcile_restore_Ok:
  assumes "reconcile_restore J s api cfg crypto clock (w, empty_heap) = (Ok cmds, (w', h))"
  obtains ks pub k notAfter where
      "cmds = [plain_command (UpdateClientInApiCommand 0), plain_command (UpdateSecretContentCommand 0)]"
    and "api_cells h = [\<lparr>as_ClientId = as_ClientId api, as_Req = None, as_Jwks = Some pub\<rparr>]"
    and "sec_cells h = [\<lparr>sc_ClientId = as_ClientId api, sc_Authority = api_AuthorityUrl (MaskinportenApi cfg),
                         sc_Jwks = Some ks, sc_Jwk = Some k\<rparr>]"
    and "CreateJwks crypto (AppId s) notAfter (snd (clock w)) = (Ok ks, w')"
    and "notAfter = fst (clock w) + Hour * 24 * 30"
    and "ToPublic J (Some ks) = Ok pub" and "Keys ks = [Some k]"
proof -
  from assms obtain ks pub key where
    ks: "CreateJwks crypto (AppId s) (fst (clock w) + Hour * 24 * 30) (snd (clock w)) = (Ok ks, w')"
    and pub: "ToPublic J (Some ks) = Ok pub" and key: "index (Keys ks) 0 = Ok key"
    and cmds: "cmds = [plain_command (UpdateClientInApiCommand 0), plain_command (UpdateSecretContentCommand 0)]"
    and h: "h = \<lparr>api_cells = [\<lparr>as_ClientId = as_ClientId api, as_Req = None, as_Jwks = Some pub\<rparr>],
       sec_cells = [\<lparr>sc_ClientId = as_ClientId api, sc_Authority = api_AuthorityUrl (MaskinportenApi cfg),
                         sc_Jwks = Some ks, sc_Jwk = key\<rparr>]\<rparr>"
    by (auto simp: reconcile_restore_def bind_eq_Ok_iff getNotAfter_Ok_iff empty_heap_def)
  from ks obtain k where "Keys ks = [Some k]" by (rule CreateJwks_Ok)
  with key that [OF cmds _ _ ks refl pub this] h show ?thesis by simp
qed


lemma index_0_Ok: "index ks 0 = Ok k \<Longrightarrow> hd ks = k"
  by (cases ks) auto

lemma RotateIfNeeded_nil: "RotateIfNeeded s cn t None w = (Ok r, w') \<Longrightarrow> False"
  by (simp add: RotateIfNeeded_def)

lemmas heap_simps = resolve_def plain_command_def api_at_def sec_at_def empty_heap_def

lemma reconcile_update_Ok:
  assumes "reconcile_update J s api content ctx cfg crypto clock (w, empty_heap) = (Ok cmds, (w', h))"
  obtains rotated where "as_Req api \<noteq> None"
    and "RotateIfNeeded crypto (AppId s) (fst (clock w) + Hour * 24 * 30) (sc_Jwks content)
           (snd (clock w)) = (Ok rotated, w')"
    and "resolve h cmds = update_plan J s api content ctx cfg rotated"
    and "\<forall>c\<in>set cmds. cmd_Callback c = None"
proof -
  from assms obtain req rotated w2 c1 c2 c3 t1 t2 t3 where req: "as_Req api = Some req"
    and rot: "RotateIfNeeded crypto (AppId s) (fst (clock w) + Hour * 24 * 30) (sc_Jwks content)
           (snd (clock w)) = (Ok rotated, w2)"
    and c1: "update_secret_cmds api content cfg rotated (w2, empty_heap) = (Ok c1, t1)"
    and c2: "upload_jwks_cmds J api rotated t1 = (Ok c2, t2)"
    and c3: "update_scopes_cmds s api ctx (crd_Scopes (Crd s) \<noteq> ac_Scopes req) t2 = (Ok c3, t3)"
    and out: "cmds = c1 @ c2 @ c3" "t3 = (w', h)"
    by (auto simp: reconcile_update_def bind_eq_Ok_iff getNotAfter_Ok_iff Let_def)
  obtain ks0 where ks0: "sc_Jwks content = Some ks0"
    using rot by (cases "sc_Jwks content") (auto dest: RotateIfNeeded_nil)
  have "w2 = w' \<and> resolve h cmds = update_plan J s api content ctx cfg rotated \<and>
      (\<forall>c\<in>set cmds. cmd_Callback c = None)"
    using c1 c2 c3 out
    by (cases rotated)
      (auto simp: update_secret_cmds_def upload_jwks_cmds_def update_scopes_cmds_def bind_eq_Ok_iff
        Let_def heap_simps update_plan_def content_for_def req ks0
        dest!: ToPublic_public_set index_0_Ok split: if_splits)
  with req rot that show ?thesis by simp
qed

text \<open>The whole of \<open>Reconcile\<close> refines the plans.\<close>

lemma reconcile_create_plan:
  assumes "reconcile_create J s ctx cfg crypto clock (w, empty_heap) = (Ok cmds, (w', h))"
  obtains ks k notAfter where
      "CreateJwks crypto (AppId s) notAfter (snd (clock w)) = (Ok ks, w')"
    and "notAfter = fst (clock w) + Hour * 24 * 30" and "Keys ks = [Some k]"
    and "ToPublic J (Some ks) = Ok (public_set J ks)"
    and "resolve h cmds = create_plan J s ctx cfg [] ks"
    and "map cmd_Callback cmds = [Some (SetClientId 0 0), None]"
    and "\<And>r. run_callback (SetClientId 0 0) (Some r) h = (Ok (), set_sec_id 0 (cr_ClientId r) (set_api_id 0 (cr_ClientId r) h))"
    and "\<And>i. resolve (set_sec_id 0 i (set_api_id 0 i h)) cmds = create_plan J s ctx cfg i ks"
    and "\<And>i. as_ClientId (api_at (set_sec_id 0 i (set_api_id 0 i h)) 0) = i"
  using assms
proof (rule reconcile_create_Ok)
  fix ks pub k notAfter
  assume cmds: "cmds = [\<lparr>cmd_Data = CreateClientInApiCommand 0, cmd_Callback = Some (SetClientId 0 0)\<rparr>,
               plain_command (UpdateSecretContentCommand 0)]"
    and api: "api_cells h = [\<lparr>as_ClientId = [], as_Req = Some (buildApiReq s ctx), as_Jwks = Some pub\<rparr>]"
    and sec: "sec_cells h = [\<lparr>sc_ClientId = [], sc_Authority = api_AuthorityUrl (MaskinportenApi cfg),
                         sc_Jwks = Some ks, sc_Jwk = Some k\<rparr>]"
    and ks: "CreateJwks crypto (AppId s) notAfter (snd (clock w)) = (Ok ks, w')"
      "notAfter = fst (clock w) + Hour * 24 * 30"
    and pub: "ToPublic J (Some ks) = Ok pub" and keys: "Keys ks = [Some k]"
  from pub have "pub = public_set J ks" by (rule ToPublic_public_set)
  with pub ks keys show ?thesis
    by (intro that [of notAfter ks k])
      (simp_all add: cmds api sec keys heap_simps create_plan_def content_for_def set_api_id_def set_sec_id_def)
qed

lemma reconcile_restore_plan:
  assumes "reconcile_restore J s api cfg crypto clock (w, empty_heap) = (Ok cmds, (w', h))"
  obtains ks k notAfter where
      "CreateJwks crypto (AppId s) notAfter (snd (clock w)) = (Ok ks, w')"
    and "notAfter = fst (clock w) + Hour * 24 * 30" and "Keys ks = [Some k]"
    and "ToPublic J (Some ks) = Ok (public_set J ks)"
    and "resolve h cmds = restore_plan J api cfg ks"
    and "\<forall>c\<in>set cmds. cmd_Callback c = None"
  using assms
proof (rule reconcile_restore_Ok)
  fix ks pub k notAfter
  assume cmds: "cmds = [plain_command (UpdateClientInApiCommand 0), plain_command (UpdateSecretContentCommand 0)]"
    and api: "api_cells h = [\<lparr>as_ClientId = as_ClientId api, as_Req = None, as_Jwks = Some pub\<rparr>]"
    and sec: "sec_cells h = [\<lparr>sc_ClientId = as_ClientId api, sc_Authority = api_AuthorityUrl (MaskinportenApi cfg),
                         sc_Jwks = Some ks, sc_Jwk = Some k\<rparr>]"
    and ks: "CreateJwks crypto (AppId s) notAfter (snd (clock w)) = (Ok ks, w')"
      "notAfter = fst (clock w) + Hour * 24 * 30"
    and pub: "ToPublic J (Some ks) = Ok pub" and keys: "Keys ks = [Some k]"
  from pub have "pub = public_set J ks" by (rule ToPublic_public_set)
  with pub ks keys show ?thesis
    by (intro that [of notAfter ks k])
      (simp_all add: cmds api sec keys heap_simps restore_plan_def content_for_def)
qed

section \<open>The specification of \<open>Reconcile\<close>\<close>

text \<open>
  Which plan is due is decided by the deletion timestamp, the API's state and the secret; the key
  set comes from \<open>CreateJwks\<close> or \<open>RotateIfNeeded\<close>, with an expiry 30 days ahead.
\<close>

definition reconcile_spec ::
  "jose_lib \<Rightarrow> client_state \<Rightarrow> op_context \<Rightarrow> config \<Rightarrow> 'w crypto_service \<Rightarrow> 'w clock \<Rightarrow>
   'w \<Rightarrow> 'w \<Rightarrow> action list \<Rightarrow> bool"
where
  "reconcile_spec J s ctx cfg crypto clock w w' acts =
     (let notAfter = fst (clock w) + Hour * 24 * 30; w1 = snd (clock w) in
      if crd_DeletionTimestamp (Crd s) \<noteq> None then acts = delete_plan s \<and> w' = w
      else (case (Api s, Secret_Content s) of
          (None, _) \<Rightarrow> (\<exists>ks. CreateJwks crypto (AppId s) notAfter w1 = (Ok ks, w') \<and>
             acts = create_plan J s ctx cfg [] ks)
        | (Some api, None) \<Rightarrow> (\<exists>ks. CreateJwks crypto (AppId s) notAfter w1 = (Ok ks, w') \<and>
             acts = restore_plan J api cfg ks)
        | (Some api, Some content) \<Rightarrow> (\<exists>rotated.
             RotateIfNeeded crypto (AppId s) notAfter (sc_Jwks content) w1 = (Ok rotated, w') \<and>
             acts = update_plan J s api content ctx cfg rotated)))"

lemma resolve_reconcile_delete: "resolve h (reconcile_delete s) = delete_plan s"
  by (simp add: reconcile_delete_def delete_plan_def resolve_def plain_command_def split: option.split)

lemma Reconcile_create_eq:
  "crd_DeletionTimestamp (Crd s) = None \<Longrightarrow> Api s = None \<Longrightarrow>
     Reconcile J s ctx cfg crypto clock = reconcile_create J s ctx cfg crypto clock"
  by (simp add: Reconcile_def)

lemma Reconcile_restore_eq:
  "crd_DeletionTimestamp (Crd s) = None \<Longrightarrow> Api s = Some api \<Longrightarrow> Secret_Content s = None \<Longrightarrow>
     Reconcile J s ctx cfg crypto clock = reconcile_restore J s api cfg crypto clock"
  by (simp add: Reconcile_def)

lemma Reconcile_update_eq:
  "crd_DeletionTimestamp (Crd s) = None \<Longrightarrow> Api s = Some api \<Longrightarrow> Secret_Content s = Some c \<Longrightarrow>
     Reconcile J s ctx cfg crypto clock = reconcile_update J s api c ctx cfg crypto clock"
  by (simp add: Reconcile_def)

lemma Reconcile_spec:
  assumes "Reconcile J s ctx cfg crypto clock (w, empty_heap) = (Ok cmds, (w', h))"
  shows "reconcile_spec J s ctx cfg crypto clock w w' (resolve h cmds)"
proof (cases "crd_DeletionTimestamp (Crd s)")
  case (Some t)
  with assms show ?thesis
    by (auto simp: Reconcile_deleted reconcile_spec_def resolve_reconcile_delete Let_def)
next
  case None
  show ?thesis
  proof (cases "Api s")
    case api: None
    with assms None show ?thesis
      by (auto simp: Reconcile_create_eq reconcile_spec_def Let_def elim!: reconcile_create_plan)
  next
    case api: (Some api)
    show ?thesis
    proof (cases "Secret_Content s")
      case content: None
      with assms None api show ?thesis
        by (auto simp: Reconcile_restore_eq reconcile_spec_def Let_def elim!: reconcile_restore_plan)
    next
      case content: (Some c)
      with assms None api show ?thesis
        by (auto simp: Reconcile_update_eq reconcile_spec_def Let_def elim!: reconcile_update_Ok)
    qed
  qed
qed

text \<open>Key sets in a plan are uploaded only as public halves of sets that \<open>ToPublic\<close> accepted.\<close>

fun uploaded :: "action \<Rightarrow> jwks option" where
  "uploaded (CreateClientAction r ks) = ks"
| "uploaded (UpdateClientAction i r ks) = ks"
| "uploaded _ = None"

lemma uploaded_plans:
  "a \<in> set (delete_plan s) \<Longrightarrow> uploaded a = None"
  "a \<in> set (create_plan J s ctx cfg i ks) \<Longrightarrow> uploaded a = None \<or> uploaded a = Some (public_set J ks)"
  "a \<in> set (restore_plan J api cfg ks) \<Longrightarrow> uploaded a = None \<or> uploaded a = Some (public_set J ks)"
  "a \<in> set (update_plan J s api c ctx cfg r) \<Longrightarrow>
     uploaded a = None \<or> (\<exists>ks. r = Some ks \<and> uploaded a = Some (public_set J ks))"
  by (auto simp: delete_plan_def create_plan_def restore_plan_def update_plan_def
      split: if_splits option.splits)

lemma Reconcile_uploaded:
  assumes "Reconcile J s ctx cfg crypto clock (w, empty_heap) = (Ok cmds, (w', h))"
    and "a \<in> set (resolve h cmds)" and "uploaded a = Some pub"
  shows "\<exists>ks. pub = public_set J ks"
proof -
  from Reconcile_spec [OF assms(1)]
  have "\<exists>ks api c r i. a \<in> set (delete_plan s) \<or> a \<in> set (create_plan J s ctx cfg i ks) \<or>
      a \<in> set (restore_plan J api cfg ks) \<or> a \<in> set (update_plan J s api c ctx cfg r)"
    using assms(2) by (auto simp: reconcile_spec_def Let_def split: if_splits option.splits)
  with assms(3) show ?thesis
    using uploaded_plans(1) [of a s] uploaded_plans(2) [of a J s ctx cfg]
      uploaded_plans(3) [of a J _ cfg] uploaded_plans(4) [of a J s _ _ ctx cfg] by force
qed

text \<open>Every action on an existing client names the client that the API knows.\<close>

fun names_client :: "action \<Rightarrow> string option" where
  "names_client (WriteSecretAction c) = Some (sc_ClientId c)"
| "names_client (UpdateClientAction i r ks) = Some i"
| "names_client (DeleteClientAction i) = Some i"
| "names_client _ = None"

lemma Reconcile_names_client:
  assumes "Reconcile J s ctx cfg crypto clock (w, empty_heap) = (Ok cmds, (w', h))"
    and "Api s = Some api" and "a \<in> set (resolve h cmds)"
  shows "names_client a = None \<or> names_client a = Some (as_ClientId api)"
  using Reconcile_spec [OF assms(1)] assms(2,3)
  by (auto simp: reconcile_spec_def Let_def delete_plan_def restore_plan_def update_plan_def
      content_for_def split: if_splits option.splits)


section \<open>When nothing is to be done\<close>

lemma good_RotateIfNeeded:
  assumes "good_jwks ks"
  shows "RotateIfNeeded crypto cn t (Some ks) w =
    (if fst (cs_clock crypto w) + rotation_window < cert_expiry (current_key ks)
     then (Ok None, snd (cs_clock crypto w))
     else rotate_from crypto cn t (current_key ks) (snd (cs_clock crypto w)))"
proof -
  from assms obtain js where js: "Keys ks = map Some js" "\<forall>k\<in>set js. one_cert k"
      "latest_key js = Some (hd js)" "current_key ks = hd js"
    by (rule good_jwksE)
  show ?thesis unfolding js(4) by (rule RotateIfNeeded_eq [OF js(2,3,1)])
qed

lemma rotate_from_not_None: "fst (rotate_from crypto cn t k w) \<noteq> Ok None"
  by (auto simp: rotate_from_def bind_def ret_def fail_def split: option.splits prod.splits outcome.splits)

lemma update_plan_Nil_iff: "update_plan J s api c ctx cfg r = [] \<longleftrightarrow>
    r = None \<and> api_AuthorityUrl (MaskinportenApi cfg) = sc_Authority c \<and>
    crd_Scopes (Crd s) = ac_Scopes (the (as_Req api))"
  by (auto simp: update_plan_def split: option.splits)

lemma Reconcile_idle:
  assumes "crd_DeletionTimestamp (Crd s) = None" and "Api s = Some api" and "as_Req api = Some req"
    and "Secret_Content s = Some c" and "sc_Jwks c = Some ks" and "good_jwks ks"
  shows "fst (Reconcile J s ctx cfg crypto clock (w, empty_heap)) = Ok [] \<longleftrightarrow>
    api_AuthorityUrl (MaskinportenApi cfg) = sc_Authority c \<and> crd_Scopes (Crd s) = ac_Scopes req \<and>
    fst (cs_clock crypto (snd (clock w))) + rotation_window < cert_expiry (current_key ks)"
proof
  assume "fst (Reconcile J s ctx cfg crypto clock (w, empty_heap)) = Ok []"
  then obtain w' h where run: "reconcile_update J s api c ctx cfg crypto clock (w, empty_heap) = (Ok [], (w', h))"
    using Reconcile_update_eq [OF assms(1,2,4)] by (metis prod.exhaust_sel)
  then obtain r where
      rot: "RotateIfNeeded crypto (AppId s) (fst (clock w) + Hour * 24 * 30) (sc_Jwks c)
           (snd (clock w)) = (Ok r, w')"
      and plan: "resolve h [] = update_plan J s api c ctx cfg r"
    by (rule reconcile_update_Ok)
  from plan have "update_plan J s api c ctx cfg r = []" by (simp add: resolve_def)
  then have none: "r = None" "api_AuthorityUrl (MaskinportenApi cfg) = sc_Authority c"
      "crd_Scopes (Crd s) = ac_Scopes req"
    using assms(3) by (simp_all add: update_plan_Nil_iff)
  from rot have "fst (RotateIfNeeded crypto (AppId s) (fst (clock w) + Hour * 24 * 30) (Some ks)
      (snd (clock w))) = Ok None" using assms(5) none(1) by simp
  then have "fst (cs_clock crypto (snd (clock w))) + rotation_window < cert_expiry (current_key ks)"
    using rotate_from_not_None [of crypto] by (simp add: good_RotateIfNeeded [OF assms(6)] split: if_splits)
  with none show "api_AuthorityUrl (MaskinportenApi cfg) = sc_Authority c \<and>
    crd_Scopes (Crd s) = ac_Scopes req \<and>
    fst (cs_clock crypto (snd (clock w))) + rotation_window < cert_expiry (current_key ks)" by blast
next
  assume same: "api_AuthorityUrl (MaskinportenApi cfg) = sc_Authority c \<and> crd_Scopes (Crd s) = ac_Scopes req \<and>
    fst (cs_clock crypto (snd (clock w))) + rotation_window < cert_expiry (current_key ks)"
  then have "RotateIfNeeded crypto (AppId s) (fst (clock w) + Hour * 24 * 30) (sc_Jwks c) (snd (clock w)) =
      (Ok None, snd (cs_clock crypto (snd (clock w))))"
    using assms(5) by (simp add: good_RotateIfNeeded [OF assms(6)])
  with same show "fst (Reconcile J s ctx cfg crypto clock (w, empty_heap)) = Ok []"
    using assms(3)
    by (simp add: Reconcile_update_eq [OF assms(1,2,4)] reconcile_update_def getNotAfter_def
        in_world_apply update_secret_cmds_def upload_jwks_cmds_def update_scopes_cmds_def Let_def
        bind_def ret_def split: prod.splits)
qed

end
