(* ===== verification/Jwt.thy ===== *)
theory Jwt
  imports Crypto
begin

text \<open>
  Signed tokens, \<open>internal/crypto/jwt.go\<close>: the operator signs the grant with which it asks for an
  access token (\<open>NewJWT\<close>), the fake Maskinporten parses and verifies it (\<open>ParseJWT\<close>,
  \<open>DecodeClaims\<close>). Signing and verifying belong to the go-jose library and are parameters; what
  the two sides rely on is \<open>jwt_laws\<close>.
\<close>

definition SignatureAlgorithmsStr :: "string list" where
  "SignatureAlgorithmsStr = [''RS256'', ''RS384'', ''RS512'']"

record claims =
  cl_Audience :: "string list"
  cl_Issuer :: string
  cl_Subject :: string
  cl_IssuedAt :: instant
  cl_NotBefore :: instant
  cl_Expiry :: instant
  cl_ID :: string
  cl_Scope :: string

text \<open>
  The library's registered claims, with dates in seconds (\<open>NumericDate\<close>, a pointer), and a parsed
  token: the key ids of its headers and the token itself.
\<close>

record jose_claims =
  jc_Audience :: "string list"
  jc_Issuer :: string
  jc_Subject :: string
  jc_IssuedAt :: "int option"
  jc_NotBefore :: "int option"
  jc_Expiry :: "int option"
  jc_ID :: string

record jws =
  jws_KeyIDs :: "string list"
  jws_Raw :: string

record 'w jwt_lib =
  jwt_ParseSigned :: "string \<Rightarrow> string list \<Rightarrow> jws outcome"
  jwt_Claims :: "jws \<Rightarrow> jose_jwk \<Rightarrow> jose_claims outcome"
  jwt_PrivateClaims :: "jws \<Rightarrow> jose_jwk \<Rightarrow> (string \<rightharpoonup> json) outcome"
  jwt_Sign :: "string \<Rightarrow> jose_jwk \<Rightarrow> string \<Rightarrow> jose_claims \<Rightarrow> string \<Rightarrow> string outcome"
  jwt_NumericDate :: "instant \<Rightarrow> int option"
  jwt_Time :: "int \<Rightarrow> instant"
  uuid_New :: "('w, string) prog"

datatype jwt = Jwt (token: jws)

definition ParseJWT :: "'w jwt_lib \<Rightarrow> string \<Rightarrow> jwt outcome" where
  "ParseJWT L tokenString =
     obind (jwt_ParseSigned L tokenString SignatureAlgorithmsStr) (\<lambda>tok.
     if length (jws_KeyIDs tok) \<noteq> 1 then Err (ErrorNew ''unexpected number of headers in JWT'')
     else Ok (Jwt tok))"

text \<open>A date that is missing leaves Go's zero time in the claims.\<close>

definition claim_time :: "'w jwt_lib \<Rightarrow> int option \<Rightarrow> instant" where
  "claim_time L d = (case d of None \<Rightarrow> 0 | Some s \<Rightarrow> jwt_Time L s)"

definition DecodeClaims :: "'w jwt_lib \<Rightarrow> jwt \<Rightarrow> jwk_ptr \<Rightarrow> claims outcome" where
  "DecodeClaims L j key = (case key of
       None \<Rightarrow> Err (ErrorNew ''JWK cannot be nil'')
     | Some k \<Rightarrow>
         obind (jwt_Claims L (token j) (inner k)) (\<lambda>joseClaims.
         let scope = (case jwt_PrivateClaims L (token j) (inner k) of
               Ok m \<Rightarrow> (case m ''scope'' of Some (JStr s) \<Rightarrow> s | _ \<Rightarrow> [])
             | _ \<Rightarrow> [])
         in Ok \<lparr>cl_Audience = jc_Audience joseClaims, cl_Issuer = jc_Issuer joseClaims,
                cl_Subject = jc_Subject joseClaims,
                cl_IssuedAt = claim_time L (jc_IssuedAt joseClaims),
                cl_NotBefore = claim_time L (jc_NotBefore joseClaims),
                cl_Expiry = claim_time L (jc_Expiry joseClaims),
                cl_ID = jc_ID joseClaims, cl_Scope = scope\<rparr>))"

definition Jwt_KeyID :: "jwt \<Rightarrow> string outcome" where
  "Jwt_KeyID j =
     (if length (jws_KeyIDs (token j)) = 1 then index (jws_KeyIDs (token j)) 0
      else Panic (FatalExit ''unexpected number of headers in JWT''))"

definition NewJWT ::
  "jose_lib \<Rightarrow> 'w jwt_lib \<Rightarrow> jwk_ptr \<Rightarrow> string list \<Rightarrow> string \<Rightarrow> string \<Rightarrow> instant \<Rightarrow> 'w clock \<Rightarrow>
   ('w, string) prog"
where
  "NewJWT J L key audience issuer scope expiry clock =
     bind (lift (Jwk_IsPublic J key)) (\<lambda>is_public.
     if is_public then fail (ErrorNew ''cannot sign JWT with public key'')
     else
       bind (reading clock) (\<lambda>issuedAt.
       bind (uuid_New L) (\<lambda>id.
       let pubClaims = \<lparr>jc_Audience = audience, jc_Issuer = issuer, jc_Subject = [],
             jc_IssuedAt = jwt_NumericDate L issuedAt, jc_NotBefore = jwt_NumericDate L issuedAt,
             jc_Expiry = jwt_NumericDate L expiry, jc_ID = id\<rparr>
       in bind (lift (Jwk_Algorithm key)) (\<lambda>algo.
          if algo \<notin> set SignatureAlgorithmsStr then fail (ErrorNew ''unsupported signing algorithm'')
          else
            bind (lift (Jwk_KeyID key)) (\<lambda>keyId.
            bind (lift (deref key)) (\<lambda>k.
            lift (jwt_Sign L algo (inner k) keyId pubClaims scope)))))))"

text \<open>The method of \<open>Jwk\<close> in \<open>jwks.go\<close> with the same name.\<close>

definition Jwk_NewJWT ::
  "jose_lib \<Rightarrow> 'w jwt_lib \<Rightarrow> jwk_ptr \<Rightarrow> string list \<Rightarrow> string \<Rightarrow> string \<Rightarrow> instant \<Rightarrow> 'w clock \<Rightarrow>
   ('w, string) prog"
where
  "Jwk_NewJWT J L j audience issuer scope expiry clock = NewJWT J L j audience issuer scope expiry clock"

text \<open>
  What both sides rely on: a token signed with a private RSA key parses, with that key id in its
  only header, and the public half of the key decodes the claims that were signed, the scope
  among the private ones; dates keep whole seconds.
\<close>

definition jwt_laws :: "'w jwt_lib \<Rightarrow> bool" where
  "jwt_laws L \<longleftrightarrow>
     (\<forall>alg k sk kid cl scope t k' algs.
        jose_Key k = RsaPrivate sk \<longrightarrow> jwt_Sign L alg k kid cl scope = Ok t \<longrightarrow> alg \<in> set algs \<longrightarrow>
        jose_Key k' = RsaPublic (PublicKey sk) \<longrightarrow>
        (\<exists>tok. jwt_ParseSigned L t algs = Ok tok \<and> jws_KeyIDs tok = [kid] \<and>
           jwt_Claims L tok k' = Ok cl \<and>
           (\<exists>m. jwt_PrivateClaims L tok k' = Ok m \<and> m ''scope'' = Some (JStr scope)))) \<and>
     (\<forall>t. t \<noteq> 0 \<longrightarrow> (\<exists>s. jwt_NumericDate L t = Some s \<and> jwt_Time L s = whole_seconds t)) \<and>
     jwt_NumericDate L 0 = None"

lemma whole_seconds_0 [simp]: "whole_seconds 0 = 0"
  by (simp add: whole_seconds_def)

lemma claim_time_NumericDate:
  assumes "jwt_laws L" shows "claim_time L (jwt_NumericDate L t) = whole_seconds t"
proof (cases "t = 0")
  case True
  with assms show ?thesis by (simp add: jwt_laws_def claim_time_def)
next
  case False
  with assms show ?thesis by (auto simp: jwt_laws_def claim_time_def)
qed

lemma NewJWT_Ok:
  assumes "NewJWT J L key audience issuer scope expiry clock w = (Ok t, w')"
  obtains k issuedAt id where "key = Some k" and "\<not> jose_IsPublic J (inner k)"
    and "jose_Algorithm (inner k) \<in> set SignatureAlgorithmsStr" and "issuedAt = fst (clock w)"
    and "jwt_Sign L (jose_Algorithm (inner k)) (inner k) (jose_KeyID (inner k))
       \<lparr>jc_Audience = audience, jc_Issuer = issuer, jc_Subject = [],
        jc_IssuedAt = jwt_NumericDate L issuedAt, jc_NotBefore = jwt_NumericDate L issuedAt,
        jc_Expiry = jwt_NumericDate L expiry, jc_ID = id\<rparr> scope = Ok t"
    and "uuid_New L (snd (clock w)) = (Ok id, w')"
  using assms
  by (cases key)
    (auto simp: NewJWT_def bind_eq_Ok_iff Jwk_Algorithm_def Let_def split: if_splits)

lemma jwt_accepts:
  assumes "jwt_laws L" and "NewJWT J L (Some k) audience issuer scope expiry clock w = (Ok t, w')"
    and "jose_Key (inner k) = RsaPrivate sk" and "jose_Key (inner k') = RsaPublic (PublicKey sk)"
  obtains j cl where "ParseJWT L t = Ok j" and "Jwt_KeyID j = Ok (jose_KeyID (inner k))"
    and "DecodeClaims L j (Some k') = Ok cl" and "cl_Audience cl = audience" and "cl_Issuer cl = issuer"
    and "cl_Scope cl = scope" and "cl_Expiry cl = whole_seconds expiry"
    and "cl_IssuedAt cl = whole_seconds (fst (clock w))"
    and "cl_NotBefore cl = whole_seconds (fst (clock w))"
proof -
  from assms(2) obtain id where alg: "jose_Algorithm (inner k) \<in> set SignatureAlgorithmsStr"
    and sign: "jwt_Sign L (jose_Algorithm (inner k)) (inner k) (jose_KeyID (inner k))
       \<lparr>jc_Audience = audience, jc_Issuer = issuer, jc_Subject = [],
        jc_IssuedAt = jwt_NumericDate L (fst (clock w)), jc_NotBefore = jwt_NumericDate L (fst (clock w)),
        jc_Expiry = jwt_NumericDate L expiry, jc_ID = id\<rparr> scope = Ok t"
    by (rule NewJWT_Ok) auto
  from assms(1,3,4) alg sign obtain tok m where
      parse: "jwt_ParseSigned L t SignatureAlgorithmsStr = Ok tok" "jws_KeyIDs tok = [jose_KeyID (inner k)]"
      and cl: "jwt_Claims L tok (inner k') = Ok \<lparr>jc_Audience = audience, jc_Issuer = issuer, jc_Subject = [],
        jc_IssuedAt = jwt_NumericDate L (fst (clock w)), jc_NotBefore = jwt_NumericDate L (fst (clock w)),
        jc_Expiry = jwt_NumericDate L expiry, jc_ID = id\<rparr>"
      and m: "jwt_PrivateClaims L tok (inner k') = Ok m" "m ''scope'' = Some (JStr scope)"
    unfolding jwt_laws_def by blast
  show ?thesis
    by (rule that [of "Jwt tok"])
      ((simp_all add: ParseJWT_def parse Jwt_KeyID_def DecodeClaims_def cl m Let_def
        claim_time_NumericDate [OF assms(1)])+)
qed

end
