(* ===== verification/HttpApi.thy ===== *)
theory HttpApi
  imports ClientState Caching Jwt GoPath
begin

text \<open>
  The client of the Maskinporten APIs, \<open>internal/maskinporten/http_api_client.go\<close>: tokens and
  metadata in two cached atoms, one method per endpoint, and the retry loop below all of them.

  The network is the record \<open>net_lib\<close>: sending a request answers with a response or an error and
  says what is left unread of the request's body, since a body is a reader that a second send of
  the same request does not rewind. After each failure the backoff library, which knows the pauses it
  has granted so far, grants another one or gives up. \<open>url_Parse\<close> is the parser of \<open>net/url\<close> on a base URL without a query, split
  into origin and path; a path is kept both decoded and as it was written.
\<close>


section \<open>Requests, responses and the network\<close>

record base_url =
  bu_Origin :: string
  bu_Path :: string
  bu_EscapedPath :: string

record url =
  u_Origin :: string
  u_Path :: string
  u_Query :: "(string \<times> string) list"

record http_request =
  rq_Method :: string
  rq_URL :: url
  rq_Headers :: "(string \<times> string) list"
  rq_Body :: "string option"
  rq_unread :: string

record http_response =
  rs_StatusCode :: int
  rs_Status :: string
  rs_Body :: string
  rs_ReadErr :: "go_error option"

record backoff_strategy =
  InitialInterval :: duration
  MaxInterval :: duration
  MaxElapsedTime :: duration

record 'w net_lib =
  url_Parse :: "string \<Rightarrow> base_url outcome"
  http_Do :: "http_request \<Rightarrow> 'w \<Rightarrow> (http_response outcome \<times> string) \<times> 'w"
  backoff_NextBackOff :: "backoff_strategy \<Rightarrow> duration list \<Rightarrow> 'w \<Rightarrow> duration option \<times> 'w"
  backoff_sleep :: "duration \<Rightarrow> 'w \<Rightarrow> 'w"

text \<open>
  What \<open>net/http\<close> documents of sending: the reader of the body only moves on, and a request whose
  reader does not yield the announced length is not answered but fails.
\<close>

definition net_laws :: "'w net_lib \<Rightarrow> bool" where
  "net_laws N \<longleftrightarrow>
     (\<forall>req w r u w1. http_Do N req w = ((r, u), w1) \<longrightarrow>
        length u \<le> length (rq_unread req) \<and>
        (\<forall>b resp. rq_Body req = Some b \<longrightarrow> length (rq_unread req) < length b \<longrightarrow> r \<noteq> Ok resp))"

text \<open>
  What the backoff library documents of a strategy: a pause is at least half the initial interval,
  for the randomization factor is one half and intervals only grow, and none is granted that would
  end later than \<open>MaxElapsedTime\<close> after the start, which all pauses so far are part of.
\<close>

definition backoff_laws :: "'w net_lib \<Rightarrow> bool" where
  "backoff_laws N \<longleftrightarrow> (\<forall>b ps w p w1. backoff_NextBackOff N b ps w = (Some p, w1) \<longrightarrow>
     InitialInterval b \<le> 2 * p \<and> sum_list ps + p \<le> MaxElapsedTime b)"

text \<open>A strategy that follows these laws, for concrete runs: at most \<open>n\<close> pauses of the initial interval.\<close>

definition steady_backoff :: "nat \<Rightarrow> backoff_strategy \<Rightarrow> duration list \<Rightarrow> 'w \<Rightarrow> duration option \<times> 'w" where
  "steady_backoff n b ps w =
     (if length ps < n \<and> 0 \<le> InitialInterval b \<and> sum_list ps + InitialInterval b \<le> MaxElapsedTime b
      then Some (InitialInterval b) else None, w)"

lemma steady_backoff_laws: "backoff_NextBackOff N = steady_backoff n \<Longrightarrow> backoff_laws N"
  by (simp add: backoff_laws_def steady_backoff_def)

lemma steady_backoff_world [simp]: "snd (steady_backoff n b ps w) = w"
  by (simp add: steady_backoff_def)

fun path_unescape :: "string \<Rightarrow> string option" where
  "path_unescape [] = Some []"
| "path_unescape (c # cs) =
     (if c = CHR ''%'' then
        (case cs of
           a # b # cs' \<Rightarrow>
             (case (hex_val a, hex_val b) of
                (Some x, Some y) \<Rightarrow> map_option (Cons (char_of (16 * x + y))) (path_unescape cs')
              | _ \<Rightarrow> None)
         | _ \<Rightarrow> None)
      else map_option (Cons c) (path_unescape cs))"

definition has_suffix_slash :: "string \<Rightarrow> bool" where
  "has_suffix_slash s \<longleftrightarrow> s \<noteq> [] \<and> last s = CHR ''/''"

text \<open>
  \<open>url.JoinPath\<close>: the elements are joined and cleaned, not escaped, and then decoded as a whole; a
  path that does not decode leaves the path of the base. Writing the URL out for the request puts
  a slash between a host and a path that lacks one.
\<close>

definition joined_path :: "base_url \<Rightarrow> string list \<Rightarrow> string" where
  "joined_path base elems =
     (let e0 = bu_EscapedPath base;
          p = (if \<not> path_IsAbs e0 then tl (path_Join ((CHR ''/'' # e0) # elems))
               else path_Join (e0 # elems))
      in if has_suffix_slash (last (e0 # elems)) \<and> \<not> has_suffix_slash p then p @ ''/'' else p)"

definition rooted_path :: "string \<Rightarrow> string" where
  "rooted_path p = (if p = [] \<or> path_IsAbs p then p else CHR ''/'' # p)"

definition url_JoinPath :: "'w net_lib \<Rightarrow> string \<Rightarrow> string list \<Rightarrow> url outcome" where
  "url_JoinPath N base elems = obind (url_Parse N base) (\<lambda>b.
     Ok \<lparr>u_Origin = bu_Origin b,
         u_Path = rooted_path
           (case path_unescape (joined_path b elems) of None \<Rightarrow> bu_Path b | Some p \<Rightarrow> p),
         u_Query = []\<rparr>)"

definition NewRequest :: "string \<Rightarrow> url \<Rightarrow> string option \<Rightarrow> http_request" where
  "NewRequest method u body = \<lparr>rq_Method = method, rq_URL = u, rq_Headers = [], rq_Body = body,
     rq_unread = (case body of None \<Rightarrow> [] | Some b \<Rightarrow> b)\<rparr>"

definition Header_Set :: "string \<Rightarrow> string \<Rightarrow> http_request \<Rightarrow> http_request" where
  "Header_Set k v req = req\<lparr>rq_Headers := filter (\<lambda>kv. fst kv \<noteq> k) (rq_Headers req) @ [(k, v)]\<rparr>"

definition Header_Add :: "string \<Rightarrow> string \<Rightarrow> http_request \<Rightarrow> http_request" where
  "Header_Add k v req = req\<lparr>rq_Headers := rq_Headers req @ [(k, v)]\<rparr>"


section \<open>The state of the client\<close>

record well_known_response =
  wk_Issuer :: string
  wk_TokenEndpoint :: string
  wk_JwksURI :: string
  wk_TokenEndpointAuthMethodsSupported :: "string slice"
  wk_GrantTypesSupported :: "string slice"
  wk_TokenEndpointAuthSigningAlgValuesSupported :: "string slice"

record token_response =
  tr_AccessToken :: string
  tr_TokenType :: string
  tr_ExpiresIn :: int
  tr_Scope :: string

definition zero_well_known :: well_known_response where
  "zero_well_known = \<lparr>wk_Issuer = [], wk_TokenEndpoint = [], wk_JwksURI = [],
     wk_TokenEndpointAuthMethodsSupported = None, wk_GrantTypesSupported = None,
     wk_TokenEndpointAuthSigningAlgValuesSupported = None\<rparr>"

definition zero_token_response :: token_response where
  "zero_token_response = \<lparr>tr_AccessToken = [], tr_TokenType = [], tr_ExpiresIn = 0, tr_Scope = []\<rparr>"

definition dec_well_known :: "well_known_response decoder" where
  "dec_well_known = dec_object (\<lambda>ms.
     Option.bind (dec_field dec_string [] ''issuer'' ms) (\<lambda>x1.
     Option.bind (dec_field dec_string [] ''token_endpoint'' ms) (\<lambda>x2.
     Option.bind (dec_field dec_string [] ''jwks_uri'' ms) (\<lambda>x3.
     Option.bind (dec_field (dec_slice dec_string []) None ''token_endpoint_auth_methods_supported'' ms) (\<lambda>x4.
     Option.bind (dec_field (dec_slice dec_string []) None ''grant_types_supported'' ms) (\<lambda>x5.
     Option.bind (dec_field (dec_slice dec_string []) None
        ''token_endpoint_auth_signing_alg_values_supported'' ms) (\<lambda>x6.
     Some \<lparr>wk_Issuer = x1, wk_TokenEndpoint = x2, wk_JwksURI = x3,
           wk_TokenEndpointAuthMethodsSupported = x4, wk_GrantTypesSupported = x5,
           wk_TokenEndpointAuthSigningAlgValuesSupported = x6\<rparr>)))))))"

definition dec_token_response :: "token_response decoder" where
  "dec_token_response = dec_object (\<lambda>ms.
     Option.bind (dec_field dec_string [] ''access_token'' ms) (\<lambda>x1.
     Option.bind (dec_field dec_string [] ''token_type'' ms) (\<lambda>x2.
     Option.bind (dec_field dec_int 0 ''expires_in'' ms) (\<lambda>x3.
     Option.bind (dec_field dec_string [] ''scope'' ms) (\<lambda>x4.
     Some \<lparr>tr_AccessToken = x1, tr_TokenType = x2, tr_ExpiresIn = x3, tr_Scope = x4\<rparr>)))))"

record 'w http_state =
  wellKnown :: "well_known_response cached_atom"
  accessToken :: "token_response cached_atom"
  env :: 'w

text \<open>The fields of \<open>HttpApiClient\<close> that never change, with the libraries it uses.\<close>

record 'w http_api =
  hc_config :: api_config
  hc_context :: op_context
  hc_jwk :: jwk
  hc_clock :: "'w clock"
  hc_clientNamePrefix :: string
  hc_jose :: jose_lib
  hc_jwt :: "'w jwt_lib"
  hc_net :: "'w net_lib"

definition NewHttpApiClient ::
  "jose_lib \<Rightarrow> 'w jwt_lib \<Rightarrow> 'w net_lib \<Rightarrow> api_config \<Rightarrow> op_context \<Rightarrow> 'w clock \<Rightarrow> 'w \<Rightarrow>
   ('w http_api \<times> 'w http_state) outcome"
where
  "NewHttpApiClient J L N config ctx clock w =
     (case Option.bind (json_unmarshal (api_Jwk config)) (Jwk_UnmarshalJSON J zero_jwk) of
        None \<Rightarrow> Err json_error
      | Some jwk \<Rightarrow> Ok
          (\<lparr>hc_config = config, hc_context = ctx, hc_jwk = jwk, hc_clock = clock,
            hc_clientNamePrefix = getClientNamePrefix ctx, hc_jose = J, hc_jwt = L, hc_net = N\<rparr>,
           \<lparr>wellKnown = NewCachedAtom (5 * Minute), accessToken = NewCachedAtom (1 * Minute), env = w\<rparr>))"

definition in_env :: "('w, 'a) prog \<Rightarrow> ('w http_state, 'a) prog" where
  "in_env = on_part env (\<lambda>w s. s\<lparr>env := w\<rparr>)"

definition api_clock :: "'w http_api \<Rightarrow> 'w http_state clock" where
  "api_clock c s = (case hc_clock c (env s) of (t, w) \<Rightarrow> (t, s\<lparr>env := w\<rparr>))"


section \<open>Sending with retries\<close>

text \<open>
  \<open>operation\<close>: an error or a status of 500 and above is tried again. \<open>http_retry\<close> is \<open>backoff.Retry\<close>
  around it, with the pauses so far: it pauses and tries again as long as the library grants a
  pause, and returns the last error otherwise. A pause that is not positive, or does not fit into
  \<open>MaxElapsedTime\<close> after those before it, counts as none; by \<open>backoff_laws\<close> the library grants no such
  pause.
\<close>

definition http_backoff :: backoff_strategy where
  "http_backoff = \<lparr>InitialInterval = 1 * Second, MaxInterval = 30 * Second, MaxElapsedTime = 2 * Minute\<rparr>"

definition operation_error :: "http_response outcome \<Rightarrow> go_error option" where
  "operation_error result = (case result of
       Ok resp \<Rightarrow> if 500 \<le> rs_StatusCode resp then Some (Errorf ''server error: %v'' [rs_Status resp]) else None
     | Err e \<Rightarrow> Some e
     | Panic p \<Rightarrow> None)"

definition next_pause :: "'w net_lib \<Rightarrow> duration list \<Rightarrow> 'w \<Rightarrow> duration option \<times> 'w" where
  "next_pause N ps w = (case backoff_NextBackOff N http_backoff ps w of
       (None, w1) \<Rightarrow> (None, w1)
     | (Some p, w1) \<Rightarrow> (if 0 < p \<and> sum_list ps + p \<le> MaxElapsedTime http_backoff then Some p else None, w1))"

lemma next_pause_bound:
  "next_pause N ps w = (Some p, w1) \<Longrightarrow> 0 < p \<and> sum_list ps + p \<le> MaxElapsedTime http_backoff"
  by (auto simp: next_pause_def split: prod.splits option.splits if_splits)

function http_retry :: "'w net_lib \<Rightarrow> duration list \<Rightarrow> http_request \<Rightarrow> ('w, http_response) prog" where
  "http_retry N ps req w = (case http_Do N req w of ((result, unread), w1) \<Rightarrow>
     (case operation_error result of
        None \<Rightarrow> (result, w1)
      | Some e \<Rightarrow> (case next_pause N ps w1 of
          (None, w2) \<Rightarrow> (Err e, w2)
        | (Some p, w2) \<Rightarrow> http_retry N (ps @ [p]) (req\<lparr>rq_unread := unread\<rparr>) (backoff_sleep N p w2))))"
  by pat_completeness auto

termination
  by (relation "measure (\<lambda>(N, ps, req, w). nat (MaxElapsedTime http_backoff - sum_list ps))")
    (auto dest!: next_pause_bound [OF sym])

declare http_retry.simps [simp del]

definition retryableHTTPDo :: "'w http_api \<Rightarrow> http_request \<Rightarrow> ('w http_state, http_response) prog" where
  "retryableHTTPDo c req = in_env (http_retry (hc_net c) []
     (Header_Add ''X-Altinn-Operator-RunId'' (RunId (hc_context c)) req))"

text \<open>A body that fails while it is read, before there is a value in what was read, is an error.\<close>

definition deserialize :: "'a decoder \<Rightarrow> 'a \<Rightarrow> http_response \<Rightarrow> ('s, 'a) prog" where
  "deserialize dec zero resp = (case json_decode (rs_Body resp) of
       None \<Rightarrow> fail (case rs_ReadErr resp of None \<Rightarrow> json_error | Some e \<Rightarrow> e)
     | Some j \<Rightarrow> (case dec zero j of None \<Rightarrow> fail json_error | Some x \<Rightarrow> ret x))"

definition handleErrorResponse :: "http_response \<Rightarrow> go_error" where
  "handleErrorResponse resp = (case rs_ReadErr resp of
       Some err \<Rightarrow> ErrWrap (''HTTP '' @ itoa (rs_StatusCode resp) @ '': failed to read response body'') err
     | None \<Rightarrow> Errorf ''HTTP %d: %s'' [itoa (rs_StatusCode resp), rs_Body resp])"

text \<open>The shape every call shares: a status other than the expected one is an error.\<close>

definition expect_status :: "int \<Rightarrow> http_response \<Rightarrow> ('s, unit) prog" where
  "expect_status code resp =
     (if rs_StatusCode resp \<noteq> code then fail (handleErrorResponse resp) else ret ())"


lemma expect_status_Ok_iff [simp]:
  "expect_status n resp s = (Ok x, s') \<longleftrightarrow> rs_StatusCode resp = n \<and> s' = s"
  by (auto simp: expect_status_def)

lemma deserialize_Ok_iff [simp]:
  "deserialize dec z resp s = (Ok x, s') \<longleftrightarrow>
     Option.bind (json_decode (rs_Body resp)) (dec z) = Some x \<and> s' = s"
  by (auto simp: deserialize_def split: option.split)

lemma deserialize_reads:
  "Option.bind (json_decode (rs_Body resp)) (dec z) = Some x \<Longrightarrow> deserialize dec z resp s = (Ok x, s)"
  by (simp only: deserialize_Ok_iff simp_thms)


section \<open>Tokens\<close>

definition wellKnownFetcher :: "'w http_api \<Rightarrow> ('w http_state, well_known_response option) prog" where
  "wellKnownFetcher c =
     bind (lift (url_JoinPath (hc_net c) (api_AuthorityUrl (hc_config c))
                   [''/.well-known/oauth-authorization-server''])) (\<lambda>endpoint.
     bind (retryableHTTPDo c (NewRequest ''GET'' endpoint None)) (\<lambda>resp.
     bind (expect_status 200 resp) (\<lambda>_.
     bind (deserialize dec_well_known zero_well_known resp) (\<lambda>wellKnownResp.
     ret (Some wellKnownResp)))))"

definition GetWellKnownConfiguration :: "'w http_api \<Rightarrow> ('w http_state, well_known_response option) prog" where
  "GetWellKnownConfiguration c =
     CachedAtom_Get wellKnown (\<lambda>a s. s\<lparr>wellKnown := a\<rparr>) (api_clock c) (wellKnownFetcher c)"

definition createGrant :: "'w http_api \<Rightarrow> ('w http_state, string) prog" where
  "createGrant c =
     bind (GetWellKnownConfiguration c) (\<lambda>wk.
     bind (reading (api_clock c)) (\<lambda>now.
     let exp = now + 60 * Second in
     bind (lift (deref wk)) (\<lambda>wk.
     in_env (Jwk_NewJWT (hc_jose c) (hc_jwt c) (Some (hc_jwk c)) [wk_Issuer wk]
               (api_ClientId (hc_config c)) (api_Scope (hc_config c)) exp (hc_clock c)))))"

definition accessTokenFetcher :: "'w http_api \<Rightarrow> ('w http_state, token_response option) prog" where
  "accessTokenFetcher c =
     bind (createGrant c) (\<lambda>grant.
     bind (lift (url_JoinPath (hc_net c) (api_AuthorityUrl (hc_config c)) [''/token''])) (\<lambda>endpoint.
     let endpoint = endpoint\<lparr>u_Query :=
           [(''assertion'', grant), (''grant_type'', ''urn:ietf:params:oauth:grant-type:jwt-bearer'')]\<rparr>;
         req = Header_Set ''Content-Type'' ''application/x-www-form-urlencoded'' (NewRequest ''POST'' endpoint None)
     in bind (retryableHTTPDo c req) (\<lambda>resp.
     bind (expect_status 200 resp) (\<lambda>_.
     bind (deserialize dec_token_response zero_token_response resp) (\<lambda>tokenResp.
     ret (Some tokenResp))))))"

definition GetAccessToken :: "'w http_api \<Rightarrow> ('w http_state, token_response option) prog" where
  "GetAccessToken c =
     CachedAtom_Get accessToken (\<lambda>a s. s\<lparr>accessToken := a\<rparr>) (api_clock c) (accessTokenFetcher c)"

definition createReq ::
  "'w http_api \<Rightarrow> url \<Rightarrow> string \<Rightarrow> string option \<Rightarrow> ('w http_state, http_request) prog"
where
  "createReq c u method body =
     bind (wrapping ''failed to get access token'' (GetAccessToken c)) (\<lambda>tokenResponse.
     bind (lift (deref tokenResponse)) (\<lambda>tok.
     ret (Header_Set ''Authorization'' (''Bearer '' @ tr_AccessToken tok) (NewRequest method u body))))"


section \<open>The self-service API\<close>

definition clients_path :: string where
  "clients_path = ''/api/v1/altinn/admin/clients''"

definition accept_json :: "http_request \<Rightarrow> http_request" where
  "accept_json req = Header_Set ''Accept'' ''application/json'' req"

definition json_headers :: "http_request \<Rightarrow> http_request" where
  "json_headers req = Header_Set ''Accept'' ''application/json''
     (Header_Set ''Content-Type'' ''application/json'' req)"

definition self_service_url :: "'w http_api \<Rightarrow> string list \<Rightarrow> url outcome" where
  "self_service_url c elems = url_JoinPath (hc_net c) (api_SelfServiceUrl (hc_config c)) (clients_path # elems)"

text \<open>The loop of \<open>GetAllClients\<close>: clients without a name or with a foreign one are skipped.\<close>

fun own_clients :: "string \<Rightarrow> client_response list \<Rightarrow> client_response list" where
  "own_clients prefix [] = []"
| "own_clients prefix (cl # cls) = (case cr_ClientName cl of
       None \<Rightarrow> own_clients prefix cls
     | Some name \<Rightarrow>
         if TrimPrefix name prefix = name then own_clients prefix cls
         else cl # own_clients prefix cls)"

definition GetAllClients :: "'w http_api \<Rightarrow> ('w http_state, client_response list) prog" where
  "GetAllClients c =
     bind (lift (self_service_url c [])) (\<lambda>u.
     bind (createReq c u ''GET'' None) (\<lambda>req.
     bind (retryableHTTPDo c (accept_json req)) (\<lambda>resp.
     bind (expect_status 200 resp) (\<lambda>_.
     bind (deserialize (dec_slice (dec_client_response (hc_jose c)) zero_client_response) None resp) (\<lambda>dtos.
     case dtos of
       None \<Rightarrow> fail (ErrorNew ''no clients found'')
     | Some cls \<Rightarrow> ret (own_clients (hc_clientNamePrefix c) cls))))))"

definition getClientJwks :: "'w http_api \<Rightarrow> string \<Rightarrow> ('w http_state, jwks) prog" where
  "getClientJwks c clientId =
     (if clientId = [] then fail (ErrorNew ''missing ID on client info'')
      else
        bind (lift (self_service_url c [clientId, ''jwks''])) (\<lambda>u.
        bind (createReq c u ''GET'' None) (\<lambda>req.
        bind (retryableHTTPDo c (accept_json req)) (\<lambda>resp.
        bind (expect_status 200 resp) (\<lambda>_.
        deserialize (dec_jwks (hc_jose c)) \<lparr>Keys = []\<rparr> resp)))))"

definition GetClient :: "'w http_api \<Rightarrow> string \<Rightarrow> ('w http_state, client_response \<times> jwks) prog" where
  "GetClient c clientId =
     bind (lift (self_service_url c [clientId])) (\<lambda>u.
     bind (createReq c u ''GET'' None) (\<lambda>req.
     bind (retryableHTTPDo c (accept_json req)) (\<lambda>resp.
     bind (expect_status 200 resp) (\<lambda>_.
     bind (deserialize (dec_client_response (hc_jose c)) zero_client_response resp) (\<lambda>dto.
     case cr_ClientName dto of
       None \<Rightarrow> fail (ErrorNew ''client name is nil'')
     | Some name \<Rightarrow>
         if TrimPrefix name (hc_clientNamePrefix c) = name
         then fail (Errorf ''unexpected client name: %s'' [name])
         else bind (getClientJwks c clientId) (\<lambda>jwks. ret (dto, jwks)))))))"

text \<open>\<open>CreateClientJwks\<close> first looks at every key; a \<open>nil\<close> key panics in \<open>IsPublic\<close>.\<close>

fun check_public :: "jose_lib \<Rightarrow> string \<Rightarrow> jwk_ptr list \<Rightarrow> unit outcome" where
  "check_public J clientId [] = Ok ()"
| "check_public J clientId (k # ks) = obind (Jwk_IsPublic J k) (\<lambda>is_public.
     if \<not> is_public
     then Err (Errorf ''tried to upload private key JWKS to Maskinporten for: %s'' [clientId])
     else check_public J clientId ks)"

lemma check_public_set:
  assumes "jose_laws J" and "Keys ks = map Some js" and "\<forall>k\<in>set js. private_rsa_key k"
  shows "check_public J i (Keys (public_set J ks)) = Ok ()"
proof -
  have "check_public J i (map (\<lambda>k. Some (public_half J k)) js) = Ok ()"
    using assms(3) by (induction js) (simp_all add: public_half_is_public [OF assms(1)])
  then show ?thesis by (simp add: public_set_def assms(2) comp_def)
qed

definition CreateClientJwks :: "'w http_api \<Rightarrow> string \<Rightarrow> jwks option \<Rightarrow> ('w http_state, unit) prog" where
  "CreateClientJwks c clientId jwks =
     (if clientId = [] then fail (ErrorNew ''missing ID on client info'')
      else (case jwks of
          None \<Rightarrow> fail (ErrorNew ''can't create maskinporten client without JWKS initialized'')
        | Some ks \<Rightarrow>
            bind (lift (check_public (hc_jose c) clientId (Keys ks))) (\<lambda>_.
            bind (lift (self_service_url c [clientId, ''jwks''])) (\<lambda>u.
            bind (lift (enc_jwks (hc_jose c) ks)) (\<lambda>buf.
            bind (createReq c u ''POST'' (Some (json_text buf))) (\<lambda>req.
            bind (retryableHTTPDo c (json_headers req)) (\<lambda>resp.
            expect_status 201 resp)))))))"

definition enc_add_client_request_ptr :: "add_client_request option \<Rightarrow> json" where
  "enc_add_client_request_ptr r = (case r of None \<Rightarrow> JNull | Some r \<Rightarrow> enc_add_client_request r)"

definition CreateClient ::
  "'w http_api \<Rightarrow> add_client_request option \<Rightarrow> jwks option \<Rightarrow> ('w http_state, client_response) prog"
where
  "CreateClient c client jwks = (case jwks of
       None \<Rightarrow> fail (ErrorNew ''can't create maskinporten client without JWKS initialized'')
     | Some ks \<Rightarrow>
         bind (lift (self_service_url c [])) (\<lambda>u.
         bind (createReq c u ''POST'' (Some (json_text (enc_add_client_request_ptr client)))) (\<lambda>req.
         bind (retryableHTTPDo c (json_headers req)) (\<lambda>resp.
         bind (expect_status 200 resp) (\<lambda>_.
         bind (deserialize (dec_client_response (hc_jose c)) zero_client_response resp) (\<lambda>result.
         bind (wrapping ''error creating client: Created Maskinporten client, but failed to create associated JWKS''
                 (CreateClientJwks c (cr_ClientId result) jwks)) (\<lambda>_.
         ret result)))))))"

definition UpdateClient ::
  "'w http_api \<Rightarrow> string \<Rightarrow> update_client_request \<Rightarrow> ('w http_state, client_response) prog"
where
  "UpdateClient c clientId client =
     (if clientId = [] then
        fail (Errorf ''tried to update maskinporten client with empty ID for client name: %s''
          [case uc_ClientName client of None \<Rightarrow> [] | Some n \<Rightarrow> n])
      else
        bind (lift (self_service_url c [clientId])) (\<lambda>u.
        bind (createReq c u ''PUT'' (Some (json_text (enc_update_client_request client)))) (\<lambda>req.
        bind (retryableHTTPDo c (json_headers req)) (\<lambda>resp.
        bind (expect_status 200 resp) (\<lambda>_.
        deserialize (dec_client_response (hc_jose c)) zero_client_response resp)))))"

definition DeleteClient :: "'w http_api \<Rightarrow> string \<Rightarrow> ('w http_state, unit) prog" where
  "DeleteClient c clientId =
     bind (lift (self_service_url c [clientId])) (\<lambda>u.
     bind (createReq c u ''DELETE'' None) (\<lambda>req.
     bind (retryableHTTPDo c req) (\<lambda>resp.
     expect_status 200 resp)))"


section \<open>Paths\<close>

text \<open>
  An id that is an ordinary name, without percent signs, is the last part of the path it is
  joined to; an empty id disappears.
\<close>

lemma path_unescape_plain: "CHR ''%'' \<notin> set s \<Longrightarrow> path_unescape s = Some s"
  by (induction s) auto

lemma clients_path_parts:
  "split_on CHR ''/'' clients_path = [[], ''api'', ''v1'', ''altinn'', ''admin'', ''clients'']"
  by (simp add: clients_path_def)

lemma split_on_join_plain:
  "\<forall>p\<in>set ps. c \<notin> set p \<Longrightarrow> ps \<noteq> [] \<Longrightarrow> split_on c (join_with [c] ps) = ps"
proof (induction ps)
  case Nil
  then show ?case by simp
next
  case (Cons p ps)
  then show ?case
    by (cases "ps = []") (simp_all add: join_with_Cons split_on_append_sep)
qed

lemma set_join_with: "x \<in> set (join_with sep ps) \<Longrightarrow> x \<in> set sep \<or> (\<exists>p\<in>set ps. x \<in> set p)"
  by (induction sep ps rule: join_with.induct) auto

lemma joined_clients_path:
  assumes "bu_EscapedPath b = []" and "\<forall>p\<in>set ids. plain_segment p"
  shows "rooted_path (joined_path b (clients_path # ids)) = join_with ''/'' (clients_path # ids)"
proof -
  let ?segs = "[''api'', ''v1'', ''altinn'', ''admin'', ''clients''] @ ids"
  have nonempty: "filter (\<lambda>e. e \<noteq> []) ids = ids"
    using assms(2) by (induction ids) (auto simp: plain_segment_def)
  have split: "split_on CHR ''/'' (join_with ''/'' (clients_path # ids)) = [] # ?segs"
  proof (cases "ids = []")
    case True
    then show ?thesis by (simp add: clients_path_parts)
  next
    case False
    have "split_on CHR ''/'' (join_with ''/'' ids) = ids"
      using assms(2) False by (intro split_on_join_plain) (auto simp: plain_segment_def)
    with False show ?thesis
      by (simp add: join_with_Cons split_on_append_sep clients_path_parts)
  qed
  have "clean_segments True [] ?segs = ?segs"
    using assms(2) by (subst clean_segments_plain) (auto simp: plain_segment_def)
  then have clean: "path_Clean (''//'' @ join_with ''/'' (clients_path # ids)) = ''/'' @ join_with ''/'' ?segs"
    using split by (simp add: path_Clean_def path_IsAbs_def Let_def)
  have "path_Join (''/'' # clients_path # ids) = ''/'' @ join_with ''/'' ?segs"
    using clean nonempty by (simp add: path_Join_def clients_path_def)
  moreover have "\<not> has_suffix_slash (last (clients_path # ids))"
  proof (cases "ids = []")
    case True
    then show ?thesis by (simp add: has_suffix_slash_def clients_path_def)
  next
    case False
    then have "plain_segment (last ids)" using assms(2) by simp
    then have "CHR ''/'' \<notin> set (last ids)" by (simp add: plain_segment_def)
    with False show ?thesis
      by (auto simp: has_suffix_slash_def) (metis last_in_set)
  qed
  ultimately have "joined_path b (clients_path # ids) = join_with ''/'' ?segs"
    using assms(1) by (simp add: joined_path_def path_IsAbs_def)
  moreover have "join_with ''/'' (clients_path # ids) = ''/'' @ join_with ''/'' ?segs"
    by (cases ids) (simp_all add: clients_path_def)
  moreover have "path_IsAbs (''/'' @ x)" "rooted_path (CHR ''a'' # x) = ''/'' @ CHR ''a'' # x" for x
    by (simp_all add: rooted_path_def path_IsAbs_def)
  ultimately show ?thesis by (cases ids) simp_all
qed

text \<open>The path of a call on one client, under a base URL that is only an origin.\<close>

lemma client_url:
  assumes "url_Parse N base = Ok b" and "bu_EscapedPath b = []"
    and "\<forall>p\<in>set ids. plain_segment p \<and> CHR ''%'' \<notin> set p"
  shows "url_JoinPath N base (clients_path # ids) =
    Ok \<lparr>u_Origin = bu_Origin b, u_Path = join_with ''/'' (clients_path # ids), u_Query = []\<rparr>"
proof -
  have plain: "\<forall>p\<in>set ids. plain_segment p" using assms(3) by blast
  have joined: "rooted_path (joined_path b (clients_path # ids)) = join_with ''/'' (clients_path # ids)"
    by (rule joined_clients_path [OF assms(2) plain])
  have "CHR ''%'' \<notin> set (join_with ''/'' (clients_path # ids))"
    using assms(3) by (auto simp: clients_path_def dest!: set_join_with)
  then have "CHR ''%'' \<notin> set (joined_path b (clients_path # ids))"
    unfolding joined [symmetric] by (auto simp: rooted_path_def split: if_splits)
  with joined show ?thesis by (simp add: url_JoinPath_def assms(1) path_unescape_plain)
qed

lemma empty_id_is_collection: "self_service_url c [[]] = self_service_url c []"
proof -
  have "joined_path b [clients_path, []] = joined_path b [clients_path]" for b
    by (simp add: joined_path_def path_Join_def has_suffix_slash_def clients_path_def Let_def)
  then show ?thesis by (simp add: self_service_url_def url_JoinPath_def)
qed

section \<open>Retries\<close>

text \<open>
  The retries without the loop: a transient result is an error, or a response with a status of 500
  or above. A step is one attempt with such a result for which the library grants a pause, on what is
  left: the pauses so far, the request with what is unread of its body, and the world.
\<close>

definition transient :: "http_response outcome \<Rightarrow> bool" where
  "transient result \<longleftrightarrow> (\<exists>e. result = Err e) \<or> (\<exists>resp. result = Ok resp \<and> 500 \<le> rs_StatusCode resp)"

inductive retry_step :: "'w net_lib \<Rightarrow> duration list \<times> http_request \<times> 'w \<Rightarrow> duration list \<times> http_request \<times> 'w \<Rightarrow> bool"
  for N where
  "http_Do N req w = ((result, unread), w1) \<Longrightarrow> transient result \<Longrightarrow>
   backoff_NextBackOff N http_backoff ps w1 = (Some p, w2) \<Longrightarrow>
   retry_step N (ps, req, w) (ps @ [p], req\<lparr>rq_unread := unread\<rparr>, backoff_sleep N p w2)"

lemma operation_error_transient: "operation_error result = Some e \<Longrightarrow> transient result"
  by (auto simp: operation_error_def transient_def split: outcome.splits if_splits)

lemma next_pause_granted: "next_pause N ps w = (Some p, w1) \<Longrightarrow> backoff_NextBackOff N http_backoff ps w = (Some p, w1)"
  by (auto simp: next_pause_def split: prod.splits option.splits if_splits)

lemma next_pause_lawful:
  assumes "backoff_laws N" shows "next_pause N ps w = backoff_NextBackOff N http_backoff ps w"
proof -
  have "0 < p \<and> sum_list ps + p \<le> MaxElapsedTime http_backoff"
    if "backoff_NextBackOff N http_backoff ps w = (Some p, w1)" for p w1
  proof -
    from assms that have "InitialInterval http_backoff \<le> 2 * p \<and> sum_list ps + p \<le> MaxElapsedTime http_backoff"
      unfolding backoff_laws_def by blast
    then show ?thesis by (simp add: http_backoff_def time_units)
  qed
  then show ?thesis by (auto simp: next_pause_def split: prod.split option.split)
qed

lemma http_retry_run:
  assumes "http_retry N ps req w = (r, w')"
  obtains qs sent w1 result unread w2 where "(retry_step N)\<^sup>*\<^sup>* (ps, req, w) (qs, sent, w1)"
    and "http_Do N sent w1 = ((result, unread), w2)"
    and "case operation_error result of None \<Rightarrow> r = result \<and> w' = w2 | Some e \<Rightarrow> r = Err e \<and> next_pause N qs w2 = (None, w')"
  using assms
proof (induction N ps req w arbitrary: thesis rule: http_retry.induct)
  case (1 N ps req w)
  obtain result unread w1 where do: "http_Do N req w = ((result, unread), w1)" by (metis surj_pair)
  obtain q w2 where pause: "next_pause N ps w1 = (q, w2)" by fastforce
  show ?case
  proof (cases "\<exists>e p. operation_error result = Some e \<and> q = Some p")
    case True
    then obtain e p where again: "operation_error result = Some e" "q = Some p" by blast
    let ?req = "req\<lparr>rq_unread := unread\<rparr>" and ?w = "backoff_sleep N p w2"
    have step: "retry_step N (ps, req, w) (ps @ [p], ?req, ?w)"
      using do again operation_error_transient next_pause_granted pause by (intro retry_step.intros) auto
    have "http_retry N (ps @ [p]) ?req ?w = (r, w')"
      using 1(3) do again pause by (subst (asm) http_retry.simps) simp
    then obtain qs sent v result' unread' v2 where run: "(retry_step N)\<^sup>*\<^sup>* (ps @ [p], ?req, ?w) (qs, sent, v)"
        and "http_Do N sent v = ((result', unread'), v2)"
        and "case operation_error result' of None \<Rightarrow> r = result' \<and> w' = v2 | Some e \<Rightarrow> r = Err e \<and> next_pause N qs v2 = (None, w')"
      by (rule 1(1) [OF do [symmetric] refl again(1) pause [symmetric, unfolded again(2)] refl, rotated])
    moreover have "(retry_step N)\<^sup>*\<^sup>* (ps, req, w) (qs, sent, v)"
      using step run by (rule converse_rtranclp_into_rtranclp)
    ultimately show ?thesis by (intro 1(2))
  next
    case False
    with 1(3) do pause have "case operation_error result of None \<Rightarrow> r = result \<and> w' = w1
        | Some e \<Rightarrow> r = Err e \<and> next_pause N ps w1 = (None, w')"
      by (subst (asm) http_retry.simps) (auto split: option.splits)
    with 1(2) [of ps req w] do show ?thesis by blast
  qed
qed

lemma retry_steps_pauses:
  assumes "backoff_laws N" and "(retry_step N)\<^sup>*\<^sup>* ([], req, w) (ps, sent, w1)"
  shows "list_all (\<lambda>p. 0 < p) ps" and "sum_list ps \<le> MaxElapsedTime http_backoff" and "length ps \<le> 240"
proof -
  have "list_all (\<lambda>p. 0 < p) ps \<and> sum_list ps \<le> MaxElapsedTime http_backoff \<and>
      int (length ps) * InitialInterval http_backoff \<le> 2 * sum_list ps"
    using assms(2)
  proof (induction "(ps, sent, w1)" arbitrary: ps sent w1 rule: rtranclp_induct)
    case base
    then show ?case by (simp add: http_backoff_def time_units)
  next
    case (step y)
    obtain qs q v where y: "y = (qs, q, v)" by (cases y)
    from step(2) obtain p w2 u where ps: "ps = qs @ [p]" and p: "backoff_NextBackOff N http_backoff qs u = (Some p, w2)"
      unfolding y by (auto elim!: retry_step.cases)
    from assms(1) p have "InitialInterval http_backoff \<le> 2 * p \<and> sum_list qs + p \<le> MaxElapsedTime http_backoff"
      unfolding backoff_laws_def by blast
    moreover have "0 < InitialInterval http_backoff" by (simp add: http_backoff_def time_units)
    ultimately show ?case using step(3) [OF y] by (auto simp: ps algebra_simps)
  qed
  then show "list_all (\<lambda>p. 0 < p) ps" and "sum_list ps \<le> MaxElapsedTime http_backoff" and "length ps \<le> 240"
    by (auto simp: http_backoff_def time_units)
qed

text \<open>
  A request whose body was consumed by a failed attempt cannot succeed any more.
\<close>

lemma net_drained:
  assumes "net_laws N" and "http_Do N req w = ((Ok resp, u), w1)" and "rq_Body req = Some b"
  shows "\<not> length (rq_unread req) < length b"
  using assms unfolding net_laws_def by blast

lemma net_reader:
  assumes "net_laws N" and "http_Do N req w = ((r, u), w1)"
  shows "length u \<le> length (rq_unread req)"
  using assms unfolding net_laws_def by blast

lemma retry_steps_request:
  assumes "net_laws N" and "(retry_step N)\<^sup>*\<^sup>* (ps, req, w) (qs, sent, w1)"
  shows "rq_Body sent = rq_Body req" and "length (rq_unread sent) \<le> length (rq_unread req)"
proof -
  have "rq_Body sent = rq_Body req \<and> length (rq_unread sent) \<le> length (rq_unread req)"
    using assms(2)
  proof (induction "(qs, sent, w1)" arbitrary: qs sent w1 rule: rtranclp_induct)
    case (step y)
    obtain qs' q v where y: "y = (qs', q, v)" by (cases y)
    with step(2,3) show ?case by (auto elim!: retry_step.cases dest!: net_reader [OF assms(1)])
  qed simp
  then show "rq_Body sent = rq_Body req" and "length (rq_unread sent) \<le> length (rq_unread req)" by simp_all
qed

lemma http_retry_drained:
  assumes "net_laws N" and "rq_Body req = Some b" and "length (rq_unread req) < length b"
  shows "http_retry N ps req w \<noteq> (Ok resp, w')"
proof
  assume "http_retry N ps req w = (Ok resp, w')"
  then obtain qs sent w1 result unread w2 where run: "(retry_step N)\<^sup>*\<^sup>* (ps, req, w) (qs, sent, w1)"
    and do: "http_Do N sent w1 = ((result, unread), w2)" and "operation_error result = None \<and> result = Ok resp"
    by (rule http_retry_run) (auto split: option.splits)
  with net_drained [OF assms(1), of sent w1 resp unread w2 b] retry_steps_request [OF assms(1) run] assms(2,3)
  show False by simp
qed


section \<open>The two cached atoms\<close>

lemma in_env_atoms:
  "in_env m s = (r, s') \<Longrightarrow> wellKnown s' = wellKnown s \<and> accessToken s' = accessToken s"
  by (auto simp: in_env_def on_part_def split: prod.splits)

lemma retryableHTTPDo_atoms:
  "retryableHTTPDo c req s = (r, s') \<Longrightarrow> wellKnown s' = wellKnown s \<and> accessToken s' = accessToken s"
  unfolding retryableHTTPDo_def by (rule in_env_atoms)


lemma keeps_wellKnown_env [keeps_intros]: "keeps wellKnown (in_env m)"
  by (auto simp: keeps_def dest: in_env_atoms)

lemma keeps_accessToken_env [keeps_intros]: "keeps accessToken (in_env m)"
  by (auto simp: keeps_def dest: in_env_atoms)

lemma keeps_clock [keeps_intros]:
  "keeps wellKnown (reading (api_clock c))" "keeps accessToken (reading (api_clock c))"
  by (auto simp: keeps_def api_clock_def split: prod.splits)

lemma keeps_http [keeps_intros]:
  "keeps wellKnown (retryableHTTPDo c req)" "keeps accessToken (retryableHTTPDo c req)"
  unfolding retryableHTTPDo_def by (rule keeps_intros)+

lemma keeps_expect [keeps_intros]: "keeps f (expect_status n resp)"
  unfolding expect_status_def by (intro keeps_intros)

lemma keeps_deserialize [keeps_intros]: "keeps f (deserialize dec z resp)"
  unfolding deserialize_def by (auto intro: keeps_intros split: option.split)

lemma wellKnownFetcher_keeps: "keeps wellKnown (wellKnownFetcher c)" "keeps accessToken (wellKnownFetcher c)"
  unfolding wellKnownFetcher_def by (intro keeps_intros)+

text \<open>
  Both atoms are cells in the sense of \<open>atom_cell\<close>: neither the clock nor the fetcher of an atom
  writes it, so the lemmas of the cache hold for the client's two caches.
\<close>

interpretation wkc: atom_cell wellKnown "\<lambda>a s. s\<lparr>wellKnown := a\<rparr>" "api_clock c" "wellKnownFetcher c" for c
proof unfold_locales
  fix s show "wellKnown (snd (api_clock c s)) = wellKnown s"
    by (simp add: api_clock_def split: prod.splits)
next
  fix s show "wellKnown (snd (wellKnownFetcher c s)) = wellKnown s"
    by (rule keepsD) (rule wellKnownFetcher_keeps)
qed simp

lemma GetWellKnown_keeps [keeps_intros]: "keeps accessToken (GetWellKnownConfiguration c)"
  unfolding GetWellKnownConfiguration_def
  by (rule CachedAtom_Get_keeps) (auto intro: keeps_clock wellKnownFetcher_keeps)

lemma accessTokenFetcher_keeps: "keeps accessToken (accessTokenFetcher c)"
  unfolding accessTokenFetcher_def createGrant_def Let_def by (intro keeps_intros)+

interpretation atc: atom_cell accessToken "\<lambda>a s. s\<lparr>accessToken := a\<rparr>" "api_clock c" "accessTokenFetcher c" for c
proof unfold_locales
  fix s show "accessToken (snd (api_clock c s)) = accessToken s"
    by (simp add: api_clock_def split: prod.splits)
next
  fix s show "accessToken (snd (accessTokenFetcher c s)) = accessToken s"
    by (rule keepsD) (rule accessTokenFetcher_keeps)
qed simp

end
