(* ===== verification/Runtime.thy ===== *)
theory Runtime
  imports HttpApi
begin

text \<open>
  The services the controller works with, \<open>internal/internal.go\<close> and \<open>internal/runtime/runtime.go\<close>:
  \<open>NewRuntime\<close> discovers the operator's context, loads the configuration, and builds the crypto
  service and the API client. The tracer and the meter are left out. The libraries that the
  pieces take are collected in \<open>runtime_libs\<close>; \<open>None\<close> is a \<open>NewRuntime\<close> that never returns,
  because the search for the project root does not.
\<close>

record 'w runtime =
  rt_config :: config
  rt_operatorContext :: op_context
  rt_crypto :: "'w crypto_service"
  rt_maskinportenApiClient :: "'w http_api"
  rt_clock :: "'w clock"

record ('k, 'w) runtime_libs =
  rl_uuid :: "('w, string) prog"
  rl_config :: "('k, 'w) config_libs"
  rl_clock :: "'w clock"
  rl_random :: "'w random_source"
  rl_jose :: jose_lib
  rl_jwt :: "'w jwt_lib"
  rl_net :: "'w net_lib"

text \<open>The part after the configuration is loaded.\<close>

definition build_runtime ::
  "('k, 'w) runtime_libs \<Rightarrow> op_context \<Rightarrow> config \<Rightarrow> 'w \<Rightarrow> ('w runtime \<times> 'w http_state) outcome \<times> 'w"
where
  "build_runtime L ctx cfg =
     bind (NewDefaultService ctx (rl_clock L) (rl_random L)) (\<lambda>crypto w.
       (obind (NewHttpApiClient (rl_jose L) (rl_jwt L) (rl_net L) (MaskinportenApi cfg) ctx (rl_clock L) w)
          (\<lambda>(api, st). Ok (\<lparr>rt_config = cfg, rt_operatorContext = ctx, rt_crypto = crypto,
                              rt_maskinportenApiClient = api, rt_clock = rl_clock L\<rparr>, st)), w))"

definition NewRuntime ::
  "('k, 'w) runtime_libs \<Rightarrow> go_error option \<Rightarrow> string \<Rightarrow> 'k config_state \<times> 'w \<Rightarrow>
   (('w runtime \<times> 'w http_state) outcome \<times> 'k config_state \<times> 'w) option"
where
  "NewRuntime L ctx_err override = (\<lambda>(st, w).
     case Discover (rl_uuid L) ctx_err w of
       (Err e, w1) \<Rightarrow> Some (Err e, st, w1)
     | (Panic p, w1) \<Rightarrow> Some (Panic p, st, w1)
     | (Ok ctx, w1) \<Rightarrow>
         let ctx = (if override \<noteq> [] then OverrideEnvironment override ctx else ctx) in
         (case GetConfig (rl_config L) ctx ConfigSourceDefault [] (st, w1) of
            None \<Rightarrow> None
          | Some (Err e, st1, w2) \<Rightarrow> Some (Err e, st1, w2)
          | Some (Panic p, st1, w2) \<Rightarrow> Some (Panic p, st1, w2)
          | Some (Ok cfg, st1, w2) \<Rightarrow>
              (case build_runtime L ctx cfg w2 of (r, w3) \<Rightarrow> Some (r, st1, w3))))"

lemma build_runtime_Ok:
  assumes "build_runtime L ctx cfg w = (Ok (rt, st), w')"
  shows "rt_config rt = cfg" and "rt_operatorContext rt = ctx"
    and "cs_signatureAlgo (rt_crypto rt) = ''RS512''" and "cs_ctx (rt_crypto rt) = ctx"
    and "hc_config (rt_maskinportenApiClient rt) = MaskinportenApi cfg"
    and "hc_context (rt_maskinportenApiClient rt) = ctx"
    and "hc_clientNamePrefix (rt_maskinportenApiClient rt) = getClientNamePrefix ctx"
    and "current (wellKnown st) = None" and "current (accessToken st) = None"
  using assms
  by (auto simp: build_runtime_def NewDefaultService_eq NewHttpApiClient_def obind_Ok_iff
      NewCachedAtom_def split: option.splits)

lemma NewRuntime_Ok:
  assumes "NewRuntime L ctx_err override (st, w) = Some (Ok (rt, api), st', w')"
  obtains ctx s1 w2 where "GetConfig (rl_config L) ctx ConfigSourceDefault [] s1 = Some (Ok (rt_config rt), st', w2)"
    and "build_runtime L ctx (rt_config rt) w2 = (Ok (rt, api), w')"
    and "Environment ctx = (if override = [] then EnvironmentLocal else override)"
    and "ServiceOwnerName ctx = ''local''"
proof -
  obtain d w1 where disc: "Discover (rl_uuid L) ctx_err w = (d, w1)" by (cases "Discover (rl_uuid L) ctx_err w")
  with assms obtain ctx0 where ctx0: "d = Ok ctx0" by (cases d) (auto simp: NewRuntime_def)
  let ?ctx = "if override \<noteq> [] then OverrideEnvironment override ctx0 else ctx0"
  obtain cfg st1 w2 where cfg: "GetConfig (rl_config L) ?ctx ConfigSourceDefault [] (st, w1) = Some (Ok cfg, st1, w2)"
    and build: "build_runtime L ?ctx cfg w2 = (Ok (rt, api), w')" and st': "st1 = st'"
    using assms disc ctx0
    by (auto simp: NewRuntime_def Let_def split: option.splits prod.splits outcome.splits if_splits)
  from build_runtime_Ok(1) [OF build] have "rt_config rt = cfg" .
  with cfg build st' Discover_local [of "rl_uuid L" ctx_err w ctx0 w1] disc ctx0 that [of ?ctx "(st, w1)" w2]
  show ?thesis by (simp add: OverrideEnvironment_def IsLocal_def)
qed

end
