(* ===== verification/Controller.thy ===== *)
theory Controller
  imports Runtime
begin

text \<open>
  The controller, \<open>internal/controller/maskinportenclient_controller.go\<close> and \<open>request.go\<close>: one call
  of \<open>Reconcile\<close> loads the resource, fetches the state of its client, lets the state decide on
  commands, runs them in order until one fails, and records the result in the resource's status.

  Kubernetes, the finalizer helpers and the generator of random numbers are \<open>k8s_lib\<close>. An update of
  a resource returns the object the API server answers with, which overwrites the caller's. The
  state of a call is the API client's state, with the outside world in it, and the store of the
  structs that commands share. Logging and tracing are left out.
\<close>

definition FinalizerName :: string where
  "FinalizerName = ''client.altinn.operator/finalizer''"

definition UnkownStr :: string where
  "UnkownStr = ''Unknown''"


section \<open>Kubernetes\<close>

record 'w k8s_lib =
  k8s_Get :: "string \<Rightarrow> string \<Rightarrow> ('w, maskinporten_client) prog"
  k8s_ListSecrets :: "string \<Rightarrow> string \<Rightarrow> ('w, k8s_secret list) prog"
  k8s_UpdateSecret :: "k8s_secret \<Rightarrow> ('w, unit) prog"
  k8s_Update :: "maskinporten_client \<Rightarrow> ('w, maskinporten_client) prog"
  k8s_StatusUpdate :: "maskinporten_client \<Rightarrow> ('w, maskinporten_client) prog"
  k8s_IsNotFound :: "go_error \<Rightarrow> bool"
  fin_Contains :: "string list \<Rightarrow> string \<Rightarrow> bool"
  fin_Add :: "string list \<Rightarrow> string \<Rightarrow> string list \<times> bool"
  fin_Remove :: "string list \<Rightarrow> string \<Rightarrow> string list \<times> bool"
  metav1_Now :: "'w clock"
  rand_Int64N :: "int \<Rightarrow> 'w \<Rightarrow> int \<times> 'w"

text \<open>
  What the controller relies on: the finalizer helpers test, append and remove a name and say
  whether they changed anything, and a random number drawn below \<open>n\<close> is below \<open>n\<close>.
\<close>

definition k8s_laws :: "'w k8s_lib \<Rightarrow> bool" where
  "k8s_laws K \<longleftrightarrow>
     (\<forall>fs f. fin_Contains K fs f = (f \<in> set fs)) \<and>
     (\<forall>fs f. fin_Add K fs f = (if f \<in> set fs then (fs, False) else (fs @ [f], True))) \<and>
     (\<forall>fs f. fin_Remove K fs f = (filter (\<lambda>g. g \<noteq> f) fs, f \<in> set fs)) \<and>
     (\<forall>n w. 0 < n \<longrightarrow> 0 \<le> fst (rand_Int64N K n w) \<and> fst (rand_Int64N K n w) < n)"

record 'w reconciler =
  rc_runtime :: "'w runtime"
  rc_jose :: jose_lib
  rc_k8s :: "'w k8s_lib"

text \<open>\<open>NewMaskinportenClientReconciler\<close>; without a generator of random numbers it seeds one of its own.\<close>

definition NewMaskinportenClientReconciler ::
  "'w runtime \<Rightarrow> jose_lib \<Rightarrow> 'w k8s_lib \<Rightarrow> (int \<Rightarrow> 'w \<Rightarrow> int \<times> 'w) \<Rightarrow> (int \<Rightarrow> 'w \<Rightarrow> int \<times> 'w) option \<Rightarrow> 'w reconciler"
where
  "NewMaskinportenClientReconciler rt J client rand_NewPCG random =
     \<lparr>rc_runtime = rt, rc_jose = J,
       rc_k8s = client\<lparr>rand_Int64N := (case random of None \<Rightarrow> rand_NewPCG | Some rnd \<Rightarrow> rnd)\<rparr>\<rparr>"

record 'w ctrl_state =
  api_st :: "'w http_state"
  cheap :: cmd_heap

definition in_api :: "('w http_state, 'a) prog \<Rightarrow> ('w ctrl_state, 'a) prog" where
  "in_api = on_part api_st (\<lambda>a s. s\<lparr>api_st := a\<rparr>)"

definition in_k8s :: "('w, 'a) prog \<Rightarrow> ('w ctrl_state, 'a) prog" where
  "in_k8s m = in_api (in_env m)"

text \<open>\<open>ClientState.Reconcile\<close> allocates in an empty store: what earlier calls allocated is garbage.\<close>

definition in_cmds :: "('w with_heap, 'a) prog \<Rightarrow> ('w ctrl_state, 'a) prog" where
  "in_cmds = on_part (\<lambda>s. (env (api_st s), empty_heap))
     (\<lambda>(w, h) s. s\<lparr>api_st := (api_st s)\<lparr>env := w\<rparr>, cheap := h\<rparr>)"

definition in_store :: "(cmd_heap, 'a) prog \<Rightarrow> ('w ctrl_state, 'a) prog" where
  "in_store = on_part cheap (\<lambda>h s. s\<lparr>cheap := h\<rparr>)"

definition read_store :: "(cmd_heap \<Rightarrow> 'a) \<Rightarrow> ('w ctrl_state, 'a) prog" where
  "read_store f = (\<lambda>s. (Ok (f (cheap s)), s))"


section \<open>Requests\<close>

datatype request_kind = RequestCreateKind | RequestUpdateKind | RequestDeleteKind

text \<open>The zero value of \<open>requestKind\<close>, which is none of the constants, is \<open>None\<close>.\<close>

fun requestKind_String :: "request_kind option \<Rightarrow> string" where
  "requestKind_String (Some RequestCreateKind) = ''Create''"
| "requestKind_String (Some RequestUpdateKind) = ''Update''"
| "requestKind_String (Some RequestDeleteKind) = ''Delete''"
| "requestKind_String None = UnkownStr"

record maskinporten_client_request =
  mr_Name :: string
  mr_Namespace :: string
  mr_AppId :: string
  mr_AppLabel :: string
  mr_Kind :: "request_kind option"
  mr_Instance :: "maskinporten_client option"

definition mapRequest ::
  "'w reconciler \<Rightarrow> string \<Rightarrow> string \<Rightarrow> maskinporten_client_request outcome"
where
  "mapRequest r ns name =
     (let nameSplit = split_on CHR ''-'' name in
      if length nameSplit < 2 then
        Err (Errorf ''unexpected name format for MaskinportenClient resource: %s'' [name])
      else obind (index nameSplit 1) (\<lambda>appId.
        Ok \<lparr>mr_Name = name, mr_Namespace = ns, mr_AppId = appId,
            mr_AppLabel = ServiceOwnerName (rt_operatorContext (rc_runtime r)) @ ''-'' @ appId @ ''-deployment'',
            mr_Kind = None, mr_Instance = None\<rparr>))"


section \<open>Status\<close>

text \<open>What a command that was executed leaves in the status.\<close>

fun command_status :: "cmd_heap \<Rightarrow> maskinporten_client_status \<Rightarrow> command_data \<Rightarrow> maskinporten_client_status outcome" where
  "command_status h st (CreateClientInApiCommand a) = Ok (st\<lparr>st_ClientId := as_ClientId (api_at h a)\<rparr>)"
| "command_status h st (UpdateClientInApiCommand a) = Ok (st\<lparr>st_ClientId := as_ClientId (api_at h a)\<rparr>)"
| "command_status h st (DeleteClientInApiCommand i) = Ok (st\<lparr>st_ClientId := []\<rparr>)"
| "command_status h st (UpdateSecretContentCommand c) =
     obind (deref (sc_Jwks (sec_at h c))) (\<lambda>ks.
     obind (omapM Jwk_KeyID (Keys ks)) (\<lambda>keyIds.
     Ok (st\<lparr>st_Authority := sc_Authority (sec_at h c), st_KeyIds := Some keyIds\<rparr>)))"
| "command_status h st DeleteSecretContentCommand = Ok (st\<lparr>st_Authority := [], st_KeyIds := None\<rparr>)"

fun commands_status :: "cmd_heap \<Rightarrow> maskinporten_client_status \<Rightarrow> command list \<Rightarrow> maskinporten_client_status outcome" where
  "commands_status h st [] = Ok st"
| "commands_status h st (cmd # cmds) =
     obind (command_status h st (cmd_Data cmd)) (\<lambda>st'. commands_status h st' cmds)"

text \<open>The finalizer goes on with the first reconciliation and off with the deletion.\<close>

definition update_finalizers ::
  "'w k8s_lib \<Rightarrow> maskinporten_client_request option \<Rightarrow> maskinporten_client \<Rightarrow> maskinporten_client \<times> bool"
where
  "update_finalizers K req inst = (case req of
       None \<Rightarrow> (inst, False)
     | Some req \<Rightarrow>
         if mr_Kind req = Some RequestCreateKind then
           (case fin_Add K (crd_Finalizers inst) FinalizerName of (fs, changed) \<Rightarrow>
              (inst\<lparr>crd_Finalizers := fs\<rparr>, changed))
         else if mr_Kind req = Some RequestDeleteKind then
           (case fin_Remove K (crd_Finalizers inst) FinalizerName of (fs, changed) \<Rightarrow>
              (inst\<lparr>crd_Finalizers := fs\<rparr>, changed))
         else (inst, False))"

definition updateStatus ::
  "'w reconciler \<Rightarrow> maskinporten_client_request option \<Rightarrow> maskinporten_client \<Rightarrow> string \<Rightarrow> string \<Rightarrow>
   command list option \<Rightarrow> ('w ctrl_state, maskinporten_client) prog"
where
  "updateStatus r req inst state reason commands =
     bind (in_k8s (reading (metav1_Now (rc_k8s r)))) (\<lambda>timestamp.
     let status = (crd_Status inst)\<lparr>st_State := state, st_LastSynced := Some timestamp,
           st_Reason := reason, st_LastActions := map_option CommandList_Strings commands,
           st_ObservedGeneration := crd_Generation inst\<rparr>;
         executed = (case commands of None \<Rightarrow> [] | Some cmds \<Rightarrow> cmds)
     in bind (read_store (\<lambda>h. h)) (\<lambda>h.
        bind (lift (commands_status h status executed)) (\<lambda>status.
        case update_finalizers (rc_k8s r) req (inst\<lparr>crd_Status := status\<rparr>) of
          (inst, updatedFinalizers) \<Rightarrow>
            if updatedFinalizers then in_k8s (k8s_Update (rc_k8s r) inst)
            else in_k8s (k8s_StatusUpdate (rc_k8s r) inst))))"

text \<open>\<open>updateStatusWithError\<close> ignores the error of the update; a panic in it is a panic.\<close>

definition updateStatusWithError ::
  "'w reconciler \<Rightarrow> string \<Rightarrow> maskinporten_client \<Rightarrow> command list option \<Rightarrow> ('w ctrl_state, unit) prog"
where
  "updateStatusWithError r msg inst commands s =
     (case updateStatus r None inst ''error'' msg commands s of
        (Panic p, s1) \<Rightarrow> (Panic p, s1)
      | (_, s1) \<Rightarrow> (Ok (), s1))"


section \<open>Loading the resource and the state of its client\<close>

text \<open>
  A deletion timestamp that is present but zero counts as absent here. The first time, before
  anything else, the finalizer is added.
\<close>

definition is_being_deleted :: "maskinporten_client \<Rightarrow> bool" where
  "is_being_deleted inst \<longleftrightarrow>
     (case crd_DeletionTimestamp inst of None \<Rightarrow> False | Some t \<Rightarrow> \<not> time_IsZero t)"

definition loadInstance ::
  "'w reconciler \<Rightarrow> maskinporten_client_request \<Rightarrow> ('w ctrl_state, maskinporten_client_request) prog"
where
  "loadInstance r req =
     bind (wrapping ''failed to get MaskinportenClient''
             (in_k8s (k8s_Get (rc_k8s r) (mr_Namespace req) (mr_Name req)))) (\<lambda>inst.
     if \<not> is_being_deleted inst then
       (if \<not> fin_Contains (rc_k8s r) (crd_Finalizers inst) FinalizerName then
          (let req = req\<lparr>mr_Kind := Some RequestCreateKind\<rparr> in
           bind (updateStatus r (Some req) inst ''recorded'' [] None) (\<lambda>inst.
           ret (req\<lparr>mr_Instance := Some inst\<rparr>)))
        else ret (req\<lparr>mr_Instance := Some inst, mr_Kind := Some RequestUpdateKind\<rparr>))
     else ret (req\<lparr>mr_Instance := Some inst, mr_Kind := Some RequestDeleteKind\<rparr>))"

text \<open>The one secret with the app's label, if there is one.\<close>

definition find_secret :: "k8s_secret list \<Rightarrow> k8s_secret option outcome" where
  "find_secret items =
     (if 1 < length items then
        Err (Errorf ''unexpected number of secrets found: %d'' [itoa (int (length items))])
      else (case items of
          [] \<Rightarrow> Ok None
        | secret # _ \<Rightarrow>
            if sec_Type secret \<noteq> SecretTypeOpaque then
              Err (Errorf ''unexpected secret type: %s (expected Opaque)'' [sec_Type secret])
            else Ok (Some secret)))"

text \<open>The search for a client by name among those of \<open>GetAllClients\<close>.\<close>

fun find_client :: "string \<Rightarrow> client_response list \<Rightarrow> client_response option" where
  "find_client name [] = None"
| "find_client name (c # cs) = (if cr_ClientName c = Some name then Some c else find_client name cs)"

definition fetch_client ::
  "'w reconciler \<Rightarrow> maskinporten_client_request \<Rightarrow> secret_content option \<Rightarrow>
   ('w ctrl_state, (client_response \<times> jwks) option) prog"
where
  "fetch_client r req content =
     (let api = rt_maskinportenApiClient (rc_runtime r) in
      case content of
        Some c \<Rightarrow>
          if sc_ClientId c \<noteq> [] then
            bind (in_api (GetClient api (sc_ClientId c))) (\<lambda>res. ret (Some res))
          else ret None
      | None \<Rightarrow>
          bind (in_api (GetAllClients api)) (\<lambda>allClients.
          case find_client (GetClientName (rt_operatorContext (rc_runtime r)) (mr_AppId req)) allClients of
            None \<Rightarrow> ret None
          | Some c \<Rightarrow> bind (in_api (GetClient api (cr_ClientId c))) (\<lambda>res. ret (Some res))))"

definition fetchCurrentState ::
  "'w reconciler \<Rightarrow> maskinporten_client_request \<Rightarrow> ('w ctrl_state, client_state) prog"
where
  "fetchCurrentState r req =
     bind (in_k8s (k8s_ListSecrets (rc_k8s r) (mr_Namespace req) (mr_AppLabel req))) (\<lambda>items.
     bind (lift (find_secret items)) (\<lambda>secret.
     bind (lift (case secret of None \<Rightarrow> Ok None
                 | Some s \<Rightarrow> DeserializeSecretStateContent (rc_jose r) (Some s))) (\<lambda>content.
     bind (fetch_client r req content) (\<lambda>found.
     lift (NewClientState (mr_Instance req) (map_option fst found) (map_option snd found) secret content)))))"


section \<open>Running the commands\<close>

definition run_command ::
  "'w reconciler \<Rightarrow> client_state \<Rightarrow> command \<Rightarrow> ('w ctrl_state, unit) prog"
where
  "run_command r cs cmd =
     (let api = rt_maskinportenApiClient (rc_runtime r) in
      case cmd_Data cmd of
        CreateClientInApiCommand a \<Rightarrow>
          bind (read_store (\<lambda>h. api_at h a)) (\<lambda>data.
          bind (in_api (CreateClient api (as_Req data) (as_Jwks data))) (\<lambda>resp.
          case cmd_Callback cmd of
            None \<Rightarrow> crash NilDeref
          | Some cb \<Rightarrow> in_store (run_callback cb (Some resp))))
      | UpdateClientInApiCommand a \<Rightarrow>
          bind (read_store (\<lambda>h. api_at h a)) (\<lambda>data.
          bind (case as_Req data of
                  None \<Rightarrow> ret ()
                | Some req \<Rightarrow>
                    bind (in_api (UpdateClient api (as_ClientId data) (ConvertAddRequestToUpdateRequest req)))
                      (\<lambda>_. ret ())) (\<lambda>_.
          case as_Jwks data of
            None \<Rightarrow> ret ()
          | Some ks \<Rightarrow> in_api (CreateClientJwks api (as_ClientId data) (Some ks))))
      | UpdateSecretContentCommand c \<Rightarrow>
          bind (read_store (\<lambda>h. sec_at h c)) (\<lambda>content.
          bind (AssertWith (sc_ClientId content \<noteq> [])
                  ''UpdateSecretContentCommand should always have client ID'') (\<lambda>_.
          bind (lift (SerializeTo (rc_jose r) content (Some (Secret_Manifest cs)))) (\<lambda>updatedSecret.
          in_k8s (k8s_UpdateSecret (rc_k8s r) updatedSecret))))
      | DeleteClientInApiCommand i \<Rightarrow> in_api (DeleteClient api i)
      | DeleteSecretContentCommand \<Rightarrow>
          in_k8s (k8s_UpdateSecret (rc_k8s r) (DeleteSecretStateContent (Secret_Manifest cs))))"

text \<open>
  The loop stops at the first error and returns it with the commands that were executed.
\<close>

fun run_commands ::
  "'w reconciler \<Rightarrow> client_state \<Rightarrow> command list \<Rightarrow> command list \<Rightarrow>
   ('w ctrl_state, command list \<times> go_error option) prog"
where
  "run_commands r cs executed [] s = (Ok (executed, None), s)"
| "run_commands r cs executed (cmd # cmds) s = (case run_command r cs cmd s of
       (Ok u, s1) \<Rightarrow> run_commands r cs (executed @ [cmd]) cmds s1
     | (Err e, s1) \<Rightarrow> (Ok (executed, Some e), s1)
     | (Panic p, s1) \<Rightarrow> (Panic p, s1))"

text \<open>
  \<open>reconcile\<close> returns the executed commands, \<open>nil\<close> when there was not even a list of commands,
  and an error or none.
\<close>

definition reconcile ::
  "'w reconciler \<Rightarrow> client_state \<Rightarrow> ('w ctrl_state, command list option \<times> go_error option) prog"
where
  "reconcile r cs s =
     (let rt = rc_runtime r in
      case in_cmds (Reconcile (rc_jose r) cs (rt_operatorContext rt) (rt_config rt) (rt_crypto rt) (rt_clock rt)) s of
        (Err e, s1) \<Rightarrow> (Ok (None, Some e), s1)
      | (Panic p, s1) \<Rightarrow> (Panic p, s1)
      | (Ok cmds, s1) \<Rightarrow>
          (case run_commands r cs [] cmds s1 of
             (Ok (executed, err), s2) \<Rightarrow> (Ok (Some executed, err), s2)
           | (Err e, s2) \<Rightarrow> (Err e, s2)
           | (Panic p, s2) \<Rightarrow> (Panic p, s2)))"


section \<open>\<open>Reconcile\<close>\<close>

text \<open>
  \<open>randomizeDuration\<close> computes its bound in floating point, \<open>int64(float64(d) * (perc / 100))\<close>; for
  the durations that validation lets through, at most 72 hours, the product is the exact one up
  to rounding far below one nanosecond, so the bound is the integer part of the percentage.
\<close>

definition Int64N :: "'w k8s_lib \<Rightarrow> int \<Rightarrow> ('w, int) prog" where
  "Int64N K n = (if n \<le> 0 then crash (PanicWith ''invalid argument to Int64N'') else reading (rand_Int64N K n))"

definition randomizeDuration :: "'w reconciler \<Rightarrow> duration \<Rightarrow> int \<Rightarrow> ('w ctrl_state, duration) prog" where
  "randomizeDuration r d perc =
     (let hi = d * perc div 100; lo = - hi in
      bind (in_k8s (Int64N (rc_k8s r) (hi - lo))) (\<lambda>n. ret (d + (n + lo))))"

definition getRequeueAfter :: "'w reconciler \<Rightarrow> ('w ctrl_state, duration) prog" where
  "getRequeueAfter r = randomizeDuration r (RequeueAfter (Controller (rt_config (rc_runtime r)))) 10"

definition IgnoreNotFound :: "'w k8s_lib \<Rightarrow> go_error \<Rightarrow> go_error option" where
  "IgnoreNotFound K e = (if k8s_IsNotFound K e then None else Some e)"

text \<open>The result is \<open>RequeueAfter\<close>, 0 for the empty result.\<close>

definition reconcile_loaded ::
  "'w reconciler \<Rightarrow> maskinporten_client_request \<Rightarrow> maskinporten_client \<Rightarrow> ('w ctrl_state, duration) prog"
where
  "reconcile_loaded r req inst s =
     (case fetchCurrentState r req s of
        (Panic p, s1) \<Rightarrow> (Panic p, s1)
      | (Err e, s1) \<Rightarrow> bind (updateStatusWithError r ''fetchCurrentState failed'' inst None) (\<lambda>_. fail e) s1
      | (Ok cs, s1) \<Rightarrow>
          bind (reconcile r cs) (\<lambda>(executed, err). case err of
              Some e \<Rightarrow> bind (updateStatusWithError r ''reconcile failed'' inst executed) (\<lambda>_. fail e)
            | None \<Rightarrow>
                let n = (case executed of None \<Rightarrow> 0 | Some cmds \<Rightarrow> length cmds) in
                if n = 0 then ret 0
                else
                  bind (updateStatus r (Some req) inst ''reconciled''
                          (''Reconciled '' @ itoa (int n) @ '' resources'') executed) (\<lambda>_.
                  getRequeueAfter r)) s1)"

definition Controller_Reconcile :: "'w reconciler \<Rightarrow> string \<Rightarrow> string \<Rightarrow> ('w ctrl_state, duration) prog" where
  "Controller_Reconcile r ns name s = (case mapRequest r ns name of
       Err e \<Rightarrow> (Err e, s)
     | Panic p \<Rightarrow> (Panic p, s)
     | Ok req \<Rightarrow>
         (case loadInstance r req s of
            (Err e, s1) \<Rightarrow> (case IgnoreNotFound (rc_k8s r) e of None \<Rightarrow> (Ok 0, s1) | Some e \<Rightarrow> (Err e, s1))
          | (Panic p, s1) \<Rightarrow> (Panic p, s1)
          | (Ok req, s1) \<Rightarrow>
              (case mr_Instance req of
                 None \<Rightarrow> (Panic NilDeref, s1)
               | Some inst \<Rightarrow> reconcile_loaded r req inst s1)))"


section \<open>What running a command does to the store\<close>

text \<open>
  Only the create command writes the store, through its callback. A client that was created has
  an id: without one the upload of its keys fails, and the creation with it.
\<close>

lemma CreateClient_id:
  assumes "CreateClient c req ks s = (Ok resp, s')" shows "cr_ClientId resp \<noteq> []"
proof (cases ks)
  case None
  with assms show ?thesis by (simp add: CreateClient_def)
next
  case (Some set)
  with assms obtain s1 s2 where "CreateClientJwks c (cr_ClientId resp) (Some set) s1 = (Ok (), s2)"
    by (auto simp: CreateClient_def bind_eq_Ok_iff)
  then show ?thesis by (auto simp: CreateClientJwks_def)
qed

lemma keeps_cheap_api [keeps_intros]: "keeps cheap (in_api m)"
  by (auto simp: keeps_def in_api_def on_part_def split: prod.splits)

lemma keeps_cheap_k8s [keeps_intros]: "keeps cheap (in_k8s m)"
  unfolding in_k8s_def by (rule keeps_cheap_api)

lemma keeps_read_store [keeps_intros]: "keeps f (read_store g)"
  by (simp add: keeps_def read_store_def)

lemma keeps_AssertWith [keeps_intros]: "keeps f (AssertWith b msg)"
  by (simp add: keeps_def AssertWith_def)

fun is_create :: "command_data \<Rightarrow> bool" where
  "is_create (CreateClientInApiCommand a) = True"
| "is_create _ = False"

lemma run_command_keeps_store:
  assumes "\<not> is_create (cmd_Data cmd)" shows "keeps cheap (run_command r cs cmd)"
proof (cases "cmd_Data cmd")
  case (CreateClientInApiCommand a)
  with assms show ?thesis by simp
next
  case (UpdateSecretContentCommand c)
  then show ?thesis unfolding run_command_def by (auto simp: Let_def intro!: keeps_intros)
next
  case (UpdateClientInApiCommand a)
  then show ?thesis
    unfolding run_command_def
    by (auto simp: Let_def intro!: keeps_intros split: option.split)
next
  case (DeleteClientInApiCommand i)
  then show ?thesis unfolding run_command_def by (auto simp: Let_def intro!: keeps_intros)
next
  case DeleteSecretContentCommand
  then show ?thesis unfolding run_command_def by (auto simp: Let_def intro!: keeps_intros)
qed

lemma run_commands_keeps_store:
  assumes "\<forall>cmd\<in>set cmds. \<not> is_create (cmd_Data cmd)"
  shows "keeps cheap (run_commands r cs executed cmds)"
  using assms
proof (induction cmds arbitrary: executed)
  case Nil
  then show ?case by (simp add: keeps_def)
next
  case (Cons cmd cmds)
  then have "keeps cheap (run_command r cs cmd)" by (intro run_command_keeps_store) simp
  with Cons show ?case
    by (auto simp: keeps_def split: prod.splits outcome.splits)
qed

lemma run_create_command:
  assumes "run_command r cs \<lparr>cmd_Data = CreateClientInApiCommand a, cmd_Callback = Some (SetClientId a c)\<rparr> s = (Ok u, s')"
  obtains resp :: client_response where "cr_ClientId resp \<noteq> []"
    and "cheap s' = set_sec_id c (cr_ClientId resp) (set_api_id a (cr_ClientId resp) (cheap s))"
proof -
  from assms obtain resp s1 where
    create: "in_api (CreateClient (rt_maskinportenApiClient (rc_runtime r)) (as_Req (api_at (cheap s) a))
        (as_Jwks (api_at (cheap s) a))) s = (Ok resp, s1)"
    and cb: "in_store (run_callback (SetClientId a c) (Some resp)) s1 = (Ok u, s')"
    by (auto simp: run_command_def Let_def bind_eq_Ok_iff read_store_def)
  from create have "cheap s1 = cheap s" using keeps_cheap_api by (auto simp: keeps_def)
  moreover from create have "cr_ClientId resp \<noteq> []"
    by (auto simp: in_api_def on_part_def split: prod.splits dest!: CreateClient_id)
  ultimately show ?thesis
    using cb by (intro that [of resp]) (auto simp: in_store_def on_part_def)
qed

text \<open>A plan creates a client only in the branch without one.\<close>

lemma is_create_resolve: "is_create d \<longleftrightarrow> (\<exists>r ks. resolve_data h d = CreateClientAction r ks)"
  by (cases d) auto

lemma Reconcile_creates:
  assumes "Reconcile J s ctx cfg crypto clock (w, empty_heap) = (Ok cmds, (w', h))"
    and "Api s \<noteq> None \<or> crd_DeletionTimestamp (Crd s) \<noteq> None"
  shows "\<forall>cmd\<in>set cmds. \<not> is_create (cmd_Data cmd)"
proof
  fix cmd assume "cmd \<in> set cmds"
  then have "resolve_data h (cmd_Data cmd) \<in> set (resolve h cmds)" by (simp add: resolve_def)
  moreover have "CreateClientAction r ks \<notin> set (resolve h cmds)" for r ks
    using Reconcile_spec [OF assms(1)] assms(2)
    by (auto simp: reconcile_spec_def Let_def delete_plan_def restore_plan_def update_plan_def
        split: if_splits option.splits)
  ultimately show "\<not> is_create (cmd_Data cmd)" unfolding is_create_resolve [of _ h] by metis
qed

text \<open>When the loop reaches a command that writes the secret, the contents name a client.\<close>

lemma secret_command_id:
  assumes "client_state_ok cs"
    and "Reconcile J cs ctx cfg crypto clock (w, empty_heap) = (Ok cmds, (w', h))"
    and "cmds = pre @ cmd # post" and "cmd_Data cmd = UpdateSecretContentCommand a"
    and "cheap s = h" and "run_commands r cs [] pre s = (Ok (pre, None), s1)"
  shows "sc_ClientId (sec_at (cheap s1) a) \<noteq> []"
proof (cases "Api cs \<noteq> None \<or> crd_DeletionTimestamp (Crd cs) \<noteq> None")
  case True
  with assms(2,3) Reconcile_creates have "\<forall>cmd\<in>set pre. \<not> is_create (cmd_Data cmd)" by fastforce
  then have "keeps cheap (run_commands r cs [] pre)" by (rule run_commands_keeps_store)
  with assms(5,6) have store: "cheap s1 = h" by (auto simp: keeps_def)
  have act: "WriteSecretAction (sec_at h a) \<in> set (resolve h cmds)"
    using assms(3,4) by (auto simp: resolve_def)
  show ?thesis
  proof (cases "Api cs")
    case None
    with True Reconcile_spec [OF assms(2)] act show ?thesis
      by (auto simp: reconcile_spec_def Let_def delete_plan_def split: if_splits option.splits)
  next
    case (Some api)
    from Reconcile_names_client [OF assms(2) Some act] have "sc_ClientId (sec_at h a) = as_ClientId api" by simp
    with assms(1) Some store show ?thesis by (simp add: client_state_ok_def)
  qed
next
  case False
  then have "reconcile_create J cs ctx cfg crypto clock (w, empty_heap) = (Ok cmds, (w', h))"
    using assms(2) by (simp add: Reconcile_create_eq)
  then have cmds: "cmds = [\<lparr>cmd_Data = CreateClientInApiCommand 0, cmd_Callback = Some (SetClientId 0 0)\<rparr>,
        plain_command (UpdateSecretContentCommand 0)]" and cells: "length (sec_cells h) = 1"
    by (auto elim!: reconcile_create_Ok)
  with assms(3,4) have pre: "pre = [\<lparr>cmd_Data = CreateClientInApiCommand 0, cmd_Callback = Some (SetClientId 0 0)\<rparr>]"
      and a: "a = 0"
    by (cases pre; auto simp: plain_command_def Cons_eq_append_conv)+
  from assms(6) obtain u where
      "run_command r cs \<lparr>cmd_Data = CreateClientInApiCommand 0, cmd_Callback = Some (SetClientId 0 0)\<rparr> s = (Ok u, s1)"
    by (auto simp: pre split: prod.splits outcome.splits)
  then obtain resp :: client_response where "cr_ClientId resp \<noteq> []"
      "cheap s1 = set_sec_id 0 (cr_ClientId resp) (set_api_id 0 (cr_ClientId resp) (cheap s))"
    by (rule run_create_command)
  with assms(5) cells a show ?thesis
    by (simp add: sec_at_def set_sec_id_def set_api_id_def)
qed

end
