(* ===== verification/OperatorProcess.thy ===== *)
theory OperatorProcess
  imports GoProcess Telemetry Controller
begin

text \<open>
  The process of the operator, \<open>cmd/main.go\<close>, from its flags to the end of the manager. The manager and
  the client of the cluster are controller-runtime (\<open>manager_lib\<close>); a handle of type \<open>'m\<close> stands for
  a manager, whose state is in the outside world. What is logged is left out.
\<close>


section \<open>The manager\<close>

record tls_config =
  NextProtos :: "string list"

definition disableHTTP2 :: "tls_config \<Rightarrow> tls_config" where
  "disableHTTP2 c = c\<lparr>NextProtos := [''http/1.1'']\<rparr>"

record manager_options =
  mo_MetricsBindAddress :: string
  mo_SecureServing :: bool
  mo_MetricsTLSOpts :: "(tls_config \<Rightarrow> tls_config) list"
  mo_WebhookTLSOpts :: "(tls_config \<Rightarrow> tls_config) list"
  mo_HealthProbeBindAddress :: string
  mo_LeaderElection :: bool
  mo_LeaderElectionID :: string
  mo_SyncPeriod :: duration

text \<open>
  \<open>GenerationChangedPredicate\<close> is what controller-runtime makes of the old and the new resource of an
  update. \<open>ctrl_Complete\<close> gives a manager a controller for a kind of resource.
\<close>

record ('c, 'm, 't, 'w) manager_lib =
  zap_flags :: "string \<rightharpoonup> flag_kind"
  ctrl_GetConfig :: "('w, 'c) prog"
  config_Wrap :: "('t \<Rightarrow> 't) \<Rightarrow> 'c \<Rightarrow> 'c"
  otelhttp_NewTransport :: "'t \<Rightarrow> 't"
  ctrl_NewManager :: "'c \<Rightarrow> manager_options \<Rightarrow> ('w, 'm) prog"
  mgr_GetClient :: "'m \<Rightarrow> 'w k8s_lib"
  rand_NewPCG :: "int \<Rightarrow> 'w \<Rightarrow> int \<times> 'w"
  GenerationChangedPredicate :: "maskinporten_client \<Rightarrow> maskinporten_client \<Rightarrow> bool"
  ctrl_Complete :: "'m \<Rightarrow> string \<Rightarrow> (maskinporten_client \<Rightarrow> maskinporten_client \<Rightarrow> bool) \<Rightarrow>
    'w reconciler \<Rightarrow> 'w http_state \<Rightarrow> ('w, unit) prog"
  mgr_AddHealthzCheck :: "'m \<Rightarrow> string \<Rightarrow> ('w, unit) prog"
  mgr_AddReadyzCheck :: "'m \<Rightarrow> string \<Rightarrow> ('w, unit) prog"
  mgr_Start :: "'m \<Rightarrow> ('w, unit) prog"

definition SetupWithManager ::
  "('c, 'm, 't, 'w) manager_lib \<Rightarrow> 'w reconciler \<Rightarrow> 'w http_state \<Rightarrow> 'm \<Rightarrow> ('w, unit) prog"
where
  "SetupWithManager M r st mgr =
     ctrl_Complete M mgr ''MaskinportenClient'' (GenerationChangedPredicate M) r st"


section \<open>The process\<close>

text \<open>\<open>op_spans\<close> are the spans that were started and not ended yet.\<close>

record ('k, 'e, 'r, 'w) operator_state =
  op_config :: "'k config_state"
  op_telemetry :: "('e, 'r, 'w) telemetry"
  op_spans :: "string list"

type_synonym ('k, 'e, 'r, 'w, 'a) operator = "(('k, 'e, 'r, 'w) operator_state, 'a) process"

definition op_world :: "('k, 'e, 'r, 'w) operator_state \<Rightarrow> 'w" where
  "op_world s = otel_world (op_telemetry s)"

definition set_op_world :: "'w \<Rightarrow> ('k, 'e, 'r, 'w) operator_state \<Rightarrow> ('k, 'e, 'r, 'w) operator_state" where
  "set_op_world w s = s\<lparr>op_telemetry := (op_telemetry s)\<lparr>otel_world := w\<rparr>\<rparr>"

definition start_span :: "string \<Rightarrow> ('k, 'e, 'r, 'w, unit) operator" where
  "start_span name s = Some (Returned (), s\<lparr>op_spans := name # op_spans s\<rparr>)"

definition end_span :: "string \<Rightarrow> ('k, 'e, 'r, 'w) operator_state \<Rightarrow> ('k, 'e, 'r, 'w) operator_state" where
  "end_span name s = s\<lparr>op_spans := remove1 name (op_spans s)\<rparr>"

text \<open>
  A call on the outside world. On an error the process logs, does what else the caller does then, and
  exits with 1.
\<close>

definition op_call ::
  "(('k, 'e, 'r, 'w) operator_state \<Rightarrow> ('k, 'e, 'r, 'w) operator_state) \<Rightarrow> ('w, 'a) prog \<Rightarrow> ('k, 'e, 'r, 'w, 'a) operator"
where
  "op_call on_err m s = (case m (op_world s) of
       (Ok x, w) \<Rightarrow> Some (Returned x, set_op_world w s)
     | (Err e, w) \<Rightarrow> Some (Exited 1, on_err (set_op_world w s))
     | (Panic p, w) \<Rightarrow> Some (Crashed p, set_op_world w s))"

definition configure_telemetry :: "('e, 'r, 'w) otel_lib \<Rightarrow> ('k, 'e, 'r, 'w, unit) operator" where
  "configure_telemetry T s = (case ConfigureOTel T (op_telemetry s) of
       (Ok (b, None), t) \<Rightarrow> Some (Returned (), s\<lparr>op_telemetry := t\<rparr>)
     | (Ok (b, Some e), t) \<Rightarrow> Some (Exited 1, s\<lparr>op_telemetry := t\<rparr>)
     | (Err e, t) \<Rightarrow> Some (Exited 1, s\<lparr>op_telemetry := t\<rparr>)
     | (Panic p, t) \<Rightarrow> Some (Crashed p, s\<lparr>op_telemetry := t\<rparr>))"

definition init_runtime ::
  "('k, 'w) runtime_libs \<Rightarrow> go_error option \<Rightarrow> ('k, 'e, 'r, 'w, 'w runtime \<times> 'w http_state) operator"
where
  "init_runtime L ctx_err s = (case NewRuntime L ctx_err [] (op_config s, op_world s) of
       None \<Rightarrow> None
     | Some (Ok x, c, w) \<Rightarrow> Some (Returned x, set_op_world w (s\<lparr>op_config := c\<rparr>))
     | Some (Err e, c, w) \<Rightarrow> Some (Exited 1, end_span ''Main'' (set_op_world w (s\<lparr>op_config := c\<rparr>)))
     | Some (Panic p, c, w) \<Rightarrow> Some (Crashed p, set_op_world w (s\<lparr>op_config := c\<rparr>)))"

definition operator_flags :: "('c, 'm, 't, 'w) manager_lib \<Rightarrow> (string \<rightharpoonup> flag_kind)" where
  "operator_flags M = zap_flags M ++
     [''metrics-bind-address'' \<mapsto> StringFlag, ''health-probe-bind-address'' \<mapsto> StringFlag, ''leader-elect'' \<mapsto> BoolFlag,
      ''metrics-secure'' \<mapsto> BoolFlag, ''enable-http2'' \<mapsto> BoolFlag]"

definition operator_options :: "(string \<times> flag_value) list \<Rightarrow> manager_options" where
  "operator_options fs =
     (let tlsOpts = (if bool_flag ''enable-http2'' fs then [] else [disableHTTP2])
      in \<lparr>mo_MetricsBindAddress = string_flag ''metrics-bind-address'' ''0'' fs,
          mo_SecureServing = bool_flag ''metrics-secure'' fs,
          mo_MetricsTLSOpts = tlsOpts, mo_WebhookTLSOpts = tlsOpts,
          mo_HealthProbeBindAddress = string_flag ''health-probe-bind-address'' '':8081'' fs,
          mo_LeaderElection = bool_flag ''leader-elect'' fs,
          mo_LeaderElectionID = ''ec156e4c.altinn.studio'',
          mo_SyncPeriod = Hour * 5\<rparr>)"

text \<open>
  From the manager to its end. \<open>GetConfigOrDie\<close> exits by itself, without ending the span; the span is
  ended before the manager runs.
\<close>

definition end_main :: "('k, 'e, 'r, 'w) operator_state \<Rightarrow> ('k, 'e, 'r, 'w) operator_state" where
  "end_main = end_span ''Main''"

definition run_manager ::
  "('k, 'w) runtime_libs \<Rightarrow> ('c, 'm, 't, 'w) manager_lib \<Rightarrow> (string \<times> flag_value) list \<Rightarrow> 'w runtime \<Rightarrow> 'w http_state \<Rightarrow>
   ('k, 'e, 'r, 'w, unit) operator"
where
  "run_manager L M fs rt api =
     cli_bind (op_call id (ctrl_GetConfig M)) (\<lambda>config.
     let config = WrapTransport (config_Wrap M) (otelhttp_NewTransport M) config in
     cli_bind (op_call end_main (ctrl_NewManager M config (operator_options fs))) (\<lambda>mgr.
     let r = NewMaskinportenClientReconciler rt (rl_jose L) (mgr_GetClient M mgr) (rand_NewPCG M) None in
     cli_bind (op_call end_main (SetupWithManager M r api mgr)) (\<lambda>_.
     cli_bind (op_call end_main (mgr_AddHealthzCheck M mgr ''healthz'')) (\<lambda>_.
     cli_bind (op_call end_main (mgr_AddReadyzCheck M mgr ''readyz'')) (\<lambda>_.
     cli_bind (\<lambda>s. Some (Returned (), end_main s)) (\<lambda>_.
     op_call id (mgr_Start M mgr)))))))"

text \<open>
  \<open>main\<close>. Once there is a runtime, the shutdown of the telemetry is deferred; its error goes into a
  variable that nothing reads.
\<close>

definition shutdown_telemetry ::
  "('e, 'r, 'w) otel_lib \<Rightarrow> ('k, 'e, 'r, 'w) operator_state \<Rightarrow> ('k, 'e, 'r, 'w) operator_state"
where
  "shutdown_telemetry T s = s\<lparr>op_telemetry := snd (otel_shutdown T (op_telemetry s))\<rparr>"

definition operator_main ::
  "('k, 'w) runtime_libs \<Rightarrow> ('e, 'r, 'w) otel_lib \<Rightarrow> ('c, 'm, 't, 'w) manager_lib \<Rightarrow> go_error option \<Rightarrow> string list \<Rightarrow>
   ('k, 'e, 'r, 'w, unit) operator"
where
  "operator_main L T M ctx_err args =
     cli_bind (parse_or_exit (operator_flags M) args) (\<lambda>fs.
     cli_bind (configure_telemetry T) (\<lambda>_.
     cli_bind (start_span ''Main'') (\<lambda>_.
     cli_bind (init_runtime L ctx_err) (\<lambda>(rt, api).
     deferring (shutdown_telemetry T) (run_manager L M fs rt api)))))"

end
