(* ===== verification/Samples.thy ===== *)
theory Samples
  imports Crypto
begin

text \<open>
  A concrete instance of every parameter that the key-handling parts take, used wherever a
  theorem with hypotheses is applied to an input: a world with a clock and a counter, a random
  source that draws from the counter, and a key library that knows a table of keys and writes a
  key as its position in the table. The library satisfies \<open>jose_laws\<close> for every table.
\<close>

record sample_world =
  sample_now :: instant
  sample_draws :: nat

definition sample_clock :: "sample_world clock" where
  "sample_clock w = (sample_now w, w)"

definition draw :: "(nat \<Rightarrow> 'a) \<Rightarrow> (sample_world, 'a) prog" where
  "draw f w = (Ok (f (sample_draws w)), w\<lparr>sample_draws := Suc (sample_draws w)\<rparr>)"

definition sample_private_key :: "nat \<Rightarrow> rsa_private" where
  "sample_private_key n = \<lparr>PublicKey = \<lparr>rsa_N = 3233 + int n, rsa_E = 17\<rparr>, rsa_D = 413\<rparr>"

definition sample_random :: "sample_world random_source" where
  "sample_random = \<lparr>
     rsa_GenerateKey = (\<lambda>bits. draw sample_private_key),
     random_ReadFull = (\<lambda>n. draw (\<lambda>d. replicate n (word_of_nat d))),
     uuid_NewRandomFromReader = draw (\<lambda>d. ''uuid-'' @ itoa (int d)),
     x509_sign = (\<lambda>c k. ret ())\<rparr>"

definition sample_ctx :: op_context where
  "sample_ctx = \<lparr>ServiceOwnerName = ''ttd'', ServiceOwnerOrgNo = ''991825827'',
     Environment = ''local'', RunId = ''run-1''\<rparr>"

definition sample_crypto :: "sample_world crypto_service" where
  "sample_crypto = \<lparr>cs_ctx = sample_ctx, cs_clock = sample_clock, cs_random = sample_random,
     cs_signatureAlgo = ''RS512'', cs_x509SignatureAlgo = SHA512WithRSA, cs_keySizeBits = 4096\<rparr>"

definition sample_start :: sample_world where
  "sample_start = \<lparr>sample_now = 1000 * Second, sample_draws = 0\<rparr>"

lemmas sample_defs = sample_clock_def draw_def sample_random_def sample_ctx_def
  sample_crypto_def sample_start_def sample_private_key_def


section \<open>A key library over a table of keys\<close>

fun position :: "'a \<Rightarrow> 'a list \<Rightarrow> nat option" where
  "position x [] = None"
| "position x (y # ys) = (if x = y then Some 0 else map_option Suc (position x ys))"

definition table_jose :: "jose_jwk list \<Rightarrow> jose_lib" where
  "table_jose ks = \<lparr>
     jose_IsPublic = (\<lambda>k. case jose_Key k of RsaPublic pk \<Rightarrow> True | _ \<Rightarrow> False),
     jose_Public = (\<lambda>k. case jose_Key k of
         RsaPrivate sk \<Rightarrow> k\<lparr>jose_Key := RsaPublic (PublicKey sk)\<rparr> | _ \<Rightarrow> k),
     jose_Marshal = (\<lambda>k. case position k ks of
         Some i \<Rightarrow> Ok (JStr (replicate i CHR ''k'')) | None \<Rightarrow> Err (ErrExternal ''unknown key'')),
     jose_Unmarshal = (\<lambda>j. case j of
         JStr s \<Rightarrow> if length s < length ks then Some (ks ! length s) else None | _ \<Rightarrow> None)\<rparr>"

lemma position_Some: "position x ys = Some i \<Longrightarrow> i < length ys \<and> ys ! i = x"
  by (induction ys arbitrary: i) (auto split: if_splits)

lemma table_jose_laws: "jose_laws (table_jose ks)"
  by (auto simp: jose_laws_def table_jose_def split: key_material.splits option.splits
      dest: position_Some)


section \<open>The key set that the sample service creates, and its rotation\<close>

definition sample_cert :: "nat \<Rightarrow> instant \<Rightarrow> instant \<Rightarrow> certificate" where
  "sample_cert d notBefore notAfter = \<lparr>SerialNumber = SetBytes (replicate 16 (word_of_nat (Suc d))),
     Subject = \<lparr>Organization = [''ttd''], CommonName = ''app''\<rparr>,
     Issuer = \<lparr>Organization = [''ttd''], CommonName = ''app''\<rparr>,
     NotBefore = whole_seconds notBefore, NotAfter = whole_seconds notAfter,
     KeyUsage = [KeyUsageKeyEncipherment, KeyUsageDigitalSignature],
     ExtKeyUsage = [ExtKeyUsageServerAuth], BasicConstraintsValid = True,
     SignatureAlgorithm = SHA512WithRSA, CertPublicKey = Some (PublicKey (sample_private_key d))\<rparr>"

definition sample_key :: "nat \<Rightarrow> instant \<Rightarrow> instant \<Rightarrow> int \<Rightarrow> jwk" where
  "sample_key d notBefore notAfter i = Jwk \<lparr>jose_Key = RsaPrivate (sample_private_key d),
     jose_KeyID = ''uuid-'' @ itoa (int (d + 2)) @ ''.'' @ itoa i, jose_Algorithm = ''RS512'',
     jose_Use = ''sig'', jose_Certificates = [sample_cert d notBefore notAfter]\<rparr>"

lemma SetBytes_nonneg [simp]: "\<not> SetBytes bs < 0" "sgn (SetBytes bs) \<noteq> - 1"
  using SetBytes_bounds [of bs] by (auto simp: sgn_if)

lemma sample_createCert:
  assumes "sample_now w < notAfter"
  shows "createCert sample_crypto ''app'' notAfter w =
    (Ok (sample_cert (sample_draws w) (sample_now w) notAfter, sample_private_key (sample_draws w)),
     w\<lparr>sample_draws := sample_draws w + 2\<rparr>)"
  using assms
  by (simp add: createCert_def generateCertSerialNumber_def x509_CreateCertificate_def sample_defs
      wrapping_def bind_def reading_def sample_cert_def Let_def ret_def)

lemma sample_createJWKS:
  "createJWKS sample_crypto (sample_cert d t0 t1) (sample_private_key d) i w =
    (Ok \<lparr>Keys = [Some (Jwk \<lparr>jose_Key = RsaPrivate (sample_private_key d),
       jose_KeyID = ''uuid-'' @ itoa (int (sample_draws w)) @ ''.'' @ itoa i,
       jose_Algorithm = ''RS512'', jose_Use = ''sig'',
       jose_Certificates = [sample_cert d t0 t1]\<rparr>)]\<rparr>, w\<lparr>sample_draws := Suc (sample_draws w)\<rparr>)"
  by (simp add: createJWKS_def sample_crypto_def sample_random_def draw_def NewJwks_def NewJwk_def
      bind_def Let_def ret_def)

lemma sample_CreateJwks:
  assumes "sample_now w < notAfter"
  shows "CreateJwks sample_crypto ''app'' notAfter w =
    (Ok \<lparr>Keys = [Some (sample_key (sample_draws w) (sample_now w) notAfter 0)]\<rparr>,
     w\<lparr>sample_draws := sample_draws w + 3\<rparr>)"
  using sample_createCert [OF assms]
  by (simp add: CreateJwks_def wrapping_def sample_createJWKS sample_key_def add.commute numeral_3_eq_3 bind_def)

lemma sample_key_index [simp]: "in_int64 i \<Longrightarrow> key_index (sample_key d t0 t1 i) = Some i"
proof -
  assume i: "in_int64 i"
  have "last (split_on CHR ''.'' ((''uuid-'' @ itoa (int (d + 2))) @ CHR ''.'' # itoa i)) = itoa i"
    by (rule last_split_on_sep) simp
  with i show ?thesis by (simp add: key_index_def sample_key_def)
qed

lemma sample_key_good [simp]:
  "in_int64 i \<Longrightarrow> good_key (sample_key d t0 t1 i)"
  "one_cert (sample_key d t0 t1 i)"
  "cert_expiry (sample_key d t0 t1 i) = whole_seconds t1"
  "private_rsa_key (sample_key d t0 t1 i)"
  "\<not> jose_IsPublic (table_jose ks) (inner (sample_key d t0 t1 i))"
  by (auto simp: good_key_def private_rsa_key_def one_cert_def cert_expiry_def)
    (simp_all add: sample_key_def sample_cert_def table_jose_def)

end
