(* ===== verification/HttpProperties.thy ===== *)
theory HttpProperties
  imports HttpApi Samples
begin

text \<open>
  The properties of the API client, \<open>internal/maskinporten/http_api_client.go\<close>, with a scripted
  network on which they are tried: it answers requests from a list, reads every body to its end,
  and refuses a request whose body was read before.
\<close>


section \<open>A scripted network\<close>

type_synonym script_world = "sample_world \<times> http_response outcome list"

definition script_net :: "nat \<Rightarrow> script_world net_lib" where
  "script_net retries = \<lparr>
     url_Parse = (\<lambda>base. Ok \<lparr>bu_Origin = base, bu_Path = [], bu_EscapedPath = []\<rparr>),
     http_Do = (\<lambda>req (w, rs).
       if (case rq_Body req of None \<Rightarrow> False | Some b \<Rightarrow> length (rq_unread req) < length b)
       then ((Err (ErrExternal ''http: ContentLength with shorter body''), rq_unread req), (w, rs))
       else (case rs of
           [] \<Rightarrow> ((Err (ErrExternal ''connection refused''), []), (w, []))
         | r # rs' \<Rightarrow> ((r, []), (w, rs')))),
     backoff_NextBackOff = steady_backoff retries,
     backoff_sleep = (\<lambda>p (w, rs). (w\<lparr>sample_now := sample_now w + p\<rparr>, rs))\<rparr>"

lemma script_net_laws: "net_laws (script_net n)"
  by (auto simp: net_laws_def script_net_def split: if_splits list.splits)

definition answer :: "int \<Rightarrow> string \<Rightarrow> http_response outcome" where
  "answer code body = Ok \<lparr>rs_StatusCode = code, rs_Status = itoa code, rs_Body = body, rs_ReadErr = None\<rparr>"

text \<open>A library that signs one token: the algorithm, key, key id, claims and scope it signs.\<close>

definition one_token_jwt :: "string \<Rightarrow> jose_jwk \<Rightarrow> string \<Rightarrow> jose_claims \<Rightarrow> string \<Rightarrow> 'w jwt_lib" where
  "one_token_jwt alg key kid cl scope = \<lparr>
     jwt_ParseSigned = (\<lambda>t algs. if t = ''token'' \<and> alg \<in> set algs
        then Ok \<lparr>jws_KeyIDs = [kid], jws_Raw = t\<rparr> else Err (ErrExternal ''jwt'')),
     jwt_Claims = (\<lambda>tok k. case jose_Key key of
        RsaPrivate sk \<Rightarrow> if jose_Key k = RsaPublic (PublicKey sk) then Ok cl else Err (ErrExternal ''jwt'')
      | _ \<Rightarrow> Err (ErrExternal ''jwt'')),
     jwt_PrivateClaims = (\<lambda>tok k. Ok [''scope'' \<mapsto> JStr scope]),
     jwt_Sign = (\<lambda>alg' key' kid' cl' scope'.
        if alg' = alg \<and> key' = key \<and> kid' = kid \<and> cl' = cl \<and> scope' = scope
        then Ok ''token'' else Err (ErrExternal ''jwt'')),
     jwt_NumericDate = (\<lambda>t. if t = 0 then None else Some (t div Second)),
     jwt_Time = (\<lambda>s. s * Second),
     uuid_New = ret ''uuid''\<rparr>"

lemma one_token_laws: "jwt_laws (one_token_jwt alg key kid cl scope)"
  by (auto simp: jwt_laws_def one_token_jwt_def whole_seconds_def minus_mod_eq_div_mult
      split: if_splits key_material.splits)

definition script_clock :: "script_world clock" where
  "script_clock = (\<lambda>(w, rs). (sample_now w, (w, rs)))"

definition sample_hc :: "jose_lib \<Rightarrow> nat \<Rightarrow> script_world jwt_lib \<Rightarrow> script_world http_api" where
  "sample_hc J retries L = \<lparr>
     hc_config = \<lparr>api_ClientId = ''operator'', api_AuthorityUrl = ''http://maskinporten'',
        api_SelfServiceUrl = ''http://selfservice'', api_Jwk = ''null'', api_Scope = ''dcr''\<rparr>,
     hc_context = sample_ctx, hc_jwk = sample_key 0 0 0 0, hc_clock = script_clock,
     hc_clientNamePrefix = getClientNamePrefix sample_ctx, hc_jose = J,
     hc_jwt = L, hc_net = script_net retries\<rparr>"

definition no_jwt :: "'w jwt_lib" where
  "no_jwt = one_token_jwt ''none'' (inner zero_jwk) []
     \<lparr>jc_Audience = [], jc_Issuer = [], jc_Subject = [], jc_IssuedAt = None, jc_NotBefore = None,
      jc_Expiry = None, jc_ID = []\<rparr> []"

text \<open>A state whose caches were filled half a minute ago, and one whose caches are empty.\<close>

definition sample_wk :: well_known_response where
  "sample_wk = zero_well_known\<lparr>wk_Issuer := ''http://maskinporten''\<rparr>"

definition warm :: "http_response outcome list \<Rightarrow> script_world http_state" where
  "warm rs = \<lparr>
     wellKnown = \<lparr>current = Some sample_wk, currentFetchedAt = 1000 * Second, expireAfter = 5 * Minute\<rparr>,
     accessToken = \<lparr>current = Some (zero_token_response\<lparr>tr_AccessToken := ''secret''\<rparr>),
       currentFetchedAt = 1000 * Second, expireAfter = 1 * Minute\<rparr>,
     env = (\<lparr>sample_now = 1030 * Second, sample_draws = 0\<rparr>, rs)\<rparr>"

definition cold :: "http_response outcome list \<Rightarrow> script_world http_state" where
  "cold rs = \<lparr>wellKnown = NewCachedAtom (5 * Minute), accessToken = NewCachedAtom (1 * Minute),
     env = (\<lparr>sample_now = 1030 * Second, sample_draws = 0\<rparr>, rs)\<rparr>"

lemmas http_samples = sample_hc_def warm_def cold_def script_clock_def script_net_def answer_def

lemma warm_token: "\<not> atom_expired (accessToken (warm rs)) (fst (hc_clock (sample_hc J n L) (env (warm rs))))"
  by (simp add: http_samples atom_expired_def time_IsZero_def time_Sub_def time_units
      max_duration_def min_duration_def)

lemma warm_wellKnown: "\<not> atom_expired (wellKnown (warm rs)) (fst (api_clock (sample_hc J n L) (warm rs)))"
  by (simp add: http_samples atom_expired_def time_IsZero_def time_Sub_def time_units api_clock_def
      max_duration_def min_duration_def)


section \<open>Retries\<close>

text \<open>
  C23: What \<open>retryableHTTPDo\<close> sends and returns, for a network whose backoff library
  keeps its documented laws. Before the last attempt there were only failed ones, each an error or a
  response with a status of 500 or above, each followed by a pause that the library granted; the
  pauses are positive and add up to at most the two minutes of the strategy, so there are at most
  241 attempts. The result is that of the last attempt: a response with a status below 500, returned
  without a further attempt; or an error, and then the library granted no more pause.
\<close>

theorem retry_attempts:
  assumes "backoff_laws (hc_net c)" and "retryableHTTPDo c req s = (r, s')"
  shows "\<exists>ps sent w1 result unread w2.
    (retry_step (hc_net c))\<^sup>*\<^sup>*
      ([], Header_Add ''X-Altinn-Operator-RunId'' (RunId (hc_context c)) req, env s) (ps, sent, w1) \<and>
    list_all (\<lambda>p. 0 < p) ps \<and> sum_list ps \<le> 2 * Minute \<and> length ps \<le> 240 \<and>
    http_Do (hc_net c) sent w1 = ((result, unread), w2) \<and>
    (case result of
       Ok resp \<Rightarrow> if rs_StatusCode resp < 500 then r = Ok resp \<and> s' = s\<lparr>env := w2\<rparr>
         else r = Err (Errorf ''server error: %v'' [rs_Status resp]) \<and>
           (\<exists>w3. backoff_NextBackOff (hc_net c) http_backoff ps w2 = (None, w3) \<and> s' = s\<lparr>env := w3\<rparr>)
     | Err e \<Rightarrow> r = Err e \<and>
         (\<exists>w3. backoff_NextBackOff (hc_net c) http_backoff ps w2 = (None, w3) \<and> s' = s\<lparr>env := w3\<rparr>)
     | Panic p \<Rightarrow> r = Panic p \<and> s' = s\<lparr>env := w2\<rparr>)"
proof -
  let ?N = "hc_net c" and ?req = "Header_Add ''X-Altinn-Operator-RunId'' (RunId (hc_context c)) req"
  obtain w' where run: "http_retry ?N [] ?req (env s) = (r, w')" and s': "s' = s\<lparr>env := w'\<rparr>"
    using assms(2) by (auto simp: retryableHTTPDo_def in_env_def on_part_def split: prod.splits)
  from run obtain ps sent w1 result unread w2 where steps: "(retry_step ?N)\<^sup>*\<^sup>* ([], ?req, env s) (ps, sent, w1)"
    and do: "http_Do ?N sent w1 = ((result, unread), w2)"
    and fin: "case operation_error result of None \<Rightarrow> r = result \<and> w' = w2 | Some e \<Rightarrow> r = Err e \<and> next_pause ?N ps w2 = (None, w')"
    by (rule http_retry_run)
  note pauses = retry_steps_pauses [OF assms(1) steps]
  have "sum_list ps \<le> 2 * Minute" using pauses(2) by (simp add: http_backoff_def)
  with steps do fin pauses show ?thesis
    unfolding next_pause_lawful [OF assms(1)] s'
    by (intro exI [of _ ps] exI [of _ sent] exI [of _ w1] exI [of _ result] exI [of _ unread] exI [of _ w2])
      (cases result; auto simp: operation_error_def split: if_splits)
qed

definition sample_get :: http_request where
  "sample_get = NewRequest ''GET'' \<lparr>u_Origin = ''http://x'', u_Path = [], u_Query = []\<rparr> None"

lemma script_net_backoff: "backoff_laws (script_net n)"
  by (rule steady_backoff_laws [of _ n]) (simp add: script_net_def)

lemma retry_attempts_witness:
  "\<exists>ps sent w1 unread w2. (retry_step (script_net 3))\<^sup>*\<^sup>*
      ([], Header_Add ''X-Altinn-Operator-RunId'' (RunId sample_ctx) sample_get, env (warm [answer 503 [], answer 200 []])) (ps, sent, w1) \<and>
    length ps \<le> 240 \<and> http_Do (script_net 3) sent w1 = ((answer 200 [], unread), w2)"
proof -
  let ?c = "sample_hc (table_jose []) 3 no_jwt" and ?s = "warm [answer 503 [], answer 200 []]"
  have net: "hc_net ?c = script_net 3" and ctx: "hc_context ?c = sample_ctx" by (simp_all add: sample_hc_def)
  have laws: "backoff_laws (hc_net ?c)" unfolding net by (rule script_net_backoff)
  obtain s' where run: "retryableHTTPDo ?c sample_get ?s = (answer 200 [], s')"
    by (simp add: retryableHTTPDo_def in_env_def on_part_def http_samples http_retry.simps sample_get_def NewRequest_def
        operation_error_def next_pause_def steady_backoff_def http_backoff_def time_units Header_Add_def)
  from retry_attempts [OF laws run, unfolded net ctx] obtain ps sent w1 result unread w2 where
    steps: "(retry_step (script_net 3))\<^sup>*\<^sup>*
      ([], Header_Add ''X-Altinn-Operator-RunId'' (RunId sample_ctx) sample_get, env ?s) (ps, sent, w1)"
    and len: "length ps \<le> 240" and do: "http_Do (script_net 3) sent w1 = ((result, unread), w2)"
    and res: "case result of
       Ok resp \<Rightarrow> if rs_StatusCode resp < 500 then answer 200 [] = Ok resp \<and> s' = ?s\<lparr>env := w2\<rparr>
         else answer 200 [] = Err (Errorf ''server error: %v'' [rs_Status resp]) \<and>
           (\<exists>w3. backoff_NextBackOff (script_net 3) http_backoff ps w2 = (None, w3) \<and> s' = ?s\<lparr>env := w3\<rparr>)
     | Err e \<Rightarrow> answer 200 [] = Err e \<and>
         (\<exists>w3. backoff_NextBackOff (script_net 3) http_backoff ps w2 = (None, w3) \<and> s' = ?s\<lparr>env := w3\<rparr>)
     | Panic p \<Rightarrow> answer 200 [] = Panic p \<and> s' = ?s\<lparr>env := w2\<rparr>"
    by (elim exE conjE)
  from res have "result = answer 200 []" by (cases result) (auto simp: answer_def split: if_splits)
  with steps len do show ?thesis by blast
qed

text \<open>
  A request with a body is not really retried: if the first attempt read any of the body
  and was answered with a status of 500 or above, every later attempt fails, and so does the
  call, whatever the server would have answered.
\<close>

theorem retried_body_fails:
  assumes "net_laws N" and "rq_Body req = Some b"
    and "http_Do N req w = ((Ok resp, unread), w1)" and "500 \<le> rs_StatusCode resp"
    and "length unread < length b"
  shows "\<not> is_Ok (fst (http_retry N ps req w))"
proof -
  have err: "operation_error (Ok resp) = Some (Errorf ''server error: %v'' [rs_Status resp])"
    using assms(4) by (simp add: operation_error_def)
  obtain q w2 where pause: "next_pause N ps w1 = (q, w2)" by fastforce
  show ?thesis
  proof (cases q)
    case None
    with assms(3) err pause show ?thesis by (simp add: http_retry.simps)
  next
    case (Some p)
    have "http_retry N (ps @ [p]) (req\<lparr>rq_unread := unread\<rparr>) w3 \<noteq> (Ok resp2, w4)" for resp2 w3 w4
      by (rule http_retry_drained [OF assms(1)]) (use assms(2,5) in auto)
    moreover have "http_retry N ps req w = http_retry N (ps @ [p]) (req\<lparr>rq_unread := unread\<rparr>) (backoff_sleep N p w2)"
      using Some assms(3) err pause by (subst http_retry.simps) simp
    ultimately show ?thesis by (auto simp: is_Ok_fst_iff)
  qed
qed

lemma retried_body_fails_witness:
  "\<not> is_Ok (fst (http_retry (script_net 9) []
      (NewRequest ''POST'' \<lparr>u_Origin = ''http://x'', u_Path = [], u_Query = []\<rparr> (Some ''body''))
      (sample_start, [answer 503 [], answer 200 []])))"
  by (rule retried_body_fails [OF script_net_laws, where b = "''body''"])
    ((simp_all add: NewRequest_def script_net_def answer_def)+)


section \<open>Tokens\<close>

text \<open>
  C24: While the cached access token is younger than its lifetime, a request is built from it
  without any call to the network. Otherwise the clock is read again; if the token is fresh by then
  it is used, and else one run of the fetcher decides: the token it returns is used and stored, as
  fetched at that second reading, and an error is returned wrapped with the cached token left as it
  was.
\<close>

theorem token_cache:
  fixes c :: "'w http_api" and s :: "'w http_state" and u m body
  defines "a \<equiv> accessToken s" and "w1 \<equiv> snd (hc_clock c (env s))"
    and "req tok \<equiv> Header_Set ''Authorization'' (''Bearer '' @ tr_AccessToken tok) (NewRequest m u body)"
  shows "(\<not> atom_expired a (fst (hc_clock c (env s))) \<and> current a = Some tok \<longrightarrow>
      createReq c u m body s = (Ok (req tok), s\<lparr>env := w1\<rparr>)) \<and>
    (atom_expired a (fst (hc_clock c (env s))) \<and> atom_refreshed a (fst (hc_clock c w1)) \<and> current a = Some tok \<longrightarrow>
      createReq c u m body s = (Ok (req tok), s\<lparr>env := snd (hc_clock c w1)\<rparr>)) \<and>
    (atom_expired a (fst (hc_clock c (env s))) \<and> \<not> atom_refreshed a (fst (hc_clock c w1)) \<longrightarrow>
      (case accessTokenFetcher c (s\<lparr>env := snd (hc_clock c w1)\<rparr>) of
         (Ok fetched, s1) \<Rightarrow> \<exists>tok. fetched = Some tok \<and> createReq c u m body s =
            (Ok (req tok), s1\<lparr>accessToken := a\<lparr>current := Some tok, currentFetchedAt := fst (hc_clock c w1)\<rparr>\<rparr>)
       | (Err e, s1) \<Rightarrow> createReq c u m body s = (Err (ErrWrap ''failed to get access token'' e), s1) \<and> accessToken s1 = a
       | (Panic p, s1) \<Rightarrow> createReq c u m body s = (Panic p, s1) \<and> accessToken s1 = a))"
proof (intro conjI impI; (elim conjE)?)
  have clock: "api_clock c t = (fst (hc_clock c (env t)), t\<lparr>env := snd (hc_clock c (env t))\<rparr>)" for t
    by (simp add: api_clock_def split: prod.split)
  assume "\<not> atom_expired a (fst (hc_clock c (env s)))" and cur: "current a = Some tok"
  then have "\<not> atom_expired (accessToken s) (fst (api_clock c s))" by (simp add: clock a_def)
  from atc.Get_hit [OF this] cur show "createReq c u m body s = (Ok (req tok), s\<lparr>env := w1\<rparr>)"
    by (simp add: createReq_def GetAccessToken_def wrapping_def bind_def ret_def clock a_def w1_def req_def)
next
  have clock: "api_clock c t = (fst (hc_clock c (env t)), t\<lparr>env := snd (hc_clock c (env t))\<rparr>)" for t
    by (simp add: api_clock_def split: prod.split)
  assume exp: "atom_expired a (fst (hc_clock c (env s)))" and "atom_refreshed a (fst (hc_clock c w1))" "current a = Some tok"
  moreover have "atom_expired (accessToken s) (fst (api_clock c s))" using exp by (simp add: clock a_def)
  ultimately show "createReq c u m body s = (Ok (req tok), s\<lparr>env := snd (hc_clock c w1)\<rparr>)"
    using atc.Get_miss [of s c]
    by (simp add: createReq_def GetAccessToken_def wrapping_def bind_def ret_def clock a_def w1_def req_def)
next
  have clock: "api_clock c t = (fst (hc_clock c (env t)), t\<lparr>env := snd (hc_clock c (env t))\<rparr>)" for t
    by (simp add: api_clock_def split: prod.split)
  assume exp: "atom_expired a (fst (hc_clock c (env s)))" and old: "\<not> atom_refreshed a (fst (hc_clock c w1))"
  have "atom_expired (accessToken s) (fst (api_clock c s))" using exp by (simp add: clock a_def)
  note miss = atc.Get_miss [OF this, folded GetAccessToken_def]
  obtain q s1 where run: "accessTokenFetcher c (s\<lparr>env := snd (hc_clock c w1)\<rparr>) = (q, s1)" by fastforce
  have "accessToken (snd (accessTokenFetcher c (s\<lparr>env := snd (hc_clock c w1)\<rparr>))) = accessToken (s\<lparr>env := snd (hc_clock c w1)\<rparr>)"
    by (rule keepsD) (rule accessTokenFetcher_keeps)
  then have "accessToken s1 = a" by (simp add: run a_def)
  moreover have "\<exists>tok. fetched = Some tok" if "q = Ok fetched" for fetched
    using run that by (auto simp: accessTokenFetcher_def bind_eq_Ok_iff Let_def)
  ultimately show "case accessTokenFetcher c (s\<lparr>env := snd (hc_clock c w1)\<rparr>) of
         (Ok fetched, s1) \<Rightarrow> \<exists>tok. fetched = Some tok \<and> createReq c u m body s =
            (Ok (req tok), s1\<lparr>accessToken := a\<lparr>current := Some tok, currentFetchedAt := fst (hc_clock c w1)\<rparr>\<rparr>)
       | (Err e, s1) \<Rightarrow> createReq c u m body s = (Err (ErrWrap ''failed to get access token'' e), s1) \<and> accessToken s1 = a
       | (Panic p, s1) \<Rightarrow> createReq c u m body s = (Panic p, s1) \<and> accessToken s1 = a"
    using miss old run
    by (cases q) (auto simp: createReq_def wrapping_def bind_def ret_def clock a_def w1_def req_def Let_def)
qed

lemma token_cache_witness:
  "createReq (sample_hc (table_jose []) 3 no_jwt) \<lparr>u_Origin = ''http://selfservice'', u_Path = [], u_Query = []\<rparr>
     ''GET'' None (warm []) =
     (Ok (Header_Set ''Authorization'' ''Bearer secret''
        (NewRequest ''GET'' \<lparr>u_Origin = ''http://selfservice'', u_Path = [], u_Query = []\<rparr> None)), warm [])"
proof -
  have "current (accessToken (warm [])) = Some (zero_token_response\<lparr>tr_AccessToken := ''secret''\<rparr>)"
    by (simp add: warm_def)
  with conjunct1 [OF token_cache, rule_format, OF conjI [OF warm_token this]]
  show ?thesis by (simp add: http_samples)
qed

text \<open>A grant is a token that the key signs, for the issuer of the metadata in the cache.\<close>

lemma createGrant_Ok:
  assumes "createGrant c s = (Ok t, s')"
  obtains wk s1 w' where "GetWellKnownConfiguration c s = (Ok (Some wk), s1)" and "current (wellKnown s') = Some wk"
    and "NewJWT (hc_jose c) (hc_jwt c) (Some (hc_jwk c)) [wk_Issuer wk] (api_ClientId (hc_config c))
      (api_Scope (hc_config c)) (fst (hc_clock c (env s1)) + 60 * Second) (hc_clock c) (snd (hc_clock c (env s1))) = (Ok t, w')"
proof -
  from assms obtain wk s1 where wk: "GetWellKnownConfiguration c s = (Ok (Some wk), s1)"
    and rest: "in_env (Jwk_NewJWT (hc_jose c) (hc_jwt c) (Some (hc_jwk c)) [wk_Issuer wk]
        (api_ClientId (hc_config c)) (api_Scope (hc_config c)) (fst (api_clock c s1) + 60 * Second) (hc_clock c))
        (snd (api_clock c s1)) = (Ok t, s')"
    by (auto simp: createGrant_def bind_eq_Ok_iff Let_def)
  obtain now s2 where now: "api_clock c s1 = (now, s2)" by (cases "api_clock c s1")
  then have clock: "now = fst (hc_clock c (env s1))" "env s2 = snd (hc_clock c (env s1))"
    by (auto simp: api_clock_def split: prod.splits)
  from now rest have jwt: "in_env (Jwk_NewJWT (hc_jose c) (hc_jwt c) (Some (hc_jwk c)) [wk_Issuer wk]
        (api_ClientId (hc_config c)) (api_Scope (hc_config c)) (now + 60 * Second) (hc_clock c)) s2 = (Ok t, s')"
    by simp
  have "current (wellKnown s1) = Some wk"
    using wk unfolding GetWellKnownConfiguration_def by (auto elim!: wkc.Get_cases)
  moreover have "wellKnown s2 = wellKnown s1"
    using now by (auto simp: api_clock_def split: prod.splits)
  moreover have "wellKnown s' = wellKnown s2" using in_env_atoms [OF jwt] by simp
  ultimately have "current (wellKnown s') = Some wk" by simp
  moreover from jwt obtain w' where "NewJWT (hc_jose c) (hc_jwt c) (Some (hc_jwk c)) [wk_Issuer wk]
      (api_ClientId (hc_config c)) (api_Scope (hc_config c)) (now + 60 * Second) (hc_clock c) (env s2) = (Ok t, w')"
    by (auto simp: Jwk_NewJWT_def in_env_def on_part_def split: prod.splits)
  ultimately show ?thesis using wk clock by (intro that [of wk s1 w']) simp_all
qed

text \<open>
  C25: The grant that the client signs is one the other side can check: parsed, it has the key's id;
  decoded with the public half of the key, it names the issuer of the metadata as audience, the
  configured client as issuer and the configured scope. It expires 60 seconds after the time that
  the clock shows when the metadata has been had, and is issued at the reading of the clock that
  follows, both in whole seconds.
\<close>

theorem grant_accepted:
  assumes "jwt_laws (hc_jwt c)" and "createGrant c s = (Ok t, s')"
    and "jose_Key (inner (hc_jwk c)) = RsaPrivate sk" and "jose_Key (inner k') = RsaPublic (PublicKey sk)"
  shows "\<exists>wk s1 j cl. GetWellKnownConfiguration c s = (Ok (Some wk), s1) \<and> current (wellKnown s') = Some wk \<and>
    ParseJWT (hc_jwt c) t = Ok j \<and>
    Jwt_KeyID j = Ok (jose_KeyID (inner (hc_jwk c))) \<and> DecodeClaims (hc_jwt c) j (Some k') = Ok cl \<and>
    cl_Audience cl = [wk_Issuer wk] \<and> cl_Issuer cl = api_ClientId (hc_config c) \<and>
    cl_Scope cl = api_Scope (hc_config c) \<and>
    cl_Expiry cl = whole_seconds (fst (hc_clock c (env s1)) + 60 * Second) \<and>
    cl_IssuedAt cl = whole_seconds (fst (hc_clock c (snd (hc_clock c (env s1)))))"
proof -
  from assms(2) obtain wk s1 w' where wk: "GetWellKnownConfiguration c s = (Ok (Some wk), s1)"
    and cur: "current (wellKnown s') = Some wk"
    and new: "NewJWT (hc_jose c) (hc_jwt c) (Some (hc_jwk c)) [wk_Issuer wk] (api_ClientId (hc_config c))
      (api_Scope (hc_config c)) (fst (hc_clock c (env s1)) + 60 * Second) (hc_clock c) (snd (hc_clock c (env s1))) = (Ok t, w')"
    by (rule createGrant_Ok)
  from jwt_accepts [OF assms(1) new assms(3,4)] obtain j cl where
    "ParseJWT (hc_jwt c) t = Ok j" "Jwt_KeyID j = Ok (jose_KeyID (inner (hc_jwk c)))"
    "DecodeClaims (hc_jwt c) j (Some k') = Ok cl" "cl_Audience cl = [wk_Issuer wk]"
    "cl_Issuer cl = api_ClientId (hc_config c)" "cl_Scope cl = api_Scope (hc_config c)"
    "cl_Expiry cl = whole_seconds (fst (hc_clock c (env s1)) + 60 * Second)"
    "cl_IssuedAt cl = whole_seconds (fst (hc_clock c (snd (hc_clock c (env s1)))))" by blast
  with wk cur show ?thesis by blast
qed

definition sample_grant_jwt :: "script_world jwt_lib" where
  "sample_grant_jwt = one_token_jwt ''RS512'' (inner (sample_key 0 0 0 0))
     (jose_KeyID (inner (sample_key 0 0 0 0)))
     \<lparr>jc_Audience = [''http://maskinporten''], jc_Issuer = ''operator'', jc_Subject = [],
      jc_IssuedAt = Some 1030, jc_NotBefore = Some 1030, jc_Expiry = Some 1090, jc_ID = ''uuid''\<rparr> ''dcr''"

lemma sample_grant_wk:
  "GetWellKnownConfiguration (sample_hc (table_jose []) 0 sample_grant_jwt) (warm []) = (Ok (Some sample_wk), warm [])"
  using wkc.Get_hit [OF warm_wellKnown] by (simp add: GetWellKnownConfiguration_def api_clock_def http_samples)

lemma sample_grant_run: "createGrant (sample_hc (table_jose []) 0 sample_grant_jwt) (warm []) = (Ok ''token'', warm [])"
proof -
  note sample_grant_wk
  then show ?thesis
    unfolding createGrant_def
    by (subst bind_Ok, assumption) (simp add: api_clock_def http_samples in_env_def on_part_def Jwk_NewJWT_def
        NewJWT_def
        bind_def reading_def ret_def Let_def Jwk_IsPublic_def Jwk_Algorithm_def table_jose_def sample_key_def
        SignatureAlgorithmsStr_def sample_grant_jwt_def one_token_jwt_def sample_wk_def time_units)
qed

lemma grant_accepted_witness:
  "\<exists>j cl. ParseJWT sample_grant_jwt ''token'' = Ok j \<and>
    DecodeClaims sample_grant_jwt j (Some (public_half (table_jose []) (sample_key 0 0 0 0))) = Ok cl \<and>
    cl_Audience cl = [''http://maskinporten''] \<and> cl_Issuer cl = ''operator'' \<and> cl_Scope cl = ''dcr'' \<and>
    cl_Expiry cl = 1090 * Second \<and> cl_IssuedAt cl = 1030 * Second"
proof -
  have c: "hc_jwt (sample_hc (table_jose []) 0 sample_grant_jwt) = sample_grant_jwt"
      "hc_jwk (sample_hc (table_jose []) 0 sample_grant_jwt) = sample_key 0 0 0 0"
      "hc_config (sample_hc (table_jose []) 0 sample_grant_jwt) = \<lparr>api_ClientId = ''operator'', api_AuthorityUrl = ''http://maskinporten'',
        api_SelfServiceUrl = ''http://selfservice'', api_Jwk = ''null'', api_Scope = ''dcr''\<rparr>"
    by (simp_all add: sample_hc_def)
  have key: "jose_Key (inner (sample_key 0 0 0 0)) = RsaPrivate (sample_private_key 0)"
    by (simp add: sample_key_def)
  have pub: "jose_Key (inner (public_half (table_jose []) (sample_key 0 0 0 0))) = RsaPublic (PublicKey (sample_private_key 0))"
    using public_half_private [OF table_jose_laws key] by simp
  have clock: "hc_clock (sample_hc (table_jose []) 0 sample_grant_jwt) (env (warm [])) = (1030 * Second, env (warm []))"
    by (simp add: http_samples)
  have laws: "jwt_laws (hc_jwt (sample_hc (table_jose []) 0 sample_grant_jwt))" unfolding c(1) unfolding sample_grant_jwt_def by (rule one_token_laws)
  from grant_accepted [OF laws sample_grant_run, unfolded c, OF key pub] sample_grant_wk
  show ?thesis by (auto simp: sample_wk_def clock whole_seconds_def time_units)
qed


section \<open>Clients\<close>

lemma own_clients_filter:
  assumes "prefix \<noteq> []"
  shows "own_clients prefix cls =
    filter (\<lambda>cl. case cr_ClientName cl of None \<Rightarrow> False | Some n \<Rightarrow> has_prefix prefix n) cls"
  by (induction cls) (auto simp: TrimPrefix_eq_self_iff [OF assms] split: option.splits)

lemma getClientNamePrefix_not_Nil [simp]: "getClientNamePrefix ctx \<noteq> []"
  by (simp add: getClientNamePrefix_def)

text \<open>
  C26: The operator sees only its own clients. \<open>GetAllClients\<close> succeeds exactly if its
  request for the collection is answered with status 200 and a list of clients, and then returns
  those of the list whose name starts with the operator's prefix, all of them and in order.
  \<open>GetClient\<close> succeeds exactly if its request is answered with status 200 and a client
  whose name starts with the prefix, and the keys of that client can be had; it returns that client
  with those keys.
\<close>

theorem only_own_clients:
  fixes c :: "'w http_api"
  assumes "hc_clientNamePrefix c = getClientNamePrefix ctx"
  shows "(GetAllClients c s = (Ok cls, s') \<longleftrightarrow>
      (\<exists>collection req s1 resp dtos. self_service_url c [] = Ok collection \<and>
         createReq c collection ''GET'' None s = (Ok req, s1) \<and>
         retryableHTTPDo c (accept_json req) s1 = (Ok resp, s') \<and> rs_StatusCode resp = 200 \<and>
         Option.bind (json_decode (rs_Body resp))
           (dec_slice (dec_client_response (hc_jose c)) zero_client_response None) = Some (Some dtos) \<and>
         cls = filter (\<lambda>cl. \<exists>n. cr_ClientName cl = Some n \<and> has_prefix (getClientNamePrefix ctx) n) dtos)) \<and>
    (GetClient c i s = (Ok (dto, ks), s') \<longleftrightarrow>
      (\<exists>client req s1 resp s2 n. self_service_url c [i] = Ok client \<and>
         createReq c client ''GET'' None s = (Ok req, s1) \<and>
         retryableHTTPDo c (accept_json req) s1 = (Ok resp, s2) \<and> rs_StatusCode resp = 200 \<and>
         Option.bind (json_decode (rs_Body resp)) (dec_client_response (hc_jose c) zero_client_response) = Some dto \<and>
         cr_ClientName dto = Some n \<and> has_prefix (getClientNamePrefix ctx) n \<and> getClientJwks c i s2 = (Ok ks, s')))"
proof (intro conjI)
  have own: "own_clients (hc_clientNamePrefix c) ds =
      filter (\<lambda>cl. \<exists>n. cr_ClientName cl = Some n \<and> has_prefix (getClientNamePrefix ctx) n) ds" for ds
    unfolding assms own_clients_filter [OF getClientNamePrefix_not_Nil]
    by (rule filter_cong [OF refl]) (simp split: option.split)
  have fin: "(case d of None \<Rightarrow> fail e | Some ds \<Rightarrow> ret (f ds)) t = (Ok x, t') \<longleftrightarrow> (\<exists>ds. d = Some ds \<and> x = f ds \<and> t' = t)"
    for d :: "client_response list option" and e and f :: "client_response list \<Rightarrow> client_response list"
      and t :: "'w http_state" and x t'
    by (cases d) auto
  show "GetAllClients c s = (Ok cls, s') \<longleftrightarrow>
      (\<exists>collection req s1 resp dtos. self_service_url c [] = Ok collection \<and>
         createReq c collection ''GET'' None s = (Ok req, s1) \<and>
         retryableHTTPDo c (accept_json req) s1 = (Ok resp, s') \<and> rs_StatusCode resp = 200 \<and>
         Option.bind (json_decode (rs_Body resp))
           (dec_slice (dec_client_response (hc_jose c)) zero_client_response None) = Some (Some dtos) \<and>
         cls = filter (\<lambda>cl. \<exists>n. cr_ClientName cl = Some n \<and> has_prefix (getClientNamePrefix ctx) n) dtos)"
    unfolding own [symmetric]
    by (simp only: GetAllClients_def bind_eq_Ok_iff expect_status_Ok_iff deserialize_Ok_iff fin lift_apply prod.inject) blast
next
  have name: "(case cr_ClientName d of None \<Rightarrow> fail e | Some name \<Rightarrow> if TrimPrefix name (hc_clientNamePrefix c) = name then fail (e' name)
       else m) t = (Ok x, t') \<longleftrightarrow>
      (\<exists>n. cr_ClientName d = Some n \<and> has_prefix (getClientNamePrefix ctx) n \<and> m t = (Ok x, t'))"
    for d :: client_response and e e' and m :: "('w http_state, client_response \<times> jwks) prog" and t x t'
    by (cases "cr_ClientName d") (auto simp: TrimPrefix_eq_self_iff [OF getClientNamePrefix_not_Nil] assms)
  show "GetClient c i s = (Ok (dto, ks), s') \<longleftrightarrow>
      (\<exists>client req s1 resp s2 n. self_service_url c [i] = Ok client \<and>
         createReq c client ''GET'' None s = (Ok req, s1) \<and>
         retryableHTTPDo c (accept_json req) s1 = (Ok resp, s2) \<and> rs_StatusCode resp = 200 \<and>
         Option.bind (json_decode (rs_Body resp)) (dec_client_response (hc_jose c) zero_client_response) = Some dto \<and>
         cr_ClientName dto = Some n \<and> has_prefix (getClientNamePrefix ctx) n \<and> getClientJwks c i s2 = (Ok ks, s'))"
    by (simp only: GetClient_def bind_eq_Ok_iff expect_status_Ok_iff deserialize_Ok_iff name lift_apply prod.inject) auto
qed

definition two_clients_json :: json where
  "two_clients_json = JArr [
     JObj [(''client_id'', JStr ''id-1''), (''client_name'', JStr ''altinnoperator-ttd-local-app'')],
     JObj [(''client_id'', JStr ''id-2''), (''client_name'', JStr ''someone-else'')]]"

lemma warm_createReq:
  "createReq (sample_hc J n L) u m body (warm rs) =
     (Ok (Header_Set ''Authorization'' ''Bearer secret'' (NewRequest m u body)), warm rs)"
proof -
  from atc.Get_hit [of "warm rs" "sample_hc J n L"] warm_token [of rs J n L]
  have "GetAccessToken (sample_hc J n L) (warm rs) = (Ok (Some (zero_token_response\<lparr>tr_AccessToken := ''secret''\<rparr>)), warm rs)"
    by (simp add: GetAccessToken_def http_samples api_clock_def)
  then show ?thesis by (simp add: createReq_def wrapping_def bind_def ret_def)
qed

lemma warm_send:
  assumes "case rq_Body req of None \<Rightarrow> True | Some b \<Rightarrow> rq_unread req = b" and "code < 500"
  shows "retryableHTTPDo (sample_hc J n L) req (warm (answer code body # rs)) =
    (Ok \<lparr>rs_StatusCode = code, rs_Status = itoa code, rs_Body = body, rs_ReadErr = None\<rparr>, warm rs)"
  using assms
  by (cases "rq_Body req")
    (simp_all add: retryableHTTPDo_def in_env_def on_part_def http_samples http_retry.simps operation_error_def Header_Add_def)

lemma two_clients_decoded: "Option.bind (json_decode (json_text two_clients_json))
    (dec_slice (dec_client_response (table_jose [])) zero_client_response None) =
  Some (Some [zero_client_response\<lparr>cr_ClientId := ''id-1'', cr_ClientName := Some ''altinnoperator-ttd-local-app''\<rparr>,
    zero_client_response\<lparr>cr_ClientId := ''id-2'', cr_ClientName := Some ''someone-else''\<rparr>])"
proof -
  have "json_ok two_clients_json" by (simp add: two_clients_json_def)
  then have "json_decode (json_text two_clients_json) = Some two_clients_json" by simp
  moreover have "dec_slice (dec_client_response (table_jose [])) zero_client_response None two_clients_json =
      Some (Some [zero_client_response\<lparr>cr_ClientId := ''id-1'', cr_ClientName := Some ''altinnoperator-ttd-local-app''\<rparr>,
    zero_client_response\<lparr>cr_ClientId := ''id-2'', cr_ClientName := Some ''someone-else''\<rparr>])"
    by (simp add: two_clients_json_def dec_slice_def dec_client_response_def dec_client_response_members_def
      dec_object_def dec_field_def codec_simps dec_ptr_def dec_string_def Let_def zero_client_response_def)
  ultimately show ?thesis by simp
qed

lemma sample_collection_url: "self_service_url (sample_hc J n L) [] =
    Ok \<lparr>u_Origin = ''http://selfservice'', u_Path = clients_path, u_Query = []\<rparr>"
  using client_url [of "script_net n" "''http://selfservice''"
      "\<lparr>bu_Origin = ''http://selfservice'', bu_Path = [], bu_EscapedPath = []\<rparr>" "[]"]
  by (simp add: self_service_url_def sample_hc_def script_net_def)

lemma sample_list_run:
  "GetAllClients (sample_hc (table_jose []) 0 no_jwt) (warm [answer 200 (json_text two_clients_json)]) =
     (Ok [zero_client_response\<lparr>cr_ClientId := ''id-1'', cr_ClientName := Some ''altinnoperator-ttd-local-app''\<rparr>],
      warm [])"
proof -
  have hc: "hc_jose (sample_hc (table_jose []) 0 no_jwt) = table_jose []"
      "hc_clientNamePrefix (sample_hc (table_jose []) 0 no_jwt) = ''altinnoperator-ttd-local-''"
    by (simp_all add: sample_hc_def getClientNamePrefix_def sample_ctx_def)
  moreover have "rq_Body (accept_json (Header_Set k v (NewRequest m u None))) = None" for k v m u
    by (simp add: accept_json_def Header_Set_def NewRequest_def)
  moreover have "own_clients ''altinnoperator-ttd-local-''
      [zero_client_response\<lparr>cr_ClientId := ''id-1'', cr_ClientName := Some ''altinnoperator-ttd-local-app''\<rparr>,
       zero_client_response\<lparr>cr_ClientId := ''id-2'', cr_ClientName := Some ''someone-else''\<rparr>] =
      [zero_client_response\<lparr>cr_ClientId := ''id-1'', cr_ClientName := Some ''altinnoperator-ttd-local-app''\<rparr>]"
    by (simp del: own_clients.simps add: own_clients_filter)
  ultimately show ?thesis
    using two_clients_decoded sample_collection_url [of "table_jose []" 0 no_jwt]
    by (simp del: own_clients.simps add: GetAllClients_def bind_def warm_createReq warm_send
        expect_status_def deserialize_reads)
qed

lemma only_own_clients_witness:
  "\<exists>collection req s1 (resp :: http_response) dtos. self_service_url (sample_hc (table_jose []) 0 no_jwt) [] = Ok collection \<and>
     createReq (sample_hc (table_jose []) 0 no_jwt) collection ''GET'' None (warm [answer 200 (json_text two_clients_json)]) = (Ok req, s1) \<and>
     retryableHTTPDo (sample_hc (table_jose []) 0 no_jwt) (accept_json req) s1 = (Ok resp, warm []) \<and>
     Option.bind (json_decode (rs_Body resp))
       (dec_slice (dec_client_response (hc_jose (sample_hc (table_jose []) 0 no_jwt))) zero_client_response None) = Some (Some dtos) \<and>
     [zero_client_response\<lparr>cr_ClientId := ''id-1'', cr_ClientName := Some ''altinnoperator-ttd-local-app''\<rparr>] =
       filter (\<lambda>cl. \<exists>n. cr_ClientName cl = Some n \<and> has_prefix (getClientNamePrefix sample_ctx) n) dtos"
proof -
  have "hc_clientNamePrefix (sample_hc (table_jose []) 0 no_jwt) = getClientNamePrefix sample_ctx" by (simp add: sample_hc_def)
  from iffD1 [OF conjunct1 [OF only_own_clients [OF this]] sample_list_run] show ?thesis by blast
qed

text \<open>
  A key set with a private key is never sent: \<open>CreateClientJwks\<close> refuses it before it builds
  a request, with nothing changed, not even the token cache; and the key set that \<open>ToPublic\<close> makes
  of private RSA keys passes the check.
\<close>

theorem private_keys_not_uploaded:
  assumes "jose_laws (hc_jose c)"
  shows "(Some k \<in> set (Keys ks) \<longrightarrow> \<not> jose_IsPublic (hc_jose c) (inner k) \<longrightarrow>
      \<not> is_Ok (fst (CreateClientJwks c i (Some ks) s)) \<and> snd (CreateClientJwks c i (Some ks) s) = s) \<and>
    (Keys ks = map Some js \<longrightarrow> (\<forall>k\<in>set js. private_rsa_key k) \<longrightarrow>
      check_public (hc_jose c) i (Keys (public_set (hc_jose c) ks)) = Ok ())"
proof (intro conjI impI)
  assume "Some k \<in> set (Keys ks)" and "\<not> jose_IsPublic (hc_jose c) (inner k)"
  moreover have "Some k \<in> set ps \<Longrightarrow> \<not> jose_IsPublic (hc_jose c) (inner k) \<Longrightarrow>
      check_public (hc_jose c) i ps \<noteq> Ok ()" for ps
    by (induction ps) (auto simp: obind_Ok_iff Jwk_IsPublic_def)
  ultimately have "check_public (hc_jose c) i (Keys ks) \<noteq> Ok ()" by blast
  then show "\<not> is_Ok (fst (CreateClientJwks c i (Some ks) s))" and "snd (CreateClientJwks c i (Some ks) s) = s"
    by (cases "check_public (hc_jose c) i (Keys ks)"; simp add: CreateClientJwks_def)+
next
  assume "Keys ks = map Some js" and "\<forall>k\<in>set js. private_rsa_key k"
  with assms show "check_public (hc_jose c) i (Keys (public_set (hc_jose c) ks)) = Ok ()" by (rule check_public_set)
qed

lemma private_keys_not_uploaded_witness:
  "\<not> is_Ok (fst (CreateClientJwks (sample_hc (table_jose []) 3 no_jwt) ''id-1'' (Some \<lparr>Keys = [Some (sample_key 0 0 0 0)]\<rparr>)
      (warm [answer 201 []])))"
proof -
  have hc: "hc_jose (sample_hc (table_jose []) 3 no_jwt) = table_jose []" by (simp add: sample_hc_def)
  have laws: "jose_laws (hc_jose (sample_hc (table_jose []) 3 no_jwt))" unfolding hc by (rule table_jose_laws)
  from conjunct1 [OF private_keys_not_uploaded [OF laws]]
  show ?thesis by (simp add: hc)
qed

text \<open>
  An empty client id is refused by \<open>UpdateClient\<close>, \<open>CreateClientJwks\<close> and the read of a
  client's keys without a request, but not by \<open>DeleteClient\<close>: its request then goes to the URL of
  the whole collection.
\<close>

theorem empty_client_id:
  "\<not> is_Ok (fst (UpdateClient c [] r s)) \<and> snd (UpdateClient c [] r s) = s \<and>
   \<not> is_Ok (fst (CreateClientJwks c [] ks s)) \<and> snd (CreateClientJwks c [] ks s) = s \<and>
   \<not> is_Ok (fst (getClientJwks c [] s)) \<and> snd (getClientJwks c [] s) = s \<and>
   DeleteClient c [] =
     bind (lift (self_service_url c [])) (\<lambda>collection.
     bind (createReq c collection ''DELETE'' None) (\<lambda>req.
     bind (retryableHTTPDo c req) (expect_status 200)))"
  by (simp add: UpdateClient_def CreateClientJwks_def getClientJwks_def DeleteClient_def
      empty_id_is_collection)

end
