(* ===== verification/RuntimeProperties.thy ===== *)
theory RuntimeProperties
  imports Runtime InfraProperties HttpProperties
begin

text \<open>
  What a runtime that \<open>NewRuntime\<close> returned is: one configuration, one context and one clock,
  shared by the services built on them.
\<close>

definition runtime_ok :: "('k, 'w) runtime_libs \<Rightarrow> 'w runtime \<Rightarrow> 'w http_state \<Rightarrow> bool" where
  "runtime_ok L rt st \<longleftrightarrow>
     (let api = rt_maskinportenApiClient rt; ctx = rt_operatorContext rt in
        valid_config (rt_config rt) \<and> (IsLocal ctx \<or> IsDev ctx) \<and>
        cs_ctx (rt_crypto rt) = ctx \<and> cs_signatureAlgo (rt_crypto rt) \<in> set SignatureAlgorithmsStr \<and>
        hc_context api = ctx \<and> hc_config api = MaskinportenApi (rt_config rt) \<and>
        hc_clientNamePrefix api = getClientNamePrefix ctx \<and>
        cs_clock (rt_crypto rt) = rt_clock rt \<and> hc_clock api = rt_clock rt \<and>
        Option.bind (json_unmarshal (api_Jwk (hc_config api))) (Jwk_UnmarshalJSON (rl_jose L) zero_jwk) = Some (hc_jwk api) \<and>
        current (wellKnown st) = None \<and> current (accessToken st) = None)"

lemma build_runtime_more:
  assumes "build_runtime L ctx cfg w = (Ok (rt, st), w')"
  shows "cs_clock (rt_crypto rt) = rt_clock rt" and "hc_clock (rt_maskinportenApiClient rt) = rt_clock rt"
    and "Option.bind (json_unmarshal (api_Jwk (MaskinportenApi cfg))) (Jwk_UnmarshalJSON (rl_jose L) zero_jwk) =
      Some (hc_jwk (rt_maskinportenApiClient rt))"
  using assms
  by (auto simp: build_runtime_def NewDefaultService_eq NewHttpApiClient_def obind_Ok_iff split: option.splits)

lemma NewRuntime_ok:
  assumes "validator_sound (rl_config L)"
    and "NewRuntime L ctx_err override (st, w) = Some (Ok (rt, api), st', w')"
  shows "runtime_ok L rt api \<and> ctx_err = None \<and> ServiceOwnerName (rt_operatorContext rt) = ''local'' \<and>
    Environment (rt_operatorContext rt) = (if override = [] then EnvironmentLocal else override)"
proof -
  from assms(2) obtain ctx s1 w2 where
    cfg: "GetConfig (rl_config L) ctx ConfigSourceDefault [] s1 = Some (Ok (rt_config rt), st', w2)"
    and build: "build_runtime L ctx (rt_config rt) w2 = (Ok (rt, api), w')"
    and ctx: "Environment ctx = (if override = [] then EnvironmentLocal else override)" "ServiceOwnerName ctx = ''local''"
    by (rule NewRuntime_Ok)
  have valid: "valid_config (rt_config rt)" using assms(1) cfg by (rule GetConfig_valid)
  have "load_config (rl_config L) ctx ConfigSourceDefault [] s1 = Some (Ok (rt_config rt), st', w2)"
    using cfg by (auto simp: GetConfig_def obind_Ok_iff split: option.splits)
  then have env: "IsLocal ctx \<or> IsDev ctx"
    by (auto simp: load_config_def ConfigSourceDefault_def ConfigSourceAureKeyVault_def ConfigSourceKoanf_def
      split: if_splits prod.splits dest!: from_koanf_environment)
  have "ctx_err = None"
    using assms(2) by (auto simp: NewRuntime_def Discover_def split: option.splits)
  moreover have "''RS512'' \<in> set SignatureAlgorithmsStr" by (simp add: SignatureAlgorithmsStr_def)
  ultimately show ?thesis
    using valid env ctx build_runtime_Ok [OF build] build_runtime_more [OF build]
    by (simp add: runtime_ok_def Let_def)
qed

text \<open>
  C29: A runtime that \<open>NewRuntime\<close> returns is well formed: its configuration is valid and was made for a
  local or development environment, the one that was asked for; its crypto service and its API
  client share its context, configuration and clock, the API client's key is the one in the
  configuration, and nothing is cached yet. The service owner is \<open>local\<close> whatever environment
  was asked for.
\<close>

theorem new_runtime_ok:
  assumes "validator_sound (rl_config L)"
    and "NewRuntime L ctx_err override (st, w) = Some (Ok (rt, api), st', w')"
  shows "runtime_ok L rt api \<and> ctx_err = None \<and> ServiceOwnerName (rt_operatorContext rt) = ''local'' \<and>
    Environment (rt_operatorContext rt) = (if override = [] then EnvironmentLocal else override)"
  using assms by (rule NewRuntime_ok)

definition sample_runtime_config :: config where
  "sample_runtime_config = sample_config\<lparr>MaskinportenApi := sample_api_config\<lparr>api_Jwk := json_text (JStr [])\<rparr>\<rparr>"

definition sample_runtime_libs :: "(unit, script_world) runtime_libs" where
  "sample_runtime_libs = \<lparr>rl_uuid = ret ''run-1'',
     rl_config = sample_libs\<lparr>lib_koanf := \<lparr>koanf_Load = (\<lambda>d f k. Ok ()), koanf_Unmarshal = (\<lambda>k. Ok sample_runtime_config)\<rparr>\<rparr>,
     rl_clock = script_clock,
     rl_random = \<lparr>rsa_GenerateKey = (\<lambda>bits. ret (sample_private_key 0)), random_ReadFull = (\<lambda>n. ret (replicate n 1)),
       uuid_NewRandomFromReader = ret ''uuid'', x509_sign = (\<lambda>c k. ret ())\<rparr>,
     rl_jose = table_jose [inner (sample_key 0 0 0 0)], rl_jwt = no_jwt, rl_net = script_net 3\<rparr>"

lemma sample_runtime_config_valid: "valid_config sample_runtime_config"
  by (simp add: sample_runtime_config_def valid_config_def sample_config_def sample_api_config_def quote_text_def time_units)

definition sample_runtime_ctx :: op_context where
  "sample_runtime_ctx = \<lparr>ServiceOwnerName = ''local'', ServiceOwnerOrgNo = ''991825827'', Environment = ''local'', RunId = ''run-1''\<rparr>"

lemma sample_GetConfig:
  assumes "source = ConfigSourceDefault \<or> source = ConfigSourceKoanf"
  shows "GetConfig (rl_config sample_runtime_libs) sample_runtime_ctx source [] (\<lparr>cwd = [''repo''], koanf = ()\<rparr>, w) =
      Some (Ok sample_runtime_config, \<lparr>cwd = [''repo''], koanf = ()\<rparr>, w)"
proof -
  let ?K = "\<lparr>koanf_Load = (\<lambda>d f k. Ok ()), koanf_Unmarshal = (\<lambda>k. Ok sample_runtime_config)\<rparr> :: unit koanf_lib"
  have root: "TryFindProjectRoot sample_fs [''repo''] = Some (''/repo'', [''repo''])"
    by (simp add: TryFindProjectRoot.simps is_root_dir_def fileExists_def sample_fs_def dir_text_def)
  have "loadFromKoanf sample_fs ?K sample_runtime_ctx [] \<lparr>cwd = [''repo''], koanf = ()\<rparr> =
      Some (Ok sample_runtime_config, \<lparr>cwd = [''repo''], koanf = ()\<rparr>)"
    by (simp add: loadFromKoanf_def root Let_def IsLocal_def IsDev_def EnvironmentLocal_def EnvironmentDev_def sample_runtime_ctx_def)
      (simp add: sample_fs_def)
  then show ?thesis
    using assms sample_runtime_config_valid
    by (cases w) (auto simp: GetConfig_def load_config_def from_koanf_def sample_runtime_libs_def sample_libs_def sample_runtime_ctx_def
        ConfigSourceDefault_def ConfigSourceKoanf_def ConfigSourceAureKeyVault_def IsLocal_def IsDev_def
        EnvironmentLocal_def EnvironmentDev_def)
qed

lemma sample_Discover: "Discover (rl_uuid sample_runtime_libs) None w = (Ok sample_runtime_ctx, w)"
  by (simp add: Discover_def sample_runtime_libs_def bind_def ret_def EnvironmentLocal_def sample_runtime_ctx_def)

lemma sample_runtime_run:
  assumes "override = [] \<or> override = ''local''"
  shows "\<exists>rt api w'. NewRuntime sample_runtime_libs None override (\<lparr>cwd = [''repo''], koanf = ()\<rparr>, (sample_start, [])) =
     Some (Ok (rt, api), \<lparr>cwd = [''repo''], koanf = ()\<rparr>, w')"
proof -
  have "json_unmarshal (json_text (JStr [])) = Some (JStr [])" by (rule json_unmarshal_text) simp
  then obtain rt api w' where build: "build_runtime sample_runtime_libs sample_runtime_ctx sample_runtime_config (sample_start, []) = (Ok (rt, api), w')"
    by (simp add: build_runtime_def NewDefaultService_eq NewHttpApiClient_def bind_def sample_runtime_config_def
        sample_runtime_libs_def Jwk_UnmarshalJSON_def table_jose_def del: json_text.simps)
  moreover have "sample_runtime_ctx\<lparr>Environment := ''local''\<rparr> = sample_runtime_ctx" by (simp add: sample_runtime_ctx_def)
  ultimately show ?thesis
    using sample_GetConfig [of ConfigSourceDefault "(sample_start, [])"] assms
    by (auto simp: NewRuntime_def OverrideEnvironment_def Let_def sample_Discover)
qed

lemma new_runtime_ok_witness:
  "\<exists>(rt :: script_world runtime) api. runtime_ok sample_runtime_libs rt api \<and> Environment (rt_operatorContext rt) = ''local'' \<and>
     ServiceOwnerName (rt_operatorContext rt) = ''local''"
proof -
  have "validator_sound (rl_config sample_runtime_libs)"
    by (simp add: validator_sound_def sample_libs_def sample_runtime_libs_def)
  moreover obtain rt api w' where "NewRuntime sample_runtime_libs None ''local'' (\<lparr>cwd = [''repo''], koanf = ()\<rparr>, (sample_start, [])) =
     Some (Ok (rt, api), \<lparr>cwd = [''repo''], koanf = ()\<rparr>, w')"
    using sample_runtime_run [of "''local''"] by blast
  ultimately show ?thesis using new_runtime_ok by fastforce
qed

end
