(* ===== verification/KeyProperties.thy ===== *)
theory KeyProperties
  imports Samples
begin

text \<open>
  The properties of key sets: what \<open>CreateJwks\<close> and \<open>RotateIfNeeded\<close> of
  \<open>internal/crypto/crypto.go\<close> produce, when a rotation happens, and what of a key set leaves the
  operator (\<open>internal/crypto/jwks.go\<close>). Each property with a hypothesis is applied to the sample
  service of \<open>Samples\<close> right after it.
\<close>


section \<open>Rotation\<close>

text \<open>
  C1: Every key set that the service makes, by one \<open>CreateJwks\<close> and any number of rotations
  that extend the expiry past the rotation window, holds only private RSA keys with one
  certificate each and a readable index; there is one key before the first rotation and there
  are two after it; the current key is first, no other key outlives it, and its index is the
  number of rotations.
\<close>

theorem key_lineage_invariant:
  assumes "lineage s ks n" and "n < 2 ^ 63"
  shows "\<exists>js. Keys ks = map Some js \<and> length js = (if n = 0 then 1 else 2) \<and>
    key_index (hd js) = Some (int n) \<and>
    (\<forall>k\<in>set js. private_rsa_key k \<and> one_cert k \<and> cert_expiry k \<le> cert_expiry (hd js))"
proof -
  from lineage_good [OF assms] have good: "good_jwks ks"
    and idx: "key_index (current_key ks) = Some (int n)"
    and len: "length (Keys ks) = (if n = 0 then 1 else 2)" by auto
  from good obtain js where "Keys ks = map Some js" "js \<noteq> []"
      "\<forall>k\<in>set js. good_key k \<and> cert_expiry k \<le> cert_expiry (hd js)"
    by (auto simp: good_jwks_def)
  with idx len show ?thesis
    by (intro exI [of _ js]) (auto simp: current_key_def good_key_def hd_map)
qed

definition sample_created :: jwks where
  "sample_created = \<lparr>Keys = [Some (sample_key 0 (1000 * Second) (Hour * 24 * 30) 0)]\<rparr>"

definition sample_late :: sample_world where
  "sample_late = \<lparr>sample_now = Hour * 24 * 25, sample_draws = 3\<rparr>"

definition sample_rotated :: jwks where
  "sample_rotated = \<lparr>Keys = [Some (sample_key 3 (Hour * 24 * 25) (Hour * 24 * 55) 1),
     Some (sample_key 0 (1000 * Second) (Hour * 24 * 30) 0)]\<rparr>"

lemma sample_CreateJwks_start:
  "CreateJwks sample_crypto ''app'' (Hour * 24 * 30) sample_start =
     (Ok sample_created, sample_start\<lparr>sample_draws := 3\<rparr>)"
  using sample_CreateJwks [of sample_start "Hour * 24 * 30"]
  by (simp add: sample_start_def sample_created_def time_units)

lemma sample_rotate_late:
  "RotateIfNeeded sample_crypto ''app'' (Hour * 24 * 55) (Some sample_created) sample_late =
     (Ok (Some sample_rotated), sample_late\<lparr>sample_draws := 6\<rparr>)"
proof -
  let ?k = "sample_key 0 (1000 * Second) (Hour * 24 * 30) 0"
  have "atoi (last (split_on CHR ''.'' (jose_KeyID (inner ?k)))) = Some 0"
    using sample_key_index [of 0 0 "1000 * Second" "Hour * 24 * 30"]
    by (simp add: key_index_def in_int64_def)
  then have "rotate_from sample_crypto ''app'' (Hour * 24 * 55) ?k sample_late =
      (Ok (Some sample_rotated), sample_late\<lparr>sample_draws := 6\<rparr>)"
    using sample_createCert [of sample_late "Hour * 24 * 55"]
    by (simp add: rotate_from_def wrapping_def bind_def sample_late_def sample_createJWKS
        sample_rotated_def wrap64_def sample_key_def time_units)
  moreover have "RotateIfNeeded sample_crypto ''app'' (Hour * 24 * 55) (Some sample_created) sample_late =
    (if fst (cs_clock sample_crypto sample_late) + rotation_window < cert_expiry ?k
     then (Ok None, snd (cs_clock sample_crypto sample_late))
     else rotate_from sample_crypto ''app'' (Hour * 24 * 55) ?k (snd (cs_clock sample_crypto sample_late)))"
    by (rule RotateIfNeeded_eq [where js = "[?k]"])
      (simp_all add: latest_key_def sample_created_def)
  ultimately show ?thesis
    by (simp add: sample_crypto_def sample_clock_def sample_late_def rotation_window_def
        whole_seconds_def time_units)
qed

lemma sample_lineage: "lineage sample_crypto sample_rotated (Suc 0)"
proof (rule lineage.rotated)
  show "lineage sample_crypto sample_created 0"
    by (rule lineage.created [OF sample_CreateJwks_start])
  show "RotateIfNeeded sample_crypto ''app'' (Hour * 24 * 55) (Some sample_created) sample_late =
     (Ok (Some sample_rotated), sample_late\<lparr>sample_draws := 6\<rparr>)"
    by (rule sample_rotate_late)
  show "fst (cs_clock sample_crypto sample_late) + rotation_window \<le> whole_seconds (Hour * 24 * 55)"
    by (simp add: sample_crypto_def sample_clock_def sample_late_def rotation_window_def
        whole_seconds_def time_units)
qed

lemma key_lineage_invariant_witness:
  "\<exists>js. Keys sample_rotated = map Some js \<and> length js = 2 \<and> key_index (hd js) = Some 1 \<and>
    (\<forall>k\<in>set js. private_rsa_key k \<and> one_cert k \<and> cert_expiry k \<le> cert_expiry (hd js))"
  using key_lineage_invariant [OF sample_lineage] by simp

text \<open>
  C2: On a key set whose keys carry one certificate each, the decision of \<open>RotateIfNeeded\<close>
  depends only on the first key that expires last: the set is left alone exactly when that key
  outlives the instant of the decision by more than seven days.
\<close>

theorem rotation_decision:
  assumes "Keys ks = map Some js" and "\<forall>k\<in>set js. one_cert k" and "latest_key js = Some k"
  shows "fst (RotateIfNeeded s cn notAfter (Some ks) w) = Ok None \<longleftrightarrow>
    fst (cs_clock s w) + rotation_window < cert_expiry k"
proof -
  have "fst (rotate_from s cn notAfter k w1) \<noteq> Ok None" for w1
    by (auto simp: rotate_from_def bind_def ret_def fail_def split: option.splits prod.splits outcome.splits)
  then show ?thesis by (simp add: RotateIfNeeded_eq [OF assms(2,3,1)])
qed

lemma rotation_decision_witness:
  "fst (RotateIfNeeded sample_crypto ''app'' (Hour * 24 * 55) (Some sample_created) sample_late) \<noteq> Ok None"
proof -
  let ?k = "sample_key 0 (1000 * Second) (Hour * 24 * 30) 0"
  have "Keys sample_created = map Some [?k]" and "latest_key [?k] = Some ?k"
    by (simp_all add: sample_created_def latest_key_def)
  from rotation_decision [OF this(1) _ this(2), of sample_crypto "''app''" "Hour * 24 * 55" sample_late]
  show ?thesis
    by (simp add: sample_crypto_def sample_clock_def sample_late_def rotation_window_def
        whole_seconds_def time_units)
qed

text \<open>
  C3: A rotation puts a new key with the next index and the requested expiry in front of the
  key that was current, drops every older key, and happens only when the old key expires within
  seven days.
\<close>

theorem rotation_result:
  assumes "good_jwks ks" and "RotateIfNeeded s cn notAfter (Some ks) w = (Ok (Some ks'), w')"
    and "fst (cs_clock s w) + rotation_window \<le> whole_seconds notAfter"
  shows "\<exists>new i. Keys ks' = [Some new, Some (current_key ks)] \<and> good_jwks ks' \<and>
    cert_expiry new = whole_seconds notAfter \<and>
    key_index (current_key ks) = Some i \<and> key_index new = Some (wrap64 (i + 1)) \<and>
    jose_Algorithm (inner new) = cs_signatureAlgo s \<and>
    cert_expiry (current_key ks) \<le> fst (cs_clock s w) + rotation_window"
  using assms by (rule RotateIfNeeded_good) auto

lemma rotation_result_witness:
  "\<exists>new i. Keys sample_rotated = [Some new, Some (current_key sample_created)] \<and>
    key_index new = Some (wrap64 (i + 1))"
proof -
  have "good_jwks sample_created"
    using lineage_good [OF lineage.created [OF sample_CreateJwks_start]] by simp
  from rotation_result [OF this sample_rotate_late]
  show ?thesis
    by (auto simp: sample_crypto_def sample_clock_def sample_late_def rotation_window_def
        whole_seconds_def time_units)
qed


section \<open>New key sets\<close>

text \<open>
  A key set that \<open>CreateJwks\<close> returns has one private key, with index 0, the service's
  algorithm, and one certificate: it names the app, expires when asked to the second, and has a
  serial number of at most 128 bits. Its issuer is its own subject, not the issuer
  \<open>Altinn Operator\<close> that the template asks for.
\<close>

theorem created_key_set:
  assumes "CreateJwks s cn notAfter w = (Ok ks, w')"
  shows "\<exists>k cert. Keys ks = [Some k] \<and> private_rsa_key k \<and> key_index k = Some 0 \<and>
    jose_Algorithm (inner k) = cs_signatureAlgo s \<and> jose_Certificates (inner k) = [cert] \<and>
    CommonName (Subject cert) = cn \<and> NotAfter cert = whole_seconds notAfter \<and>
    0 \<le> SerialNumber cert \<and> SerialNumber cert < 2 ^ 128 \<and>
    Issuer cert = Subject cert \<and> (Organization (Subject cert) \<noteq> [''Digdir''] \<longrightarrow> Issuer cert \<noteq> getIssuer)"
proof -
  from assms obtain cert key w1 where
    cert: "createCert s cn notAfter w = (Ok (cert, key), w1)"
    and jwks: "createJWKS s cert key 0 w1 = (Ok ks, w')"
    by (auto simp: CreateJwks_def bind_eq_Ok_iff)
  from jwks obtain k where "Keys ks = [Some k]" "good_key k" "key_index k = Some 0"
      "jose_Certificates (inner k) = [cert]" "jose_Algorithm (inner k) = cs_signatureAlgo s"
    by (rule createJWKS_Ok) (simp add: in_int64_def)
  with createCert_Ok [OF cert] show ?thesis
    by (intro exI [of _ k] exI [of _ cert]) (auto simp: good_key_def getIssuer_def)
qed

lemma created_key_set_witness:
  "\<exists>k cert. Keys sample_created = [Some k] \<and> jose_Certificates (inner k) = [cert] \<and>
    Issuer cert = Subject cert"
  using created_key_set [OF sample_CreateJwks_start] by auto

text \<open>
  No certificate is made for an expiry that the clock has already reached: \<open>CreateJwks\<close>
  with a \<open>notAfter\<close> at or before every reading of the clock never returns a key set.
\<close>

theorem expired_key_set_refused:
  assumes "\<And>w1. notAfter \<le> fst (cs_clock s w1)"
  shows "\<not> is_Ok (fst (CreateJwks s cn notAfter w))"
proof (rule notI)
  assume "is_Ok (fst (CreateJwks s cn notAfter w))"
  then obtain ks w' where "CreateJwks s cn notAfter w = (Ok ks, w')"
    by (cases "CreateJwks s cn notAfter w"; cases "fst (CreateJwks s cn notAfter w)") auto
  then obtain r w1 where "createCert s cn notAfter w = (Ok r, w1)"
    by (auto simp: CreateJwks_def bind_eq_Ok_iff)
  from createCert_future [OF this] assms show False by (meson not_le)
qed

definition frozen_crypto :: "sample_world crypto_service" where
  "frozen_crypto = sample_crypto\<lparr>cs_clock := (\<lambda>w. (1000 * Second, w))\<rparr>"

lemma expired_key_set_refused_witness:
  "\<not> is_Ok (fst (CreateJwks frozen_crypto ''app'' (999 * Second) sample_start))"
  by (rule expired_key_set_refused) (simp add: frozen_crypto_def time_units)


section \<open>What leaves the operator\<close>

lemma ToPublic_keys_Panic_iff:
  "is_Panic (ToPublic_keys J acc ps) \<longleftrightarrow>
     (\<exists>js qs. ps = map Some js @ None # qs \<and> (\<forall>k\<in>set js. \<not> jose_IsPublic J (inner k)))"
proof (induction ps arbitrary: acc)
  case Nil
  then show ?case by simp
next
  case (Cons p ps)
  show ?case
  proof (cases p)
    case None
    then show ?thesis by (auto intro: exI [of _ "[]"])
  next
    case (Some k)
    let ?R = "\<lambda>ps. \<exists>js qs. ps = map Some js @ None # qs \<and> (\<forall>k\<in>set js. \<not> jose_IsPublic J (inner k))"
    have split: "?R (p # ps) \<longleftrightarrow> \<not> jose_IsPublic J (inner k) \<and> ?R ps"
    proof
      assume "?R (p # ps)"
      then obtain js qs where "p # ps = map Some js @ None # qs"
          "\<forall>k\<in>set js. \<not> jose_IsPublic J (inner k)" by blast
      then show "\<not> jose_IsPublic J (inner k) \<and> ?R ps" using Some by (cases js) auto
    next
      assume "\<not> jose_IsPublic J (inner k) \<and> ?R ps"
      then obtain js qs where "\<not> jose_IsPublic J (inner k)" "ps = map Some js @ None # qs"
          "\<forall>k\<in>set js. \<not> jose_IsPublic J (inner k)" by blast
      then show "?R (p # ps)" using Some
        by (intro exI [of _ "k # js"] exI [of _ qs]) simp
    qed
    have "is_Panic (ToPublic_keys J acc (p # ps)) \<longleftrightarrow> \<not> jose_IsPublic J (inner k) \<and>
        is_Panic (ToPublic_keys J (acc @ [Some (public_half J k)]) ps)"
      using Some by (simp add: Jwk_Public_private)
    then show ?thesis by (simp only: split Cons)
  qed
qed

lemma is_Panic_ToPublic: "is_Panic (ToPublic J (Some ks)) = is_Panic (ToPublic_keys J [] (Keys ks))"
  by (cases "ToPublic_keys J [] (Keys ks)") (simp_all add: ToPublic_def)

text \<open>
  C12: \<open>ToPublic\<close> succeeds exactly on key sets without a \<open>nil\<close> key in which no key is public
  already, and then returns the public half of each key, in order. It panics exactly when a
  \<open>nil\<close> key comes before every public one; on all other sets it returns an error.
\<close>

theorem to_public_iff:
  "(ToPublic J (Some ks) = Ok pub \<longleftrightarrow>
     (\<exists>js. Keys ks = map Some js \<and> (\<forall>k\<in>set js. \<not> jose_IsPublic J (inner k)) \<and>
        Keys pub = map (\<lambda>k. Some (public_half J k)) js)) \<and>
   (is_Panic (ToPublic J (Some ks)) \<longleftrightarrow>
     (\<exists>js ps. Keys ks = map Some js @ None # ps \<and> (\<forall>k\<in>set js. \<not> jose_IsPublic J (inner k))))"
  by (simp add: ToPublic_Ok_iff is_Panic_ToPublic ToPublic_keys_Panic_iff)

lemma to_public_iff_witness:
  "ToPublic (table_jose []) (Some sample_created) =
     Ok \<lparr>Keys = [Some (public_half (table_jose []) (sample_key 0 (1000 * Second) (Hour * 24 * 30) 0))]\<rparr>"
  by (rule conjunct1 [OF to_public_iff, THEN iffD2])
    (auto simp: sample_created_def intro!: exI [of _ "[sample_key 0 (1000 * Second) (Hour * 24 * 30) 0]"])

text \<open>
  What \<open>ToPublic\<close> returns holds no private RSA key and no certificate, whatever the keys
  were, and for a private RSA key the entry that leaves has the same id, algorithm and use and
  the public half of that key.
\<close>

theorem to_public_hides_secrets:
  assumes "jose_laws J" and "ToPublic J (Some ks) = Ok pub"
  shows "length (Keys pub) = length (Keys ks) \<and>
    (\<forall>p\<in>set (Keys pub). \<exists>k. p = Some k \<and> \<not> private_rsa_key k \<and> Jwk_Certificates p = []) \<and>
    (\<forall>i < length (Keys ks). \<forall>k sk. Keys ks ! i = Some k \<longrightarrow> jose_Key (inner k) = RsaPrivate sk \<longrightarrow>
      Keys pub ! i = Some (Jwk ((inner k)\<lparr>jose_Key := RsaPublic (PublicKey sk), jose_Certificates := []\<rparr>)))"
proof -
  from assms(2) obtain js where js: "Keys ks = map Some js"
      "Keys pub = map (\<lambda>k. Some (public_half J k)) js"
    by (auto simp: ToPublic_Ok_iff)
  have "\<exists>k. p = Some k \<and> \<not> private_rsa_key k \<and> Jwk_Certificates p = []" if "p \<in> set (Keys pub)" for p
    using that js(2) public_half_not_private [OF assms(1)] by (auto simp: public_half_def)
  moreover have "public_half J k = Jwk ((inner k)\<lparr>jose_Key := RsaPublic (PublicKey sk), jose_Certificates := []\<rparr>)"
    if "jose_Key (inner k) = RsaPrivate sk" for k sk
    using public_half_private [OF assms(1) that] by (metis jwk.collapse)
  ultimately show ?thesis using js by auto
qed

lemma to_public_hides_secrets_witness:
  "\<exists>pub. ToPublic (table_jose []) (Some sample_rotated) = Ok pub \<and>
    (\<forall>p\<in>set (Keys pub). \<exists>k. p = Some k \<and> \<not> private_rsa_key k \<and> Jwk_Certificates p = [])"
proof -
  have "ToPublic (table_jose []) (Some sample_rotated) = Ok \<lparr>Keys = map (\<lambda>k. Some (public_half (table_jose []) k))
      [sample_key 3 (Hour * 24 * 25) (Hour * 24 * 55) 1, sample_key 0 (1000 * Second) (Hour * 24 * 30) 0]\<rparr>"
    by (rule ToPublic_private_keys [OF table_jose_laws]) (simp_all add: sample_rotated_def)
  then show ?thesis using to_public_hides_secrets [OF table_jose_laws] by blast
qed

text \<open>
  A key set survives the trip through JSON text: whenever it can be marshalled, parsing the
  text and decoding it gives the same set, \<open>nil\<close> entries included.
\<close>

theorem jwks_text_roundtrip:
  assumes "jose_laws J" and "enc_jwks J ks = Ok j"
  shows "Option.bind (json_unmarshal (json_text j)) (dec_jwks J z) = Some ks"
  using jwks_roundtrip [OF assms] by simp

lemma jwks_text_roundtrip_witness:
  "Option.bind (json_unmarshal (json_text (JObj [(''keys'', JArr [JStr [], JNull])])))
      (dec_jwks (table_jose [inner (sample_key 0 0 0 0)]) \<lparr>Keys = []\<rparr>) =
    Some \<lparr>Keys = [Some (sample_key 0 0 0 0), None]\<rparr>"
  by (rule jwks_text_roundtrip [OF table_jose_laws])
    (simp add: enc_jwks_def enc_jwk_ptr_def Jwk_MarshalJSON_def table_jose_def)

end
