(* ===== verification/ClientProperties.thy ===== *)
theory ClientProperties
  imports ClientState KeyProperties
begin

text \<open>
  The properties of the client state machine (\<open>internal/maskinporten/client_state.go\<close>) and of the
  messages it builds (\<open>client_request.go\<close>). \<open>Reconcile\<close> is compared with plans: what the commands
  it returns mean, read through the store they share.
\<close>


section \<open>A sample client\<close>

definition sample_status :: maskinporten_client_status where
  "sample_status = \<lparr>st_ClientId = [], st_Authority = [], st_KeyIds = None, st_LastSynced = None,
     st_State = [], st_Reason = [], st_ObservedGeneration = 0, st_LastActions = None\<rparr>"

definition sample_crd :: "instant option \<Rightarrow> string slice \<Rightarrow> maskinporten_client" where
  "sample_crd deleted scopes = \<lparr>crd_Name = ''ttd-app'', crd_Namespace = ''default'', crd_Generation = 1,
     crd_DeletionTimestamp = deleted, crd_Finalizers = [], crd_Scopes = scopes,
     crd_Status = sample_status\<rparr>"

definition sample_secret :: k8s_secret where
  "sample_secret = \<lparr>sec_Name = ''ttd-app-secret'', sec_Namespace = ''default'', sec_Labels = Map.empty,
     sec_Type = SecretTypeOpaque, sec_Data = None\<rparr>"

definition sample_cfg :: config where
  "sample_cfg = \<lparr>MaskinportenApi = \<lparr>api_ClientId = ''operator'', api_AuthorityUrl = ''http://maskinporten'',
     api_SelfServiceUrl = ''http://selfservice'', api_Jwk = ''null'', api_Scope = ''scope''\<rparr>,
     Controller = \<lparr>RequeueAfter = 5 * Minute\<rparr>\<rparr>"

definition sample_response :: "string slice \<Rightarrow> client_response" where
  "sample_response scopes = zero_client_response\<lparr>cr_ClientId := ''id-1'',
     cr_ClientName := Some ''altinnoperator-ttd-local-app'', cr_Scopes := scopes\<rparr>"

definition sample_api :: "string slice \<Rightarrow> api_state" where
  "sample_api scopes = \<lparr>as_ClientId = ''id-1'',
     as_Req = Some (mapClientResponseToAddRequest (sample_response scopes)), as_Jwks = None\<rparr>"

definition sample_state :: "instant option \<Rightarrow> string slice \<Rightarrow> api_state option \<Rightarrow> secret_content option \<Rightarrow> client_state" where
  "sample_state deleted scopes api content = \<lparr>AppId = ''app'', Crd = sample_crd deleted scopes, Api = api,
     Secret_Content = content, Secret_Manifest = sample_secret\<rparr>"

lemmas client_samples = sample_state_def sample_crd_def sample_api_def sample_cfg_def sample_response_def

text \<open>The key set that \<open>CreateJwks\<close> returns at the start of the sample world, with 30 days to live.\<close>

definition sample_fresh :: jwks where
  "sample_fresh = \<lparr>Keys = [Some (sample_key 0 (1000 * Second) (1000 * Second + Hour * 24 * 30) 0)]\<rparr>"

lemma sample_fresh_created:
  "CreateJwks sample_crypto ''app'' (1000 * Second + Hour * 24 * 30) sample_start =
     (Ok sample_fresh, sample_start\<lparr>sample_draws := 3\<rparr>)"
  using sample_CreateJwks [of sample_start "1000 * Second + Hour * 24 * 30"]
  by (simp add: sample_start_def sample_fresh_def time_units)

lemma sample_fresh_good [simp]: "good_jwks sample_fresh"
  by (rule lineage_good [OF lineage.created [OF sample_fresh_created], simplified, THEN conjunct1])

lemma sample_fresh_public: "ToPublic (table_jose ks) (Some sample_fresh) = Ok (public_set (table_jose ks) sample_fresh)"
proof -
  have "ToPublic (table_jose ks) (Some sample_fresh) = Ok \<lparr>Keys = map (\<lambda>k. Some (public_half (table_jose ks) k))
      [sample_key 0 (1000 * Second) (1000 * Second + Hour * 24 * 30) 0]\<rparr>"
    by (rule ToPublic_private_keys [OF table_jose_laws]) (simp_all add: sample_fresh_def)
  then show ?thesis using ToPublic_public_set by simp
qed

lemma sample_fresh_expiry: "cert_expiry (current_key sample_fresh) = 1000 * Second + Hour * 24 * 30"
  by (simp add: current_key_def sample_fresh_def whole_seconds_def time_units)


section \<open>Runs of the sample client\<close>

lemma rotation_index_sample: "atoi (itoa 0) = Some 0" by (simp add: in_int64_def)

lemma sample_create_run:
  "Reconcile (table_jose []) (sample_state None scopes None content) sample_ctx sample_cfg sample_crypto
     sample_clock (sample_start, empty_heap) =
   (Ok [\<lparr>cmd_Data = CreateClientInApiCommand 0, cmd_Callback = Some (SetClientId 0 0)\<rparr>,
        plain_command (UpdateSecretContentCommand 0)],
    (sample_start\<lparr>sample_draws := 3\<rparr>,
     \<lparr>api_cells = [\<lparr>as_ClientId = [],
        as_Req = Some (buildApiReq (sample_state None scopes None content) sample_ctx),
        as_Jwks = Some (public_set (table_jose []) sample_fresh)\<rparr>],
      sec_cells = [content_for [] sample_cfg sample_fresh]\<rparr>))"
proof -
  have "index (Keys sample_fresh) 0 = Ok (hd (Keys sample_fresh))"
    by (simp add: sample_fresh_def)
  moreover have "fst (sample_clock sample_start) = 1000 * Second" "snd (sample_clock sample_start) = sample_start"
    by (simp_all add: sample_clock_def sample_start_def)
  ultimately show ?thesis
    using sample_fresh_created sample_fresh_public [of "[]"]
    by (simp add: Reconcile_create_eq client_samples reconcile_create_def getNotAfter_def in_world_apply
        bind_def ret_def empty_heap_def content_for_def sample_cfg_def)
qed

lemma sample_rotation_run:
  "Reconcile (table_jose []) (sample_state None scopes (Some (sample_api scopes))
       (Some (content_for ''id-1'' sample_cfg sample_created))) sample_ctx sample_cfg sample_crypto
     sample_clock (sample_late, empty_heap) =
   (Ok [plain_command (UpdateSecretContentCommand 0), plain_command (UpdateClientInApiCommand 0)],
    (sample_late\<lparr>sample_draws := 6\<rparr>,
     \<lparr>api_cells = [\<lparr>as_ClientId = ''id-1'', as_Req = None,
        as_Jwks = Some (public_set (table_jose []) sample_rotated)\<rparr>],
      sec_cells = [content_for ''id-1'' sample_cfg sample_rotated]\<rparr>))"
proof -
  have pub: "ToPublic (table_jose []) (Some sample_rotated) = Ok (public_set (table_jose []) sample_rotated)"
  proof -
    have "ToPublic (table_jose []) (Some sample_rotated) = Ok \<lparr>Keys = map (\<lambda>k. Some (public_half (table_jose []) k))
        [sample_key 3 (Hour * 24 * 25) (Hour * 24 * 55) 1, sample_key 0 (1000 * Second) (Hour * 24 * 30) 0]\<rparr>"
      by (rule ToPublic_private_keys [OF table_jose_laws]) (simp_all add: sample_rotated_def)
    then show ?thesis using ToPublic_public_set by simp
  qed
  have "index (Keys sample_rotated) 0 = Ok (hd (Keys sample_rotated))"
    by (simp add: sample_rotated_def)
  moreover have "fst (sample_clock sample_late) = Hour * 24 * 25" "snd (sample_clock sample_late) = sample_late"
    by (simp_all add: sample_clock_def sample_late_def)
  moreover have "Hour * 24 * 25 + Hour * 24 * 30 = Hour * 24 * 55" by simp
  ultimately show ?thesis
    using sample_rotate_late pub
    by (simp add: Reconcile_update_eq client_samples reconcile_update_def getNotAfter_def in_world_apply
        update_secret_cmds_def upload_jwks_cmds_def update_scopes_cmds_def mapClientResponseToAddRequest_def
        bind_def ret_def empty_heap_def content_for_def zero_client_response_def Let_def)
qed


section \<open>The decision refines its plan\<close>

text \<open>
  C5: What the commands of \<open>Reconcile\<close> mean, read through the store they share, is exactly the plan:
  for a deleted resource, delete the secret's contents if there are any and then the client if
  there is one; without a client, create it with a new key set and write the secret; without
  secret contents, upload a new key set and write the secret; otherwise write the secret when
  the authority or the keys changed, upload rotated keys, and update changed scopes.
\<close>

theorem reconcile_refines_plan:
  assumes "Reconcile J s ctx cfg crypto clock (w, empty_heap) = (Ok cmds, (w', h))"
  shows "reconcile_spec J s ctx cfg crypto clock w w' (resolve h cmds)"
  using assms by (rule Reconcile_spec)

lemma reconcile_refines_plan_witness:
  "\<exists>ks. resolve \<lparr>api_cells = [\<lparr>as_ClientId = [],
        as_Req = Some (buildApiReq (sample_state None (Some [''s'']) None None) sample_ctx),
        as_Jwks = Some (public_set (table_jose []) sample_fresh)\<rparr>],
      sec_cells = [content_for [] sample_cfg sample_fresh]\<rparr>
      [\<lparr>cmd_Data = CreateClientInApiCommand 0, cmd_Callback = Some (SetClientId 0 0)\<rparr>,
        plain_command (UpdateSecretContentCommand 0)] =
     create_plan (table_jose []) (sample_state None (Some [''s'']) None None) sample_ctx sample_cfg [] ks"
  using reconcile_refines_plan [OF sample_create_run [of "Some [''s'']" None]]
  by (auto simp: reconcile_spec_def sample_state_def sample_crd_def Let_def)

text \<open>
  Deletion never fails, draws nothing and reads no clock; it removes the secret's contents
  before it deletes the client, and each of them only if it is there.
\<close>

theorem reconcile_deletion:
  assumes "crd_DeletionTimestamp (Crd s) = Some t"
  shows "\<exists>cmds. Reconcile J s ctx cfg crypto clock (w, h) = (Ok cmds, (w, h)) \<and>
    resolve h cmds =
      (case Secret_Content s of None \<Rightarrow> [] | Some c \<Rightarrow> [DeleteSecretAction]) @
      (case Api s of None \<Rightarrow> [] | Some a \<Rightarrow> [DeleteClientAction (as_ClientId a)])"
  using assms
  by (auto simp: Reconcile_deleted resolve_reconcile_delete delete_plan_def split: option.split)

lemma reconcile_deletion_witness:
  "\<exists>cmds. Reconcile (table_jose []) (sample_state (Some Hour) None (Some (sample_api None)) None)
      sample_ctx sample_cfg sample_crypto sample_clock (sample_start, empty_heap) =
      (Ok cmds, (sample_start, empty_heap)) \<and> resolve empty_heap cmds = [DeleteClientAction ''id-1'']"
  using reconcile_deletion [of "sample_state (Some Hour) None (Some (sample_api None)) None" Hour
      "table_jose []" sample_ctx sample_cfg sample_crypto sample_clock sample_start empty_heap]
  by (simp add: client_samples)

text \<open>
  C10: No command ever carries private key material to the API: in every key set that a create
  or update command uploads, no entry is a private RSA key and no entry has a certificate.
\<close>

theorem uploads_are_public:
  assumes "jose_laws J" and "Reconcile J s ctx cfg crypto clock (w, empty_heap) = (Ok cmds, (w', h))"
    and "a \<in> set (resolve h cmds)" and "uploaded a = Some pub" and "Some k \<in> set (Keys pub)"
  shows "\<not> private_rsa_key k \<and> jose_Certificates (inner k) = []"
proof -
  from Reconcile_uploaded [OF assms(2-4)] obtain ks where "pub = public_set J ks" by blast
  with assms(5) obtain k' where "k = public_half J k'"
    by (auto simp: public_set_def) (metis map_option_eq_Some)
  with public_half_not_private [OF assms(1)] show ?thesis by (simp add: public_half_def)
qed

lemma uploads_are_public_witness:
  "\<not> private_rsa_key (public_half (table_jose []) (sample_key 0 (1000 * Second) (1000 * Second + Hour * 24 * 30) 0))"
  by (rule conjunct1 [OF uploads_are_public [OF table_jose_laws sample_create_run [of None None],
        of _ "public_set (table_jose []) sample_fresh"]])
    (auto simp: resolve_def plain_command_def api_at_def public_set_def sample_fresh_def)

text \<open>
  When a client exists, every command names the id the API gave it, which is not empty. When
  a client is to be created, the callback of the create command puts the id the API answers into
  the contents that the next command writes to the secret.
\<close>

theorem commands_name_the_client:
  assumes "client_state_ok s" and "Reconcile J s ctx cfg crypto clock (w, empty_heap) = (Ok cmds, (w', h))"
  shows "(\<forall>api. Api s = Some api \<longrightarrow> (\<forall>a\<in>set (resolve h cmds). \<forall>i. names_client a = Some i \<longrightarrow>
            i = as_ClientId api \<and> i \<noteq> [])) \<and>
    (Api s = None \<longrightarrow> crd_DeletionTimestamp (Crd s) = None \<longrightarrow>
       (\<exists>cb ks. map cmd_Callback cmds = [Some cb, None] \<and>
          (\<forall>r. \<exists>h'. run_callback cb (Some r) h = (Ok (), h') \<and>
             resolve h' cmds = create_plan J s ctx cfg (cr_ClientId r) ks)))"
proof (intro conjI impI allI ballI)
  fix api a i
  assume api: "Api s = Some api" and a: "a \<in> set (resolve h cmds)" and i: "names_client a = Some i"
  from Reconcile_names_client [OF assms(2) api a] i show "i = as_ClientId api" by simp
  with assms(1) api show "i \<noteq> []" by (simp add: client_state_ok_def)
next
  assume "Api s = None" and "crd_DeletionTimestamp (Crd s) = None"
  with assms(2) have "reconcile_create J s ctx cfg crypto clock (w, empty_heap) = (Ok cmds, (w', h))"
    by (simp add: Reconcile_create_eq)
  then show "\<exists>cb ks. map cmd_Callback cmds = [Some cb, None] \<and>
      (\<forall>r. \<exists>h'. run_callback cb (Some r) h = (Ok (), h') \<and>
        resolve h' cmds = create_plan J s ctx cfg (cr_ClientId r) ks)"
  proof (rule reconcile_create_plan)
    fix ks
    assume "map cmd_Callback cmds = [Some (SetClientId 0 0), None]"
      and "\<And>i. resolve (set_sec_id 0 i (set_api_id 0 i h)) cmds = create_plan J s ctx cfg i ks"
    then show "\<exists>cb ks. map cmd_Callback cmds = [Some cb, None] \<and>
      (\<forall>r. \<exists>h'. run_callback cb (Some r) h = (Ok (), h') \<and>
        resolve h' cmds = create_plan J s ctx cfg (cr_ClientId r) ks)"
      by (intro exI [of _ "SetClientId 0 0"] exI [of _ ks]) simp
  qed
qed

lemma commands_name_the_client_witness:
  "\<exists>cb ks. [Some (SetClientId 0 0), None] = [Some cb, None] \<and>
    (\<exists>h'. run_callback cb (Some (sample_response None)) \<lparr>api_cells = [\<lparr>as_ClientId = [],
        as_Req = Some (buildApiReq (sample_state None None None None) sample_ctx),
        as_Jwks = Some (public_set (table_jose []) sample_fresh)\<rparr>],
      sec_cells = [content_for [] sample_cfg sample_fresh]\<rparr> = (Ok (), h') \<and>
      resolve h' [\<lparr>cmd_Data = CreateClientInApiCommand 0, cmd_Callback = Some (SetClientId 0 0)\<rparr>,
        plain_command (UpdateSecretContentCommand 0)] =
      create_plan (table_jose []) (sample_state None None None None) sample_ctx sample_cfg ''id-1'' ks)"
proof -
  have "client_state_ok (sample_state None None None None)"
    by (simp add: client_state_ok_def sample_state_def)
  from conjunct2 [OF commands_name_the_client [OF this sample_create_run [of None None]]]
  obtain cb ks where "[Some (SetClientId 0 0), None] = [Some cb, None]" and
    run: "\<And>r. \<exists>h'. run_callback cb (Some r) \<lparr>api_cells = [\<lparr>as_ClientId = [],
        as_Req = Some (buildApiReq (sample_state None None None None) sample_ctx),
        as_Jwks = Some (public_set (table_jose []) sample_fresh)\<rparr>],
      sec_cells = [content_for [] sample_cfg sample_fresh]\<rparr> = (Ok (), h') \<and>
      resolve h' [\<lparr>cmd_Data = CreateClientInApiCommand 0, cmd_Callback = Some (SetClientId 0 0)\<rparr>,
        plain_command (UpdateSecretContentCommand 0)] =
      create_plan (table_jose []) (sample_state None None None None) sample_ctx sample_cfg (cr_ClientId r) ks"
    by (auto simp: sample_state_def sample_crd_def plain_command_def)
  moreover have "cr_ClientId (sample_response None) = ''id-1''" by (simp add: sample_response_def)
  ultimately show ?thesis using run [of "sample_response None"] by metis
qed


section \<open>Settling down\<close>

text \<open>
  With a client, contents and a sound key set in place, \<open>Reconcile\<close> does nothing exactly when
  the authority and the scopes are those already recorded and the current key has more than
  seven days left.
\<close>

theorem reconcile_idle_iff:
  assumes "crd_DeletionTimestamp (Crd s) = None" and "Api s = Some api" and "as_Req api = Some req"
    and "Secret_Content s = Some c" and "sc_Jwks c = Some ks" and "good_jwks ks"
  shows "fst (Reconcile J s ctx cfg crypto clock (w, empty_heap)) = Ok [] \<longleftrightarrow>
    api_AuthorityUrl (MaskinportenApi cfg) = sc_Authority c \<and> crd_Scopes (Crd s) = ac_Scopes req \<and>
    fst (cs_clock crypto (snd (clock w))) + rotation_window < cert_expiry (current_key ks)"
  using assms by (rule Reconcile_idle)

lemma reconcile_idle_iff_witness:
  "fst (Reconcile (table_jose []) (sample_state None (Some [''s'']) (Some (sample_api (Some [''s''])))
      (Some (content_for ''id-1'' sample_cfg sample_fresh))) sample_ctx sample_cfg sample_crypto sample_clock
      (sample_start, empty_heap)) = Ok []"
  by (rule reconcile_idle_iff [OF _ _ _ _ _ sample_fresh_good, THEN iffD2])
    (auto simp: sample_fresh_expiry client_samples content_for_def mapClientResponseToAddRequest_def
      sample_crypto_def sample_clock_def sample_start_def rotation_window_def time_units)

text \<open>
  Creation settles: once the create command's callback has run with the API's answer and the
  contents have been written, the next \<open>Reconcile\<close> over what the API and the secret then hold does
  nothing, until the new key is within seven days of its end, provided the API reports the
  scopes as the resource has them.
\<close>

theorem creation_settles:
  assumes "crd_DeletionTimestamp (Crd s) = None" and "Api s = None"
    and "Reconcile J s ctx cfg crypto clock (w, empty_heap) = (Ok cmds, (w', h))"
    and "map cmd_Callback cmds = [Some cb, None]" and "run_callback cb (Some r) h = (Ok (), h')"
    and "WriteSecretAction c \<in> set (resolve h' cmds)"
    and "cr_Scopes r = crd_Scopes (Crd s)"
    and "fst (cs_clock crypto (snd (clock w2))) + rotation_window <
         whole_seconds (fst (clock w) + Hour * 24 * 30)"
  shows "sc_ClientId c = cr_ClientId r \<and>
    fst (Reconcile J (s\<lparr>Api := Some \<lparr>as_ClientId = cr_ClientId r,
        as_Req = Some (mapClientResponseToAddRequest r), as_Jwks = apiJwks\<rparr>, Secret_Content := Some c\<rparr>)
      ctx cfg crypto clock (w2, empty_heap)) = Ok []"
proof -
  from assms(1-3) have "reconcile_create J s ctx cfg crypto clock (w, empty_heap) = (Ok cmds, (w', h))"
    by (simp add: Reconcile_create_eq)
  then obtain ks where
      ks: "CreateJwks crypto (AppId s) (fst (clock w) + Hour * 24 * 30) (snd (clock w)) = (Ok ks, w')"
      and c: "c = content_for (cr_ClientId r) cfg ks"
    by (rule reconcile_create_plan) (use assms(4-6) in \<open>auto simp: create_plan_def\<close>)
  from ks have "good_jwks ks" and expiry: "cert_expiry (current_key ks) = whole_seconds (fst (clock w) + Hour * 24 * 30)"
    by (auto elim: CreateJwks_Ok)
  let ?s = "s\<lparr>Api := Some \<lparr>as_ClientId = cr_ClientId r,
        as_Req = Some (mapClientResponseToAddRequest r), as_Jwks = apiJwks\<rparr>, Secret_Content := Some c\<rparr>"
  have "fst (Reconcile J ?s ctx cfg crypto clock (w2, empty_heap)) = Ok []"
    by (rule Reconcile_idle [OF _ _ _ _ _ \<open>good_jwks ks\<close>, THEN iffD2])
      (use assms(1,7,8) expiry in \<open>auto simp: c content_for_def mapClientResponseToAddRequest_def\<close>)
  then show ?thesis by (simp add: c content_for_def)
qed

lemma creation_settles_witness:
  "fst (Reconcile (table_jose []) ((sample_state None (Some [''s'']) None None)\<lparr>
        Api := Some \<lparr>as_ClientId = cr_ClientId (sample_response (Some [''s''])),
          as_Req = Some (mapClientResponseToAddRequest (sample_response (Some [''s'']))), as_Jwks = None\<rparr>,
        Secret_Content := Some (content_for ''id-1'' sample_cfg sample_fresh)\<rparr>)
      sample_ctx sample_cfg sample_crypto sample_clock (sample_start, empty_heap)) = Ok []"
  by (rule conjunct2 [OF creation_settles [OF _ _ sample_create_run [of "Some [''s'']" None],
        where r = "sample_response (Some [''s''])" and cb = "SetClientId 0 0"]])
    (auto simp: client_samples plain_command_def resolve_def sec_at_def set_api_id_def set_sec_id_def
      api_at_def content_for_def sample_crypto_def sample_clock_def sample_start_def
      rotation_window_def whole_seconds_def time_units)


section \<open>What the API is told\<close>

lemma omit_empty_same: "omit_empty p = p \<longleftrightarrow> p \<noteq> Some []"
  by (cases p rule: omit_empty.cases) auto

text \<open>
  C21: A request to create a client, and the update that \<open>ConvertAddRequestToUpdateRequest\<close> makes of it, are
  written as the same text, and both arrive as they were sent, except that empty lists arrive as
  missing; so a request without empty lists arrives unchanged. Lifetimes are 64-bit integers, as in Go.
\<close>

theorem client_request_roundtrip:
  assumes "add_client_request_ints_ok r"
  shows "json_text (enc_update_client_request (ConvertAddRequestToUpdateRequest r)) =
      json_text (enc_add_client_request r) \<and>
    Option.bind (json_unmarshal (json_text (enc_add_client_request r))) (dec_add_client_request z) =
      Some (sent_add_client_request r) \<and>
    Option.bind (json_unmarshal (json_text (enc_update_client_request (ConvertAddRequestToUpdateRequest r))))
        (dec_update_client_request z') =
      Some (ConvertAddRequestToUpdateRequest (sent_add_client_request r)) \<and>
    (sent_add_client_request r = r \<longleftrightarrow> ac_Scopes r \<noteq> Some [] \<and> ac_GrantTypes r \<noteq> Some [] \<and>
       ac_RedirectUris r \<noteq> Some [] \<and> ac_PostLogoutRedirectUris r \<noteq> Some [])"
proof -
  let ?u = "ConvertAddRequestToUpdateRequest r"
  have same: "enc_update_client_request ?u = enc_add_client_request r"
    by (simp add: enc_update_client_request_def ConvertAddRequestToUpdateRequest_def enc_add_client_request_def)
  have "update_client_request_ints_ok ?u"
    using assms by (simp add: update_client_request_ints_ok_def add_client_request_ints_ok_def ConvertAddRequestToUpdateRequest_def)
  moreover have "sent_update_client_request ?u = ConvertAddRequestToUpdateRequest (sent_add_client_request r)"
    by (simp add: sent_update_client_request_def sent_add_client_request_def ConvertAddRequestToUpdateRequest_def)
  ultimately have update: "dec_update_client_request z' (enc_update_client_request ?u) =
      Some (ConvertAddRequestToUpdateRequest (sent_add_client_request r))"
    using update_client_request_roundtrip by metis
  have "sent_add_client_request r = r \<longleftrightarrow> ac_Scopes r \<noteq> Some [] \<and> ac_GrantTypes r \<noteq> Some [] \<and>
       ac_RedirectUris r \<noteq> Some [] \<and> ac_PostLogoutRedirectUris r \<noteq> Some []"
    unfolding omit_empty_same [symmetric] by (cases r) (simp add: sent_add_client_request_def)
  with update show ?thesis
    using add_client_request_roundtrip [OF assms] by (simp add: enc_add_client_request_ok same)
qed

lemma client_request_roundtrip_witness:
  "Option.bind (json_unmarshal (json_text (enc_add_client_request
      (zero_add_client_request\<lparr>ac_Scopes := Some [], ac_RefreshTokenLifetime := Some 7\<rparr>))))
     (dec_add_client_request zero_add_client_request) =
   Some (zero_add_client_request\<lparr>ac_RefreshTokenLifetime := Some 7\<rparr>)"
proof -
  let ?r = "zero_add_client_request\<lparr>ac_Scopes := Some [], ac_RefreshTokenLifetime := Some 7\<rparr>"
  have "add_client_request_ints_ok ?r"
    by (simp add: add_client_request_ints_ok_def zero_add_client_request_def in_int64_def)
  from client_request_roundtrip [OF this, of zero_add_client_request] show ?thesis
    by (simp add: sent_add_client_request_def zero_add_client_request_def)
qed

text \<open>
  A resource whose list of scopes is present but empty never settles when the API reports
  no scopes: \<open>reflect.DeepEqual\<close> tells an empty slice from a \<open>nil\<close> one, so every \<open>Reconcile\<close>
  sends an update, which does not even carry the list.
\<close>

theorem empty_scopes_never_settle:
  assumes "crd_DeletionTimestamp (Crd s) = None" and "crd_Scopes (Crd s) = Some []"
    and "Api s = Some api" and "as_Req api = Some (mapClientResponseToAddRequest r)" and "cr_Scopes r = None"
    and "Secret_Content s = Some c"
    and "Reconcile J s ctx cfg crypto clock (w, empty_heap) = (Ok cmds, (w', h))"
  shows "last (resolve h cmds) = UpdateClientAction (as_ClientId api) (Some (buildApiReq s ctx)) None \<and>
    ac_Scopes (sent_add_client_request (buildApiReq s ctx)) = cr_Scopes r"
proof -
  from assms(1,3,6,7) have "reconcile_update J s api c ctx cfg crypto clock (w, empty_heap) = (Ok cmds, (w', h))"
    by (simp add: Reconcile_update_eq)
  then obtain rotated where "resolve h cmds = update_plan J s api c ctx cfg rotated"
    by (rule reconcile_update_Ok)
  moreover have "crd_Scopes (Crd s) \<noteq> ac_Scopes (the (as_Req api))"
    using assms(2,4,5) by (simp add: mapClientResponseToAddRequest_def)
  ultimately show ?thesis
    using assms(2,5) by (simp add: update_plan_def buildApiReq_def sent_add_client_request_def)
qed

lemma sample_empty_scopes_run:
  "Reconcile (table_jose []) (sample_state None (Some []) (Some (sample_api None))
       (Some (content_for ''id-1'' sample_cfg sample_fresh))) sample_ctx sample_cfg sample_crypto
     sample_clock (sample_start, empty_heap) =
   (Ok [plain_command (UpdateClientInApiCommand 0)],
    (sample_start, \<lparr>api_cells = [\<lparr>as_ClientId = ''id-1'',
       as_Req = Some (buildApiReq (sample_state None (Some []) (Some (sample_api None))
         (Some (content_for ''id-1'' sample_cfg sample_fresh))) sample_ctx), as_Jwks = None\<rparr>],
      sec_cells = []\<rparr>))"
  using good_RotateIfNeeded [OF sample_fresh_good, of sample_crypto "''app''" _ sample_start]
  by (simp add: Reconcile_update_eq reconcile_update_def client_samples getNotAfter_def in_world_apply
      update_secret_cmds_def upload_jwks_cmds_def update_scopes_cmds_def mapClientResponseToAddRequest_def
      bind_def ret_def empty_heap_def content_for_def zero_client_response_def Let_def sample_fresh_expiry
      sample_crypto_def sample_clock_def sample_start_def rotation_window_def time_units)

lemma empty_scopes_never_settle_witness:
  "last (resolve \<lparr>api_cells = [\<lparr>as_ClientId = ''id-1'',
       as_Req = Some (buildApiReq (sample_state None (Some []) (Some (sample_api None))
         (Some (content_for ''id-1'' sample_cfg sample_fresh))) sample_ctx), as_Jwks = None\<rparr>],
      sec_cells = []\<rparr> [plain_command (UpdateClientInApiCommand 0)]) =
   UpdateClientAction (as_ClientId (sample_api None))
     (Some (buildApiReq (sample_state None (Some []) (Some (sample_api None))
         (Some (content_for ''id-1'' sample_cfg sample_fresh))) sample_ctx)) None"
  by (rule conjunct1 [OF empty_scopes_never_settle [OF _ _ _ _ _ _ sample_empty_scopes_run,
        where r = "sample_response None"]])
    (simp_all add: client_samples zero_client_response_def)


section \<open>The secret\<close>

text \<open>
  C22: Contents written to a secret are read back, whatever the secret held; after a delete there
  are none; and neither operation touches another entry of the secret, or anything else of it.
\<close>

theorem secret_content_kept:
  assumes "jose_laws J" and "SerializeTo J c (Some s) = Ok s'"
  shows "DeserializeSecretStateContent J (Some s') = Ok (Some c) \<and>
    DeserializeSecretStateContent J (Some (DeleteSecretStateContent s')) = Ok None \<and>
    (\<exists>s''. SerializeTo J c (Some (DeleteSecretStateContent s')) = Ok s'' \<and>
       DeserializeSecretStateContent J (Some s'') = Ok (Some c)) \<and>
    (\<forall>k. k \<noteq> JsonFileName \<longrightarrow> secret_entry s' k = secret_entry s k \<and>
       secret_entry (DeleteSecretStateContent s') k = secret_entry s k) \<and>
    s'\<lparr>sec_Data := sec_Data s\<rparr> = s"
proof -
  have put: "put_content J c s = Ok s'" using assms(2) by (simp add: put_content_def)
  have "get_content J s' = Ok (Some c)" by (rule sst.get_put [OF assms(1) put])
  moreover have "get_content J (DeleteSecretStateContent s') = Ok None" by (rule sst.get_del)
  moreover obtain s'' where "put_content J c (DeleteSecretStateContent s') = Ok s''"
      "get_content J s'' = Ok (Some c)"
    by (rule sst.put_again [OF assms(1) put])
  moreover have "(\<forall>k. k \<noteq> JsonFileName \<longrightarrow> secret_entry s' k = secret_entry s k \<and>
       secret_entry (DeleteSecretStateContent s') k = secret_entry s k) \<and> s'\<lparr>sec_Data := sec_Data s\<rparr> = s"
    using assms(2)
    by (auto simp: SerializeTo_def obind_Ok_iff Let_def secret_entry_def DeleteSecretStateContent_def
        split: option.splits)
  ultimately show ?thesis by (auto simp: get_content_def put_content_def)
qed

definition sample_written :: k8s_secret where
  "sample_written = sample_secret\<lparr>sec_Data := Some [JsonFileName \<mapsto>
     json_text (JObj [(''clientId'', JStr ''id-1''), (''authority'', JStr ''http://maskinporten''),
       (''jwks'', JObj [(''keys'', JArr [JStr []])]), (''jwk'', JStr [])])]\<rparr>"

lemma secret_content_kept_witness:
  "DeserializeSecretStateContent
     (table_jose [inner (sample_key 0 (1000 * Second) (1000 * Second + Hour * 24 * 30) 0)])
     (Some sample_written) = Ok (Some (content_for ''id-1'' sample_cfg sample_fresh))"
  by (rule conjunct1 [OF secret_content_kept [OF table_jose_laws, where s = sample_secret]])
    (simp add: SerializeTo_def enc_secret_content_def enc_jwks_ptr_def enc_jwks_def enc_jwk_ptr_def
      Jwk_MarshalJSON_def table_jose_def content_for_def sample_fresh_def sample_cfg_def
      sample_written_def sample_secret_def Let_def)


section \<open>Names\<close>

text \<open>
  The name of a client depends only on the part of the resource's name between the first
  and the second dash, and starts with the operator's prefix; two resources whose names agree
  in that part share one client.
\<close>

theorem client_names:
  assumes "NewClientState crd api ks secret c = Ok s" and "NewClientState crd' api' ks' secret' c' = Ok s'"
  shows "has_prefix (getClientNamePrefix ctx) (GetClientName ctx (AppId s)) \<and>
    (GetClientName ctx (AppId s) = GetClientName ctx (AppId s') \<longleftrightarrow>
      split_on CHR ''-'' (crd_Name (the crd)) ! 1 = split_on CHR ''-'' (crd_Name (the crd')) ! 1)"
  using NewClientState_Ok(2,5) [OF assms(1)] NewClientState_Ok(2,5) [OF assms(2)]
  by (auto simp: GetClientName_def has_prefix_iff)

lemma client_names_witness:
  "GetClientName sample_ctx ''app'' = GetClientName sample_ctx ''app''  \<and>
   split_on CHR ''-'' ''ttd-app-one'' ! 1 = split_on CHR ''-'' ''org-app'' ! 1"
proof -
  let ?crd = "\<lambda>n. (sample_crd None None)\<lparr>crd_Name := n\<rparr>"
  let ?s = "\<lambda>n. \<lparr>AppId = ''app'', Crd = ?crd n, Api = None, Secret_Content = None,
      Secret_Manifest = sample_secret\<rparr>"
  have "NewClientState (Some (?crd ''ttd-app-one'')) None None (Some sample_secret) None = Ok (?s ''ttd-app-one'')"
    by (simp add: NewClientState_def index_def)
  moreover have "NewClientState (Some (?crd ''org-app'')) None None (Some sample_secret) None = Ok (?s ''org-app'')"
    by (simp add: NewClientState_def index_def)
  ultimately show ?thesis using client_names [of "Some (?crd ''ttd-app-one'')" None None _ None "?s ''ttd-app-one''"
      "Some (?crd ''org-app'')" None None _ None "?s ''org-app''" sample_ctx] by simp
qed

end
