(* ===== verification/ControllerProperties.thy ===== *)
theory ControllerProperties
  imports Controller HttpProperties ClientProperties
begin

text \<open>
  The properties of the controller, \<open>internal/controller/maskinportenclient_controller.go\<close>: the order
  in which commands run, what a run leaves in the resource's status, the interval until the next
  call, and the deletion that is never finished. The sample controller uses the scripted network
  of \<open>HttpProperties\<close> and a cluster that has one secret.
\<close>


section \<open>A sample controller\<close>

definition sample_k8s :: "maskinporten_client \<Rightarrow> k8s_secret list \<Rightarrow> script_world k8s_lib" where
  "sample_k8s inst secrets = \<lparr>
     k8s_Get = (\<lambda>ns n. ret inst), k8s_ListSecrets = (\<lambda>ns l. ret secrets),
     k8s_UpdateSecret = (\<lambda>s. ret ()), k8s_Update = (\<lambda>i. ret i), k8s_StatusUpdate = (\<lambda>i. ret i),
     k8s_IsNotFound = (\<lambda>e. False),
     fin_Contains = (\<lambda>fs f. f \<in> set fs),
     fin_Add = (\<lambda>fs f. if f \<in> set fs then (fs, False) else (fs @ [f], True)),
     fin_Remove = (\<lambda>fs f. (filter (\<lambda>g. g \<noteq> f) fs, f \<in> set fs)),
     metav1_Now = script_clock,
     rand_Int64N = (\<lambda>n w. (0, w))\<rparr>"

lemma sample_k8s_laws: "k8s_laws (sample_k8s inst secrets)"
  by (auto simp: k8s_laws_def sample_k8s_def)

text \<open>A random source that always draws what the one of \<open>Samples\<close> draws at the start.\<close>

definition fixed_crypto :: "'w clock \<Rightarrow> 'w crypto_service" where
  "fixed_crypto clock = \<lparr>cs_ctx = sample_ctx, cs_clock = clock,
     cs_random = \<lparr>rsa_GenerateKey = (\<lambda>bits. ret (sample_private_key 0)),
       random_ReadFull = (\<lambda>n. ret (replicate n 1)),
       uuid_NewRandomFromReader = ret (''uuid-'' @ itoa 2),
       x509_sign = (\<lambda>c k. ret ())\<rparr>,
     cs_signatureAlgo = ''RS512'', cs_x509SignatureAlgo = SHA512WithRSA, cs_keySizeBits = 4096\<rparr>"

definition script_crypto :: "script_world crypto_service" where
  "script_crypto = fixed_crypto script_clock"

definition sample_rc :: "jose_lib \<Rightarrow> maskinporten_client \<Rightarrow> k8s_secret list \<Rightarrow> script_world reconciler" where
  "sample_rc J inst secrets = \<lparr>
     rc_runtime = \<lparr>rt_config = sample_cfg, rt_operatorContext = sample_ctx, rt_crypto = script_crypto,
       rt_maskinportenApiClient = sample_hc J 0 no_jwt, rt_clock = script_clock\<rparr>,
     rc_jose = J, rc_k8s = sample_k8s inst secrets\<rparr>"

definition ctrl_start :: "http_response outcome list \<Rightarrow> script_world ctrl_state" where
  "ctrl_start rs = \<lparr>api_st = warm rs, cheap = empty_heap\<rparr>"


section \<open>Order of commands\<close>

lemma run_commands_prefix:
  "run_commands r cs executed cmds s = (Ok (executed', err), s') \<Longrightarrow>
     (\<exists>ran. executed' = executed @ ran \<and>
       (err = None \<longrightarrow> ran = cmds) \<and>
       (\<forall>e. err = Some e \<longrightarrow> (\<exists>cmd rest s1. cmds = ran @ cmd # rest \<and> run_command r cs cmd s1 = (Err e, s'))))"
proof (induction cmds arbitrary: executed s)
  case Nil
  then show ?case by auto
next
  case (Cons cmd cmds)
  obtain o1 s1 where run: "run_command r cs cmd s = (o1, s1)" by (cases "run_command r cs cmd s")
  show ?case
  proof (cases o1)
    case (Ok u)
    with Cons.prems run have "run_commands r cs (executed @ [cmd]) cmds s1 = (Ok (executed', err), s')" by simp
    from Cons.IH [OF this] obtain ran where ran: "executed' = (executed @ [cmd]) @ ran"
      "err = None \<longrightarrow> ran = cmds"
      "\<forall>e. err = Some e \<longrightarrow> (\<exists>cmd rest s1. cmds = ran @ cmd # rest \<and> run_command r cs cmd s1 = (Err e, s'))"
      by blast
    then show ?thesis by (intro exI [of _ "cmd # ran"]) auto
  next
    case (Err e)
    with Cons.prems run show ?thesis by (intro exI [of _ "[]"]) auto
  next
    case (Panic p)
    with Cons.prems run show ?thesis by simp
  qed
qed

text \<open>
  The commands run in order and stop at the first error: what \<open>reconcile\<close> reports as executed
  is the whole list if there is no error, and otherwise the commands before the one that failed,
  whose error it returns; no later command is started.
\<close>

theorem commands_run_in_order:
  assumes "run_commands r cs [] cmds s = (Ok (executed, err), s')"
  shows "(case err of
      None \<Rightarrow> executed = cmds
    | Some e \<Rightarrow> \<exists>cmd rest s1. cmds = executed @ cmd # rest \<and> run_command r cs cmd s1 = (Err e, s'))"
  using run_commands_prefix [OF assms] by (auto split: option.split)

lemma sample_client_url:
  assumes "plain_segment i" and "CHR ''%'' \<notin> set i"
  shows "self_service_url (sample_hc J n L) [i] =
    Ok \<lparr>u_Origin = ''http://selfservice'', u_Path = clients_path @ ''/'' @ i, u_Query = []\<rparr>"
  using assms client_url [of "script_net n" "''http://selfservice''"
      "\<lparr>bu_Origin = ''http://selfservice'', bu_Path = [], bu_EscapedPath = []\<rparr>" "[i]"]
  by (simp add: self_service_url_def sample_hc_def script_net_def)

lemma sample_failed_delete:
  "run_commands (sample_rc (table_jose []) inst []) (sample_state (Some Hour) None None None) []
     [plain_command DeleteSecretContentCommand, plain_command (DeleteClientInApiCommand ''id-1'')]
     (ctrl_start [answer 404 ''gone'']) =
   (Ok ([plain_command DeleteSecretContentCommand], Some (Errorf ''HTTP %d: %s'' [itoa 404, ''gone''])),
    ctrl_start [])"
proof -
  let ?r = "sample_rc (table_jose []) inst []" and ?cs = "sample_state (Some Hour) None None None"
  have "self_service_url (sample_hc (table_jose []) 0 no_jwt) [''id-1''] =
      Ok \<lparr>u_Origin = ''http://selfservice'', u_Path = clients_path @ ''/'' @ ''id-1'', u_Query = []\<rparr>"
    by (rule sample_client_url) (simp_all add: plain_segment_def)
  moreover have "rq_Body (Header_Set k v (NewRequest m u None)) = None" for k v m u
    by (simp add: Header_Set_def NewRequest_def)
  ultimately have "run_command ?r ?cs (plain_command (DeleteClientInApiCommand ''id-1'')) (ctrl_start [answer 404 ''gone'']) =
      (Err (Errorf ''HTTP %d: %s'' [itoa 404, ''gone'']), ctrl_start [])"
    by (simp add: run_command_def plain_command_def sample_rc_def in_api_def on_part_def ctrl_start_def
        DeleteClient_def bind_def warm_createReq warm_send expect_status_def handleErrorResponse_def Let_def)
  moreover have "run_command ?r ?cs (plain_command DeleteSecretContentCommand) s = (Ok (), s)" for s
    by (simp add: run_command_def plain_command_def sample_rc_def sample_k8s_def in_k8s_def in_api_def
        in_env_def on_part_def Let_def)
  ultimately show ?thesis by simp
qed

lemma commands_run_in_order_witness:
  "\<exists>cmd rest s1. [plain_command DeleteSecretContentCommand, plain_command (DeleteClientInApiCommand ''id-1'')] =
      [plain_command DeleteSecretContentCommand] @ cmd # rest \<and>
    run_command (sample_rc (table_jose []) (sample_crd None None) []) (sample_state (Some Hour) None None None) cmd s1 =
      (Err (Errorf ''HTTP %d: %s'' [itoa 404, ''gone'']), ctrl_start [])"
  using commands_run_in_order [OF sample_failed_delete [of "sample_crd None None"]] by simp


section \<open>The next call\<close>

lemma getRequeueAfter_interval:
  assumes "k8s_laws (rc_k8s r)" and "valid_config (rt_config (rc_runtime r))"
  shows "\<exists>t s'. getRequeueAfter r s = (Ok t, s') \<and>
    (let d = RequeueAfter (Controller (rt_config (rc_runtime r))) in d - d div 10 \<le> t \<and> t < d + d div 10)"
proof -
  let ?d = "RequeueAfter (Controller (rt_config (rc_runtime r)))"
  have "10 \<le> ?d" using assms(2) by (simp add: valid_config_def time_units)
  then have "0 < ?d div 10" by linarith
  moreover have tenth: "?d * 10 div 100 = ?d div 10" by simp
  ultimately have pos: "0 < ?d div 10 - - (?d div 10)" by simp
  let ?w = "env (api_st s)"
  have "0 \<le> fst (rand_Int64N (rc_k8s r) (?d div 10 - - (?d div 10)) ?w)"
    and "fst (rand_Int64N (rc_k8s r) (?d div 10 - - (?d div 10)) ?w) < ?d div 10 - - (?d div 10)"
    using assms(1) pos unfolding k8s_laws_def by blast+
  with pos show ?thesis
    by (auto simp: getRequeueAfter_def randomizeDuration_def tenth Int64N_def Let_def bind_def
        in_k8s_def in_api_def in_env_def on_part_def reading_def ret_def split: prod.split)
qed

text \<open>
  C27: For a validated configuration the interval until the next call is drawn within ten percent
  of the configured one: at least 90 percent, less than 110 percent, and \<open>Int64N\<close> never panics.
\<close>

theorem requeue_interval:
  assumes "k8s_laws (rc_k8s r)" and "valid_config (rt_config (rc_runtime r))"
  shows "\<exists>t s'. getRequeueAfter r s = (Ok t, s') \<and>
    (let d = RequeueAfter (Controller (rt_config (rc_runtime r))) in d - d div 10 \<le> t \<and> t < d + d div 10)"
  using assms by (rule getRequeueAfter_interval)

lemma requeue_interval_witness:
  "\<exists>t s'. getRequeueAfter (sample_rc (table_jose []) (sample_crd None None) []) (ctrl_start []) = (Ok t, s') \<and>
    270 * Second \<le> t \<and> t < 330 * Second"
proof -
  let ?r = "sample_rc (table_jose []) (sample_crd None None) []"
  have "k8s_laws (rc_k8s ?r)" by (simp add: sample_rc_def sample_k8s_laws)
  moreover have "valid_config (rt_config (rc_runtime ?r))"
    by (simp add: sample_rc_def valid_config_def sample_cfg_def time_units)
  ultimately have "\<exists>t s'. getRequeueAfter ?r (ctrl_start []) = (Ok t, s') \<and>
    (let d = RequeueAfter (Controller (rt_config (rc_runtime ?r))) in d - d div 10 \<le> t \<and> t < d + d div 10)"
    by (rule requeue_interval)
  moreover have "RequeueAfter (Controller (rt_config (rc_runtime ?r))) = 300 * Second"
    by (simp add: sample_rc_def sample_cfg_def time_units)
  ultimately show ?thesis by (auto simp: Let_def time_units)
qed


text \<open>What a call that succeeds has done.\<close>

lemma reconcile_loaded_Ok:
  assumes "fetchCurrentState r req s = (Ok cs, s1)" and "reconcile_loaded r req inst s = (Ok t, s')"
  obtains executed s2 where "reconcile r cs s1 = (Ok (executed, None), s2)"
    and "(case executed of None \<Rightarrow> 0 | Some cmds \<Rightarrow> length cmds) = 0 \<and> t = 0 \<and> s' = s2 \<or>
      (case executed of None \<Rightarrow> 0 | Some cmds \<Rightarrow> length cmds) \<noteq> 0 \<and> (\<exists>s3. getRequeueAfter r s3 = (Ok t, s'))"
proof -
  from assms obtain executed err s2 where run: "reconcile r cs s1 = (Ok (executed, err), s2)"
    by (auto simp: reconcile_loaded_def bind_eq_Ok_iff)
  with assms have "err = None"
    by (cases err) (auto simp: reconcile_loaded_def bind_eq_Ok_iff)
  with run assms that show ?thesis
    by (auto simp: reconcile_loaded_def bind_eq_Ok_iff Let_def split: if_splits)
qed

lemma loaded_commands:
  fixes r :: "'w reconciler"
  defines "rt \<equiv> rc_runtime r"
  assumes "fetchCurrentState r req s = (Ok cs, s1)" and "reconcile_loaded r req inst s = (Ok t, s')"
    and "in_cmds (Reconcile (rc_jose r) cs (rt_operatorContext rt) (rt_config rt) (rt_crypto rt) (rt_clock rt)) s1 = (Ok cmds, s2)"
    and "cmds \<noteq> []"
  obtains s3 x s4 where "run_commands r cs [] cmds s2 = (Ok (cmds, None), s3)"
    and "updateStatus r (Some req) inst ''reconciled'' (''Reconciled '' @ itoa (int (length cmds)) @ '' resources'') (Some cmds) s3 =
      (Ok x, s4)"
    and "getRequeueAfter r s4 = (Ok t, s')"
proof -
  obtain executed s3 where loop: "reconcile r cs s1 = (Ok (executed, None), s3)"
    using assms(2,3) by (rule reconcile_loaded_Ok)
  then have run: "run_commands r cs [] cmds s2 = (Ok (the executed, None), s3)" and "executed \<noteq> None"
    using assms(4) by (auto simp: rt_def reconcile_def Let_def split: prod.splits outcome.splits)
  with run_commands_prefix [OF run] have executed: "executed = Some cmds" by auto
  have "bind (updateStatus r (Some req) inst ''reconciled'' (''Reconciled '' @ itoa (int (length cmds)) @ '' resources'') (Some cmds))
      (\<lambda>_. getRequeueAfter r) s3 = (Ok t, s')"
    using assms(2,3,5) loop executed by (simp add: reconcile_loaded_def Let_def)
  with run executed that show ?thesis by (auto simp: bind_eq_Ok_iff)
qed

text \<open>
  C13: A call that succeeds on a client with everything in place schedules no next call exactly when
  it finds nothing to do: the recorded authority and scopes, and a key with more than seven days
  left. A call that does something schedules the next one.
\<close>

theorem idle_call_schedules_nothing:
  assumes "k8s_laws (rc_k8s r)" and "valid_config (rt_config (rc_runtime r))"
    and "fetchCurrentState r req s = (Ok cs, s1)" and "reconcile_loaded r req inst s = (Ok t, s')"
    and "crd_DeletionTimestamp (Crd cs) = None" and "Api cs = Some api" and "as_Req api = Some q"
    and "Secret_Content cs = Some c" and "sc_Jwks c = Some ks" and "good_jwks ks"
  shows "t = 0 \<longleftrightarrow>
    api_AuthorityUrl (MaskinportenApi (rt_config (rc_runtime r))) = sc_Authority c \<and>
    crd_Scopes (Crd cs) = ac_Scopes q \<and>
    fst (cs_clock (rt_crypto (rc_runtime r)) (snd (rt_clock (rc_runtime r) (env (api_st s1))))) + rotation_window
      < cert_expiry (current_key ks)"
    (is "_ \<longleftrightarrow> ?idle")
proof -
  let ?rt = "rc_runtime r"
  let ?plan = "Reconcile (rc_jose r) cs (rt_operatorContext ?rt) (rt_config ?rt) (rt_crypto ?rt) (rt_clock ?rt)
      (env (api_st s1), empty_heap)"
  from assms(3,4) obtain executed s2 where run: "reconcile r cs s1 = (Ok (executed, None), s2)"
    and res: "(case executed of None \<Rightarrow> 0 | Some cmds \<Rightarrow> length cmds) = 0 \<and> t = 0 \<and> s' = s2 \<or>
      (case executed of None \<Rightarrow> 0 | Some cmds \<Rightarrow> length cmds) \<noteq> 0 \<and> (\<exists>s3. getRequeueAfter r s3 = (Ok t, s'))"
    by (rule reconcile_loaded_Ok)
  from run obtain cmds w h where plan: "?plan = (Ok cmds, (w, h))"
      and cmds: "run_commands r cs [] cmds (s1\<lparr>api_st := (api_st s1)\<lparr>env := w\<rparr>, cheap := h\<rparr>) = (Ok (the executed, None), s2)"
      and some: "executed \<noteq> None"
    by (auto simp: reconcile_def in_cmds_def on_part_def Let_def split: prod.splits outcome.splits)
  from run_commands_prefix [OF cmds] some have executed: "executed = Some cmds" by auto
  have interval: "t \<noteq> 0" if "getRequeueAfter r s3 = (Ok t, s')" for s3
  proof -
    let ?d = "RequeueAfter (Controller (rt_config ?rt))"
    have "10 \<le> ?d" using assms(2) by (simp add: valid_config_def time_units)
    moreover have "?d - ?d div 10 \<le> t"
      using getRequeueAfter_interval [OF assms(1,2), of s3] that by (auto simp: Let_def)
    ultimately show "t \<noteq> 0" by linarith
  qed
  have "t = 0 \<longleftrightarrow> cmds = []" using res interval by (auto simp: executed)
  also have "\<dots> \<longleftrightarrow> fst ?plan = Ok []" by (simp add: plan)
  also have "\<dots> \<longleftrightarrow> ?idle" by (rule Reconcile_idle [OF assms(5-10)])
  finally show ?thesis .
qed

text \<open>A client that is settled: the API and the secret hold what the resource asks for.\<close>

definition settled_jose :: jose_lib where
  "settled_jose = table_jose [inner (sample_key 0 (1000 * Second) (1000 * Second + Hour * 24 * 30) 0)]"

definition settled_client_json :: json where
  "settled_client_json = JObj [(''client_id'', JStr ''id-1''), (''client_name'', JStr ''altinnoperator-ttd-local-app''),
     (''scopes'', JArr [JStr ''s''])]"

definition settled_answers :: "http_response outcome list" where
  "settled_answers = [answer 200 (json_text settled_client_json), answer 200 (json_text (JObj [(''keys'', JArr [])]))]"

lemma settled_client_decoded:
  "Option.bind (json_decode (json_text settled_client_json)) (dec_client_response J zero_client_response) =
     Some (sample_response (Some [''s'']))"
  "Option.bind (json_decode (json_text (JObj [(''keys'', JArr [])]))) (dec_jwks J \<lparr>Keys = []\<rparr>) = Some \<lparr>Keys = []\<rparr>"
proof -
  have "json_ok settled_client_json" by (simp add: settled_client_json_def)
  then have "json_decode (json_text settled_client_json) = Some settled_client_json" by simp
  moreover have "dec_client_response J zero_client_response settled_client_json = Some (sample_response (Some [''s'']))"
    by (simp add: settled_client_json_def dec_slice_def dec_client_response_def dec_client_response_members_def
      dec_object_def dec_field_def codec_simps dec_ptr_def dec_string_def Let_def zero_client_response_def
      sample_response_def)
  ultimately show "Option.bind (json_decode (json_text settled_client_json)) (dec_client_response J zero_client_response) =
     Some (sample_response (Some [''s'']))" by simp
  have "json_ok (JObj [(''keys'', JArr [])])" by simp
  then have "json_decode (json_text (JObj [(''keys'', JArr [])])) = Some (JObj [(''keys'', JArr [])])"
    by (rule json_decode_text)
  then show "Option.bind (json_decode (json_text (JObj [(''keys'', JArr [])]))) (dec_jwks J \<lparr>Keys = []\<rparr>) = Some \<lparr>Keys = []\<rparr>"
    by (simp add: dec_jwks_def dec_jwks_members_def dec_object_def dec_field_def dec_slice_def codec_simps
      del: json_text.simps)
qed

lemma settled_client:
  "GetClient (sample_hc settled_jose 0 no_jwt) ''id-1'' (warm (settled_answers @ rs)) =
     (Ok (sample_response (Some [''s'']), \<lparr>Keys = []\<rparr>), warm rs)"
proof -
  have url: "self_service_url (sample_hc settled_jose 0 no_jwt) [''id-1''] =
      Ok \<lparr>u_Origin = ''http://selfservice'', u_Path = clients_path @ ''/'' @ ''id-1'', u_Query = []\<rparr>"
    by (rule sample_client_url) (simp_all add: plain_segment_def)
  obtain v where keys_url: "self_service_url (sample_hc settled_jose 0 no_jwt) [''id-1'', ''jwks''] = Ok v"
    by (simp add: self_service_url_def url_JoinPath_def sample_hc_def script_net_def)
  have empty: "rq_Body (accept_json (Header_Set k v (NewRequest m u None))) = None" for k v m u
    by (simp add: accept_json_def Header_Set_def NewRequest_def)
  have hc: "hc_jose (sample_hc settled_jose 0 no_jwt) = settled_jose"
      "hc_clientNamePrefix (sample_hc settled_jose 0 no_jwt) = ''altinnoperator-ttd-local-''"
    by (simp_all add: sample_hc_def getClientNamePrefix_def sample_ctx_def)
  have keys: "getClientJwks (sample_hc settled_jose 0 no_jwt) ''id-1''
      (warm (answer 200 (json_text (JObj [(''keys'', JArr [])])) # rs)) = (Ok \<lparr>Keys = []\<rparr>, warm rs)"
    using settled_client_decoded(2) [of settled_jose]
    by (simp add: getClientJwks_def bind_def keys_url warm_createReq warm_send empty expect_status_def hc
        deserialize_reads ret_def del: json_text.simps)
  have name: "cr_ClientName (sample_response (Some [''s''])) = Some ''altinnoperator-ttd-local-app''"
    by (simp add: sample_response_def)
  show ?thesis
    using settled_client_decoded(1) [of settled_jose]
    by (simp add: GetClient_def bind_def settled_answers_def url warm_createReq warm_send empty expect_status_def
        hc deserialize_reads ret_def name keys TrimPrefix_def del: json_text.simps)
qed

lemma settled_content:
  "DeserializeSecretStateContent settled_jose (Some sample_written) = Ok (Some (content_for ''id-1'' sample_cfg sample_fresh))"
proof -
  have "put_content settled_jose (content_for ''id-1'' sample_cfg sample_fresh) sample_secret = Ok sample_written"
    by (simp add: put_content_def SerializeTo_def enc_secret_content_def enc_jwks_ptr_def enc_jwks_def enc_jwk_ptr_def
      Jwk_MarshalJSON_def settled_jose_def table_jose_def content_for_def sample_fresh_def sample_cfg_def
      sample_written_def sample_secret_def Let_def)
  from sst.get_put [OF _ this] show ?thesis by (simp add: settled_jose_def table_jose_laws get_content_def)
qed

definition settled_request :: maskinporten_client_request where
  "settled_request = \<lparr>mr_Name = ''ttd-app'', mr_Namespace = ''default'', mr_AppId = ''app'',
     mr_AppLabel = ''ttd-app-deployment'', mr_Kind = Some RequestUpdateKind,
     mr_Instance = Some (sample_crd None (Some [''s'']))\<rparr>"

definition settled_rc :: "script_world reconciler" where
  "settled_rc = sample_rc settled_jose (sample_crd None (Some [''s''])) [sample_written]"

definition settled_state :: client_state where
  "settled_state = \<lparr>AppId = ''app'', Crd = sample_crd None (Some [''s'']),
     Api = Some \<lparr>as_ClientId = ''id-1'', as_Req = Some (mapClientResponseToAddRequest (sample_response (Some [''s'']))),
       as_Jwks = Some \<lparr>Keys = []\<rparr>\<rparr>,
     Secret_Content = Some (content_for ''id-1'' sample_cfg sample_fresh), Secret_Manifest = sample_written\<rparr>"

lemma settled_fetch_of:
  assumes "crd_Name inst = ''ttd-app''"
  shows "fetchCurrentState settled_rc (settled_request\<lparr>mr_Kind := k, mr_Instance := Some inst\<rparr>) (ctrl_start (settled_answers @ rs)) =
    (Ok (settled_state\<lparr>Crd := inst\<rparr>), ctrl_start rs)"
proof -
  let ?req = "settled_request\<lparr>mr_Kind := k, mr_Instance := Some inst\<rparr>"
  have client: "fetch_client settled_rc ?req (Some (content_for ''id-1'' sample_cfg sample_fresh))
      (ctrl_start (settled_answers @ rs)) = (Ok (Some (sample_response (Some [''s'']), \<lparr>Keys = []\<rparr>)), ctrl_start rs)"
    using settled_client
    by (simp add: fetch_client_def settled_rc_def sample_rc_def in_api_def on_part_def ctrl_start_def bind_def ret_def
        content_for_def Let_def)
  have secrets: "in_k8s (k8s_ListSecrets (rc_k8s settled_rc) ns l) s = (Ok [sample_written], s)" for ns l s
    by (simp add: settled_rc_def sample_rc_def sample_k8s_def in_k8s_def in_api_def in_env_def on_part_def ret_def)
  have "find_secret [sample_written] = Ok (Some sample_written)"
    by (simp add: find_secret_def sample_written_def sample_secret_def)
  moreover have "rc_jose settled_rc = settled_jose" by (simp add: settled_rc_def sample_rc_def)
  moreover have "NewClientState (mr_Instance ?req) (Some (sample_response (Some [''s''])))
      (Some \<lparr>Keys = []\<rparr>) (Some sample_written) (Some (content_for ''id-1'' sample_cfg sample_fresh)) = Ok (settled_state\<lparr>Crd := inst\<rparr>)"
    by (simp add: NewClientState_def index_def settled_state_def assms sample_response_def Let_def)
  ultimately show ?thesis
    by (simp add: fetchCurrentState_def bind_def secrets client lift_def settled_content)
qed

lemma settled_fetch:
  "fetchCurrentState settled_rc settled_request (ctrl_start settled_answers) = (Ok settled_state, ctrl_start [])"
  using settled_fetch_of [of "sample_crd None (Some [''s''])" "Some RequestUpdateKind" "[]"]
  by (simp add: settled_request_def settled_state_def) (simp add: sample_crd_def)

lemma idle_call_schedules_nothing_witness:
  "\<exists>s'. reconcile_loaded settled_rc settled_request (sample_crd None (Some [''s''])) (ctrl_start settled_answers) = (Ok 0, s')"
proof -
  have laws: "k8s_laws (rc_k8s settled_rc)" by (simp add: settled_rc_def sample_rc_def sample_k8s_laws)
  have cfg: "valid_config (rt_config (rc_runtime settled_rc))"
    by (simp add: settled_rc_def sample_rc_def valid_config_def sample_cfg_def time_units)
  let ?rt = "rc_runtime settled_rc"
  have clock: "fst (cs_clock (rt_crypto ?rt) (snd (rt_clock ?rt (env (api_st (ctrl_start [])))))) = 1030 * Second"
    by (simp add: settled_rc_def sample_rc_def script_crypto_def fixed_crypto_def script_clock_def ctrl_start_def warm_def)
  have parts: "crd_DeletionTimestamp (Crd settled_state) = None" "Api settled_state = Some \<lparr>as_ClientId = ''id-1'',
        as_Req = Some (mapClientResponseToAddRequest (sample_response (Some [''s'']))), as_Jwks = Some \<lparr>Keys = []\<rparr>\<rparr>"
      "Secret_Content settled_state = Some (content_for ''id-1'' sample_cfg sample_fresh)"
      "sc_Jwks (content_for ''id-1'' sample_cfg sample_fresh) = Some sample_fresh"
      "rt_config ?rt = sample_cfg" "sc_Authority (content_for ''id-1'' sample_cfg sample_fresh) = ''http://maskinporten''"
      "api_AuthorityUrl (MaskinportenApi sample_cfg) = ''http://maskinporten''"
      "crd_Scopes (Crd settled_state) = ac_Scopes (mapClientResponseToAddRequest (sample_response (Some [''s''])))"
    by (simp_all add: settled_state_def sample_crd_def content_for_def settled_rc_def sample_rc_def sample_cfg_def
        sample_response_def mapClientResponseToAddRequest_def)
  have "fst (Reconcile (rc_jose settled_rc) settled_state (rt_operatorContext ?rt) (rt_config ?rt) (rt_crypto ?rt)
      (rt_clock ?rt) (env (api_st (ctrl_start [])), empty_heap)) = Ok []"
    by (rule Reconcile_idle [OF parts(1,2) _ parts(3,4) sample_fresh_good, THEN iffD2])
      (simp_all add: clock parts sample_fresh_expiry rotation_window_def time_units)
  then obtain t s' where run: "reconcile_loaded settled_rc settled_request (sample_crd None (Some [''s'']))
      (ctrl_start settled_answers) = (Ok t, s')"
    by (cases "Reconcile (rc_jose settled_rc) settled_state (rt_operatorContext ?rt) (rt_config ?rt) (rt_crypto ?rt)
      (rt_clock ?rt) (env (api_st (ctrl_start [])), empty_heap)")
      (auto simp: reconcile_loaded_def settled_fetch reconcile_def in_cmds_def on_part_def bind_def Let_def)
  have "t = 0"
    by (rule idle_call_schedules_nothing [OF laws cfg settled_fetch run parts(1,2) _ parts(3,4) sample_fresh_good, THEN iffD2])
      (simp_all add: clock parts sample_fresh_expiry rotation_window_def time_units)
  with run show ?thesis by blast
qed


section \<open>Creating a client\<close>

lemma sample_fetch_nothing:
  assumes "rc = sample_rc J inst0 [sample_secret]"
    and "req = \<lparr>mr_Name = ''ttd-app'', mr_Namespace = ''default'', mr_AppId = ''app'', mr_AppLabel = ''ttd-app-deployment'',
      mr_Kind = kind, mr_Instance = Some inst\<rparr>" and "crd_Name inst = ''ttd-app''"
  shows "fetchCurrentState rc req (ctrl_start (answer 200 (json_text (JArr [])) # rs)) =
     (Ok ((sample_state None None None None)\<lparr>Crd := inst\<rparr>), ctrl_start rs)"
proof -
  have empty: "rq_Body (accept_json (Header_Set k v (NewRequest m u None))) = None" for k v m u
    by (simp add: accept_json_def Header_Set_def NewRequest_def)
  have list: "GetAllClients (sample_hc J 0 no_jwt) (warm (answer 200 (json_text (JArr [])) # rs)) = (Ok [], warm rs)"
    by (simp add: GetAllClients_def bind_def sample_collection_url warm_createReq warm_send empty
        expect_status_def deserialize_reads dec_slice_def del: json_text.simps)
  have fetch: "fetch_client rc req None (ctrl_start (answer 200 (json_text (JArr [])) # rs)) = (Ok None, ctrl_start rs)"
    using list
    by (simp add: assms fetch_client_def sample_rc_def in_api_def on_part_def ctrl_start_def bind_def ret_def
        Let_def del: json_text.simps)
  have secrets: "in_k8s (k8s_ListSecrets (rc_k8s rc) ns l) s = (Ok [sample_secret], s)" for ns l s
    by (simp add: assms sample_rc_def sample_k8s_def in_k8s_def in_api_def in_env_def on_part_def ret_def)
  have "NewClientState (Some inst) None None (Some sample_secret) None = Ok ((sample_state None None None None)\<lparr>Crd := inst\<rparr>)"
    using assms(3) by (simp add: NewClientState_def index_def sample_state_def Let_def)
  moreover have "DeserializeSecretStateContent (rc_jose rc) (Some sample_secret) = Ok None"
    by (simp add: DeserializeSecretStateContent_def sample_secret_def)
  moreover have "find_secret [sample_secret] = Ok (Some sample_secret)"
    by (simp add: find_secret_def sample_secret_def)
  moreover have "mr_Instance req = Some inst" by (simp add: assms)
  ultimately show ?thesis
    by (simp add: fetchCurrentState_def bind_def secrets fetch lift_def del: json_text.simps)
qed

lemma fixed_createCert:
  assumes "clock w = (now, w)" and "now < notAfter"
  shows "createCert (fixed_crypto clock) ''app'' notAfter w = (Ok (sample_cert 0 now notAfter, sample_private_key 0), w)"
  using assms
  by (simp add: createCert_def generateCertSerialNumber_def x509_CreateCertificate_def sample_defs
      fixed_crypto_def wrapping_def bind_def reading_def sample_cert_def Let_def ret_def)

lemma fixed_createJWKS:
  "createJWKS (fixed_crypto clock) (sample_cert 0 t0 t1) (sample_private_key 0) i w =
    (Ok \<lparr>Keys = [Some (sample_key 0 t0 t1 i)]\<rparr>, w)"
  by (simp add: createJWKS_def fixed_crypto_def NewJwks_def NewJwk_def bind_def Let_def ret_def sample_key_def)

lemma fixed_CreateJwks:
  "clock w = (now, w) \<Longrightarrow> now < notAfter \<Longrightarrow>
   CreateJwks (fixed_crypto clock) ''app'' notAfter w = (Ok \<lparr>Keys = [Some (sample_key 0 now notAfter 0)]\<rparr>, w)"
  by (simp add: CreateJwks_def wrapping_def bind_def fixed_createCert fixed_createJWKS)

lemma script_CreateJwks:
  "sample_now (fst w) < notAfter \<Longrightarrow> CreateJwks script_crypto ''app'' notAfter w =
    (Ok \<lparr>Keys = [Some (sample_key 0 (sample_now (fst w)) notAfter 0)]\<rparr>, w)"
  unfolding script_crypto_def by (rule fixed_CreateJwks) (simp_all add: script_clock_def split: prod.split)

definition created_keys :: jwks where
  "created_keys = \<lparr>Keys = [Some (sample_key 0 (1030 * Second) (1030 * Second + Hour * 24 * 30) 0)]\<rparr>"

definition created_public_key :: jose_jwk where
  "created_public_key = (inner (sample_key 0 (1030 * Second) (1030 * Second + Hour * 24 * 30) 0))
     \<lparr>jose_Key := RsaPublic (PublicKey (sample_private_key 0)), jose_Certificates := []\<rparr>"

definition created_jose :: jose_lib where
  "created_jose = table_jose [created_public_key, inner (sample_key 0 (1030 * Second) (1030 * Second + Hour * 24 * 30) 0)]"

lemma created_jose_laws: "jose_laws created_jose"
  unfolding created_jose_def by (rule table_jose_laws)

lemma created_public: "ToPublic created_jose (Some created_keys) = Ok \<lparr>Keys = [Some (Jwk created_public_key)]\<rparr>"
proof -
  have "ToPublic created_jose (Some created_keys) = Ok \<lparr>Keys = map (\<lambda>k. Some (public_half created_jose k))
      [sample_key 0 (1030 * Second) (1030 * Second + Hour * 24 * 30) 0]\<rparr>"
    by (rule ToPublic_private_keys [OF created_jose_laws]) (simp_all add: created_keys_def)
  moreover have "inner (public_half created_jose (sample_key 0 (1030 * Second) (1030 * Second + Hour * 24 * 30) 0)) = created_public_key"
    by (subst public_half_private [OF created_jose_laws, of _ "sample_private_key 0"])
       (simp_all add: created_public_key_def sample_key_def)
  ultimately show ?thesis by (metis jwk.exhaust_sel list.map)
qed

lemma created_marshal:
  "enc_jwks created_jose created_keys = Ok (JObj [(''keys'', JArr [JStr ''k''])])"
  "enc_jwk_ptr created_jose (hd (Keys created_keys)) = Ok (JStr ''k'')"
  "enc_jwks created_jose \<lparr>Keys = [Some (Jwk created_public_key)]\<rparr> = Ok (JObj [(''keys'', JArr [JStr []])])"
  "jose_IsPublic created_jose created_public_key"
  by (simp_all add: enc_jwks_def created_keys_def enc_jwk_ptr_def Jwk_MarshalJSON_def created_jose_def
     table_jose_def created_public_key_def sample_key_def)

definition created_json :: json where
  "created_json = JObj [(''client_id'', JStr ''id-1'')]"

lemma created_decoded: "Option.bind (json_decode (json_text created_json))
    (\<lambda>j. dec_client_response J zero_client_response j) =
  Some (zero_client_response\<lparr>cr_ClientId := ''id-1''\<rparr>)"
proof -
  have "json_ok created_json" by (simp add: created_json_def)
  then have "json_decode (json_text created_json) = Some created_json" by simp
  then show ?thesis
    by (simp add: created_json_def dec_client_response_def dec_client_response_members_def
      dec_object_def dec_field_def codec_simps dec_ptr_def dec_string_def Let_def zero_client_response_def)
qed

lemma created_upload:
  "CreateClientJwks (sample_hc created_jose 0 no_jwt) ''id-1'' (Some \<lparr>Keys = [Some (Jwk created_public_key)]\<rparr>)
     (warm [answer 201 []]) = (Ok (), warm [])"
proof -
  have "self_service_url (sample_hc created_jose 0 no_jwt) [''id-1'', ''jwks''] =
    Ok \<lparr>u_Origin = ''http://selfservice'', u_Path = clients_path @ ''/'' @ ''id-1'' @ ''/'' @ ''jwks'', u_Query = []\<rparr>"
    using client_url [of "script_net 0" "''http://selfservice''"
      "\<lparr>bu_Origin = ''http://selfservice'', bu_Path = [], bu_EscapedPath = []\<rparr>" "[''id-1'', ''jwks'']"]
    by (simp add: self_service_url_def sample_hc_def script_net_def plain_segment_def)
  moreover have "hc_jose (sample_hc created_jose 0 no_jwt) = created_jose" by (simp add: sample_hc_def)
  moreover have "check_public created_jose i [Some (Jwk created_public_key)] = Ok ()" for i
    by (simp add: created_marshal Jwk_IsPublic_def)
  moreover have "rq_Body (json_headers (Header_Set k v (NewRequest m u (Some b)))) = Some b"
    "rq_unread (json_headers (Header_Set k v (NewRequest m u (Some b)))) = b" for k v m u b
    by (simp_all add: json_headers_def Header_Set_def NewRequest_def)
  ultimately show ?thesis
    by (simp add: CreateClientJwks_def bind_def created_marshal warm_createReq warm_send expect_status_def
       del: json_text.simps)
qed

lemma created_client:
  "CreateClient (sample_hc created_jose 0 no_jwt) req (Some \<lparr>Keys = [Some (Jwk created_public_key)]\<rparr>)
     (warm [answer 200 (json_text created_json), answer 201 []]) =
   (Ok (zero_client_response\<lparr>cr_ClientId := ''id-1''\<rparr>), warm [])"
proof -
  have "hc_jose (sample_hc created_jose 0 no_jwt) = created_jose" by (simp add: sample_hc_def)
  moreover have "rq_Body (json_headers (Header_Set k v (NewRequest m u (Some b)))) = Some b"
    "rq_unread (json_headers (Header_Set k v (NewRequest m u (Some b)))) = b" for k v m u b
    by (simp_all add: json_headers_def Header_Set_def NewRequest_def)
  ultimately show ?thesis
    using created_decoded [of created_jose] created_upload
    by (simp add: CreateClient_def bind_def sample_collection_url warm_createReq warm_send expect_status_def
       deserialize_reads wrapping_def ret_def del: json_text.simps)
qed

definition creation_heap :: "string \<Rightarrow> add_client_request \<Rightarrow> cmd_heap" where
  "creation_heap i req = \<lparr>api_cells = [\<lparr>as_ClientId = i, as_Req = Some req,
        as_Jwks = Some \<lparr>Keys = [Some (Jwk created_public_key)]\<rparr>\<rparr>],
      sec_cells = [content_for i sample_cfg created_keys]\<rparr>"

lemma fixed_plan:
  assumes "clock w = (1030 * Second, w)"
    and "crd_DeletionTimestamp (Crd cs) = None" and "Api cs = None" and "AppId cs = ''app''"
  shows "Reconcile created_jose cs sample_ctx cfg (fixed_crypto clock) clock (w, empty_heap) =
   (Ok [\<lparr>cmd_Data = CreateClientInApiCommand 0, cmd_Callback = Some (SetClientId 0 0)\<rparr>,
        plain_command (UpdateSecretContentCommand 0)],
    w, \<lparr>api_cells = [\<lparr>as_ClientId = [], as_Req = Some (buildApiReq cs sample_ctx),
        as_Jwks = Some \<lparr>Keys = [Some (Jwk created_public_key)]\<rparr>\<rparr>], sec_cells = [content_for [] cfg created_keys]\<rparr>)"
proof -
  have "index (Keys created_keys) 0 = Ok (hd (Keys created_keys))"
    by (simp add: created_keys_def)
  moreover have "CreateJwks (fixed_crypto clock) ''app'' (1030 * Second + Hour * 24 * 30) w = (Ok created_keys, w)"
    using assms(1) fixed_CreateJwks [of clock w "1030 * Second" "1030 * Second + Hour * 24 * 30"] by (simp add: created_keys_def time_units)
  ultimately show ?thesis
    using created_public assms(1)
    by (simp add: Reconcile_create_eq assms reconcile_create_def getNotAfter_def in_world_apply
        bind_def ret_def empty_heap_def content_for_def)
qed

lemma created_commands:
  assumes "crd_DeletionTimestamp (Crd cs) = None" and "Api cs = None" and "AppId cs = ''app''"
  shows "in_cmds (Reconcile created_jose cs sample_ctx sample_cfg script_crypto script_clock)
     (ctrl_start rs) =
   (Ok [\<lparr>cmd_Data = CreateClientInApiCommand 0, cmd_Callback = Some (SetClientId 0 0)\<rparr>,
        plain_command (UpdateSecretContentCommand 0)],
    \<lparr>api_st = warm rs, cheap = creation_heap [] (buildApiReq cs sample_ctx)\<rparr>)"
proof -
  have "script_clock (env (warm rs)) = (1030 * Second, env (warm rs))"
    by (simp add: script_clock_def warm_def)
  with fixed_plan [OF _ assms, of script_clock "env (warm rs)"] show ?thesis
    by (simp add: script_crypto_def in_cmds_def on_part_def creation_heap_def ctrl_start_def)
qed

lemma created_run:
  assumes "crd_DeletionTimestamp (Crd cs) = None" and "Api cs = None" and "AppId cs = ''app''"
    and "Secret_Manifest cs = sample_secret"
  shows "reconcile (sample_rc created_jose inst secrets) cs
     (ctrl_start [answer 200 (json_text created_json), answer 201 []]) =
   (Ok (Some [\<lparr>cmd_Data = CreateClientInApiCommand 0, cmd_Callback = Some (SetClientId 0 0)\<rparr>,
        plain_command (UpdateSecretContentCommand 0)], None),
    \<lparr>api_st = warm [], cheap = creation_heap ''id-1'' (buildApiReq cs sample_ctx)\<rparr>)"
proof -
  let ?cs = cs and ?rc = "sample_rc created_jose inst secrets"
  let ?req = "buildApiReq ?cs sample_ctx"
  have create: "run_command ?rc ?cs \<lparr>cmd_Data = CreateClientInApiCommand 0, cmd_Callback = Some (SetClientId 0 0)\<rparr>
      \<lparr>api_st = warm [answer 200 (json_text created_json), answer 201 []], cheap = creation_heap [] ?req\<rparr> =
      (Ok (), \<lparr>api_st = warm [], cheap = creation_heap ''id-1'' ?req\<rparr>)"
    using created_client [of "Some ?req"]
    by (simp add: run_command_def sample_rc_def read_store_def bind_def in_api_def on_part_def in_store_def
        creation_heap_def api_at_def sec_at_def set_api_id_def set_sec_id_def content_for_def zero_client_response_def
        del: json_text.simps)
  have "is_Ok (SerializeTo created_jose (content_for ''id-1'' sample_cfg created_keys) (Some sample_secret))"
    by (simp add: SerializeTo_def enc_secret_content_def content_for_def enc_jwks_ptr_def created_marshal Let_def)
  then obtain sec where "SerializeTo created_jose (content_for ''id-1'' sample_cfg created_keys) (Some sample_secret) = Ok sec"
    by (auto elim: is_Ok.elims)
  then have written: "run_command ?rc ?cs (plain_command (UpdateSecretContentCommand 0))
      \<lparr>api_st = warm [], cheap = creation_heap ''id-1'' ?req\<rparr> =
      (Ok (), \<lparr>api_st = warm [], cheap = creation_heap ''id-1'' ?req\<rparr>)"
    by (simp add: run_command_def plain_command_def sample_rc_def read_store_def bind_def creation_heap_def sec_at_def
        AssertWith_def assms(4) lift_def sample_k8s_def in_k8s_def in_api_def in_env_def on_part_def ret_def)
       (simp add: content_for_def)
  have rc: "rc_jose ?rc = created_jose" "rt_operatorContext (rc_runtime ?rc) = sample_ctx"
      "rt_config (rc_runtime ?rc) = sample_cfg" "rt_crypto (rc_runtime ?rc) = script_crypto"
      "rt_clock (rc_runtime ?rc) = script_clock"
    by (simp_all add: sample_rc_def)
  show ?thesis
    using create written
    by (simp add: reconcile_def Let_def rc created_commands [OF assms(1-3)] del: json_text.simps)
qed

text \<open>What the two commands of a creation do, step by step.\<close>

lemma run_create_effects:
  assumes "run_command r cs \<lparr>cmd_Data = CreateClientInApiCommand a, cmd_Callback = Some (SetClientId a c)\<rparr> s = (Ok u, s')"
  obtains resp a1 where "CreateClient (rt_maskinportenApiClient (rc_runtime r)) (as_Req (api_at (cheap s) a))
      (as_Jwks (api_at (cheap s) a)) (api_st s) = (Ok resp, a1)"
    and "s' = \<lparr>api_st = a1, cheap = set_sec_id c (cr_ClientId resp) (set_api_id a (cr_ClientId resp) (cheap s))\<rparr>"
  using assms
  by (auto simp: run_command_def Let_def bind_eq_Ok_iff read_store_def in_api_def in_store_def on_part_def split: prod.splits)

lemma run_write_effects:
  assumes "run_command r cs (plain_command (UpdateSecretContentCommand c)) s = (Ok u, s')"
  obtains secret v w where "SerializeTo (rc_jose r) (sec_at (cheap s) c) (Some (Secret_Manifest cs)) = Ok secret"
    and "k8s_UpdateSecret (rc_k8s r) secret (env (api_st s)) = (Ok v, w)"
    and "s' = s\<lparr>api_st := (api_st s)\<lparr>env := w\<rparr>\<rparr>"
  using assms
  by (auto simp: run_command_def plain_command_def Let_def bind_eq_Ok_iff read_store_def AssertWith_def in_k8s_def in_api_def
      in_env_def on_part_def split: prod.splits if_splits)

text \<open>The status that is written back after a creation.\<close>

definition created_status :: "string \<Rightarrow> string \<Rightarrow> string list \<Rightarrow> instant \<Rightarrow> maskinporten_client \<Rightarrow> maskinporten_client_status" where
  "created_status clientId authority keyIds now inst = (crd_Status inst)\<lparr>st_State := ''reconciled'', st_LastSynced := Some now,
     st_Reason := ''Reconciled '' @ itoa 2 @ '' resources'',
     st_LastActions := Some [''CreateClientInApiCommand'', ''UpdateSecretContentCommand''],
     st_ObservedGeneration := crd_Generation inst,
     st_ClientId := clientId, st_Authority := authority, st_KeyIds := Some keyIds\<rparr>"

lemma updateStatus_created:
  assumes "k8s_laws (rc_k8s r)" and "mr_Kind req \<noteq> Some RequestDeleteKind" and "FinalizerName \<in> set (crd_Finalizers inst)"
    and "sc_Jwks (sec_at (cheap s) 0) = Some ks" and "Keys ks = [Some k]"
    and "updateStatus r (Some req) inst ''reconciled'' (''Reconciled '' @ itoa (int (length cmds)) @ '' resources'') (Some cmds) s = (Ok x, s')"
    and "cmds = [\<lparr>cmd_Data = CreateClientInApiCommand 0, cmd_Callback = Some cb\<rparr>, plain_command (UpdateSecretContentCommand 0)]"
  obtains now w w' where "metav1_Now (rc_k8s r) (env (api_st s)) = (now, w)"
    and "k8s_StatusUpdate (rc_k8s r) (inst\<lparr>crd_Status := created_status (as_ClientId (api_at (cheap s) 0))
        (sc_Authority (sec_at (cheap s) 0)) [jose_KeyID (inner k)] now inst\<rparr>) w = (Ok x, w')"
    and "s' = s\<lparr>api_st := (api_st s)\<lparr>env := w'\<rparr>\<rparr>"
proof -
  have add: "fin_Add (rc_k8s r) fs FinalizerName = (if FinalizerName \<in> set fs then (fs, False) else (fs @ [FinalizerName], True))" for fs
    using assms(1) by (simp add: k8s_laws_def)
  obtain now w where now: "metav1_Now (rc_k8s r) (env (api_st s)) = (now, w)" by fastforce
  have fin: "update_finalizers (rc_k8s r) (Some req) (inst\<lparr>crd_Status := st\<rparr>) = (inst\<lparr>crd_Status := st\<rparr>, False)" for st
    using assms(2,3) by (cases "mr_Kind req = Some RequestCreateKind") (simp_all add: update_finalizers_def add)
  obtain q w' where upd: "k8s_StatusUpdate (rc_k8s r) (inst\<lparr>crd_Status := created_status (as_ClientId (api_at (cheap s) 0))
        (sc_Authority (sec_at (cheap s) 0)) [jose_KeyID (inner k)] now inst\<rparr>) w = (q, w')" by fastforce
  with assms(4-7) now fin have "q = Ok x \<and> s' = s\<lparr>api_st := (api_st s)\<lparr>env := w'\<rparr>\<rparr>"
    by (auto simp: updateStatus_def in_k8s_def in_api_def in_env_def on_part_def reading_def bind_def Let_def read_store_def
        plain_command_def CommandList_Strings_def created_status_def numeral_2_eq_2 split: prod.splits)
  with upd show ?thesis by (intro that [OF now, of w']) simp_all
qed

text \<open>
  C15: A call that creates a client, when it succeeds, does this and nothing else after it has
  fetched the state: it makes a key set with one new key, sends the client of the resource with the
  public half of the set to the API, writes the set to the secret together with the id that the API
  answered, which is not empty, and the configured authority, and writes the resource back with a
  status that shows this id, this authority and the id of the new key; then a next call is
  scheduled. The resource has its finalizer by then.
\<close>

theorem creation_status:
  fixes r :: "'w reconciler" and cs :: client_state
  defines "rt \<equiv> rc_runtime r" and "K \<equiv> rc_k8s r"
  defines "authority \<equiv> api_AuthorityUrl (MaskinportenApi (rt_config rt))"
  assumes "k8s_laws K" and "mr_Kind req \<noteq> Some RequestDeleteKind" and "FinalizerName \<in> set (crd_Finalizers inst)"
    and "fetchCurrentState r req s = (Ok cs, s1)" and "Api cs = None" and "crd_DeletionTimestamp (Crd cs) = None"
    and "reconcile_loaded r req inst s = (Ok t, s')"
  shows "\<exists>now0 w0 ks k pub w1 resp a1 secret v w2 now w3 x w4 h.
    rt_clock rt (env (api_st s1)) = (now0, w0) \<and>
    CreateJwks (rt_crypto rt) (AppId cs) (now0 + Hour * 24 * 30) w0 = (Ok ks, w1) \<and> Keys ks = [Some k] \<and>
    ToPublic (rc_jose r) (Some ks) = Ok pub \<and>
    CreateClient (rt_maskinportenApiClient rt) (Some (buildApiReq cs (rt_operatorContext rt))) (Some pub)
      ((api_st s1)\<lparr>env := w1\<rparr>) = (Ok resp, a1) \<and> cr_ClientId resp \<noteq> [] \<and>
    SerializeTo (rc_jose r) \<lparr>sc_ClientId = cr_ClientId resp, sc_Authority = authority, sc_Jwks = Some ks, sc_Jwk = Some k\<rparr>
      (Some (Secret_Manifest cs)) = Ok secret \<and>
    k8s_UpdateSecret K secret (env a1) = (Ok v, w2) \<and> metav1_Now K w2 = (now, w3) \<and>
    k8s_StatusUpdate K (inst\<lparr>crd_Status := created_status (cr_ClientId resp) authority [jose_KeyID (inner k)] now inst\<rparr>) w3 =
      (Ok x, w4) \<and>
    getRequeueAfter r \<lparr>api_st = a1\<lparr>env := w4\<rparr>, cheap = h\<rparr> = (Ok t, s')"
proof -
  let ?create = "\<lparr>cmd_Data = CreateClientInApiCommand 0, cmd_Callback = Some (SetClientId 0 0)\<rparr>"
  let ?w = "env (api_st s1)"
  obtain now0 w0 where clock: "rt_clock rt ?w = (now0, w0)" by fastforce
  from reconcile_loaded_Ok [OF assms(7,10)] obtain executed sx where "reconcile r cs s1 = (Ok (executed, None), sx)"
    by blast
  then have "\<exists>cmds s2. in_cmds (Reconcile (rc_jose r) cs (rt_operatorContext rt) (rt_config rt) (rt_crypto rt) (rt_clock rt)) s1 = (Ok cmds, s2)"
    by (auto simp: reconcile_def rt_def Let_def split: prod.splits outcome.splits)
  then obtain cmds w1 h where rec: "Reconcile (rc_jose r) cs (rt_operatorContext rt) (rt_config rt) (rt_crypto rt) (rt_clock rt) (?w, empty_heap) =
      (Ok cmds, (w1, h))"
    and plan: "in_cmds (Reconcile (rc_jose r) cs (rt_operatorContext rt) (rt_config rt) (rt_crypto rt) (rt_clock rt)) s1 =
      (Ok cmds, \<lparr>api_st = (api_st s1)\<lparr>env := w1\<rparr>, cheap = h\<rparr>)"
    by (auto simp: in_cmds_def on_part_def split: prod.splits)
  from rec have "reconcile_create (rc_jose r) cs (rt_operatorContext rt) (rt_config rt) (rt_crypto rt) (rt_clock rt) (?w, empty_heap) =
      (Ok cmds, (w1, h))"
    by (simp add: Reconcile_create_eq [OF assms(9,8)])
  then obtain ks pub k notAfter where cmds: "cmds = [?create, plain_command (UpdateSecretContentCommand 0)]"
    and api: "api_cells h = [\<lparr>as_ClientId = [], as_Req = Some (buildApiReq cs (rt_operatorContext rt)), as_Jwks = Some pub\<rparr>]"
    and sec: "sec_cells h = [\<lparr>sc_ClientId = [], sc_Authority = authority, sc_Jwks = Some ks, sc_Jwk = Some k\<rparr>]"
    and keys: "CreateJwks (rt_crypto rt) (AppId cs) notAfter (snd (rt_clock rt ?w)) = (Ok ks, w1)"
      "notAfter = fst (rt_clock rt ?w) + Hour * 24 * 30" "ToPublic (rc_jose r) (Some ks) = Ok pub" "Keys ks = [Some k]"
    unfolding authority_def by (rule reconcile_create_Ok)
  note new = keys(1) [unfolded keys(2) clock fst_conv snd_conv]
  from cmds have "cmds \<noteq> []" by simp
  then obtain s3 x s4 where run: "run_commands r cs [] cmds \<lparr>api_st = (api_st s1)\<lparr>env := w1\<rparr>, cheap = h\<rparr> = (Ok (cmds, None), s3)"
    and upd: "updateStatus r (Some req) inst ''reconciled'' (''Reconciled '' @ itoa (int (length cmds)) @ '' resources'') (Some cmds) s3 = (Ok x, s4)"
    and requeue: "getRequeueAfter r s4 = (Ok t, s')"
    by (rule loaded_commands [OF assms(7,10) plan [unfolded rt_def], folded rt_def])
  from run [unfolded cmds] obtain u sa where
    "run_command r cs ?create \<lparr>api_st = (api_st s1)\<lparr>env := w1\<rparr>, cheap = h\<rparr> = (Ok u, sa)"
    and written: "run_command r cs (plain_command (UpdateSecretContentCommand 0)) sa = (Ok (), s3)"
    by (auto split: prod.splits outcome.splits)
  then obtain resp a1 where create: "CreateClient (rt_maskinportenApiClient rt) (Some (buildApiReq cs (rt_operatorContext rt)))
      (Some pub) ((api_st s1)\<lparr>env := w1\<rparr>) = (Ok resp, a1)"
    and sa: "sa = \<lparr>api_st = a1, cheap = set_sec_id 0 (cr_ClientId resp) (set_api_id 0 (cr_ClientId resp) h)\<rparr>"
    by (auto elim!: run_create_effects simp: rt_def api api_at_def)
  let ?c = "\<lparr>sc_ClientId = cr_ClientId resp, sc_Authority = authority, sc_Jwks = Some ks, sc_Jwk = Some k\<rparr>"
  have at: "as_ClientId (api_at (cheap sa) 0) = cr_ClientId resp" "sec_at (cheap sa) 0 = ?c"
    by (simp_all add: sa sec api api_at_def sec_at_def set_sec_id_def set_api_id_def)
  from written obtain secret v w2 where "SerializeTo (rc_jose r) (sec_at (cheap sa) 0) (Some (Secret_Manifest cs)) = Ok secret"
    and "k8s_UpdateSecret (rc_k8s r) secret (env (api_st sa)) = (Ok v, w2)"
    and "s3 = sa\<lparr>api_st := (api_st sa)\<lparr>env := w2\<rparr>\<rparr>"
    by (rule run_write_effects)
  then have secret: "SerializeTo (rc_jose r) ?c (Some (Secret_Manifest cs)) = Ok secret"
    and update: "k8s_UpdateSecret K secret (env a1) = (Ok v, w2)" and s3: "s3 = \<lparr>api_st = a1\<lparr>env := w2\<rparr>, cheap = cheap sa\<rparr>"
    by (simp_all only: at) (simp_all add: sa K_def)
  have jwks: "sc_Jwks (sec_at (cheap s3) 0) = Some ks" by (simp add: s3 at)
  from upd obtain now w3 w4 where "metav1_Now K w2 = (now, w3)"
    and "k8s_StatusUpdate K (inst\<lparr>crd_Status := created_status (cr_ClientId resp) authority [jose_KeyID (inner k)] now inst\<rparr>) w3 = (Ok x, w4)"
    and "s4 = \<lparr>api_st = a1\<lparr>env := w4\<rparr>, cheap = cheap sa\<rparr>"
    by (rule updateStatus_created [OF assms(4) [unfolded K_def] assms(5,6) jwks keys(4) _ cmds]) (simp add: s3 at K_def)
  with requeue have "getRequeueAfter r \<lparr>api_st = a1\<lparr>env := w4\<rparr>, cheap = cheap sa\<rparr> = (Ok t, s')" by simp
  with clock new keys(3,4) create CreateClient_id [OF create] secret update
    \<open>metav1_Now K w2 = (now, w3)\<close> \<open>k8s_StatusUpdate K _ w3 = (Ok x, w4)\<close>
  show ?thesis by blast
qed

text \<open>A resource for which there is nothing yet but an empty secret.\<close>

definition newborn :: maskinporten_client where
  "newborn = (sample_crd None (Some [''s'']))\<lparr>crd_Finalizers := [FinalizerName]\<rparr>"

definition newborn_request :: maskinporten_client_request where
  "newborn_request = \<lparr>mr_Name = ''ttd-app'', mr_Namespace = ''default'', mr_AppId = ''app'', mr_AppLabel = ''ttd-app-deployment'',
      mr_Kind = Some RequestCreateKind, mr_Instance = Some newborn\<rparr>"

definition newborn_state :: client_state where
  "newborn_state = (sample_state None None None None)\<lparr>Crd := newborn\<rparr>"

lemma newborn_parts: "crd_DeletionTimestamp (Crd newborn_state) = None" "Api newborn_state = None" "AppId newborn_state = ''app''"
  "Secret_Manifest newborn_state = sample_secret" "FinalizerName \<in> set (crd_Finalizers newborn)"
  by (simp_all add: newborn_state_def newborn_def sample_state_def sample_crd_def)

lemma newborn_fetch:
  "fetchCurrentState (sample_rc created_jose newborn [sample_secret]) newborn_request (ctrl_start (answer 200 (json_text (JArr [])) # rs)) =
     (Ok newborn_state, ctrl_start rs)"
  unfolding newborn_state_def
  by (rule sample_fetch_nothing [OF refl newborn_request_def]) (simp add: newborn_def sample_crd_def)

definition newborn_answers :: "http_response outcome list" where
  "newborn_answers = [answer 200 (json_text (JArr [])), answer 200 (json_text created_json), answer 201 []]"

lemma newborn_call:
  "\<exists>t s'. reconcile_loaded (sample_rc created_jose newborn [sample_secret]) newborn_request newborn (ctrl_start newborn_answers) = (Ok t, s')"
proof -
  let ?r = "sample_rc created_jose newborn [sample_secret]"
  have laws: "k8s_laws (rc_k8s ?r)" by (simp add: sample_rc_def sample_k8s_laws)
  have cfg: "valid_config (rt_config (rc_runtime ?r))"
    by (simp add: sample_rc_def valid_config_def sample_cfg_def time_units)
  note run = created_run [OF newborn_parts(1-4), of newborn "[sample_secret]"]
  have kind: "mr_Kind newborn_request = Some RequestCreateKind" by (simp add: newborn_request_def)
  have add: "update_finalizers (rc_k8s ?r) (Some newborn_request) (newborn\<lparr>crd_Status := st\<rparr>) = (newborn\<lparr>crd_Status := st\<rparr>, False)" for st
    using laws newborn_parts(5) by (simp add: update_finalizers_def kind k8s_laws_def)
  have "\<exists>x s2. updateStatus ?r (Some newborn_request) newborn ''reconciled'' reason
      (Some [\<lparr>cmd_Data = CreateClientInApiCommand 0, cmd_Callback = Some (SetClientId 0 0)\<rparr>, plain_command (UpdateSecretContentCommand 0)])
      \<lparr>api_st = warm [], cheap = creation_heap ''id-1'' areq\<rparr> = (Ok x, s2)" for reason areq
    by (simp add: updateStatus_def add in_k8s_def in_api_def in_env_def on_part_def reading_def bind_def Let_def read_store_def
      plain_command_def creation_heap_def sec_at_def content_for_def created_keys_def Jwk_KeyID_def split: prod.split)
     (simp add: sample_rc_def sample_k8s_def ret_def)
  moreover have "\<exists>t s3. getRequeueAfter ?r s2 = (Ok t, s3)" for s2 using getRequeueAfter_interval [OF laws cfg] by blast
  ultimately show ?thesis
    using run
    by (simp add: reconcile_loaded_def newborn_answers_def newborn_fetch bind_def Let_def split: prod.split outcome.split del: json_text.simps) 
      (metis prod.inject outcome.distinct)
qed

lemma creation_status_witness:
  "\<exists>pub s2 (resp :: client_response) a1 x now w3 k w4.
    CreateClient (sample_hc created_jose 0 no_jwt) (Some (buildApiReq newborn_state sample_ctx)) (Some pub) s2 = (Ok resp, a1) \<and>
    cr_ClientId resp \<noteq> [] \<and>
    k8s_StatusUpdate (sample_k8s newborn [sample_secret])
      (newborn\<lparr>crd_Status := created_status (cr_ClientId resp) ''http://maskinporten'' [jose_KeyID (inner k)] now newborn\<rparr>) w3 = (Ok x, w4)"
proof -
  let ?r = "sample_rc created_jose newborn [sample_secret]"
  obtain t s' where call: "reconcile_loaded ?r newborn_request newborn (ctrl_start newborn_answers) = (Ok t, s')"
    using newborn_call by blast
  have laws: "k8s_laws (rc_k8s ?r)" by (simp add: sample_rc_def sample_k8s_laws)
  have kind: "mr_Kind newborn_request \<noteq> Some RequestDeleteKind" by (simp add: newborn_request_def)
  have rc: "rt_maskinportenApiClient (rc_runtime ?r) = sample_hc created_jose 0 no_jwt" "rt_operatorContext (rc_runtime ?r) = sample_ctx"
    "api_AuthorityUrl (MaskinportenApi (rt_config (rc_runtime ?r))) = ''http://maskinporten''" "rc_k8s ?r = sample_k8s newborn [sample_secret]"
    by (simp_all add: sample_rc_def sample_cfg_def)
  from creation_status [OF laws kind newborn_parts(5) newborn_fetch newborn_parts(2,1) call [unfolded newborn_answers_def], unfolded rc]
  show ?thesis by blast
qed

text \<open>
  C28: The assertion before the secret is written never fails: whenever the loop reaches a command
  that writes the secret, having run the commands before it, the contents name a client.
\<close>

theorem secret_assertion_holds:
  assumes "client_state_ok cs"
    and "Reconcile J cs ctx cfg crypto clock (w, empty_heap) = (Ok (pre @ cmd # post), (w', h))"
    and "cmd_Data cmd = UpdateSecretContentCommand a"
    and "cheap s = h" and "run_commands r cs [] pre s = (Ok (pre, None), s1)"
  shows "sc_ClientId (sec_at (cheap s1) a) \<noteq> []"
  using secret_command_id [OF assms(1,2) refl assms(3,4,5)] .

lemma secret_assertion_holds_witness:
  "sc_ClientId (sec_at (cheap \<lparr>api_st = warm [], cheap =
      \<lparr>api_cells = [\<lparr>as_ClientId = ''id-1'', as_Req = None,
        as_Jwks = Some (public_set (table_jose []) sample_rotated)\<rparr>],
      sec_cells = [content_for ''id-1'' sample_cfg sample_rotated]\<rparr>\<rparr>) 0) \<noteq> []"
proof -
  have ok: "client_state_ok (sample_state None None (Some (sample_api None))
       (Some (content_for ''id-1'' sample_cfg sample_created)))"
    by (simp add: client_state_ok_def sample_state_def sample_api_def)
  note holds = secret_assertion_holds [where pre = "[]" and cmd = "plain_command (UpdateSecretContentCommand 0)"
      and post = "[plain_command (UpdateClientInApiCommand 0)]"
      and r = "sample_rc (table_jose []) (sample_crd None None) []", unfolded append_Nil, OF ok sample_rotation_run]
  show ?thesis
    by (rule holds) (simp_all add: plain_command_def)
qed


section \<open>Deletion\<close>

text \<open>
  A deletion that finds nothing to clean up is never finished: with no contents in the secret
  and no client in the API there are no commands, and the call returns an empty result right
  after fetching the state, without an update of the resource; its finalizer stays, and no next
  call is scheduled.
\<close>

theorem empty_deletion_is_stuck:
  assumes "fetchCurrentState r req s = (Ok cs, s1)" and "crd_DeletionTimestamp (Crd cs) \<noteq> None"
    and "Secret_Content cs = None" and "Api cs = None"
  shows "reconcile_loaded r req inst s = (Ok 0, s1\<lparr>cheap := empty_heap\<rparr>)"
proof -
  let ?rt = "rc_runtime r"
  have "in_cmds (Reconcile (rc_jose r) cs (rt_operatorContext ?rt) (rt_config ?rt) (rt_crypto ?rt) (rt_clock ?rt)) s1 =
      (Ok [], s1\<lparr>cheap := empty_heap\<rparr>)"
    using assms(2-4) by (simp add: in_cmds_def on_part_def Reconcile_deleted reconcile_delete_def)
  then have "reconcile r cs s1 = (Ok (Some [], None), s1\<lparr>cheap := empty_heap\<rparr>)"
    by (simp add: reconcile_def Let_def)
  with assms(1) show ?thesis by (simp add: reconcile_loaded_def bind_def Let_def)
qed

lemma empty_deletion_is_stuck_witness:
  "reconcile_loaded (sample_rc (table_jose []) (sample_crd (Some Hour) None) [sample_secret])
     \<lparr>mr_Name = ''ttd-app'', mr_Namespace = ''default'', mr_AppId = ''app'', mr_AppLabel = ''ttd-app-deployment'',
      mr_Kind = Some RequestDeleteKind, mr_Instance = Some (sample_crd (Some Hour) None)\<rparr>
     (sample_crd (Some Hour) None) (ctrl_start [answer 200 (json_text (JArr []))]) = (Ok 0, ctrl_start [])"
proof -
  have "ctrl_start []\<lparr>cheap := empty_heap\<rparr> = ctrl_start []" by (simp add: ctrl_start_def)
  with empty_deletion_is_stuck [OF sample_fetch_nothing [OF refl refl]]
  show ?thesis by (simp add: sample_state_def sample_crd_def)
qed

end
