(* ===== verification/OperatorProperties.thy ===== *)
theory OperatorProperties
  imports OperatorProcess RuntimeProperties ControllerProperties
begin

text \<open>
  The properties of the operator's process: what becomes of the telemetry, with which codes the
  process ends, and what has been put together when it runs.
\<close>


section \<open>Telemetry\<close>

lemmas otel_simps = ConfigureOTel_def newTraceProvider_def newMeterProvider_def handleErr_def in_otel_world_def
  on_part_def set_otel_def attempt_def bind_def otel_shutdown_def

lemma ConfigureOTel_result:
  assumes "ConfigureOTel T t = (r, t')"
  shows "\<not> (\<exists>e. r = Err e)" and "r = Ok (b, Some e) \<Longrightarrow> shutdownFuncs t' = []"
    and "r = Ok (b, None) \<Longrightarrow> \<exists>tp mp. shutdownFuncs t' = [TracerProvider_Shutdown tp, MeterProvider_Shutdown mp] \<and>
      tracerProvider t' = Some tp \<and> meterProvider t' = Some mp \<and> textMapPropagator t' = newPropagator \<and>
      pv_interval tp = Second \<and> pv_interval mp = 5 * Second"
  using assms by (auto simp: otel_simps errors_Join_None_iff split: prod.splits outcome.splits sum.splits)

text \<open>
  C32: After a set-up without error both providers wait to be shut down. The function that is returned
  shuts the tracer provider down and then the meter provider, and fails if one of them does; called
  again it does nothing. When the exporter of the metrics cannot be made, the tracer provider has been
  shut down before \<open>ConfigureOTel\<close> returns, and its error is part of the error; the global tracer
  provider stays the one that was shut down.
\<close>

theorem telemetry_shut_down_once:
  "(\<forall>b t'. ConfigureOTel T t = (Ok (b, None), t') \<longrightarrow>
      (\<exists>tp mp e1 w1 e2 w2. tracerProvider t' = Some tp \<and> meterProvider t' = Some mp \<and>
         provider_Shutdown T (TracerProvider_Shutdown tp) (otel_world t') = (e1, w1) \<and>
         provider_Shutdown T (MeterProvider_Shutdown mp) w1 = (e2, w2) \<and>
         (case otel_shutdown T t' of (err, t'') \<Rightarrow>
            otel_world t'' = w2 \<and> (err = None \<longleftrightarrow> e1 = None \<and> e2 = None) \<and> otel_shutdown T t'' = (None, t'')))) \<and>
   (\<forall>res w1 te w2 e w3. resource_New T ServiceName (otel_world t) = (Ok res, w1) \<longrightarrow>
      otlptracegrpc_New T w1 = (Ok te, w2) \<longrightarrow> otlpmetricgrpc_New T w2 = (Err e, w3) \<longrightarrow>
      (\<exists>tp e1 w4 err t'. provider_Shutdown T (TracerProvider_Shutdown tp) w3 = (e1, w4) \<and>
         ConfigureOTel T t = (Ok (True, Some (ErrJoin (e # err))), t') \<and> (err = [] \<longleftrightarrow> e1 = None) \<and>
         otel_world t' = w4 \<and> tracerProvider t' = Some tp \<and> shutdownFuncs t' = []))"
proof (rule conjI; intro allI impI)
  fix b t' assume "ConfigureOTel T t = (Ok (b, None), t')"
  from ConfigureOTel_result(3) [OF this refl]
  obtain tp mp where "shutdownFuncs t' = [TracerProvider_Shutdown tp, MeterProvider_Shutdown mp]"
    "tracerProvider t' = Some tp" "meterProvider t' = Some mp" by blast
  moreover obtain e1 w1 where "provider_Shutdown T (TracerProvider_Shutdown tp) (otel_world t') = (e1, w1)" by fastforce
  moreover obtain e2 w2 where "provider_Shutdown T (MeterProvider_Shutdown mp) w1 = (e2, w2)" by fastforce
  ultimately show "\<exists>tp mp e1 w1 e2 w2. tracerProvider t' = Some tp \<and> meterProvider t' = Some mp \<and>
      provider_Shutdown T (TracerProvider_Shutdown tp) (otel_world t') = (e1, w1) \<and>
      provider_Shutdown T (MeterProvider_Shutdown mp) w1 = (e2, w2) \<and>
      (case otel_shutdown T t' of (err, t'') \<Rightarrow>
         otel_world t'' = w2 \<and> (err = None \<longleftrightarrow> e1 = None \<and> e2 = None) \<and> otel_shutdown T t'' = (None, t''))"
    by (simp add: otel_shutdown_def errors_Join_None_iff)
next
  fix res w1 te w2 e w3
  assume libs: "resource_New T ServiceName (otel_world t) = (Ok res, w1)" "otlptracegrpc_New T w1 = (Ok te, w2)"
    "otlpmetricgrpc_New T w2 = (Err e, w3)"
  let ?tp = "\<lparr>pv_exporter = te, pv_interval = Second, pv_resource = res\<rparr>"
  obtain e1 w4 where shut: "provider_Shutdown T (TracerProvider_Shutdown ?tp) w3 = (e1, w4)" by fastforce
  show "\<exists>tp e1 w4 err t'. provider_Shutdown T (TracerProvider_Shutdown tp) w3 = (e1, w4) \<and>
      ConfigureOTel T t = (Ok (True, Some (ErrJoin (e # err))), t') \<and> (err = [] \<longleftrightarrow> e1 = None) \<and>
      otel_world t' = w4 \<and> tracerProvider t' = Some tp \<and> shutdownFuncs t' = []"
    using libs shut
    by (intro exI [of _ ?tp] exI [of _ e1] exI [of _ w4] exI [of _ "case e1 of None \<Rightarrow> [] | Some e \<Rightarrow> [ErrJoin [e]]"])
      (cases e1, simp_all add: otel_simps)
qed



section \<open>The end of the process\<close>

lemma set_op_world_simps [simp]:
  "op_world (set_op_world w s) = w" "shutdownFuncs (op_telemetry (set_op_world w s)) = shutdownFuncs (op_telemetry s)"
  "set_op_world w (set_op_world w' s) = set_op_world w s" "op_world (end_main s) = op_world s"
  "op_telemetry (end_main s) = op_telemetry s" "op_world (s\<lparr>op_spans := ss\<rparr>) = op_world s"
  by (simp_all add: op_world_def set_op_world_def end_main_def end_span_def)

definition pending :: "('k, 'e, 'r, 'w) operator_state \<Rightarrow> ('e, 'r) shutdown_func list" where
  "pending s = shutdownFuncs (op_telemetry s)"

lemma pending_keeps [keeps_intros]:
  "process_keeps pending (op_call id m)" "process_keeps pending (op_call end_main m)" "process_keeps pending (start_span n)"
  "process_keeps pending (\<lambda>s. Some (Returned (), end_main s))" "process_keeps pending (init_runtime L e)"
  by (auto simp: process_keeps_def pending_def op_call_def start_span_def init_runtime_def end_span_def
      split: prod.splits outcome.splits option.splits)

lemma run_manager_pending: "process_keeps pending (run_manager L M fs rt api)"
  unfolding run_manager_def Let_def by (intro keeps_intros)

lemma exits_with_1 [keeps_intros]:
  "exits_with {1} (op_call id m)" "exits_with {1} (op_call end_main m)" "exits_with {1} (start_span n)"
  "exits_with {1} (\<lambda>s. Some (Returned (), end_main s))" "exits_with {1} (init_runtime L e)"
  by (auto simp: exits_with_def op_call_def start_span_def init_runtime_def split: prod.splits outcome.splits option.splits)

lemma run_manager_exit: "exits_with {1} (run_manager L M fs rt api)"
  unfolding run_manager_def Let_def by (intro keeps_intros)

text \<open>Once the telemetry is set up.\<close>

definition operate ::
  "('k, 'w) runtime_libs \<Rightarrow> ('e, 'r, 'w) otel_lib \<Rightarrow> ('c, 'm, 't, 'w) manager_lib \<Rightarrow> go_error option \<Rightarrow>
   (string \<times> flag_value) list \<Rightarrow> ('k, 'e, 'r, 'w, unit) operator"
where
  "operate L T M ctx_err fs =
     cli_bind (start_span ''Main'') (\<lambda>_.
     cli_bind (init_runtime L ctx_err) (\<lambda>(rt, api). deferring (shutdown_telemetry T) (run_manager L M fs rt api)))"

lemma deferring_Some_iff:
  "deferring d m s = Some (r, s') \<longleftrightarrow> (\<exists>s1. m s = Some (r, s1) \<and> s' = (if fatal_exit r then s1 else d s1))"
  by (auto simp: deferring_def split: option.splits prod.splits)

lemma run_manager_Returned:
  assumes "run_manager L M fs rt api s = Some (Returned u, s')"
  obtains c w0 w1 mgr w2 w3 w4 w5 w6 where "ctrl_GetConfig M w0 = (Ok c, w1)"
    and "ctrl_NewManager M (WrapTransport (config_Wrap M) (otelhttp_NewTransport M) c) (operator_options fs) w1 = (Ok mgr, w2)"
    and "SetupWithManager M (NewMaskinportenClientReconciler rt (rl_jose L) (mgr_GetClient M mgr) (rand_NewPCG M) None) api mgr w2 =
      (Ok (), w3)"
    and "mgr_AddHealthzCheck M mgr ''healthz'' w3 = (Ok (), w4)" and "mgr_AddReadyzCheck M mgr ''readyz'' w4 = (Ok (), w5)"
    and "mgr_Start M mgr w5 = (Ok (), w6)" and "op_world s = w0" and "op_world s' = w6"
proof -
  have call: "op_call f m s1 = Some (Returned x, s2) \<longleftrightarrow>
      (\<exists>w. m (op_world s1) = (Ok x, w) \<and> s2 = set_op_world w s1)" for f m s1 s2 and x
    by (auto simp: op_call_def split: prod.splits outcome.splits)
  show ?thesis
    using assms that unfolding run_manager_def Let_def cli_bind_Returned call
    by clarsimp
qed

lemma operate_end:
  assumes "operate L T M ctx_err fs s = Some (r, s')"
  shows "r = Returned u \<Longrightarrow> pending s' = [] \<and> (\<exists>mgr w w'. mgr_Start M mgr w = (Ok (), w'))"
    and "r = Exited n \<Longrightarrow> n = 1 \<and> pending s' = pending s"
proof -
  assume r: "r = Returned u"
  with assms obtain rt api s1 s2 where "run_manager L M fs rt api s1 = Some (Returned u, s2)"
    and s': "s' = shutdown_telemetry T s2"
    by (auto simp: operate_def cli_bind_Returned deferring_Some_iff split: prod.splits)
  then obtain mgr w w' where "mgr_Start M mgr w = (Ok (), w')" by (blast elim: run_manager_Returned)
  moreover have "pending s' = []" by (simp add: s' pending_def shutdown_telemetry_def otel_shutdown_def split: prod.splits)
  ultimately show "pending s' = [] \<and> (\<exists>mgr w w'. mgr_Start M mgr w = (Ok (), w'))" by blast
next
  assume r: "r = Exited n"
  have late: "process_keeps pending m \<Longrightarrow> exits_with {1} m \<Longrightarrow> deferring (shutdown_telemetry T) m s1 = Some (Exited n, s2) \<Longrightarrow>
      n = 1 \<and> pending s2 = pending s1" for m s1 s2
    unfolding deferring_Some_iff process_keeps_def exits_with_def by (auto dest!: spec)
  from assms r consider s1 where "start_span ''Main'' s = Some (Returned (), s1)" "init_runtime L ctx_err s1 = Some (Exited n, s')"
    | s1 rt api s2 where "start_span ''Main'' s = Some (Returned (), s1)" "init_runtime L ctx_err s1 = Some (Returned (rt, api), s2)"
      "deferring (shutdown_telemetry T) (run_manager L M fs rt api) s2 = Some (Exited n, s')"
    by (auto simp: operate_def cli_bind_Some_iff start_span_def split: prod.splits)
  then show "n = 1 \<and> pending s' = pending s"
  proof cases
    case 1
    from process_keepsD [OF pending_keeps(3) 1(1)] process_keepsD [OF pending_keeps(5) 1(2)] exits_withD [OF exits_with_1(5) 1(2)]
    show ?thesis by simp
  next
    case 2
    from process_keepsD [OF pending_keeps(3) 2(1)] process_keepsD [OF pending_keeps(5) 2(2)]
      late [OF run_manager_pending run_manager_exit 2(3)]
    show ?thesis by simp
  qed
qed

text \<open>
  C31: The process of the operator returns, which is the exit code 0, only after the manager ended without
  error, and the telemetry has been shut down then. It exits with 0 or 2 only while its flags are
  parsed, before anything happened. Every other exit is with 1: either the set-up of the telemetry
  failed, or both providers are still waiting to be shut down, since what was deferred does not run.
\<close>

theorem operator_exit:
  assumes run: "operator_main L T M ctx_err args s = Some (r, s')"
  shows "(\<forall>u. r = Returned u \<longrightarrow> pending s' = [] \<and> (\<exists>mgr w w'. mgr_Start M mgr w = (Ok (), w'))) \<and>
    (\<forall>n. r = Exited n \<longrightarrow>
       n \<in> {0, 2} \<and> s' = s \<or>
       n = 1 \<and> (\<exists>b e. ConfigureOTel T (op_telemetry s) = (Ok (b, Some e), op_telemetry s')) \<and> pending s' = [] \<or>
       n = 1 \<and> (\<exists>tp mp. pending s' = [TracerProvider_Shutdown tp, MeterProvider_Shutdown mp]))"
proof -
  have main: "operator_main L T M ctx_err args = cli_bind (parse_or_exit (operator_flags M) args)
      (\<lambda>fs. cli_bind (configure_telemetry T) (\<lambda>_. operate L T M ctx_err fs))"
    by (simp add: operator_main_def operate_def)
  have flags: "parse_or_exit (operator_flags M) args s = Some (q, s0) \<Longrightarrow>
      s0 = s \<and> (\<forall>n. q = Exited n \<longrightarrow> n \<in> {0, 2}) \<and> (\<forall>p. q \<noteq> Crashed p)" for q s0
    by (auto simp: parse_or_exit_def cli_ret_def os_Exit_def split: flag_result.splits)
  have tel: "configure_telemetry T s = Some (Exited n, s1) \<Longrightarrow>
      n = 1 \<and> (\<exists>b e. ConfigureOTel T (op_telemetry s) = (Ok (b, Some e), op_telemetry s1)) \<and> pending s1 = []"
    "configure_telemetry T s = Some (Returned u, s1) \<Longrightarrow>
      \<exists>tp mp. pending s1 = [TracerProvider_Shutdown tp, MeterProvider_Shutdown mp]" for n u s1
    using ConfigureOTel_result [of T "op_telemetry s"]
    by (fastforce simp: configure_telemetry_def pending_def split: prod.splits outcome.splits option.splits)+
  show ?thesis
  proof (intro conjI allI impI)
    fix u assume "r = Returned u"
    with run show "pending s' = []" "\<exists>mgr w w'. mgr_Start M mgr w = (Ok (), w')"
      by (auto simp: main cli_bind_Returned dest: operate_end(1))
  next
    fix n assume r: "r = Exited n"
    with run consider "parse_or_exit (operator_flags M) args s = Some (Exited n, s')"
      | "configure_telemetry T s = Some (Exited n, s')"
      | fs s1 where "configure_telemetry T s = Some (Returned (), s1)" "operate L T M ctx_err fs s1 = Some (r, s')"
      by (auto simp: main cli_bind_Some_iff dest: flags)
    then show "n \<in> {0, 2} \<and> s' = s \<or>
       n = 1 \<and> (\<exists>b e. ConfigureOTel T (op_telemetry s) = (Ok (b, Some e), op_telemetry s')) \<and> pending s' = [] \<or>
       n = 1 \<and> (\<exists>tp mp. pending s' = [TracerProvider_Shutdown tp, MeterProvider_Shutdown mp])"
      by cases (use r flags tel operate_end(2) in \<open>fastforce+\<close>)
  qed
qed



section \<open>The operator at work\<close>

lemma init_runtime_Returned:
  assumes "init_runtime L ctx_err s = Some (Returned (rt, api), s')"
  obtains c w where "NewRuntime L ctx_err [] (op_config s, op_world s) = Some (Ok (rt, api), c, w)"
    and "s' = set_op_world w (s\<lparr>op_config := c\<rparr>)"
  using assms by (auto simp: init_runtime_def split: option.splits prod.splits outcome.splits)

text \<open>
  C30: When the operator ran and ended without error, it ran a well-formed runtime for the local
  environment. Its manager got a client of the cluster that is traced, and the options of the flags;
  without \<open>enable-http2\<close> every server speaks HTTP/1.1 only. The controller that was registered uses that
  runtime and sees a resource again only when its generation changed, checks for health and readiness
  were there before the manager started, and after its end the tracer provider was shut down first.
\<close>

theorem operator_runs:
  assumes lib: "validator_sound (rl_config L)" and run: "operator_main L T M ctx_err args s = Some (Returned u, s')"
  shows "\<exists>fs rt api c mgr r w1 w2 w3 w4 w5 w6 tp mp.
    parse_flags (operator_flags M) [] args = Parsed fs \<and>
    runtime_ok L rt api \<and> Environment (rt_operatorContext rt) = EnvironmentLocal \<and>
    ctrl_NewManager M (config_Wrap M (otelhttp_NewTransport M) c) (operator_options fs) w1 = (Ok mgr, w2) \<and>
    (\<not> bool_flag ''enable-http2'' fs \<longrightarrow>
       (\<forall>tls. NextProtos (fold (\<lambda>f c. f c) (mo_MetricsTLSOpts (operator_options fs)) tls) = [''http/1.1''] \<and>
              NextProtos (fold (\<lambda>f c. f c) (mo_WebhookTLSOpts (operator_options fs)) tls) = [''http/1.1''])) \<and>
    ctrl_Complete M mgr ''MaskinportenClient'' (GenerationChangedPredicate M) r api w2 = (Ok (), w3) \<and> rc_runtime r = rt \<and>
    mgr_AddHealthzCheck M mgr ''healthz'' w3 = (Ok (), w4) \<and> mgr_AddReadyzCheck M mgr ''readyz'' w4 = (Ok (), w5) \<and>
    mgr_Start M mgr w5 = (Ok (), w6) \<and>
    op_world s' = snd (provider_Shutdown T (MeterProvider_Shutdown mp) (snd (provider_Shutdown T (TracerProvider_Shutdown tp) w6)))"
proof -
  from run obtain fs s1 where fs: "parse_flags (operator_flags M) [] args = Parsed fs"
    and tel: "configure_telemetry T s = Some (Returned (), s1)" and op: "operate L T M ctx_err fs s1 = Some (Returned u, s')"
    by (auto simp: operator_main_def operate_def cli_bind_Returned parse_or_exit_Returned)
  from op obtain s2 rt api s3 s4 where span: "start_span ''Main'' s1 = Some (Returned (), s2)"
    and init: "init_runtime L ctx_err s2 = Some (Returned (rt, api), s3)"
    and mgr: "run_manager L M fs rt api s3 = Some (Returned u, s4)" and s': "s' = shutdown_telemetry T s4"
    by (auto simp: operate_def cli_bind_Returned deferring_Some_iff split: prod.splits)
  from init obtain c w where "NewRuntime L ctx_err [] (op_config s2, op_world s2) = Some (Ok (rt, api), c, w)"
    by (rule init_runtime_Returned)
  with NewRuntime_ok [OF lib this] have rt: "runtime_ok L rt api" "Environment (rt_operatorContext rt) = EnvironmentLocal"
    by simp_all
  from tel ConfigureOTel_result(3) [of T "op_telemetry s"]
  obtain tp mp where "pending s1 = [TracerProvider_Shutdown tp, MeterProvider_Shutdown mp]"
    by (fastforce simp: configure_telemetry_def pending_def split: prod.splits outcome.splits option.splits)
  moreover have "pending s4 = pending s1"
    using process_keepsD [OF pending_keeps(3) span] process_keepsD [OF pending_keeps(5) init]
      process_keepsD [OF run_manager_pending mgr] by simp
  ultimately have world: "op_world s' =
      snd (provider_Shutdown T (MeterProvider_Shutdown mp) (snd (provider_Shutdown T (TracerProvider_Shutdown tp) (op_world s4))))"
    by (simp add: s' shutdown_telemetry_def otel_shutdown_def pending_def op_world_def split: prod.splits)
  have tls: "\<not> bool_flag ''enable-http2'' fs \<Longrightarrow>
       NextProtos (fold (\<lambda>f c. f c) (mo_MetricsTLSOpts (operator_options fs)) t) = [''http/1.1''] \<and>
       NextProtos (fold (\<lambda>f c. f c) (mo_WebhookTLSOpts (operator_options fs)) t) = [''http/1.1'']" for t
    by (simp add: operator_options_def Let_def disableHTTP2_def)
  from run_manager_Returned [OF mgr] show ?thesis
    using fs rt tls world
    by (simp add: WrapTransport_def SetupWithManager_def NewMaskinportenClientReconciler_def) (metis reconciler.select_convs(1))
qed



section \<open>Samples\<close>

text \<open>
  Telemetry that remembers in the world, a list of numbers, which provider was shut down; a cluster
  where everything works, and one whose manager ends with an error.
\<close>

definition counting_otel :: "(nat, unit, nat list) otel_lib" where
  "counting_otel = \<lparr>resource_New = (\<lambda>n. ret ()), otlptracegrpc_New = ret 1, otlpmetricgrpc_New = fail (ErrExternal ''no exporter''),
     provider_Shutdown = (\<lambda>fn w. case fn of TracerProvider_Shutdown p \<Rightarrow> (Some (ErrExternal ''flush''), w @ [pv_exporter p])
       | MeterProvider_Shutdown p \<Rightarrow> (None, w @ [pv_exporter p]))\<rparr>"

definition no_telemetry :: "'w \<Rightarrow> ('e, 'r, 'w) telemetry" where
  "no_telemetry w = \<lparr>textMapPropagator = [], tracerProvider = None, meterProvider = None, shutdownFuncs = [], otel_world = w\<rparr>"

lemma telemetry_shut_down_once_witness:
  "\<exists>err t'. ConfigureOTel counting_otel (no_telemetry []) = (Ok (True, Some (ErrJoin (ErrExternal ''no exporter'' # err))), t') \<and>
     err \<noteq> [] \<and> length (otel_world t') = 1 \<and> shutdownFuncs t' = []"
  using conjunct2 [OF telemetry_shut_down_once [of counting_otel "no_telemetry []"], rule_format,
    of "()" "[]" 1 "[]" "ErrExternal ''no exporter''" "[]"]
  by (auto simp: counting_otel_def no_telemetry_def in_otel_world_def)

definition sample_otel :: "(unit, unit, script_world) otel_lib" where
  "sample_otel = \<lparr>resource_New = (\<lambda>n. ret ()), otlptracegrpc_New = ret (), otlpmetricgrpc_New = ret (),
     provider_Shutdown = (\<lambda>fn w. (None, w))\<rparr>"

definition sample_manager :: "maskinporten_client \<Rightarrow> (unit, unit, unit, script_world) manager_lib" where
  "sample_manager inst = \<lparr>zap_flags = [''zap-devel'' \<mapsto> BoolFlag], ctrl_GetConfig = ret (), config_Wrap = (\<lambda>f c. c),
     otelhttp_NewTransport = id, ctrl_NewManager = (\<lambda>c opts. ret ()), mgr_GetClient = (\<lambda>m. sample_k8s inst []),
     rand_NewPCG = (\<lambda>n w. (0, w)),
     GenerationChangedPredicate = (\<lambda>old new. crd_Generation old \<noteq> crd_Generation new),
     ctrl_Complete = (\<lambda>m k p r st. ret ()), mgr_AddHealthzCheck = (\<lambda>m n. ret ()), mgr_AddReadyzCheck = (\<lambda>m n. ret ()),
     mgr_Start = (\<lambda>m. ret ())\<rparr>"

definition sample_resource :: maskinporten_client where
  "sample_resource = \<lparr>crd_Name = ''local-app'', crd_Namespace = ''default'', crd_Generation = 1, crd_DeletionTimestamp = None,
     crd_Finalizers = [], crd_Scopes = Some [], crd_Status = \<lparr>st_ClientId = [], st_Authority = [], st_KeyIds = None,
     st_LastSynced = None, st_State = [], st_Reason = [], st_ObservedGeneration = 0, st_LastActions = None\<rparr>\<rparr>"

definition operator_start :: "(unit, unit, unit, script_world) operator_state" where
  "operator_start = \<lparr>op_config = \<lparr>cwd = [''repo''], koanf = ()\<rparr>, op_telemetry = no_telemetry (sample_start, []), op_spans = []\<rparr>"

lemma sample_init:
  assumes "op_config s = \<lparr>cwd = [''repo''], koanf = ()\<rparr>" and "op_world s = (sample_start, [])"
  shows "\<exists>rt api w. init_runtime sample_runtime_libs None s =
    Some (Returned (rt, api), set_op_world w (s\<lparr>op_config := \<lparr>cwd = [''repo''], koanf = ()\<rparr>\<rparr>))"
  using sample_runtime_run [of "[]"] assms by (auto simp del: split_paired_Ex simp: init_runtime_def)

lemma sample_flags: "parse_flags (operator_flags (sample_manager inst)) [] [''--leader-elect''] = Parsed [(''leader-elect'', FlagBool True)]"
  by (simp add: operator_flags_def sample_manager_def read_flag_def split_flag_def ParseBool_def)

lemma sample_main:
  assumes M: "M = (sample_manager inst)\<lparr>mgr_Start := (\<lambda>m. start)\<rparr>" and start: "\<And>w. start w = (r, w)"
  shows "\<exists>s'. operator_main sample_runtime_libs sample_otel M None [''--leader-elect''] operator_start =
     Some (case r of Ok _ \<Rightarrow> Returned () | Err _ \<Rightarrow> Exited 1 | Panic p \<Rightarrow> Crashed p, s')"
proof -
  have flags: "parse_or_exit (operator_flags M) [''--leader-elect''] operator_start =
      Some (Returned [(''leader-elect'', FlagBool True)], operator_start)"
    using sample_flags [of inst] by (simp add: M parse_or_exit_def operator_flags_def cli_ret_def)
  obtain s1 where tel: "configure_telemetry sample_otel operator_start = Some (Returned (), s1)"
    and s1: "op_config s1 = \<lparr>cwd = [''repo''], koanf = ()\<rparr>" "op_world s1 = (sample_start, [])"
    by (simp add: configure_telemetry_def otel_simps sample_otel_def operator_start_def no_telemetry_def op_world_def)
  let ?s2 = "s1\<lparr>op_spans := ''Main'' # op_spans s1\<rparr>"
  obtain rt api s3 where init: "init_runtime sample_runtime_libs None ?s2 = Some (Returned (rt, api), s3)"
    using sample_init [of ?s2] s1 by fastforce
  obtain s4 where "run_manager sample_runtime_libs M [(''leader-elect'', FlagBool True)] rt api s3 =
      Some (case r of Ok _ \<Rightarrow> Returned () | Err _ \<Rightarrow> Exited 1 | Panic p \<Rightarrow> Crashed p, s4)"
    by (cases r) (simp_all add: run_manager_def cli_bind_def op_call_def M sample_manager_def SetupWithManager_def start)
  with flags tel init show ?thesis
    by (cases r) (simp_all add: operator_main_def cli_bind_def start_span_def deferring_def)
qed


text \<open>A manager that ends with an error leaves the telemetry as it is.\<close>

lemma operator_exit_witness:
  "\<exists>s'. operator_main sample_runtime_libs sample_otel
      ((sample_manager sample_resource)\<lparr>mgr_Start := (\<lambda>m. fail (ErrExternal ''lost leader election''))\<rparr>) None [''--leader-elect'']
      operator_start = Some (Exited 1, s') \<and> length (pending s') = 2"
proof -
  let ?M = "(sample_manager sample_resource)\<lparr>mgr_Start := (\<lambda>m. fail (ErrExternal ''lost leader election''))\<rparr>"
  have "fail (ErrExternal ''lost leader election'') w = (Err (ErrExternal ''lost leader election'') :: unit outcome, w)"
    for w :: script_world by simp
  from sample_main [OF refl this, of sample_resource] obtain s'
    where run: "operator_main sample_runtime_libs sample_otel ?M None [''--leader-elect''] operator_start = Some (Exited 1, s')"
    unfolding outcome.case by blast
  have "fst (ConfigureOTel sample_otel (op_telemetry operator_start)) = Ok (True, None)"
    by (simp add: otel_simps sample_otel_def operator_start_def no_telemetry_def)
  with conjunct2 [OF operator_exit [OF run], rule_format, of 1] have "length (pending s') = 2" by auto
  with run show ?thesis by blast
qed

lemma operator_runs_witness:
  "\<exists>rt api. runtime_ok sample_runtime_libs (rt :: script_world runtime) api \<and>
     Environment (rt_operatorContext rt) = EnvironmentLocal"
proof -
  have "sample_manager inst = (sample_manager inst)\<lparr>mgr_Start := (\<lambda>m. ret ())\<rparr>" for inst
    by (simp add: sample_manager_def)
  from sample_main [OF this ret_apply, of sample_resource] obtain s' where run: "operator_main sample_runtime_libs sample_otel
      (sample_manager sample_resource) None [''--leader-elect''] operator_start = Some (Returned (), s')"
    unfolding outcome.case by blast
  have "validator_sound (rl_config sample_runtime_libs)"
    by (simp add: validator_sound_def sample_libs_def sample_runtime_libs_def)
  from operator_runs [OF this run] show ?thesis by blast
qed

end
