(* ===== verification/DeepCopy.thy ===== *)
theory DeepCopy
  imports Resources
begin

text \<open>
  The generated copies of the resource types, \<open>api/v1alpha1/zz_generated.deepcopy.go\<close>, on an
  explicit memory, because what they are for is that a copy shares no array with its original. The
  memory is a list of objects, an address its index, and allocation appends. A slice is \<open>nil\<close> or a
  window on an array of the memory.

  \<open>in\<close> and \<open>out\<close> are different objects. A \<open>DeepCopyInto\<close> never reads \<open>out\<close>, so it is modelled by the
  struct it writes there. The copies of metadata and of points in time belong to Kubernetes' own
  package and are \<open>meta_lib\<close>.
\<close>


section \<open>Memory\<close>

datatype go_slice = NilSlice | Slice (slice_array: nat) (slice_start: nat) (slice_len: nat)

record type_meta =
  tm_Kind :: string
  tm_APIVersion :: string

record spec_struct =
  sp_Scopes :: go_slice

record status_struct =
  ss_ClientId :: string
  ss_Authority :: string
  ss_KeyIds :: go_slice
  ss_LastSynced :: "nat option"
  ss_State :: string
  ss_Reason :: string
  ss_ObservedGeneration :: int
  ss_LastActions :: go_slice

record 'm client_struct =
  cl_TypeMeta :: type_meta
  cl_ObjectMeta :: 'm
  cl_Spec :: spec_struct
  cl_Status :: status_struct

record 'l list_struct =
  ls_TypeMeta :: type_meta
  ls_ListMeta :: 'l
  ls_Items :: go_slice

text \<open>A pointer to a client is an array of clients and an index; \<open>new\<close> makes an array of one.\<close>

datatype ('m, 'l, 'x) mem_object =
    StringArray "string list"
  | TimeObject instant
  | ClientArray "'m client_struct list"
  | ListObject "'l list_struct"
  | SpecObject spec_struct
  | StatusObject status_struct
  | LibObject 'x

type_synonym ('m, 'l, 'x) memory = "('m, 'l, 'x) mem_object list"

definition window :: "nat \<Rightarrow> nat \<Rightarrow> 'a list \<Rightarrow> 'a list" where
  "window start n xs = take n (drop start xs)"

lemma window_all [simp]: "window 0 (length xs) xs = xs"
  by (simp add: window_def)

lemma length_window: "start + n \<le> length xs \<Longrightarrow> length (window start n xs) = n"
  by (simp add: window_def)

lemma window_nth: "i < n \<Longrightarrow> start + n \<le> length xs \<Longrightarrow> window start n xs ! i = xs ! (start + i)"
  by (simp add: window_def)

fun string_array :: "('m, 'l, 'x) mem_object \<Rightarrow> string list" where
  "string_array (StringArray xs) = xs"
| "string_array _ = []"

fun client_array :: "('m, 'l, 'x) mem_object \<Rightarrow> 'm client_struct list" where
  "client_array (ClientArray cs) = cs"
| "client_array _ = []"

fun time_object :: "('m, 'l, 'x) mem_object \<Rightarrow> instant" where
  "time_object (TimeObject t) = t"
| "time_object _ = 0"


section \<open>What a deep copy is\<close>

text \<open>
  What callers of a copy rely on. The copy \<open>q\<close> in the memory \<open>h'\<close> stands for what \<open>p\<close> stood for in \<open>h\<close>, and
  the old memory is as it was. Later, writing to what was there before the copying does not change the
  copy, and writing to what the copying allocated does not change the original.
\<close>

definition copied_apart :: "('o list \<Rightarrow> 'p \<Rightarrow> 'v) \<Rightarrow> 'o list \<Rightarrow> 'p \<Rightarrow> 'o list \<Rightarrow> 'p \<Rightarrow> bool" where
  "copied_apart view h p h' q \<longleftrightarrow>
     view h' q = view h p \<and> take (length h) h' = h \<and>
     (\<forall>h''. length h' \<le> length h'' \<longrightarrow>
        ((\<forall>x<length h. h'' ! x = h' ! x) \<longrightarrow> view h'' p = view h p) \<and>
        ((\<forall>x. length h \<le> x \<and> x < length h' \<longrightarrow> h'' ! x = h' ! x) \<longrightarrow> view h'' q = view h p))"

text \<open>
  A copy of a value makes a value and a memory. \<open>reach\<close> are the addresses that can be reached from a
  value, \<open>view\<close> is what it stands for once every address is followed, and \<open>ok\<close> says that its
  addresses lead to objects of the right kind. A deep copy keeps the view, reaches new objects only,
  and leaves the memory as it was, apart from what it appends.
\<close>

locale deep_copy =
  fixes copy :: "'a \<Rightarrow> 'o list \<Rightarrow> 'a \<times> 'o list"
    and reach :: "'o list \<Rightarrow> 'a \<Rightarrow> nat set"
    and view :: "'o list \<Rightarrow> 'a \<Rightarrow> 'v"
    and ok :: "'o list \<Rightarrow> 'a \<Rightarrow> bool"
  assumes copy_appends: "ok h x \<Longrightarrow> copy x h = (y, h') \<Longrightarrow> \<exists>new. h' = h @ new"
    and copy_ok: "ok h x \<Longrightarrow> copy x h = (y, h') \<Longrightarrow> ok h' y"
    and copy_view: "ok h x \<Longrightarrow> copy x h = (y, h') \<Longrightarrow> view h' y = view h x"
    and copy_new: "ok h x \<Longrightarrow> copy x h = (y, h') \<Longrightarrow> reach h' y \<subseteq> {length h..<length h'}"
    and reach_present: "ok h x \<Longrightarrow> reach h x \<subseteq> {..<length h}"
    and same_elsewhere: "ok h x \<Longrightarrow> length h \<le> length h' \<Longrightarrow> (\<And>a. a \<in> reach h x \<Longrightarrow> h' ! a = h ! a) \<Longrightarrow>
      ok h' x \<and> reach h' x = reach h x \<and> view h' x = view h x"
begin

lemma appended:
  assumes "ok h x"
  shows "ok (h @ new) x" and "reach (h @ new) x = reach h x" and "view (h @ new) x = view h x"
proof -
  have "(h @ new) ! a = h ! a" if "a \<in> reach h x" for a
    using that reach_present [OF assms] by (auto simp: nth_append)
  with same_elsewhere [OF assms, of "h @ new"] show "ok (h @ new) x"
    and "reach (h @ new) x = reach h x" and "view (h @ new) x = view h x" by auto
qed

lemma updated:
  assumes "ok h x" and "a \<notin> reach h x"
  shows "ok (h[a := obj]) x" and "reach (h[a := obj]) x = reach h x" and "view (h[a := obj]) x = view h x"
proof -
  have "h[a := obj] ! b = h ! b" if "b \<in> reach h x" for b
    using that assms(2) by (cases "a = b") simp_all
  with same_elsewhere [OF assms(1), of "h[a := obj]"] show "ok (h[a := obj]) x"
    and "reach (h[a := obj]) x = reach h x" and "view (h[a := obj]) x = view h x" by auto
qed

text \<open>A pointer that may be \<open>nil\<close> is copied deeply if what it points to is.\<close>

lemma deep_copy_option:
  "deep_copy
     (\<lambda>p h. case p of None \<Rightarrow> (None, h) | Some x \<Rightarrow> (case copy x h of (y, h') \<Rightarrow> (Some y, h')))
     (\<lambda>h p. case p of None \<Rightarrow> {} | Some x \<Rightarrow> reach h x)
     (\<lambda>h p. map_option (view h) p)
     (\<lambda>h p. case p of None \<Rightarrow> True | Some x \<Rightarrow> ok h x)"
proof (unfold_locales, goal_cases)
  case (1 h p y h')
  then show ?case using copy_appends by (auto split: option.splits prod.splits)
next
  case (2 h p y h')
  then show ?case using copy_ok by (auto split: option.splits prod.splits)
next
  case (3 h p y h')
  then show ?case using copy_view by (auto split: option.splits prod.splits)
next
  case (4 h p y h')
  then show ?case by (auto split: option.splits prod.splits dest!: copy_new)
next
  case (5 h p)
  then show ?case using reach_present by (auto split: option.splits)
next
  case (6 h p h')
  then show ?case using same_elsewhere [of h _ h'] by (cases p) auto
qed

text \<open>An object is allocated, then something is copied into it.\<close>

lemma copied_into_new:
  assumes "ok h x" and "copy x (h @ [fresh]) = (y, h1)"
  shows "ok (h1[length h := obj]) y" and "view (h1[length h := obj]) y = view h x"
    and "reach (h1[length h := obj]) y \<subseteq> {length h<..<length h1}"
    and "\<exists>new. h1[length h := obj] = h @ obj # new"
proof -
  have x: "ok (h @ [fresh]) x" and vx: "view (h @ [fresh]) x = view h x" using appended [OF assms(1)] by simp_all
  note y = copy_ok [OF x assms(2)] copy_view [OF x assms(2)] copy_new [OF x assms(2)]
  then have "length h \<notin> reach h1 y" by auto
  note upd = updated [OF y(1) this, of obj]
  show "ok (h1[length h := obj]) y" by (rule upd)
  show "view (h1[length h := obj]) y = view h x" using upd(3) y(2) vx by simp
  show "reach (h1[length h := obj]) y \<subseteq> {length h<..<length h1}" using upd(2) y(3) by auto
  show "\<exists>new. h1[length h := obj] = h @ obj # new"
    using copy_appends [OF x assms(2)] by (auto simp: list_update_append)
qed

lemma new_independent:
  assumes "ok h x" and "copy x (h @ [fresh]) = (y, h1)" and h': "h' = h1[length h := obj]" and "length h' \<le> length h''"
  shows "(\<And>a. a < length h \<Longrightarrow> h'' ! a = h' ! a) \<Longrightarrow> view h'' x = view h x"
    and "(\<And>a. length h \<le> a \<Longrightarrow> a < length h' \<Longrightarrow> h'' ! a = h' ! a) \<Longrightarrow> view h'' y = view h x"
proof -
  note new = copied_into_new [OF assms(1,2), of obj]
  obtain more where more: "h' = h @ obj # more" using new(4) h' by blast
  show "view h'' x = view h x" if "\<And>a. a < length h \<Longrightarrow> h'' ! a = h' ! a"
    using same_elsewhere [OF assms(1), of h''] that reach_present [OF assms(1)] assms(4)
    by (auto simp: more nth_append subset_iff)
  have "h'' ! a = h' ! a" if "\<And>a. length h \<le> a \<Longrightarrow> a < length h' \<Longrightarrow> h'' ! a = h' ! a" "a \<in> reach h' y" for a
    using that new(3) by (auto simp: h' subset_iff)
  with same_elsewhere [OF new(1) [folded h'] assms(4)] new(2) [folded h']
  show "view h'' y = view h x" if "\<And>a. length h \<le> a \<Longrightarrow> a < length h' \<Longrightarrow> h'' ! a = h' ! a"
    using that by simp
qed

lemma apart:
  assumes "ok h x" and copy: "copy x (h @ [fresh]) = (y, h1)" and h': "h' = h1[length h := obj]"
    and p: "\<And>h''. h'' ! a = h ! a \<Longrightarrow> at h'' p = x" and a: "a < length h"
    and q: "\<And>h''. h'' ! length h = obj \<Longrightarrow> at h'' q = y"
  shows "copied_apart (\<lambda>h p. view h (at h p)) h p h' q"
proof -
  note new = copied_into_new [OF assms(1) copy, of obj, folded h']
  obtain more where more: "h' = h @ obj # more" using new(4) by blast
  note indep = new_independent [OF assms(1) copy h']
  have "view h'' (at h'' p) = view h x" if "length h' \<le> length h''" "\<forall>x<length h. h'' ! x = h' ! x" for h''
    using indep(1) [OF that(1)] that(2) p [of h''] a by (simp add: more nth_append)
  moreover have "view h'' (at h'' q) = view h x"
    if "length h' \<le> length h''" "\<forall>x. length h \<le> x \<and> x < length h' \<longrightarrow> h'' ! x = h' ! x" for h''
    using indep(2) [OF that(1)] that(2) q [of h''] by (simp add: more)
  moreover have "view h' (at h' q) = view h x" using new(2) q [of h'] by (simp add: more)
  ultimately show ?thesis using p [of h] by (simp add: copied_apart_def more)
qed

end

text \<open>A law that a parameter has to satisfy moves into \<open>ok\<close>.\<close>

lemma deep_copy_if:
  assumes "law \<Longrightarrow> deep_copy copy reach view ok"
  shows "deep_copy copy reach view (\<lambda>h x. law \<and> ok h x)"
proof (cases law)
  case True
  with assms show ?thesis by simp
next
  case False
  then show ?thesis by unfold_locales auto
qed


section \<open>Structs of two parts\<close>

text \<open>
  The generated code copies a struct field by field: a struct whose fields with addresses are copied
  deeply, one after the other, is copied deeply.
\<close>

locale struct_copy = A: deep_copy copyA reachA viewA okA + B: deep_copy copyB reachB viewB okB
  for copyA :: "'a \<Rightarrow> 'o list \<Rightarrow> 'a \<times> 'o list" and reachA :: "'o list \<Rightarrow> 'a \<Rightarrow> nat set"
    and viewA :: "'o list \<Rightarrow> 'a \<Rightarrow> 'va" and okA :: "'o list \<Rightarrow> 'a \<Rightarrow> bool"
    and copyB :: "'b \<Rightarrow> 'o list \<Rightarrow> 'b \<times> 'o list" and reachB :: "'o list \<Rightarrow> 'b \<Rightarrow> nat set"
    and viewB :: "'o list \<Rightarrow> 'b \<Rightarrow> 'vb" and okB :: "'o list \<Rightarrow> 'b \<Rightarrow> bool" +
  fixes partA :: "'s \<Rightarrow> 'a" and partB :: "'s \<Rightarrow> 'b" and replace :: "'a \<Rightarrow> 'b \<Rightarrow> 's \<Rightarrow> 's"
    and assemble :: "'va \<Rightarrow> 'vb \<Rightarrow> 's \<Rightarrow> 'v"
  assumes part_replace: "partA (replace a b s) = a" "partB (replace a b s) = b"
    and assemble_replace: "assemble va vb (replace a b s) = assemble va vb s"
begin

lemma deep_copy_struct:
  "deep_copy
     (\<lambda>s h. case copyA (partA s) h of (a, h1) \<Rightarrow> (case copyB (partB s) h1 of (b, h2) \<Rightarrow> (replace a b s, h2)))
     (\<lambda>h s. reachA h (partA s) \<union> reachB h (partB s))
     (\<lambda>h s. assemble (viewA h (partA s)) (viewB h (partB s)) s)
     (\<lambda>h s. okA h (partA s) \<and> okB h (partB s))"
proof -
  have two: "\<exists>newA newB. h' = h @ newA @ newB \<and> okA h' a \<and> okB h' b \<and>
      viewA h' a = viewA h (partA s) \<and> viewB h' b = viewB h (partB s) \<and>
      reachA h' a \<subseteq> {length h..<length h'} \<and> reachB h' b \<subseteq> {length h..<length h'}"
    if ok: "okA h (partA s)" "okB h (partB s)"
      and A: "copyA (partA s) h = (a, h1)" and B: "copyB (partB s) h1 = (b, h')"
    for s h a h1 b h'
  proof -
    obtain newA where h1: "h1 = h @ newA" using A.copy_appends [OF ok(1) A] by auto
    have okB: "okB h1 (partB s)" and vB: "viewB h1 (partB s) = viewB h (partB s)"
      using B.appended [OF ok(2)] h1 by simp_all
    obtain newB where h': "h' = h1 @ newB" using B.copy_appends [OF okB B] by auto
    note okA = A.copy_ok [OF ok(1) A]
    show ?thesis
      using h1 h' A.appended [OF okA, of newB] A.copy_view [OF ok(1) A] A.copy_new [OF ok(1) A]
        B.copy_ok [OF okB B] B.copy_view [OF okB B] B.copy_new [OF okB B] vB
      by auto
  qed
  show ?thesis
  proof (unfold_locales, goal_cases)
    case (1 h s y h')
    then show ?case by (auto split: prod.splits dest: two)
  next
    case (2 h s y h')
    then show ?case by (auto split: prod.splits simp: part_replace dest: two)
  next
    case (3 h s y h')
    then show ?case by (auto split: prod.splits simp: part_replace assemble_replace dest: two)
  next
    case (4 h s y h')
    then obtain a h1 b where "copyA (partA s) h = (a, h1)" "copyB (partB s) h1 = (b, h')" "y = replace a b s"
      by (auto split: prod.splits)
    with 4 show ?case using two [of h s a h1 b h'] by (simp add: part_replace)
  next
    case (5 h s)
    then show ?case using A.reach_present B.reach_present by blast
  next
    case (6 h s h')
    then show ?case using A.same_elsewhere [of h "partA s" h'] B.same_elsewhere [of h "partB s" h'] by auto
  qed
qed

end

sublocale struct_copy \<subseteq> struct: deep_copy
  "\<lambda>s h. case copyA (partA s) h of (a, h1) \<Rightarrow> (case copyB (partB s) h1 of (b, h2) \<Rightarrow> (replace a b s, h2))"
  "\<lambda>h s. reachA h (partA s) \<union> reachB h (partB s)"
  "\<lambda>h s. assemble (viewA h (partA s)) (viewB h (partB s)) s"
  "\<lambda>h s. okA h (partA s) \<and> okB h (partB s)"
  by (rule deep_copy_struct)


section \<open>The copies\<close>

record ('m, 'l, 'x) meta_lib =
  om_zero :: 'm
  lm_zero :: 'l
  om_DeepCopyInto :: "'m \<Rightarrow> ('m, 'l, 'x) memory \<Rightarrow> 'm \<times> ('m, 'l, 'x) memory"
  lm_DeepCopyInto :: "'l \<Rightarrow> ('m, 'l, 'x) memory \<Rightarrow> 'l \<times> ('m, 'l, 'x) memory"
  time_DeepCopy :: "nat \<Rightarrow> ('m, 'l, 'x) memory \<Rightarrow> nat \<times> ('m, 'l, 'x) memory"

text \<open>\<open>make([]string, len(*in))\<close> and \<open>copy\<close>, which moves as many elements as both slices have.\<close>

definition slice_strings :: "('m, 'l, 'x) memory \<Rightarrow> go_slice \<Rightarrow> string list" where
  "slice_strings h s = (case s of NilSlice \<Rightarrow> [] | Slice a start n \<Rightarrow> window start n (string_array (h ! a)))"

definition make_strings :: "nat \<Rightarrow> ('m, 'l, 'x) memory \<Rightarrow> go_slice \<times> ('m, 'l, 'x) memory" where
  "make_strings n h = (Slice (length h) 0 n, h @ [StringArray (replicate n [])])"

fun copy_elems :: "go_slice \<Rightarrow> string list \<Rightarrow> ('m, 'l, 'x) memory \<Rightarrow> ('m, 'l, 'x) memory" where
  "copy_elems NilSlice xs h = h"
| "copy_elems (Slice a start n) xs h =
     (let k = min n (length xs); old = string_array (h ! a)
      in h[a := StringArray (take start old @ take k xs @ drop (start + k) old)])"

fun copy_string_slice :: "go_slice \<Rightarrow> ('m, 'l, 'x) memory \<Rightarrow> go_slice \<times> ('m, 'l, 'x) memory" where
  "copy_string_slice NilSlice h = (NilSlice, h)"
| "copy_string_slice (Slice a start n) h =
     (case make_strings n h of (out, h1) \<Rightarrow> (out, copy_elems out (slice_strings h1 (Slice a start n)) h1))"

definition Spec_DeepCopyInto ::
  "spec_struct \<Rightarrow> ('m, 'l, 'x) memory \<Rightarrow> spec_struct \<times> ('m, 'l, 'x) memory"
where
  "Spec_DeepCopyInto s h = (case copy_string_slice (sp_Scopes s) h of (scopes, h1) \<Rightarrow> (s\<lparr>sp_Scopes := scopes\<rparr>, h1))"

fun copy_time :: "('m, 'l, 'x) meta_lib \<Rightarrow> nat option \<Rightarrow> ('m, 'l, 'x) memory \<Rightarrow> nat option \<times> ('m, 'l, 'x) memory" where
  "copy_time L None h = (None, h)"
| "copy_time L (Some t) h = (case time_DeepCopy L t h of (t', h1) \<Rightarrow> (Some t', h1))"

definition Status_DeepCopyInto ::
  "('m, 'l, 'x) meta_lib \<Rightarrow> status_struct \<Rightarrow> ('m, 'l, 'x) memory \<Rightarrow> status_struct \<times> ('m, 'l, 'x) memory"
where
  "Status_DeepCopyInto L s h =
     (case copy_string_slice (ss_KeyIds s) h of (keyIds, h1) \<Rightarrow>
      case copy_time L (ss_LastSynced s) h1 of (lastSynced, h2) \<Rightarrow>
      case copy_string_slice (ss_LastActions s) h2 of (lastActions, h3) \<Rightarrow>
        (s\<lparr>ss_KeyIds := keyIds, ss_LastSynced := lastSynced, ss_LastActions := lastActions\<rparr>, h3))"

definition Client_DeepCopyInto ::
  "('m, 'l, 'x) meta_lib \<Rightarrow> 'm client_struct \<Rightarrow> ('m, 'l, 'x) memory \<Rightarrow> 'm client_struct \<times> ('m, 'l, 'x) memory"
where
  "Client_DeepCopyInto L c h =
     (case om_DeepCopyInto L (cl_ObjectMeta c) h of (meta, h1) \<Rightarrow>
      case Spec_DeepCopyInto (cl_Spec c) h1 of (spec, h2) \<Rightarrow>
      case Status_DeepCopyInto L (cl_Status c) h2 of (status, h3) \<Rightarrow>
        (c\<lparr>cl_ObjectMeta := meta, cl_Spec := spec, cl_Status := status\<rparr>, h3))"

text \<open>Elements of arrays of clients, read and written by address and index.\<close>

definition client_at :: "('m, 'l, 'x) memory \<Rightarrow> nat \<Rightarrow> nat \<Rightarrow> 'm client_struct" where
  "client_at h a i = client_array (h ! a) ! i"

definition store_client ::
  "nat \<Rightarrow> nat \<Rightarrow> 'm client_struct \<Rightarrow> ('m, 'l, 'x) memory \<Rightarrow> ('m, 'l, 'x) memory"
where
  "store_client a i c h = h[a := ClientArray ((client_array (h ! a))[i := c])]"

definition zero_spec :: spec_struct where
  "zero_spec = \<lparr>sp_Scopes = NilSlice\<rparr>"

definition zero_status :: status_struct where
  "zero_status = \<lparr>ss_ClientId = [], ss_Authority = [], ss_KeyIds = NilSlice, ss_LastSynced = None, ss_State = [],
     ss_Reason = [], ss_ObservedGeneration = 0, ss_LastActions = NilSlice\<rparr>"

definition zero_client :: "'m \<Rightarrow> 'm client_struct" where
  "zero_client zm = \<lparr>cl_TypeMeta = \<lparr>tm_Kind = [], tm_APIVersion = []\<rparr>, cl_ObjectMeta = zm,
     cl_Spec = zero_spec, cl_Status = zero_status\<rparr>"

text \<open>
  The loop over the items of a list: item \<open>i\<close> of the window of \<open>in\<close> is copied into element \<open>i\<close> of
  the array that was made for \<open>out\<close>.
\<close>

definition copy_item ::
  "('m, 'l, 'x) meta_lib \<Rightarrow> nat \<Rightarrow> nat \<Rightarrow> nat \<Rightarrow> nat \<Rightarrow> ('m, 'l, 'x) memory \<Rightarrow> ('m, 'l, 'x) memory"
where
  "copy_item L a start out i h =
     (case Client_DeepCopyInto L (client_at h a (start + i)) h of (c, h1) \<Rightarrow> store_client out i c h1)"

fun copy_items ::
  "('m, 'l, 'x) meta_lib \<Rightarrow> go_slice \<Rightarrow> ('m, 'l, 'x) memory \<Rightarrow> go_slice \<times> ('m, 'l, 'x) memory"
where
  "copy_items L NilSlice h = (NilSlice, h)"
| "copy_items L (Slice a start n) h =
     (Slice (length h) 0 n,
      fold (copy_item L a start (length h)) [0..<n] (h @ [ClientArray (replicate n (zero_client (om_zero L)))]))"

definition List_DeepCopyInto ::
  "('m, 'l, 'x) meta_lib \<Rightarrow> 'l list_struct \<Rightarrow> ('m, 'l, 'x) memory \<Rightarrow> 'l list_struct \<times> ('m, 'l, 'x) memory"
where
  "List_DeepCopyInto L s h =
     (case lm_DeepCopyInto L (ls_ListMeta s) h of (meta, h1) \<Rightarrow>
      case copy_items L (ls_Items s) h1 of (items, h2) \<Rightarrow>
        (s\<lparr>ls_ListMeta := meta, ls_Items := items\<rparr>, h2))"

text \<open>
  \<open>DeepCopy\<close> allocates the object first and copies into it then. A pointer to a spec or a status,
  which may point into a client, is given by what it points to; \<open>None\<close> is \<open>nil\<close>.
\<close>

definition Spec_DeepCopy ::
  "spec_struct option \<Rightarrow> ('m, 'l, 'x) memory \<Rightarrow> nat option \<times> ('m, 'l, 'x) memory"
where
  "Spec_DeepCopy p h = (case p of
       None \<Rightarrow> (None, h)
     | Some s \<Rightarrow> (case Spec_DeepCopyInto s (h @ [SpecObject zero_spec]) of
           (c, h1) \<Rightarrow> (Some (length h), h1[length h := SpecObject c])))"

definition Status_DeepCopy ::
  "('m, 'l, 'x) meta_lib \<Rightarrow> status_struct option \<Rightarrow> ('m, 'l, 'x) memory \<Rightarrow> nat option \<times> ('m, 'l, 'x) memory"
where
  "Status_DeepCopy L p h = (case p of
       None \<Rightarrow> (None, h)
     | Some s \<Rightarrow> (case Status_DeepCopyInto L s (h @ [StatusObject zero_status]) of
           (c, h1) \<Rightarrow> (Some (length h), h1[length h := StatusObject c])))"

definition Client_DeepCopy ::
  "('m, 'l, 'x) meta_lib \<Rightarrow> (nat \<times> nat) option \<Rightarrow> ('m, 'l, 'x) memory \<Rightarrow> (nat \<times> nat) option \<times> ('m, 'l, 'x) memory"
where
  "Client_DeepCopy L p h = (case p of
       None \<Rightarrow> (None, h)
     | Some (a, i) \<Rightarrow>
         (case Client_DeepCopyInto L (client_at h a i) (h @ [ClientArray [zero_client (om_zero L)]]) of
            (c, h1) \<Rightarrow> (Some (length h, 0), store_client (length h) 0 c h1)))"

fun list_object :: "'l list_struct \<Rightarrow> ('m, 'l, 'x) mem_object \<Rightarrow> 'l list_struct" where
  "list_object z (ListObject s) = s"
| "list_object z _ = z"

definition zero_list :: "'l \<Rightarrow> 'l list_struct" where
  "zero_list zl = \<lparr>ls_TypeMeta = \<lparr>tm_Kind = [], tm_APIVersion = []\<rparr>, ls_ListMeta = zl, ls_Items = NilSlice\<rparr>"

definition List_DeepCopy ::
  "('m, 'l, 'x) meta_lib \<Rightarrow> nat option \<Rightarrow> ('m, 'l, 'x) memory \<Rightarrow> nat option \<times> ('m, 'l, 'x) memory"
where
  "List_DeepCopy L p h = (case p of
       None \<Rightarrow> (None, h)
     | Some a \<Rightarrow>
         (case List_DeepCopyInto L (list_object (zero_list (lm_zero L)) (h ! a)) (h @ [ListObject (zero_list (lm_zero L))]) of
            (c, h1) \<Rightarrow> (Some (length h), h1[length h := ListObject c])))"

text \<open>
  The result of \<open>DeepCopyObject\<close> is an interface: \<open>None\<close> is the \<open>nil\<close> interface, which is not the
  same as an interface that holds a \<open>nil\<close> pointer.
\<close>

datatype runtime_object = ClientPointer "(nat \<times> nat) option" | ListPointer "nat option"

definition Client_DeepCopyObject ::
  "('m, 'l, 'x) meta_lib \<Rightarrow> (nat \<times> nat) option \<Rightarrow> ('m, 'l, 'x) memory \<Rightarrow>
   runtime_object option \<times> ('m, 'l, 'x) memory"
where
  "Client_DeepCopyObject L p h = (case Client_DeepCopy L p h of
       (c, h1) \<Rightarrow> (if c \<noteq> None then Some (ClientPointer c) else None, h1))"

definition List_DeepCopyObject ::
  "('m, 'l, 'x) meta_lib \<Rightarrow> nat option \<Rightarrow> ('m, 'l, 'x) memory \<Rightarrow>
   runtime_object option \<times> ('m, 'l, 'x) memory"
where
  "List_DeepCopyObject L p h = (case List_DeepCopy L p h of
       (c, h1) \<Rightarrow> (if c \<noteq> None then Some (ListPointer c) else None, h1))"

end
