(* ===== verification/DeepCopyProperties.thy ===== *)
theory DeepCopyProperties
  imports DeepCopy
begin

text \<open>
  What the values of the resource types stand for, and that each generated copy is a deep one: every
  type is an instance of \<open>deep_copy\<close>, built from the instances of its fields.
\<close>


section \<open>Strings and points in time\<close>

fun slice_reach :: "go_slice \<Rightarrow> nat set" where
  "slice_reach NilSlice = {}"
| "slice_reach (Slice a start n) = {a}"

fun slice_view :: "('m, 'l, 'x) memory \<Rightarrow> go_slice \<Rightarrow> string slice" where
  "slice_view h NilSlice = None"
| "slice_view h (Slice a start n) = Some (window start n (string_array (h ! a)))"

fun slice_ok :: "('m, 'l, 'x) memory \<Rightarrow> go_slice \<Rightarrow> bool" where
  "slice_ok h NilSlice = True"
| "slice_ok h (Slice a start n) =
     (a < length h \<and> (case h ! a of StringArray xs \<Rightarrow> start + n \<le> length xs | _ \<Rightarrow> False))"

lemma copy_string_slice_eq:
  assumes "slice_ok h (Slice a start n)"
  shows "copy_string_slice (Slice a start n) h =
    (Slice (length h) 0 n, h @ [StringArray (window start n (string_array (h ! a)))])"
  using assms
  by (auto simp: make_strings_def slice_strings_def nth_append length_window split: mem_object.splits)

interpretation strs: deep_copy copy_string_slice "\<lambda>h. slice_reach" slice_view slice_ok
proof (unfold_locales, goal_cases)
  case (1 h s s' h') then show ?case by (cases s) (auto simp: copy_string_slice_eq simp del: copy_string_slice.simps(2))
next
  case (2 h s s' h') then show ?case
    by (cases s) (auto simp: copy_string_slice_eq nth_append length_window split: mem_object.splits simp del: copy_string_slice.simps(2))
next
  case (3 h s s' h') then show ?case
    by (cases s) (auto simp: copy_string_slice_eq nth_append length_window window_def split: mem_object.splits simp del: copy_string_slice.simps(2))
next
  case (4 h s s' h') then show ?case by (cases s) (auto simp: copy_string_slice_eq simp del: copy_string_slice.simps(2))
next
  case (5 h s) then show ?case by (cases s) auto
next
  case (6 h s h') then show ?case by (cases s) auto
qed

interpretation nothing: deep_copy "\<lambda>u h. (u, h)" "\<lambda>h u. {}" "\<lambda>h u. u" "\<lambda>h (u :: unit). True"
  by unfold_locales auto

text \<open>
  Kubernetes' copies of metadata and of points in time are deep copies as well; \<open>meta_view\<close> says what
  metadata reaches and stands for.
\<close>

record ('m, 'l, 'x, 'mv, 'lv) meta_view =
  om_reach :: "('m, 'l, 'x) memory \<Rightarrow> 'm \<Rightarrow> nat set"
  om_view :: "('m, 'l, 'x) memory \<Rightarrow> 'm \<Rightarrow> 'mv"
  om_ok :: "('m, 'l, 'x) memory \<Rightarrow> 'm \<Rightarrow> bool"
  lm_reach :: "('m, 'l, 'x) memory \<Rightarrow> 'l \<Rightarrow> nat set"
  lm_view :: "('m, 'l, 'x) memory \<Rightarrow> 'l \<Rightarrow> 'lv"
  lm_ok :: "('m, 'l, 'x) memory \<Rightarrow> 'l \<Rightarrow> bool"

definition time_ok :: "('m, 'l, 'x) memory \<Rightarrow> nat \<Rightarrow> bool" where
  "time_ok h a \<longleftrightarrow> a < length h \<and> (case h ! a of TimeObject t \<Rightarrow> True | _ \<Rightarrow> False)"

definition meta_laws :: "('m, 'l, 'x) meta_lib \<Rightarrow> ('m, 'l, 'x, 'mv, 'lv) meta_view \<Rightarrow> bool" where
  "meta_laws L V \<longleftrightarrow>
     deep_copy (om_DeepCopyInto L) (om_reach V) (om_view V) (om_ok V) \<and>
     deep_copy (lm_DeepCopyInto L) (lm_reach V) (lm_view V) (lm_ok V) \<and>
     deep_copy (time_DeepCopy L) (\<lambda>h a. {a}) (\<lambda>h a. time_object (h ! a)) time_ok"

definition opt_reach :: "nat option \<Rightarrow> nat set" where
  "opt_reach p = (case p of None \<Rightarrow> {} | Some a \<Rightarrow> {a})"

definition opt_time_ok :: "('m, 'l, 'x) memory \<Rightarrow> nat option \<Rightarrow> bool" where
  "opt_time_ok h p = (case p of None \<Rightarrow> True | Some a \<Rightarrow> time_ok h a)"

definition time_view :: "('m, 'l, 'x) memory \<Rightarrow> nat option \<Rightarrow> instant option" where
  "time_view h p = map_option (\<lambda>a. time_object (h ! a)) p"

lemma deep_copy_time:
  assumes "meta_laws L V"
  shows "deep_copy (copy_time L) (\<lambda>h. opt_reach) time_view opt_time_ok"
proof -
  have "copy_time L = (\<lambda>p h. case p of None \<Rightarrow> (None, h)
      | Some x \<Rightarrow> (case time_DeepCopy L x h of (y, h') \<Rightarrow> (Some y, h')))"
    by (intro ext) (simp split: option.splits)
  moreover from assms have "deep_copy (time_DeepCopy L) (\<lambda>h a. {a}) (\<lambda>h a. time_object (h ! a)) time_ok"
    by (simp add: meta_laws_def)
  ultimately show ?thesis
    using deep_copy.deep_copy_option by (auto simp: opt_reach_def [abs_def] time_view_def [abs_def] opt_time_ok_def [abs_def])
qed

interpretation tm: deep_copy "copy_time L" "\<lambda>h. opt_reach" time_view "\<lambda>h p. meta_laws L V \<and> opt_time_ok h p" for L V
  by (rule deep_copy_if) (rule deep_copy_time)


section \<open>Spec and status\<close>

definition spec_reach :: "spec_struct \<Rightarrow> nat set" where
  "spec_reach s = slice_reach (sp_Scopes s)"

definition spec_view :: "('m, 'l, 'x) memory \<Rightarrow> spec_struct \<Rightarrow> string slice" where
  "spec_view h s = slice_view h (sp_Scopes s)"

definition spec_ok :: "('m, 'l, 'x) memory \<Rightarrow> spec_struct \<Rightarrow> bool" where
  "spec_ok h s = slice_ok h (sp_Scopes s)"

interpretation spec_parts: struct_copy
  copy_string_slice "\<lambda>h. slice_reach" slice_view slice_ok
  "\<lambda>u h. (u, h)" "\<lambda>h u. {}" "\<lambda>h u. u" "\<lambda>h (u :: unit). True"
  sp_Scopes "\<lambda>s. ()" "\<lambda>a b s. s\<lparr>sp_Scopes := a\<rparr>" "\<lambda>va vb s. va"
  by unfold_locales auto

interpretation spec: deep_copy Spec_DeepCopyInto "\<lambda>h. spec_reach" spec_view spec_ok
  using spec_parts.deep_copy_struct
  by (simp add: Spec_DeepCopyInto_def [abs_def] spec_reach_def [abs_def] spec_view_def [abs_def] spec_ok_def [abs_def])

text \<open>The status stands for the status the controller works on.\<close>

definition status_reach :: "status_struct \<Rightarrow> nat set" where
  "status_reach s = slice_reach (ss_KeyIds s) \<union> (opt_reach (ss_LastSynced s) \<union> slice_reach (ss_LastActions s))"

definition status_view :: "('m, 'l, 'x) memory \<Rightarrow> status_struct \<Rightarrow> maskinporten_client_status" where
  "status_view h s = \<lparr>st_ClientId = ss_ClientId s, st_Authority = ss_Authority s, st_KeyIds = slice_view h (ss_KeyIds s),
     st_LastSynced = time_view h (ss_LastSynced s), st_State = ss_State s, st_Reason = ss_Reason s,
     st_ObservedGeneration = ss_ObservedGeneration s, st_LastActions = slice_view h (ss_LastActions s)\<rparr>"

definition status_ok :: "('m, 'l, 'x) memory \<Rightarrow> status_struct \<Rightarrow> bool" where
  "status_ok h s \<longleftrightarrow> slice_ok h (ss_KeyIds s) \<and> opt_time_ok h (ss_LastSynced s) \<and> slice_ok h (ss_LastActions s)"

interpretation status_tail: struct_copy
  "copy_time L" "\<lambda>h. opt_reach" time_view "\<lambda>h p. meta_laws L V \<and> opt_time_ok h p"
  copy_string_slice "\<lambda>h. slice_reach" slice_view slice_ok
  fst snd "\<lambda>a b s. (a, b)" "\<lambda>va vb s. (va, vb)" for L V
  by unfold_locales auto

interpretation status_parts: struct_copy
  copy_string_slice "\<lambda>h. slice_reach" slice_view slice_ok
  "\<lambda>s h. case copy_time L (fst s) h of (a, h1) \<Rightarrow> (case copy_string_slice (snd s) h1 of (b, h2) \<Rightarrow> ((a, b), h2))"
  "\<lambda>h s. opt_reach (fst s) \<union> slice_reach (snd s)"
  "\<lambda>h s. (time_view h (fst s), slice_view h (snd s))"
  "\<lambda>h s. (meta_laws L V \<and> opt_time_ok h (fst s)) \<and> slice_ok h (snd s)"
  ss_KeyIds "\<lambda>s. (ss_LastSynced s, ss_LastActions s)"
  "\<lambda>a b s. s\<lparr>ss_KeyIds := a, ss_LastSynced := fst b, ss_LastActions := snd b\<rparr>"
  "\<lambda>va vb s. \<lparr>st_ClientId = ss_ClientId s, st_Authority = ss_Authority s, st_KeyIds = va,
     st_LastSynced = fst vb, st_State = ss_State s, st_Reason = ss_Reason s,
     st_ObservedGeneration = ss_ObservedGeneration s, st_LastActions = snd vb\<rparr>" for L V
  by unfold_locales auto

interpretation status: deep_copy "Status_DeepCopyInto L" "\<lambda>h. status_reach" status_view
  "\<lambda>h s. meta_laws L V \<and> status_ok h s" for L V
proof (rule deep_copy_if)
  assume "meta_laws L V"
  then show "deep_copy (Status_DeepCopyInto L) (\<lambda>h. status_reach) status_view status_ok"
    using status_parts.deep_copy_struct [of L V]
    by (simp add: Status_DeepCopyInto_def [abs_def] status_reach_def [abs_def] status_view_def [abs_def]
        status_ok_def [abs_def] split_def)
qed


section \<open>Clients\<close>

record 'mv client_value =
  cv_TypeMeta :: type_meta
  cv_ObjectMeta :: 'mv
  cv_Scopes :: "string slice"
  cv_Status :: maskinporten_client_status

definition client_reach ::
  "('m, 'l, 'x, 'mv, 'lv) meta_view \<Rightarrow> ('m, 'l, 'x) memory \<Rightarrow> 'm client_struct \<Rightarrow> nat set"
where
  "client_reach V h c = om_reach V h (cl_ObjectMeta c) \<union> (spec_reach (cl_Spec c) \<union> status_reach (cl_Status c))"

definition client_view ::
  "('m, 'l, 'x, 'mv, 'lv) meta_view \<Rightarrow> ('m, 'l, 'x) memory \<Rightarrow> 'm client_struct \<Rightarrow> 'mv client_value"
where
  "client_view V h c = \<lparr>cv_TypeMeta = cl_TypeMeta c, cv_ObjectMeta = om_view V h (cl_ObjectMeta c),
     cv_Scopes = spec_view h (cl_Spec c), cv_Status = status_view h (cl_Status c)\<rparr>"

definition client_ok ::
  "('m, 'l, 'x, 'mv, 'lv) meta_view \<Rightarrow> ('m, 'l, 'x) memory \<Rightarrow> 'm client_struct \<Rightarrow> bool"
where
  "client_ok V h c \<longleftrightarrow> om_ok V h (cl_ObjectMeta c) \<and> spec_ok h (cl_Spec c) \<and> status_ok h (cl_Status c)"

interpretation om: deep_copy "om_DeepCopyInto L" "om_reach V" "om_view V" "\<lambda>h m. meta_laws L V \<and> om_ok V h m" for L V
  by (rule deep_copy_if) (simp add: meta_laws_def)

interpretation lm: deep_copy "lm_DeepCopyInto L" "lm_reach V" "lm_view V" "\<lambda>h m. meta_laws L V \<and> lm_ok V h m" for L V
  by (rule deep_copy_if) (simp add: meta_laws_def)

interpretation client_tail: struct_copy
  Spec_DeepCopyInto "\<lambda>h. spec_reach" spec_view spec_ok
  "Status_DeepCopyInto L" "\<lambda>h. status_reach" status_view "\<lambda>h s. meta_laws L V \<and> status_ok h s"
  fst snd "\<lambda>a b s. (a, b)" "\<lambda>va vb s. (va, vb)" for L V
  by unfold_locales auto

interpretation client_parts: struct_copy
  "om_DeepCopyInto L" "om_reach V" "om_view V" "\<lambda>h m. meta_laws L V \<and> om_ok V h m"
  "\<lambda>s h. case Spec_DeepCopyInto (fst s) h of (a, h1) \<Rightarrow> (case Status_DeepCopyInto L (snd s) h1 of (b, h2) \<Rightarrow> ((a, b), h2))"
  "\<lambda>h s. spec_reach (fst s) \<union> status_reach (snd s)"
  "\<lambda>h s. (spec_view h (fst s), status_view h (snd s))"
  "\<lambda>h s. spec_ok h (fst s) \<and> (meta_laws L V \<and> status_ok h (snd s))"
  cl_ObjectMeta "\<lambda>c. (cl_Spec c, cl_Status c)"
  "\<lambda>a b c. c\<lparr>cl_ObjectMeta := a, cl_Spec := fst b, cl_Status := snd b\<rparr>"
  "\<lambda>va vb c. \<lparr>cv_TypeMeta = cl_TypeMeta c, cv_ObjectMeta = va, cv_Scopes = fst vb, cv_Status = snd vb\<rparr>" for L V
  by unfold_locales auto

interpretation client: deep_copy "Client_DeepCopyInto L" "client_reach V" "client_view V"
  "\<lambda>h c. meta_laws L V \<and> client_ok V h c" for L V
proof (rule deep_copy_if)
  assume "meta_laws L V"
  then show "deep_copy (Client_DeepCopyInto L) (client_reach V) (client_view V) (client_ok V)"
    using client_parts.deep_copy_struct [of L V]
    by (simp add: Client_DeepCopyInto_def [abs_def] client_reach_def [abs_def] client_view_def [abs_def]
        client_ok_def [abs_def] split_def)
qed


section \<open>Lists of clients\<close>

definition clients_in :: "('m, 'l, 'x) memory \<Rightarrow> nat \<Rightarrow> nat \<Rightarrow> nat \<Rightarrow> 'm client_struct list" where
  "clients_in h a start n = map (\<lambda>i. client_at h a (start + i)) [0..<n]"

fun items_reach ::
  "('m, 'l, 'x, 'mv, 'lv) meta_view \<Rightarrow> ('m, 'l, 'x) memory \<Rightarrow> go_slice \<Rightarrow> nat set"
where
  "items_reach V h NilSlice = {}"
| "items_reach V h (Slice a start n) = insert a (\<Union>c\<in>set (clients_in h a start n). client_reach V h c)"

fun items_view ::
  "('m, 'l, 'x, 'mv, 'lv) meta_view \<Rightarrow> ('m, 'l, 'x) memory \<Rightarrow> go_slice \<Rightarrow> 'mv client_value slice"
where
  "items_view V h NilSlice = None"
| "items_view V h (Slice a start n) = Some (map (client_view V h) (clients_in h a start n))"

fun items_ok ::
  "('m, 'l, 'x, 'mv, 'lv) meta_view \<Rightarrow> ('m, 'l, 'x) memory \<Rightarrow> go_slice \<Rightarrow> bool"
where
  "items_ok V h NilSlice = True"
| "items_ok V h (Slice a start n) =
     (a < length h \<and> (case h ! a of ClientArray cs \<Rightarrow> start + n \<le> length cs | _ \<Rightarrow> False) \<and>
      (\<forall>c\<in>set (clients_in h a start n). client_ok V h c))"

text \<open>
  After the items below \<open>k\<close> the memory is the old one, the array made for the copy and what the copies
  of the items reach; each element below \<open>k\<close> is a deep copy of its item.
\<close>

definition items_copied ::
  "('m, 'l, 'x, 'mv, 'lv) meta_view \<Rightarrow> ('m, 'l, 'x) memory \<Rightarrow> nat \<Rightarrow> nat \<Rightarrow> nat \<Rightarrow> nat \<Rightarrow> ('m, 'l, 'x) memory \<Rightarrow> bool"
where
  "items_copied V h0 a start n k h \<longleftrightarrow>
     (\<exists>cs new. h = h0 @ ClientArray cs # new \<and> length cs = n \<and>
        (\<forall>i<k. client_ok V h (cs ! i) \<and> client_view V h (cs ! i) = client_view V h0 (client_at h0 a (start + i)) \<and>
           client_reach V h (cs ! i) \<subseteq> {length h0<..<length h}))"

lemma copy_item_step:
  assumes laws: "meta_laws L V" and ok: "items_ok V h0 (Slice a start n)"
    and h: "items_copied V h0 a start n k h" and "k < n"
  shows "items_copied V h0 a start n (Suc k) (copy_item L a start (length h0) k h)"
proof -
  obtain cs new where h_eq: "h = h0 @ ClientArray cs # new" and cs: "length cs = n"
    and prev: "\<And>i. i < k \<Longrightarrow> client_ok V h (cs ! i) \<and>
        client_view V h (cs ! i) = client_view V h0 (client_at h0 a (start + i)) \<and>
        client_reach V h (cs ! i) \<subseteq> {length h0<..<length h}"
    using h by (auto simp: items_copied_def)
  let ?x = "client_at h0 a (start + k)"
  have a: "a < length h0" and "?x \<in> set (clients_in h0 a start n)"
    using ok \<open>k < n\<close> by (auto simp: clients_in_def)
  then have x0: "client_ok V h0 ?x" using ok by auto
  have same: "client_at h a (start + k) = ?x" using a by (simp add: client_at_def h_eq nth_append)
  have x: "client_ok V h ?x" and vx: "client_view V h ?x = client_view V h0 ?x"
    using client.appended [of L V h0 ?x "ClientArray cs # new"] laws x0 by (auto simp: h_eq)
  obtain c h1 where copy: "Client_DeepCopyInto L ?x h = (c, h1)"
    by (cases "Client_DeepCopyInto L ?x h")
  have xx: "meta_laws L V \<and> client_ok V h ?x" using laws x by simp
  obtain more where h1: "h1 = h @ more" using client.copy_appends [OF xx copy] by auto
  note c = client.copy_ok [OF xx copy] client.copy_view [OF xx copy] client.copy_new [OF xx copy]
  let ?cs = "cs[k := c]"
  have h2: "copy_item L a start (length h0) k h = h0 @ ClientArray ?cs # new @ more"
    unfolding copy_item_def same copy by (simp add: store_client_def h1 h_eq nth_append list_update_append)
  have upd: "h0 @ ClientArray ?cs # new @ more = h1[length h0 := ClientArray ?cs]"
    by (simp add: h1 h_eq list_update_append)
  have keep: "client_ok V (h1[length h0 := obj]) y \<and> client_view V (h1[length h0 := obj]) y = client_view V h1 y \<and>
      client_reach V (h1[length h0 := obj]) y = client_reach V h1 y"
    if "client_ok V h1 y" "length h0 \<notin> client_reach V h1 y" for y obj
    using client.updated [of L V h1 y "length h0" obj] laws that by auto
  have elem: "client_ok V (h1[length h0 := ClientArray ?cs]) (?cs ! i) \<and>
      client_view V (h1[length h0 := ClientArray ?cs]) (?cs ! i) = client_view V h0 (client_at h0 a (start + i)) \<and>
      client_reach V (h1[length h0 := ClientArray ?cs]) (?cs ! i) \<subseteq> {length h0<..<length h1}" if "i < Suc k" for i
  proof (cases "i = k")
    case True
    have "length h0 \<notin> client_reach V h1 c" using c(3) by (auto simp: h_eq)
    with True \<open>k < n\<close> cs c vx keep [of c] show ?thesis by (fastforce simp: h_eq)
  next
    case False
    with that have "i < k" by simp
    then have "client_ok V h1 (cs ! i)" "client_view V h1 (cs ! i) = client_view V h (cs ! i)"
      "client_reach V h1 (cs ! i) = client_reach V h (cs ! i)"
      using client.appended [of L V h "cs ! i" more] laws prev by (auto simp: h1)
    with \<open>i < k\<close> False prev [of i] keep [of "cs ! i"] show ?thesis by (fastforce simp: h1)
  qed
  have len: "length h1 = length (h0 @ ClientArray ?cs # new @ more)" by (simp add: h1 h_eq)
  show ?thesis
    unfolding items_copied_def h2 using cs elem [folded upd, unfolded len]
    by (intro exI [of _ ?cs] exI [of _ "new @ more"] conjI refl) simp_all
qed

lemma copy_items_steps:
  assumes "meta_laws L V" and "items_ok V h0 (Slice a start n)" and "k \<le> n"
  shows "items_copied V h0 a start n k
    (fold (copy_item L a start (length h0)) [0..<k] (h0 @ [ClientArray (replicate n (zero_client (om_zero L)))]))"
  using \<open>k \<le> n\<close>
proof (induction k)
  case 0
  show ?case by (auto simp: items_copied_def)
next
  case (Suc k)
  with copy_item_step [OF assms(1,2), of k] show ?case by simp
qed

lemma copy_items_result:
  assumes "meta_laws L V" and "items_ok V h (Slice a start n)" and "copy_items L (Slice a start n) h = (s, h')"
  obtains cs new where "s = Slice (length h) 0 n" and "h' = h @ ClientArray cs # new" and "length cs = n"
    and "clients_in h' (length h) 0 n = cs"
    and "\<And>c. c \<in> set cs \<Longrightarrow> client_ok V h' c \<and> client_reach V h' c \<subseteq> {length h<..<length h'}"
    and "map (client_view V h') cs = map (client_view V h) (clients_in h a start n)"
proof -
  from copy_items_steps [OF assms(1,2), of n] assms(3)
  obtain cs new where h': "h' = h @ ClientArray cs # new" and cs: "length cs = n" and s: "s = Slice (length h) 0 n"
    and each: "\<And>i. i < n \<Longrightarrow> client_ok V h' (cs ! i) \<and>
      client_view V h' (cs ! i) = client_view V h (client_at h a (start + i)) \<and>
      client_reach V h' (cs ! i) \<subseteq> {length h<..<length h'}"
    by (auto simp: items_copied_def)
  show ?thesis
  proof
    show "clients_in h' (length h) 0 n = cs"
      using cs by (auto simp: clients_in_def client_at_def h' nth_append intro: nth_equalityI)
    show "map (client_view V h') cs = map (client_view V h) (clients_in h a start n)"
      using cs each by (auto simp: clients_in_def intro: nth_equalityI)
    show "client_ok V h' c \<and> client_reach V h' c \<subseteq> {length h<..<length h'}" if "c \<in> set cs" for c
      using that each cs by (auto simp: in_set_conv_nth)
  qed (fact s h' cs)+
qed

lemma client_at_same:
  assumes "h' ! a = h ! a"
  shows "clients_in h' a start n = clients_in h a start n"
  using assms by (simp add: clients_in_def client_at_def)

lemma deep_copy_items:
  assumes "meta_laws L V"
  shows "deep_copy (copy_items L) (items_reach V) (items_view V) (items_ok V)"
proof (unfold_locales, goal_cases)
  case (1 h s s' h')
  show ?case
  proof (cases s)
    case (Slice a start n)
    with copy_items_result [OF assms] 1 show ?thesis by metis
  qed (use 1 in auto)
next
  case (2 h s s' h')
  show ?case
  proof (cases s)
    case (Slice a start n)
    obtain cs new where "s' = Slice (length h) 0 n" "h' = h @ ClientArray cs # new" "length cs = n"
      "clients_in h' (length h) 0 n = cs" "\<And>c. c \<in> set cs \<Longrightarrow> client_ok V h' c"
      using copy_items_result [OF assms 2 [unfolded Slice]] by metis
    then show ?thesis by (simp add: nth_append)
  qed (use 2 in auto)
next
  case (3 h s s' h')
  show ?case
  proof (cases s)
    case (Slice a start n)
    obtain cs where "s' = Slice (length h) 0 n" "clients_in h' (length h) 0 n = cs"
      "map (client_view V h') cs = map (client_view V h) (clients_in h a start n)"
      using copy_items_result [OF assms 3 [unfolded Slice]] by metis
    with Slice show ?thesis by simp
  qed (use 3 in auto)
next
  case (4 h s s' h')
  show ?case
  proof (cases s)
    case (Slice a start n)
    obtain cs new where "s' = Slice (length h) 0 n" "h' = h @ ClientArray cs # new"
      "clients_in h' (length h) 0 n = cs" "\<And>c. c \<in> set cs \<Longrightarrow> client_reach V h' c \<subseteq> {length h<..<length h'}"
      using copy_items_result [OF assms 4 [unfolded Slice]] by metis
    then show ?thesis by fastforce
  qed (use 4 in auto)
next
  case (5 h s)
  show ?case
  proof (cases s)
    case (Slice a start n)
    with 5 assms client.reach_present [of L V h] show ?thesis by fastforce
  qed auto
next
  case (6 h s h')
  show ?case
  proof (cases s)
    case (Slice a start n)
    have a: "h' ! a = h ! a" using 6(3) Slice by simp
    have "client_ok V h' c \<and> client_reach V h' c = client_reach V h c \<and> client_view V h' c = client_view V h c"
      if c: "c \<in> set (clients_in h a start n)" for c
    proof -
      have "client_ok V h c" using 6(1) Slice c by simp
      moreover have "h' ! b = h ! b" if "b \<in> client_reach V h c" for b
        using that c Slice 6(3) [of b] by auto
      ultimately show ?thesis using client.same_elsewhere [of L V h c h'] assms 6(2) by simp
    qed
    with 6(1,2) Slice a show ?thesis by (simp add: client_at_same [OF a])
  qed auto
qed

interpretation items: deep_copy "copy_items L" "items_reach V" "items_view V" "\<lambda>h s. meta_laws L V \<and> items_ok V h s" for L V
  by (rule deep_copy_if) (rule deep_copy_items)

record ('mv, 'lv) list_value =
  lv_TypeMeta :: type_meta
  lv_ListMeta :: 'lv
  lv_Items :: "'mv client_value slice"

definition list_reach ::
  "('m, 'l, 'x, 'mv, 'lv) meta_view \<Rightarrow> ('m, 'l, 'x) memory \<Rightarrow> 'l list_struct \<Rightarrow> nat set"
where
  "list_reach V h s = lm_reach V h (ls_ListMeta s) \<union> items_reach V h (ls_Items s)"

definition list_view ::
  "('m, 'l, 'x, 'mv, 'lv) meta_view \<Rightarrow> ('m, 'l, 'x) memory \<Rightarrow> 'l list_struct \<Rightarrow> ('mv, 'lv) list_value"
where
  "list_view V h s = \<lparr>lv_TypeMeta = ls_TypeMeta s, lv_ListMeta = lm_view V h (ls_ListMeta s),
     lv_Items = items_view V h (ls_Items s)\<rparr>"

definition list_ok ::
  "('m, 'l, 'x, 'mv, 'lv) meta_view \<Rightarrow> ('m, 'l, 'x) memory \<Rightarrow> 'l list_struct \<Rightarrow> bool"
where
  "list_ok V h s \<longleftrightarrow> lm_ok V h (ls_ListMeta s) \<and> items_ok V h (ls_Items s)"

interpretation list_parts: struct_copy
  "lm_DeepCopyInto L" "lm_reach V" "lm_view V" "\<lambda>h m. meta_laws L V \<and> lm_ok V h m"
  "copy_items L" "items_reach V" "items_view V" "\<lambda>h s. meta_laws L V \<and> items_ok V h s"
  ls_ListMeta ls_Items "\<lambda>a b s. s\<lparr>ls_ListMeta := a, ls_Items := b\<rparr>"
  "\<lambda>va vb s. \<lparr>lv_TypeMeta = ls_TypeMeta s, lv_ListMeta = va, lv_Items = vb\<rparr>" for L V
  by unfold_locales auto

interpretation clist: deep_copy "List_DeepCopyInto L" "list_reach V" "list_view V"
  "\<lambda>h s. meta_laws L V \<and> list_ok V h s" for L V
proof (rule deep_copy_if)
  assume "meta_laws L V"
  then show "deep_copy (List_DeepCopyInto L) (list_reach V) (list_view V) (list_ok V)"
    using list_parts.deep_copy_struct [of L V]
    by (simp add: List_DeepCopyInto_def [abs_def] list_reach_def [abs_def] list_view_def [abs_def] list_ok_def [abs_def])
qed


section \<open>Pointers\<close>

text \<open>What a pointer to a client or to a list of clients stands for.\<close>

definition client_pointer_ok ::
  "('m, 'l, 'x, 'mv, 'lv) meta_view \<Rightarrow> ('m, 'l, 'x) memory \<Rightarrow> nat \<times> nat \<Rightarrow> bool"
where
  "client_pointer_ok V h = (\<lambda>(a, i). a < length h \<and> i < length (client_array (h ! a)) \<and> client_ok V h (client_at h a i))"

definition pointed_client ::
  "('m, 'l, 'x, 'mv, 'lv) meta_view \<Rightarrow> ('m, 'l, 'x) memory \<Rightarrow> nat \<times> nat \<Rightarrow> 'mv client_value"
where
  "pointed_client V h = (\<lambda>(a, i). client_view V h (client_at h a i))"

definition list_pointer_ok ::
  "('m, 'l, 'x, 'mv, 'lv) meta_view \<Rightarrow> ('m, 'l, 'x) memory \<Rightarrow> nat \<Rightarrow> bool"
where
  "list_pointer_ok V h a \<longleftrightarrow> a < length h \<and> (\<exists>s. h ! a = ListObject s \<and> list_ok V h s)"

definition pointed_list ::
  "('m, 'l, 'x) meta_lib \<Rightarrow> ('m, 'l, 'x, 'mv, 'lv) meta_view \<Rightarrow> ('m, 'l, 'x) memory \<Rightarrow> nat \<Rightarrow> ('mv, 'lv) list_value"
where
  "pointed_list L V h a = list_view V h (list_object (zero_list (lm_zero L)) (h ! a))"

lemma Client_DeepCopy_apart:
  assumes laws: "meta_laws L V" and ok: "client_pointer_ok V h p"
  obtains q h' where "Client_DeepCopy L (Some p) h = (Some q, h')" and "client_pointer_ok V h' q"
    and "copied_apart (pointed_client V) h p h' q"
proof -
  obtain a i where p: "p = (a, i)" by (cases p)
  let ?x = "client_at h a i" and ?fresh = "ClientArray [zero_client (om_zero L)]"
  have a: "a < length h" and x: "meta_laws L V \<and> client_ok V h ?x" using ok laws by (auto simp: p client_pointer_ok_def)
  obtain c h1 where copy: "Client_DeepCopyInto L ?x (h @ [?fresh]) = (c, h1)" by fastforce
  have "meta_laws L V \<and> client_ok V (h @ [?fresh]) ?x" using client.appended(1) [of L V h ?x] x by blast
  then have h1: "h1 ! length h = ?fresh" using client.copy_appends [OF _ copy] by fastforce
  define h' where "h' = h1[length h := ClientArray [c]]"
  note new = client.copied_into_new [OF x copy, of "ClientArray [c]", folded h'_def]
  show ?thesis
  proof
    show "Client_DeepCopy L (Some p) h = (Some (length h, 0), h')"
      by (simp add: Client_DeepCopy_def p copy store_client_def h1 h'_def)
    show "client_pointer_ok V h' (length h, 0)"
      using new(1,4) by (auto simp: client_pointer_ok_def client_at_def)
    have "copied_apart (\<lambda>h p. client_view V h (case p of (a, i) \<Rightarrow> client_at h a i)) h p h' (length h, 0)"
      by (rule client.apart [OF x copy h'_def _ a]) (simp_all add: p client_at_def)
    then show "copied_apart (pointed_client V) h p h' (length h, 0)"
      by (simp add: pointed_client_def [abs_def] split_def)
  qed
qed

lemma List_DeepCopy_apart:
  assumes laws: "meta_laws L V" and ok: "list_pointer_ok V h a"
  obtains b h' where "List_DeepCopy L (Some a) h = (Some b, h')" and "list_pointer_ok V h' b"
    and "copied_apart (pointed_list L V) h a h' b"
proof -
  let ?at = "\<lambda>h a. list_object (zero_list (lm_zero L)) (h ! a)"
  obtain s where s: "h ! a = ListObject s" and a: "a < length h" and x: "meta_laws L V \<and> list_ok V h s"
    using ok laws by (auto simp: list_pointer_ok_def)
  obtain c h1 where copy: "List_DeepCopyInto L s (h @ [ListObject (zero_list (lm_zero L))]) = (c, h1)" by fastforce
  define h' where "h' = h1[length h := ListObject c]"
  note new = clist.copied_into_new [OF x copy, of "ListObject c", folded h'_def]
  show ?thesis
  proof
    show "List_DeepCopy L (Some a) h = (Some (length h), h')"
      by (simp add: List_DeepCopy_def s copy h'_def)
    show "list_pointer_ok V h' (length h)" using new(1,4) by (auto simp: list_pointer_ok_def)
    have "copied_apart (\<lambda>h p. list_view V h (?at h p)) h a h' (length h)"
      by (rule clist.apart [OF x copy h'_def _ a]) (simp_all add: s)
    then show "copied_apart (pointed_list L V) h a h' (length h)" by (simp add: pointed_list_def [abs_def])
  qed
qed

lemma Spec_DeepCopy_new:
  assumes "spec_ok h s"
  obtains c h' where "Spec_DeepCopy (Some s) h = (Some (length h), h')" and "h' ! length h = SpecObject c"
    and "spec_view h' c = spec_view h s" and "spec_reach c \<subseteq> {length h<..<length h'}"
proof -
  obtain c h1 where copy: "Spec_DeepCopyInto s (h @ [SpecObject zero_spec]) = (c, h1)" by fastforce
  note new = spec.copied_into_new(2,4) [OF assms copy, of "SpecObject c"] spec.copied_into_new(3) [OF assms copy]
  show ?thesis by (rule that [of "h1[length h := SpecObject c]" c]) (use new copy in \<open>auto simp: Spec_DeepCopy_def\<close>)
qed

lemma Status_DeepCopy_new:
  assumes "meta_laws L V" and "status_ok h s"
  obtains c h' where "Status_DeepCopy L (Some s) h = (Some (length h), h')" and "h' ! length h = StatusObject c"
    and "status_view h' c = status_view h s" and "status_reach c \<subseteq> {length h<..<length h'}"
proof -
  obtain c h1 where copy: "Status_DeepCopyInto L s (h @ [StatusObject zero_status]) = (c, h1)" by fastforce
  note new = status.copied_into_new(2,4) [OF conjI [OF assms] copy, of "StatusObject c"] status.copied_into_new(3) [OF conjI [OF assms] copy]
  show ?thesis by (rule that [of "h1[length h := StatusObject c]" c]) (use new copy in \<open>auto simp: Status_DeepCopy_def\<close>)
qed

text \<open>
  C33: The copy of a client and the copy of a list are apart from their originals: they stand for the
  same value, and nothing that is written later to the objects of the one shows in the other. The
  copy of a \<open>nil\<close> pointer, as an object, is the \<open>nil\<close> interface.
\<close>

theorem deep_copies_apart:
  assumes laws: "meta_laws L V"
  shows "Client_DeepCopyObject L None h = (None, h) \<and> List_DeepCopyObject L None h = (None, h) \<and>
    (client_pointer_ok V h p \<longrightarrow> (\<exists>q h'. Client_DeepCopyObject L (Some p) h = (Some (ClientPointer (Some q)), h') \<and>
       client_pointer_ok V h' q \<and> copied_apart (pointed_client V) h p h' q)) \<and>
    (list_pointer_ok V h l \<longrightarrow> (\<exists>m h'. List_DeepCopyObject L (Some l) h = (Some (ListPointer (Some m)), h') \<and>
       list_pointer_ok V h' m \<and> copied_apart (pointed_list L V) h l h' m))"
proof (intro conjI impI)
  show "Client_DeepCopyObject L None h = (None, h)" "List_DeepCopyObject L None h = (None, h)"
    by (simp_all add: Client_DeepCopyObject_def Client_DeepCopy_def List_DeepCopyObject_def List_DeepCopy_def)
next
  assume "client_pointer_ok V h p"
  then obtain q h' where "Client_DeepCopy L (Some p) h = (Some q, h')" "client_pointer_ok V h' q"
    "copied_apart (pointed_client V) h p h' q"
    by (rule Client_DeepCopy_apart [OF laws])
  then show "\<exists>q h'. Client_DeepCopyObject L (Some p) h = (Some (ClientPointer (Some q)), h') \<and>
      client_pointer_ok V h' q \<and> copied_apart (pointed_client V) h p h' q"
    by (simp add: Client_DeepCopyObject_def)
next
  assume "list_pointer_ok V h l"
  then obtain m h' where "List_DeepCopy L (Some l) h = (Some m, h')" "list_pointer_ok V h' m"
    "copied_apart (pointed_list L V) h l h' m"
    by (rule List_DeepCopy_apart [OF laws])
  then show "\<exists>m h'. List_DeepCopyObject L (Some l) h = (Some (ListPointer (Some m)), h') \<and>
      list_pointer_ok V h' m \<and> copied_apart (pointed_list L V) h l h' m"
    by (simp add: List_DeepCopyObject_def)
qed

text \<open>
  A cluster whose metadata is a list of finalizers. The memory holds a list with one client, two of
  whose slices share an array.
\<close>

definition sample_meta_lib :: "(go_slice, unit, unit) meta_lib" where
  "sample_meta_lib = \<lparr>om_zero = NilSlice, lm_zero = (), om_DeepCopyInto = copy_string_slice,
     lm_DeepCopyInto = (\<lambda>u h. (u, h)),
     time_DeepCopy = (\<lambda>a h. (length h, h @ [TimeObject (time_object (h ! a))]))\<rparr>"

definition sample_meta_view :: "(go_slice, unit, unit, string slice, unit) meta_view" where
  "sample_meta_view = \<lparr>om_reach = (\<lambda>h. slice_reach), om_view = slice_view, om_ok = slice_ok,
     lm_reach = (\<lambda>h u. {}), lm_view = (\<lambda>h u. u), lm_ok = (\<lambda>h u. True)\<rparr>"

lemma deep_copy_sample_time:
  "deep_copy (time_DeepCopy sample_meta_lib) (\<lambda>h a. {a}) (\<lambda>h a. time_object (h ! a)) time_ok"
  by unfold_locales (auto simp: sample_meta_lib_def time_ok_def)

lemma sample_meta_laws: "meta_laws sample_meta_lib sample_meta_view"
  using strs.deep_copy_axioms nothing.deep_copy_axioms deep_copy_sample_time
  by (simp add: meta_laws_def) (simp add: sample_meta_lib_def sample_meta_view_def)

definition sample_client_struct :: "go_slice client_struct" where
  "sample_client_struct = (zero_client (Slice 0 0 1))\<lparr>cl_Spec := \<lparr>sp_Scopes = Slice 0 0 2\<rparr>,
     cl_Status := zero_status\<lparr>ss_KeyIds := Slice 0 1 1, ss_LastSynced := Some 1\<rparr>\<rparr>"

definition sample_memory :: "(go_slice, unit, unit) memory" where
  "sample_memory = [StringArray [''a'', ''b''], TimeObject 7, ClientArray [sample_client_struct],
     ListObject ((zero_list ())\<lparr>ls_Items := Slice 2 0 1\<rparr>)]"

lemmas sample_memory_defs = sample_memory_def sample_client_struct_def sample_meta_view_def zero_client_def
  zero_status_def zero_spec_def zero_list_def

lemma sample_memory_ok:
  "client_pointer_ok sample_meta_view sample_memory (2, 0)" "list_pointer_ok sample_meta_view sample_memory 3"
  by (simp_all add: sample_memory_defs client_pointer_ok_def list_pointer_ok_def client_ok_def list_ok_def spec_ok_def
      status_ok_def opt_time_ok_def time_ok_def clients_in_def client_at_def numeral_eq_Suc)

lemma deep_copies_apart_witness:
  "\<exists>m h'. List_DeepCopyObject sample_meta_lib (Some 3) sample_memory = (Some (ListPointer (Some m)), h') \<and>
     copied_apart (pointed_list sample_meta_lib sample_meta_view) sample_memory 3 h' m"
  using deep_copies_apart [OF sample_meta_laws, of sample_memory "(2, 0)" 3] sample_memory_ok by blast

text \<open>The copy of the sample in numbers: six new objects, each slice with an array of its own.\<close>

lemma sample_copy:
  "List_DeepCopy sample_meta_lib (Some 3) sample_memory = (Some 4, sample_memory @
     [ListObject ((zero_list ())\<lparr>ls_Items := Slice 5 0 1\<rparr>),
      ClientArray [(zero_client (Slice 6 0 1))\<lparr>cl_Spec := \<lparr>sp_Scopes = Slice 7 0 2\<rparr>,
        cl_Status := zero_status\<lparr>ss_KeyIds := Slice 8 0 1, ss_LastSynced := Some 9\<rparr>\<rparr>],
      StringArray [''a''], StringArray [''a'', ''b''], StringArray [''b''], TimeObject 7])"
  by (simp add: List_DeepCopy_def List_DeepCopyInto_def sample_memory_defs sample_meta_lib_def copy_item_def
      Client_DeepCopyInto_def Spec_DeepCopyInto_def Status_DeepCopyInto_def make_strings_def slice_strings_def
      store_client_def client_at_def window_def numeral_eq_Suc Let_def)

end
