(* ===== verification/DeletionProperties.thy ===== *)
theory DeletionProperties
  imports ControllerProperties
begin

text \<open>
  What a call of the controller does for a resource that is being deleted, from the commands to the
  resource that is written back without its finalizer.
\<close>


section \<open>The resource that is written back\<close>

text \<open>The status after the commands, and the resource without the finalizer.\<close>

definition deleted_status :: "client_state \<Rightarrow> instant \<Rightarrow> maskinporten_client \<Rightarrow> maskinporten_client_status" where
  "deleted_status cs now inst = (let st = crd_Status inst; cmds = reconcile_delete cs in
     st\<lparr>st_State := ''reconciled'', st_LastSynced := Some now,
        st_Reason := ''Reconciled '' @ itoa (int (length cmds)) @ '' resources'',
        st_LastActions := Some (CommandList_Strings cmds), st_ObservedGeneration := crd_Generation inst,
        st_ClientId := (if Api cs = None then st_ClientId st else []),
        st_Authority := (if Secret_Content cs = None then st_Authority st else []),
        st_KeyIds := (if Secret_Content cs = None then st_KeyIds st else None)\<rparr>)"

definition released :: "client_state \<Rightarrow> instant \<Rightarrow> maskinporten_client \<Rightarrow> maskinporten_client" where
  "released cs now inst = inst\<lparr>crd_Status := deleted_status cs now inst,
     crd_Finalizers := filter (\<lambda>f. f \<noteq> FinalizerName) (crd_Finalizers inst)\<rparr>"

lemma commands_status_delete:
  "commands_status h st (reconcile_delete cs) = Ok (st\<lparr>st_ClientId := (if Api cs = None then st_ClientId st else []),
     st_Authority := (if Secret_Content cs = None then st_Authority st else []),
     st_KeyIds := (if Secret_Content cs = None then st_KeyIds st else None)\<rparr>)"
  by (cases "Api cs") (auto simp: reconcile_delete_def plain_command_def)

lemma updateStatus_delete:
  assumes "k8s_laws (rc_k8s r)" and "mr_Kind req = Some RequestDeleteKind" and "FinalizerName \<in> set (crd_Finalizers inst)"
    and "now = fst (metav1_Now (rc_k8s r) (env (api_st s)))" and "w = snd (metav1_Now (rc_k8s r) (env (api_st s)))"
  shows "updateStatus r (Some req) inst ''reconciled''
      (''Reconciled '' @ itoa (int (length (reconcile_delete cs))) @ '' resources'') (Some (reconcile_delete cs)) s =
    (case k8s_Update (rc_k8s r) (released cs now inst) w of
       (q, w') \<Rightarrow> (q, s\<lparr>api_st := (api_st s)\<lparr>env := w'\<rparr>\<rparr>))"
proof -
  have remove: "fin_Remove (rc_k8s r) fs FinalizerName =
      (filter (\<lambda>g. g \<noteq> FinalizerName) fs, FinalizerName \<in> set fs)" for fs
    using assms(1) by (simp add: k8s_laws_def)
  obtain t v where now: "metav1_Now (rc_k8s r) (env (api_st s)) = (t, v)" by fastforce
  have "update_finalizers (rc_k8s r) (Some req) (inst\<lparr>crd_Status := st\<rparr>) =
      (inst\<lparr>crd_Status := st, crd_Finalizers := filter (\<lambda>f. f \<noteq> FinalizerName) (crd_Finalizers inst)\<rparr>, True)" for st
    using assms(2,3) by (simp add: update_finalizers_def remove)
  then show ?thesis
    using assms(4,5) now
    by (simp add: updateStatus_def in_k8s_def in_api_def in_env_def on_part_def reading_def bind_def Let_def read_store_def
        commands_status_delete released_def deleted_status_def split: prod.split)
qed

lemma run_delete_effects:
  assumes "run_commands r cs [] (reconcile_delete cs) s = (Ok (reconcile_delete cs, None), s')"
  obtains a1 where "case Secret_Content cs of None \<Rightarrow> a1 = api_st s | Some c \<Rightarrow>
      \<exists>w1. k8s_UpdateSecret (rc_k8s r) (DeleteSecretStateContent (Secret_Manifest cs)) (env (api_st s)) = (Ok (), w1) \<and>
        a1 = (api_st s)\<lparr>env := w1\<rparr>"
    and "case Api cs of None \<Rightarrow> api_st s' = a1 | Some api \<Rightarrow>
      DeleteClient (rt_maskinportenApiClient (rc_runtime r)) (as_ClientId api) a1 = (Ok (), api_st s')"
    and "cheap s' = cheap s"
proof -
  have empty: "run_command r cs (plain_command DeleteSecretContentCommand) u = (case
      k8s_UpdateSecret (rc_k8s r) (DeleteSecretStateContent (Secret_Manifest cs)) (env (api_st u)) of
        (q, w) \<Rightarrow> (q, u\<lparr>api_st := (api_st u)\<lparr>env := w\<rparr>\<rparr>))" for u
    by (simp add: run_command_def plain_command_def in_k8s_def in_api_def in_env_def on_part_def Let_def split: prod.split)
  have delete: "run_command r cs (plain_command (DeleteClientInApiCommand i)) u = (case
      DeleteClient (rt_maskinportenApiClient (rc_runtime r)) i (api_st u) of (q, a) \<Rightarrow> (q, u\<lparr>api_st := a\<rparr>))" for i u
    by (simp add: run_command_def plain_command_def in_api_def on_part_def Let_def)
  show ?thesis
    using assms
    by (cases "Secret_Content cs"; cases "Api cs")
      (auto simp: reconcile_delete_def empty delete intro!: that split: prod.splits outcome.splits)
qed

text \<open>
  C9: A call for a resource that is being deleted, when it succeeds, cleans up and lets go. If the
  secret has contents it writes the secret without them; then, if there is a client, it deletes the
  client with the API. It writes the resource back without the operator's finalizer, all others
  kept, with a status that no longer shows the client id, if there was a client, and no longer shows
  an authority and key ids, if the secret had contents; what there was nothing to clean up for stays
  in the status. Then a next call is scheduled. When there is nothing at all to clean up it writes
  nothing, so the finalizer stays, and schedules no call.
\<close>

theorem deletion_call:
  assumes "k8s_laws (rc_k8s r)" and "mr_Kind req = Some RequestDeleteKind" and "FinalizerName \<in> set (crd_Finalizers inst)"
    and "fetchCurrentState r req s = (Ok cs, s1)" and "crd_DeletionTimestamp (Crd cs) \<noteq> None"
    and "reconcile_loaded r req inst s = (Ok t, s')"
  shows "if Secret_Content cs = None \<and> Api cs = None then t = 0 \<and> s' = s1\<lparr>cheap := empty_heap\<rparr>
    else \<exists>a1 a2 now w x w'.
      (case Secret_Content cs of None \<Rightarrow> a1 = api_st s1 | Some c \<Rightarrow>
         \<exists>w1. k8s_UpdateSecret (rc_k8s r) (DeleteSecretStateContent (Secret_Manifest cs)) (env (api_st s1)) = (Ok (), w1) \<and>
           a1 = (api_st s1)\<lparr>env := w1\<rparr>) \<and>
      (case Api cs of None \<Rightarrow> a2 = a1 | Some api \<Rightarrow>
         DeleteClient (rt_maskinportenApiClient (rc_runtime r)) (as_ClientId api) a1 = (Ok (), a2)) \<and>
      metav1_Now (rc_k8s r) (env a2) = (now, w) \<and>
      k8s_Update (rc_k8s r) (released cs now inst) w = (Ok x, w') \<and>
      getRequeueAfter r \<lparr>api_st = a2\<lparr>env := w'\<rparr>, cheap = empty_heap\<rparr> = (Ok t, s')"
proof -
  let ?rt = "rc_runtime r" and ?s1 = "s1\<lparr>cheap := empty_heap\<rparr>"
  have plan: "in_cmds (Reconcile (rc_jose r) cs (rt_operatorContext ?rt) (rt_config ?rt) (rt_crypto ?rt) (rt_clock ?rt)) s1 =
      (Ok (reconcile_delete cs), ?s1)"
    using assms(5) by (simp add: in_cmds_def on_part_def Reconcile_deleted)
  have none: "reconcile_delete cs = [] \<longleftrightarrow> Secret_Content cs = None \<and> Api cs = None"
    by (simp add: reconcile_delete_def split: option.split)
  show ?thesis
  proof (cases "reconcile_delete cs = []")
    case True
    with plan assms(4,6) none show ?thesis by (simp add: reconcile_loaded_def reconcile_def bind_def Let_def)
  next
    case False
    obtain s2 x s3 where run: "run_commands r cs [] (reconcile_delete cs) ?s1 = (Ok (reconcile_delete cs, None), s2)"
      and upd: "updateStatus r (Some req) inst ''reconciled''
        (''Reconciled '' @ itoa (int (length (reconcile_delete cs))) @ '' resources'') (Some (reconcile_delete cs)) s2 = (Ok x, s3)"
      and requeue: "getRequeueAfter r s3 = (Ok t, s')"
      by (rule loaded_commands [OF assms(4,6) plan False])
    have parts: "api_st ?s1 = api_st s1" "cheap ?s1 = empty_heap" by simp_all
    obtain a1 where effects: "case Secret_Content cs of None \<Rightarrow> a1 = api_st s1 | Some c \<Rightarrow>
        \<exists>w1. k8s_UpdateSecret (rc_k8s r) (DeleteSecretStateContent (Secret_Manifest cs)) (env (api_st s1)) = (Ok (), w1) \<and>
          a1 = (api_st s1)\<lparr>env := w1\<rparr>"
        "case Api cs of None \<Rightarrow> api_st s2 = a1 | Some api \<Rightarrow>
        DeleteClient (rt_maskinportenApiClient (rc_runtime r)) (as_ClientId api) a1 = (Ok (), api_st s2)"
      and heap: "cheap s2 = empty_heap"
      by (rule run_delete_effects [OF run, unfolded parts])
    obtain now w where now: "metav1_Now (rc_k8s r) (env (api_st s2)) = (now, w)" by fastforce
    then have clock: "now = fst (metav1_Now (rc_k8s r) (env (api_st s2)))" "w = snd (metav1_Now (rc_k8s r) (env (api_st s2)))"
      by simp_all
    obtain q w' where q: "k8s_Update (rc_k8s r) (released cs now inst) w = (q, w')" by fastforce
    from upd [unfolded updateStatus_delete [OF assms(1-3) clock] q prod.case]
    have x: "q = Ok x" and s3: "s3 = s2\<lparr>api_st := (api_st s2)\<lparr>env := w'\<rparr>\<rparr>" by simp_all
    from heap s3 have "s3 = \<lparr>api_st = (api_st s2)\<lparr>env := w'\<rparr>, cheap = empty_heap\<rparr>" by (cases s2) simp
    with requeue have "getRequeueAfter r \<lparr>api_st = (api_st s2)\<lparr>env := w'\<rparr>, cheap = empty_heap\<rparr> = (Ok t, s')" by simp
    moreover have "\<not> (Secret_Content cs = None \<and> Api cs = None)" using False none by simp
    ultimately show ?thesis
      unfolding if_not_P [OF \<open>\<not> (Secret_Content cs = None \<and> Api cs = None)\<close>]
      using effects now q [unfolded x]
      by (intro exI [of _ a1] exI [of _ "api_st s2"] exI [of _ now] exI [of _ w] exI [of _ x] exI [of _ w'] conjI)
  qed
qed


text \<open>A client with everything in place, whose resource is deleted.\<close>

lemma settled_delete:
  "run_commands settled_rc cs [] [plain_command DeleteSecretContentCommand, plain_command (DeleteClientInApiCommand ''id-1'')]
     (ctrl_start [answer 200 []]) =
   (Ok ([plain_command DeleteSecretContentCommand, plain_command (DeleteClientInApiCommand ''id-1'')], None), ctrl_start [])"
proof -
  have "self_service_url (sample_hc settled_jose 0 no_jwt) [''id-1''] =
      Ok \<lparr>u_Origin = ''http://selfservice'', u_Path = clients_path @ ''/'' @ ''id-1'', u_Query = []\<rparr>"
    by (rule sample_client_url) (simp_all add: plain_segment_def)
  moreover have "rq_Body (Header_Set k v (NewRequest m u None)) = None" for k v m u
    by (simp add: Header_Set_def NewRequest_def)
  ultimately have "run_command settled_rc cs (plain_command (DeleteClientInApiCommand ''id-1'')) (ctrl_start [answer 200 []]) =
      (Ok (), ctrl_start [])"
    by (simp add: run_command_def plain_command_def settled_rc_def sample_rc_def in_api_def on_part_def ctrl_start_def
        DeleteClient_def bind_def warm_createReq warm_send expect_status_def Let_def)
  moreover have "run_command settled_rc cs (plain_command DeleteSecretContentCommand) s = (Ok (), s)" for s
    by (simp add: run_command_def plain_command_def settled_rc_def sample_rc_def sample_k8s_def in_k8s_def in_api_def
        in_env_def on_part_def Let_def)
  ultimately show ?thesis by simp
qed

definition dying :: maskinporten_client where
  "dying = (sample_crd (Some Hour) (Some [''s'']))\<lparr>crd_Finalizers := [FinalizerName, ''other'']\<rparr>"

lemma dying_state: "reconcile_delete (settled_state\<lparr>Crd := dying\<rparr>) =
    [plain_command DeleteSecretContentCommand, plain_command (DeleteClientInApiCommand ''id-1'')]"
  by (simp add: reconcile_delete_def settled_state_def)

lemma dying_call: "\<exists>t s'. reconcile_loaded settled_rc (settled_request\<lparr>mr_Kind := Some RequestDeleteKind, mr_Instance := Some dying\<rparr>)
    dying (ctrl_start (settled_answers @ [answer 200 []])) = (Ok t, s')"
proof -
  let ?r = settled_rc and ?cs = "settled_state\<lparr>Crd := dying\<rparr>" and ?rt = "rc_runtime settled_rc"
  let ?req = "settled_request\<lparr>mr_Kind := Some RequestDeleteKind, mr_Instance := Some dying\<rparr>"
  let ?cmds = "[plain_command DeleteSecretContentCommand, plain_command (DeleteClientInApiCommand ''id-1'')]"
  have laws: "k8s_laws (rc_k8s ?r)" by (simp add: settled_rc_def sample_rc_def sample_k8s_laws)
  have cfg: "valid_config (rt_config ?rt)"
    by (simp add: settled_rc_def sample_rc_def valid_config_def sample_cfg_def time_units)
  have fetch: "fetchCurrentState ?r ?req (ctrl_start (settled_answers @ [answer 200 []])) = (Ok ?cs, ctrl_start [answer 200 []])"
    by (rule settled_fetch_of) (simp add: dying_def sample_crd_def)
  have "crd_DeletionTimestamp (Crd ?cs) \<noteq> None" by (simp add: dying_def sample_crd_def)
  then have "in_cmds (Reconcile (rc_jose ?r) ?cs (rt_operatorContext ?rt) (rt_config ?rt) (rt_crypto ?rt) (rt_clock ?rt))
      (ctrl_start [answer 200 []]) = (Ok ?cmds, ctrl_start [answer 200 []])"
    by (simp add: in_cmds_def on_part_def Reconcile_deleted dying_state) (simp add: ctrl_start_def)
  then have rec: "reconcile ?r ?cs (ctrl_start [answer 200 []]) = (Ok (Some ?cmds, None), ctrl_start [])"
    using settled_delete by (simp add: reconcile_def Let_def)
  have fin: "FinalizerName \<in> set (crd_Finalizers dying)" by (simp add: dying_def)
  have "k8s_Update (rc_k8s ?r) x w = (Ok x, w)" for x w by (simp add: settled_rc_def sample_rc_def sample_k8s_def ret_def)
  then have "\<exists>x s2. updateStatus ?r (Some ?req) dying ''reconciled'' (''Reconciled '' @ itoa (int (length ?cmds)) @ '' resources'')
      (Some ?cmds) (ctrl_start []) = (Ok x, s2)"
    using updateStatus_delete [OF laws _ fin refl refl, where req = ?req and s = "ctrl_start []" and cs = ?cs] by (simp add: dying_state)
  moreover have "\<exists>t s3. getRequeueAfter ?r s2 = (Ok t, s3)" for s2 using getRequeueAfter_interval [OF laws cfg] by blast
  ultimately show ?thesis by (fastforce simp: reconcile_loaded_def fetch rec bind_def Let_def)
qed

lemma deletion_call_witness:
  "\<exists>now w x w'. k8s_Update (rc_k8s settled_rc) (released (settled_state\<lparr>Crd := dying\<rparr>) now dying) w = (Ok x, w') \<and>
    crd_Finalizers (released (settled_state\<lparr>Crd := dying\<rparr>) now dying) = [''other''] \<and>
    st_ClientId (crd_Status (released (settled_state\<lparr>Crd := dying\<rparr>) now dying)) = []"
proof -
  obtain t s' where call: "reconcile_loaded settled_rc (settled_request\<lparr>mr_Kind := Some RequestDeleteKind, mr_Instance := Some dying\<rparr>)
    dying (ctrl_start (settled_answers @ [answer 200 []])) = (Ok t, s')" using dying_call by blast
  have laws: "k8s_laws (rc_k8s settled_rc)" by (simp add: settled_rc_def sample_rc_def sample_k8s_laws)
  have fetch: "fetchCurrentState settled_rc (settled_request\<lparr>mr_Kind := Some RequestDeleteKind, mr_Instance := Some dying\<rparr>)
      (ctrl_start (settled_answers @ [answer 200 []])) = (Ok (settled_state\<lparr>Crd := dying\<rparr>), ctrl_start [answer 200 []])"
    by (rule settled_fetch_of) (simp add: dying_def sample_crd_def)
  have "Api (settled_state\<lparr>Crd := dying\<rparr>) \<noteq> None" by (simp add: settled_state_def)
  moreover have "crd_Finalizers (released cs now dying) = [''other'']" for cs now
    by (simp add: released_def dying_def FinalizerName_def)
  moreover have "st_ClientId (crd_Status (released (settled_state\<lparr>Crd := dying\<rparr>) now dying)) = []" for now
    by (simp add: released_def deleted_status_def settled_state_def Let_def)
  ultimately show ?thesis
    using deletion_call [OF laws _ _ fetch _ call] by (force simp: dying_def sample_crd_def)
qed

end
