(* ===== verification/Secrecy.thy ===== *)
theory Secrecy
  imports Controller
begin

text \<open>
  What leaves the operator: every request that a call of the controller sends, whatever the network
  and the cluster answer, carries a body that reads as no key set with a private key. The argument
  follows the code from the network up: a condition on the world that such requests keep, and that
  clocks, random sources and the cluster keep, holds after the call when it held before.
\<close>


section \<open>Programs that preserve a condition\<close>

definition preserves :: "('s \<Rightarrow> bool) \<Rightarrow> ('s, 'a) prog \<Rightarrow> bool" where
  "preserves I m \<longleftrightarrow> (\<forall>s. I s \<longrightarrow> I (snd (m s)))"

named_theorems preserves_intros \<open>rules for the conditions that programs preserve\<close>

lemma preservesD: "preserves I m \<Longrightarrow> m s = (r, s') \<Longrightarrow> I s \<Longrightarrow> I s'"
  unfolding preserves_def by (metis snd_conv)

lemma preservesI: "(\<And>s r s'. m s = (r, s') \<Longrightarrow> I s \<Longrightarrow> I s') \<Longrightarrow> preserves I m"
  unfolding preserves_def by (metis prod.collapse)

text \<open>In a sequence, what follows may use the value that the first part returned.\<close>

lemma preserves_bind_Ok:
  assumes "preserves I m" and "\<And>x s s'. m s = (Ok x, s') \<Longrightarrow> preserves I (f x)"
  shows "preserves I (bind m f)"
proof (rule preservesI)
  fix s r s' assume "bind m f s = (r, s')" and "I s"
  then show "I s'"
  proof (cases rule: bind_eq_cases)
    case (Ok x s1)
    with \<open>I s\<close> show ?thesis using preservesD [OF assms(1)] preservesD [OF assms(2)] by blast
  qed (use \<open>I s\<close> preservesD [OF assms(1)] in blast)+
qed

lemma preserves_bind [preserves_intros]:
  "preserves I m \<Longrightarrow> (\<And>x. preserves I (f x)) \<Longrightarrow> preserves I (bind m f)"
  by (rule preserves_bind_Ok)

lemma preserves_simple [preserves_intros]:
  "preserves I (ret x)" "preserves I (fail e)" "preserves I (crash p)" "preserves I (lift q)"
  "preserves I (AssertWith b msg)"
  by (simp_all add: preserves_def AssertWith_def)

text \<open>After a pure call the rest may use its result.\<close>

lemma preserves_lift_bind: "(\<And>x. q = Ok x \<Longrightarrow> preserves I (f x)) \<Longrightarrow> preserves I (bind (lift q) f)"
  by (cases q) (simp_all add: preserves_simple)

lemma preserves_reading [preserves_intros]: "(\<And>s. I s \<Longrightarrow> I (snd (g s))) \<Longrightarrow> preserves I (reading g)"
  by (simp add: preserves_def)

lemma preserves_wrapping [preserves_intros]: "preserves I m \<Longrightarrow> preserves I (wrapping msg m)"
  by (auto simp: preserves_def wrapping_def split: prod.split)

lemma preserves_if [preserves_intros]:
  "(b \<Longrightarrow> preserves I m) \<Longrightarrow> (\<not> b \<Longrightarrow> preserves I m') \<Longrightarrow> preserves I (if b then m else m')"
  by simp

lemma preserves_Let [preserves_intros]: "preserves I (m x) \<Longrightarrow> preserves I (let y = x in m y)"
  by simp

lemma preserves_option [preserves_intros]:
  "(p = None \<Longrightarrow> preserves I m) \<Longrightarrow> (\<And>x. p = Some x \<Longrightarrow> preserves I (g x)) \<Longrightarrow>
     preserves I (case p of None \<Rightarrow> m | Some x \<Rightarrow> g x)"
  by (simp split: option.split)

lemma preserves_pair [preserves_intros]: "(\<And>x y. preserves I (g x y)) \<Longrightarrow> preserves I (case p of (x, y) \<Rightarrow> g x y)"
  by (simp split: prod.split)

lemma preserves_on_part:
  "preserves J m \<Longrightarrow> (\<And>s. I s \<Longrightarrow> J (rd s)) \<Longrightarrow> (\<And>w s. I s \<Longrightarrow> J w \<Longrightarrow> I (wr w s)) \<Longrightarrow> preserves I (on_part rd wr m)"
  by (simp add: preserves_def on_part_def split: prod.split) (metis snd_conv)

lemma preserves_CachedAtom_Get:
  assumes "\<And>s. I s \<Longrightarrow> I (snd (clock s))" and "preserves I retriever" and "\<And>a s. I (wr a s) = I s"
  shows "preserves I (CachedAtom_Get rd wr clock retriever)"
proof (rule preservesI)
  fix s r s' assume "CachedAtom_Get rd wr clock retriever s = (r, s')" and "I s"
  then show "I s'"
    using assms(1) preservesD [OF assms(2)]
    by (auto simp: CachedAtom_Get_def bind_def assms(3) split: prod.splits outcome.splits if_splits) 
qed


section \<open>Requests without private keys\<close>

definition no_private_keys :: "jwks \<Rightarrow> bool" where
  "no_private_keys ks \<longleftrightarrow> (\<forall>k. Some k \<in> set (Keys ks) \<longrightarrow> \<not> private_rsa_key k)"

text \<open>The reader of the body is the decoder of the operator and of the fake API.\<close>

definition discreet :: "jose_lib \<Rightarrow> http_request \<Rightarrow> bool" where
  "discreet J req \<longleftrightarrow> (\<forall>b v ks. rq_Body req = Some b \<longrightarrow> json_decode b = Some v \<longrightarrow>
     dec_jwks J \<lparr>Keys = []\<rparr> v = Some ks \<longrightarrow> no_private_keys ks)"

lemma discreet_no_body: "rq_Body req = None \<Longrightarrow> discreet J req"
  by (simp add: discreet_def)

lemma discreet_same_body: "rq_Body req' = rq_Body req \<Longrightarrow> discreet J req \<Longrightarrow> discreet J req'"
  by (simp add: discreet_def)

lemma request_body_simps [simp]:
  "rq_Body (Header_Set k v req) = rq_Body req" "rq_Body (Header_Add k v req) = rq_Body req"
  "rq_Body (accept_json req) = rq_Body req" "rq_Body (json_headers req) = rq_Body req"
  "rq_Body (NewRequest m u b) = b"
  by (simp_all add: Header_Set_def Header_Add_def accept_json_def json_headers_def NewRequest_def)

lemma discreet_keyless:
  assumes "rq_Body req = Some (json_text v)" and "json_ok v" and "v = JNull \<or> (\<exists>ms. v = JObj ms \<and> field_values ''keys'' ms = [])"
  shows "discreet J req"
  using assms
  by (auto simp: discreet_def dec_jwks_def dec_object_def dec_jwks_members_def dec_field_def no_private_keys_def
      simp del: json_text.simps)

lemma discreet_add:
  assumes "rq_Body req = Some (json_text (enc_add_client_request_ptr r))" shows "discreet J req"
proof (cases r)
  case None
  with assms show ?thesis by (intro discreet_keyless) (auto simp: enc_add_client_request_ptr_def)
next
  case (Some a)
  with assms show ?thesis
    by (intro discreet_keyless)
      (auto simp: enc_add_client_request_ptr_def enc_add_client_request_ok,
       simp add: enc_add_client_request_def codec_simps)
qed

lemma discreet_update:
  assumes "rq_Body req = Some (json_text (enc_update_client_request r))" shows "discreet J req"
  using assms
  by (intro discreet_keyless) (auto simp: enc_update_client_request_ok, simp add: enc_update_client_request_def codec_simps)

lemma check_public_Ok: "check_public J i ks = Ok () \<longleftrightarrow> (\<forall>k\<in>set ks. \<exists>j. k = Some j \<and> jose_IsPublic J (inner j))"
proof (induction ks)
  case (Cons k ks)
  then show ?case by (cases k) auto
qed simp

lemma discreet_jwks:
  assumes "jose_laws J" and "check_public J i (Keys ks) = Ok ()" and "enc_jwks J ks = Ok v"
    and "rq_Body req = Some (json_text v)"
  shows "discreet J req"
proof -
  note read = jwks_roundtrip [OF assms(1,3)]
  have "no_private_keys ks"
    using assms(2) jose_private_not_public [OF assms(1)]
    by (auto simp: no_private_keys_def check_public_Ok private_rsa_key_def)
  with assms(4) read show ?thesis by (simp add: discreet_def)
qed


section \<open>The API client\<close>

text \<open>
  What is asked of the world: the network keeps the condition when it is sent such requests, and so
  do the clock and the ids of tokens.
\<close>

definition discreet_net :: "jose_lib \<Rightarrow> ('w \<Rightarrow> bool) \<Rightarrow> 'w net_lib \<Rightarrow> bool" where
  "discreet_net J W N \<longleftrightarrow>
     (\<forall>req w. discreet J req \<longrightarrow> W w \<longrightarrow> W (snd (http_Do N req w))) \<and>
     (\<forall>b ps p w. W w \<longrightarrow> W (snd (backoff_NextBackOff N b ps w)) \<and> W (backoff_sleep N p w))"

definition keeps_client :: "('w \<Rightarrow> bool) \<Rightarrow> 'w http_api \<Rightarrow> bool" where
  "keeps_client W c \<longleftrightarrow> jose_laws (hc_jose c) \<and> discreet_net (hc_jose c) W (hc_net c) \<and>
     (\<forall>w. W w \<longrightarrow> W (snd (hc_clock c w))) \<and> preserves W (uuid_New (hc_jwt c))"

definition at_client :: "('w \<Rightarrow> bool) \<Rightarrow> 'w http_state \<Rightarrow> bool" where
  "at_client W s \<longleftrightarrow> W (env s)"

lemma preserves_in_env [preserves_intros]: "preserves W m \<Longrightarrow> preserves (at_client W) (in_env m)"
  unfolding in_env_def by (rule preserves_on_part) (auto simp: at_client_def)

lemma next_pause_preserves:
  assumes "discreet_net J W N" and "next_pause N ps w = (q, w')" and "W w" shows "W w'"
proof -
  have "W (snd (backoff_NextBackOff N http_backoff ps w))" using assms(1,3) by (simp add: discreet_net_def)
  with assms(2) show ?thesis by (auto simp: next_pause_def split: prod.splits option.splits)
qed

lemma retry_steps_preserve:
  assumes "discreet_net J W N" and "(retry_step N)\<^sup>*\<^sup>* (ps, req, w) (qs, sent, w1)" and "discreet J req" and "W w"
  shows "discreet J sent \<and> W w1"
  using assms(2)
proof (induction "(qs, sent, w1)" arbitrary: qs sent w1 rule: rtranclp_induct)
  case base
  then show ?case using assms(3,4) by simp
next
  case (step y)
  obtain qs' q v where y: "y = (qs', q, v)" by (cases y)
  from step(2) obtain x u v1 p v2 where do: "http_Do N q v = ((x, u), v1)" and pause: "backoff_NextBackOff N http_backoff qs' v1 = (Some p, v2)"
    and sent: "sent = q\<lparr>rq_unread := u\<rparr>" "w1 = backoff_sleep N p v2"
    unfolding y by (auto elim!: retry_step.cases)
  from step(3) [OF y] have q: "discreet J q" "W v" by simp_all
  then have "W v1" using assms(1) do unfolding discreet_net_def by (metis snd_conv)
  then have "W v2" using assms(1) pause unfolding discreet_net_def by (metis snd_conv)
  then have "W w1" using assms(1) by (simp add: discreet_net_def sent(2))
  moreover have "discreet J sent" unfolding sent(1) by (rule discreet_same_body [OF _ q(1)]) simp
  ultimately show ?case by simp
qed

lemma http_retry_preserves:
  assumes "discreet_net J W N" and "discreet J req" shows "preserves W (http_retry N ps req)"
proof (rule preservesI)
  fix w r w' assume "http_retry N ps req w = (r, w')" and "W w"
  from this(1) obtain qs sent w1 result unread w2 where run: "(retry_step N)\<^sup>*\<^sup>* (ps, req, w) (qs, sent, w1)"
    and do: "http_Do N sent w1 = ((result, unread), w2)"
    and fin: "case operation_error result of None \<Rightarrow> r = result \<and> w' = w2 | Some e \<Rightarrow> r = Err e \<and> next_pause N qs w2 = (None, w')"
    by (rule http_retry_run)
  from retry_steps_preserve [OF assms(1) run assms(2) \<open>W w\<close>] have "W w2"
    using assms(1) do unfolding discreet_net_def by (metis snd_conv)
  with fin show "W w'" using next_pause_preserves [OF assms(1)] by (auto split: option.splits)
qed

lemma retryableHTTPDo_preserves:
  assumes "keeps_client W c" and "discreet (hc_jose c) req"
  shows "preserves (at_client W) (retryableHTTPDo c req)"
proof -
  have "preserves W (http_retry (hc_net c) [] (Header_Add k v req))" for k v
    using assms by (intro http_retry_preserves) (auto simp: keeps_client_def intro: discreet_same_body)
  then show ?thesis unfolding retryableHTTPDo_def by (intro preserves_in_env)
qed

lemma preserves_expect [preserves_intros]: "preserves I (expect_status n resp)"
  unfolding expect_status_def by (intro preserves_intros)

lemma preserves_deserialize [preserves_intros]: "preserves I (deserialize dec z resp)"
  unfolding deserialize_def by (intro preserves_intros)

lemma api_clock_preserves: "keeps_client W c \<Longrightarrow> at_client W s \<Longrightarrow> at_client W (snd (api_clock c s))"
  by (auto simp: keeps_client_def at_client_def api_clock_def split: prod.split)

lemma preserves_cached:
  assumes "keeps_client W c"
  shows "preserves (at_client W) m \<Longrightarrow>
      preserves (at_client W) (CachedAtom_Get wellKnown (\<lambda>a s. s\<lparr>wellKnown := a\<rparr>) (api_clock c) m)"
    and "preserves (at_client W) m' \<Longrightarrow>
      preserves (at_client W) (CachedAtom_Get accessToken (\<lambda>a s. s\<lparr>accessToken := a\<rparr>) (api_clock c) m')"
  using api_clock_preserves [OF assms]
  by (auto intro!: preserves_CachedAtom_Get simp: at_client_def)

lemma GetAccessToken_preserves:
  assumes c: "keeps_client W c" shows "preserves (at_client W) (GetAccessToken c)"
proof -
  note send = retryableHTTPDo_preserves [OF c discreet_no_body]
  have "preserves (at_client W) (wellKnownFetcher c)"
    unfolding wellKnownFetcher_def by (intro preserves_intros send) simp
  then have wk: "preserves (at_client W) (GetWellKnownConfiguration c)"
    unfolding GetWellKnownConfiguration_def by (rule preserves_cached(1) [OF c])
  have "preserves W (Jwk_NewJWT (hc_jose c) (hc_jwt c) k aud iss scope e (hc_clock c))" for k aud iss scope e
    unfolding Jwk_NewJWT_def NewJWT_def using c by (intro preserves_intros) (simp_all add: keeps_client_def)
  then have "preserves (at_client W) (createGrant c)"
    unfolding createGrant_def by (intro preserves_intros wk api_clock_preserves [OF c])
  then have "preserves (at_client W) (accessTokenFetcher c)"
    unfolding accessTokenFetcher_def by (intro preserves_intros send) simp_all
  then show ?thesis unfolding GetAccessToken_def by (rule preserves_cached(2) [OF c])
qed

text \<open>A call of the API: the request that \<open>createReq\<close> makes has the body that it was given.\<close>

lemma createReq_body: "createReq c u m body s = (Ok req, s') \<Longrightarrow> rq_Body req = body"
  by (auto simp: createReq_def bind_eq_Ok_iff)

lemma preserves_call:
  assumes c: "keeps_client W c" and req: "\<And>req. rq_Body req = body \<Longrightarrow> discreet (hc_jose c) req"
    and h: "\<And>req. rq_Body (h req) = rq_Body req" and f: "\<And>resp. preserves (at_client W) (f resp)"
  shows "preserves (at_client W) (bind (createReq c u m body) (\<lambda>req. bind (retryableHTTPDo c (h req)) f))"
proof (rule preserves_bind_Ok)
  show "preserves (at_client W) (createReq c u m body)"
    unfolding createReq_def by (intro preserves_intros GetAccessToken_preserves [OF c])
next
  fix x s s' assume "createReq c u m body s = (Ok x, s')"
  then have "rq_Body (h x) = body" using createReq_body h by metis
  then show "preserves (at_client W) (bind (retryableHTTPDo c (h x)) f)"
    by (intro preserves_intros f retryableHTTPDo_preserves [OF c] req)
qed

lemma api_reads_preserve:
  assumes c: "keeps_client W c"
  shows "preserves (at_client W) (GetAllClients c)" and "preserves (at_client W) (GetClient c i)"
    and "preserves (at_client W) (DeleteClient c i)"
proof -
  note call = preserves_call [OF c discreet_no_body, where body = None]
  have jwks: "preserves (at_client W) (getClientJwks c i)"
    unfolding getClientJwks_def by (intro preserves_intros call) simp_all
  show "preserves (at_client W) (GetAllClients c)"
    unfolding GetAllClients_def by (intro preserves_intros call) simp_all
  show "preserves (at_client W) (GetClient c i)"
    unfolding GetClient_def by (intro preserves_intros call jwks) simp_all
  show "preserves (at_client W) (DeleteClient c i)"
    unfolding DeleteClient_def by (intro preserves_intros call [where h = "\<lambda>req. req"]) simp_all
qed

text \<open>The writes: a key set is uploaded only after its keys were looked at, the other bodies have none.\<close>

lemma api_writes_preserve:
  assumes c: "keeps_client W c"
  shows "preserves (at_client W) (CreateClientJwks c i ks)" and "preserves (at_client W) (UpdateClient c i upd)"
    and "preserves (at_client W) (CreateClient c areq ks)"
proof -
  have laws: "jose_laws (hc_jose c)" using c by (simp add: keeps_client_def)
  show jwks: "preserves (at_client W) (CreateClientJwks c i ks)" for i ks
    unfolding CreateClientJwks_def
    by (intro preserves_lift_bind preserves_intros preserves_call [OF c])
      (auto intro: discreet_jwks [OF laws])
  show "preserves (at_client W) (UpdateClient c i upd)"
    unfolding UpdateClient_def by (intro preserves_intros preserves_call [OF c] discreet_update) simp_all
  show "preserves (at_client W) (CreateClient c areq ks)"
    unfolding CreateClient_def by (intro preserves_intros preserves_call [OF c] discreet_add jwks) simp_all
qed


section \<open>The keys and the controller\<close>

definition keeps_crypto :: "('w \<Rightarrow> bool) \<Rightarrow> 'w crypto_service \<Rightarrow> bool" where
  "keeps_crypto W c \<longleftrightarrow> (\<forall>w. W w \<longrightarrow> W (snd (cs_clock c w))) \<and>
     (\<forall>n. preserves W (rsa_GenerateKey (cs_random c) n) \<and> preserves W (random_ReadFull (cs_random c) (nat n))) \<and>
     preserves W (uuid_NewRandomFromReader (cs_random c)) \<and> (\<forall>crt k. preserves W (x509_sign (cs_random c) crt k))"

lemma keys_preserve:
  assumes "keeps_crypto W c"
  shows "preserves W (CreateJwks c cn t)" and "preserves W (RotateIfNeeded c cn t ks)"
proof -
  have parts: "W w \<Longrightarrow> W (snd (cs_clock c w))" "preserves W (rsa_GenerateKey (cs_random c) n)"
    "preserves W (random_ReadFull (cs_random c) 16)" "preserves W (uuid_NewRandomFromReader (cs_random c))"
    "preserves W (x509_sign (cs_random c) crt k)" for w n crt k
    using assms unfolding keeps_crypto_def by (simp_all, metis nat_numeral)
  have cert: "preserves W (createCert c cn t)"
    unfolding createCert_def generateCertSerialNumber_def x509_CreateCertificate_def
    by (intro preserves_intros parts)
  have jwks: "preserves W (createJWKS c crt k i)" for crt k i
    unfolding createJWKS_def by (intro preserves_intros parts)
  show "preserves W (CreateJwks c cn t)"
    unfolding CreateJwks_def by (intro preserves_intros cert jwks)
  show "preserves W (RotateIfNeeded c cn t ks)"
    unfolding RotateIfNeeded_def by (intro preserves_intros cert jwks parts)
qed

definition at_heap :: "('w \<Rightarrow> bool) \<Rightarrow> 'w with_heap \<Rightarrow> bool" where
  "at_heap W s \<longleftrightarrow> W (fst s)"

lemma preserves_in_world [preserves_intros]: "preserves W m \<Longrightarrow> preserves (at_heap W) (in_world m)"
  unfolding in_world_def by (rule preserves_on_part) (auto simp: at_heap_def)

lemma preserves_alloc [preserves_intros]:
  "preserves (at_heap W) (new_api_state a)" "preserves (at_heap W) (new_secret_content c)"
  by (auto simp: preserves_def at_heap_def new_api_state_def new_secret_content_def in_heap_def on_part_def)

lemma Reconcile_preserves:
  assumes "keeps_crypto W crypto" and "\<And>w. W w \<Longrightarrow> W (snd (clock w))"
  shows "preserves (at_heap W) (Reconcile J s ctx cfg crypto clock)"
  unfolding Reconcile_def reconcile_create_def reconcile_restore_def reconcile_update_def getNotAfter_def
    update_secret_cmds_def upload_jwks_cmds_def update_scopes_cmds_def
  by (intro preserves_intros keys_preserve [OF assms(1)] assms(2))

definition keeps_cluster :: "('w \<Rightarrow> bool) \<Rightarrow> 'w k8s_lib \<Rightarrow> bool" where
  "keeps_cluster W K \<longleftrightarrow>
     (\<forall>ns n. preserves W (k8s_Get K ns n) \<and> preserves W (k8s_ListSecrets K ns n)) \<and>
     (\<forall>x. preserves W (k8s_UpdateSecret K x)) \<and> (\<forall>x. preserves W (k8s_Update K x) \<and> preserves W (k8s_StatusUpdate K x)) \<and>
     (\<forall>w n. W w \<longrightarrow> W (snd (metav1_Now K w)) \<and> W (snd (rand_Int64N K n w)))"

text \<open>Everything that a controller uses but the sending of requests with private keys keeps the condition.\<close>

definition keeps_world :: "('w \<Rightarrow> bool) \<Rightarrow> 'w reconciler \<Rightarrow> bool" where
  "keeps_world W r \<longleftrightarrow> (let rt = rc_runtime r in
     keeps_client W (rt_maskinportenApiClient rt) \<and> keeps_crypto W (rt_crypto rt) \<and> keeps_cluster W (rc_k8s r) \<and>
     (\<forall>w. W w \<longrightarrow> W (snd (rt_clock rt w))))"

definition at_ctrl :: "('w \<Rightarrow> bool) \<Rightarrow> 'w ctrl_state \<Rightarrow> bool" where
  "at_ctrl W s \<longleftrightarrow> at_client W (api_st s)"

lemma preserves_in_api [preserves_intros]: "preserves (at_client W) m \<Longrightarrow> preserves (at_ctrl W) (in_api m)"
  unfolding in_api_def by (rule preserves_on_part) (auto simp: at_ctrl_def)

lemma preserves_in_k8s [preserves_intros]: "preserves W m \<Longrightarrow> preserves (at_ctrl W) (in_k8s m)"
  unfolding in_k8s_def by (intro preserves_intros)

lemma preserves_in_cmds [preserves_intros]: "preserves (at_heap W) m \<Longrightarrow> preserves (at_ctrl W) (in_cmds m)"
  unfolding in_cmds_def by (rule preserves_on_part [where J = "at_heap W"]) (auto simp: at_ctrl_def at_client_def at_heap_def)

lemma preserves_store [preserves_intros]:
  "preserves (at_ctrl W) (read_store f)" "preserves (at_ctrl W) (in_store m)"
  by (auto simp: preserves_def read_store_def in_store_def on_part_def at_ctrl_def split: prod.split)


lemma updateStatus_preserves:
  assumes "keeps_world W r" shows "preserves (at_ctrl W) (updateStatus r req inst st msg cmds)"
proof -
  have k8s: "W w \<Longrightarrow> W (snd (metav1_Now (rc_k8s r) w))" "preserves W (k8s_Update (rc_k8s r) x)"
    "preserves W (k8s_StatusUpdate (rc_k8s r) x)" for w x
    using assms by (simp_all add: keeps_world_def keeps_cluster_def Let_def)
  show ?thesis
    unfolding updateStatus_def by (intro preserves_intros k8s)
qed

lemma updateStatusWithError_preserves:
  assumes "keeps_world W r" shows "preserves (at_ctrl W) (updateStatusWithError r msg inst cmds)"
  using preservesD [OF updateStatus_preserves [OF assms]]
  by (auto simp: preserves_def updateStatusWithError_def split: prod.split outcome.split)

lemma loadInstance_preserves:
  assumes "keeps_world W r" shows "preserves (at_ctrl W) (loadInstance r req)"
proof -
  have "preserves W (k8s_Get (rc_k8s r) ns n)" for ns n
    using assms by (simp add: keeps_world_def keeps_cluster_def Let_def)
  then show ?thesis
    unfolding loadInstance_def by (intro preserves_intros updateStatus_preserves [OF assms])
qed

lemma fetchCurrentState_preserves:
  assumes "keeps_world W r" shows "preserves (at_ctrl W) (fetchCurrentState r req)"
proof -
  have k8s: "preserves W (k8s_ListSecrets (rc_k8s r) ns n)" for ns n
    using assms by (simp add: keeps_world_def keeps_cluster_def Let_def)
  have "keeps_client W (rt_maskinportenApiClient (rc_runtime r))" using assms by (simp add: keeps_world_def Let_def)
  note api = api_reads_preserve [OF this]
  have "preserves (at_ctrl W) (fetch_client r req content)" for content
    unfolding fetch_client_def by (intro preserves_intros api)
  then show ?thesis
    unfolding fetchCurrentState_def by (intro preserves_intros k8s)
qed

lemma run_command_preserves:
  assumes "keeps_world W r" shows "preserves (at_ctrl W) (run_command r cs cmd)"
proof -
  have k8s: "preserves W (k8s_UpdateSecret (rc_k8s r) x)" for x
    using assms by (simp add: keeps_world_def keeps_cluster_def Let_def)
  have "keeps_client W (rt_maskinportenApiClient (rc_runtime r))" using assms by (simp add: keeps_world_def Let_def)
  note api = api_reads_preserve(3) [OF this] api_writes_preserve [OF this]
  show ?thesis
    unfolding run_command_def
    by (cases "cmd_Data cmd") (simp_all only: command_data.case, (intro preserves_intros api k8s)+)
qed

lemma run_commands_preserves:
  assumes "keeps_world W r" shows "preserves (at_ctrl W) (run_commands r cs executed cmds)"
proof (induction cmds arbitrary: executed)
  case (Cons cmd cmds)
  with preservesD [OF run_command_preserves [OF assms]] show ?case
    by (auto simp: preserves_def split: prod.split outcome.split)
qed (simp add: preserves_def)

lemma reconcile_preserves:
  assumes "keeps_world W r" shows "preserves (at_ctrl W) (reconcile r cs)"
proof -
  have "preserves (at_ctrl W) (in_cmds (Reconcile (rc_jose r) cs (rt_operatorContext (rc_runtime r))
      (rt_config (rc_runtime r)) (rt_crypto (rc_runtime r)) (rt_clock (rc_runtime r))))"
    using assms by (intro preserves_in_cmds Reconcile_preserves) (simp_all add: keeps_world_def Let_def)
  note decide = preservesD [OF this] and run = preservesD [OF run_commands_preserves [OF assms]]
  show ?thesis
    by (auto simp: preserves_def reconcile_def Let_def dest: decide run split: prod.split outcome.split)
qed

lemma reconcile_loaded_preserves:
  fixes r :: "'w reconciler"
  assumes "keeps_world W r" shows "preserves (at_ctrl W) (reconcile_loaded r req inst)"
proof -
  have rand: "W w \<Longrightarrow> W (snd (rand_Int64N (rc_k8s r) n w))" for n w
    using assms by (simp add: keeps_world_def keeps_cluster_def Let_def)
  have interval: "preserves (at_ctrl W) (getRequeueAfter r)"
    unfolding getRequeueAfter_def randomizeDuration_def Int64N_def by (intro preserves_intros rand)
  note error = updateStatusWithError_preserves [OF assms]
  have rest: "preserves (at_ctrl W) (bind (reconcile r cs) (\<lambda>(executed, err). case err of
      Some e \<Rightarrow> bind (updateStatusWithError r ''reconcile failed'' inst executed) (\<lambda>_. fail e)
    | None \<Rightarrow> let n = (case executed of None \<Rightarrow> 0 | Some cmds \<Rightarrow> length cmds) in
        if n = 0 then ret 0
        else bind (updateStatus r (Some req) inst ''reconciled''
            (''Reconciled '' @ itoa (int n) @ '' resources'') executed) (\<lambda>_. getRequeueAfter r)))" for cs
    by (intro preserves_intros reconcile_preserves [OF assms] error updateStatus_preserves [OF assms] interval)
  have failed: "preserves (at_ctrl W) (bind (updateStatusWithError r ''fetchCurrentState failed'' inst None)
      (\<lambda>_. fail e :: ('w ctrl_state, duration) prog))" for e
    by (intro preserves_intros error)
  show ?thesis
    using preservesD [OF fetchCurrentState_preserves [OF assms]] rest failed
    by (auto simp: reconcile_loaded_def preserves_def split: prod.split outcome.split)
qed

lemma Controller_Reconcile_preserves:
  assumes "keeps_world W r" shows "preserves (at_ctrl W) (Controller_Reconcile r ns name)"
  using preservesD [OF loadInstance_preserves [OF assms]] reconcile_loaded_preserves [OF assms]
  by (auto simp: Controller_Reconcile_def preserves_def split: prod.split outcome.split option.split)


section \<open>The operator over time\<close>

text \<open>
  The operator calls the controller for one resource after the other; between two calls anything may
  happen outside.
\<close>

inductive operator_step :: "'w reconciler \<Rightarrow> ('w \<Rightarrow> 'w \<Rightarrow> bool) \<Rightarrow> 'w ctrl_state \<Rightarrow> 'w ctrl_state \<Rightarrow> bool"
  for r others
where
  call: "Controller_Reconcile r ns name s = (x, s') \<Longrightarrow> operator_step r others s s'"
| outside: "others (env (api_st s)) w \<Longrightarrow> operator_step r others s (s\<lparr>api_st := (api_st s)\<lparr>env := w\<rparr>\<rparr>)"

lemma operator_step_preserves:
  assumes "keeps_world W r" and "\<And>w w'. others w w' \<Longrightarrow> W w \<Longrightarrow> W w'"
    and "operator_step r others s s'" and "at_ctrl W s"
  shows "at_ctrl W s'"
  using assms(3)
proof cases
  case (call ns name x)
  with assms(4) show ?thesis by (blast intro: preservesD [OF Controller_Reconcile_preserves [OF assms(1)]])
next
  case (outside w)
  with assms(2,4) show ?thesis by (auto simp: at_ctrl_def at_client_def)
qed

lemma operator_steps_preserve:
  assumes "keeps_world W r" and "\<And>w w'. others w w' \<Longrightarrow> W w \<Longrightarrow> W w'"
    and "(operator_step r others)\<^sup>*\<^sup>* s s'" and "at_ctrl W s"
  shows "at_ctrl W s'"
  using assms(3,4) by induction (auto intro: operator_step_preserves [OF assms(1,2)])


section \<open>Operators that keep to themselves\<close>

text \<open>A part of the world that only the network of the operator writes.\<close>

definition quiet_world :: "('w \<Rightarrow> 'b) \<Rightarrow> 'w reconciler \<Rightarrow> bool" where
  "quiet_world f r \<longleftrightarrow> (let rt = rc_runtime r; c = rt_maskinportenApiClient rt; rnd = cs_random (rt_crypto rt); K = rc_k8s r in
     (\<forall>w. f (snd (hc_clock c w)) = f w \<and> f (snd (rt_clock rt w)) = f w \<and> f (snd (cs_clock (rt_crypto rt) w)) = f w \<and>
        f (snd (metav1_Now K w)) = f w \<and> (\<forall>n. f (snd (rand_Int64N K n w)) = f w)) \<and>
     keeps f (uuid_New (hc_jwt c)) \<and> (\<forall>n. keeps f (rsa_GenerateKey rnd n)) \<and> (\<forall>n. keeps f (random_ReadFull rnd n)) \<and>
     keeps f (uuid_NewRandomFromReader rnd) \<and> (\<forall>crt k. keeps f (x509_sign rnd crt k)) \<and>
     (\<forall>ns n. keeps f (k8s_Get K ns n) \<and> keeps f (k8s_ListSecrets K ns n)) \<and>
     (\<forall>x. keeps f (k8s_UpdateSecret K x)) \<and> (\<forall>x. keeps f (k8s_Update K x)) \<and> (\<forall>x. keeps f (k8s_StatusUpdate K x)))"

lemma keeps_preserves: "keeps f m \<Longrightarrow> preserves (\<lambda>w. P (f w)) m"
  by (simp add: preserves_def keepsD)

lemma quiet_world_keeps:
  assumes "quiet_world f r" and "jose_laws (hc_jose (rt_maskinportenApiClient (rc_runtime r)))"
    and "discreet_net (hc_jose (rt_maskinportenApiClient (rc_runtime r))) (\<lambda>w. P (f w))
      (hc_net (rt_maskinportenApiClient (rc_runtime r)))"
  shows "keeps_world (\<lambda>w. P (f w)) r"
  using assms
  by (simp add: quiet_world_def keeps_world_def keeps_client_def keeps_crypto_def keeps_cluster_def Let_def keeps_preserves)

end
