(* ===== verification/FakesDb.thy ===== *)
theory FakesDb
  imports ClientTypes
begin

text \<open>
  The data of the fake self-service API, \<open>internal/fakes/db.go\<close>: a slice of client records with an
  index from client ids to positions in it. \<open>Insert\<close> appends and \<open>Delete\<close> moves the last record to
  the place of the deleted one. The pointer in a record to its client is never \<open>nil\<close>, since
  \<open>Insert\<close> makes the client.

  Ids and the time come from the outside world, the time in its wire form. \<open>Get\<close> returns a pointer
  into the slice; its callers only read through it, so it is the record here.
\<close>

record client_record =
  rec_ClientId :: string
  rec_Client :: client_response
  rec_Jwks :: "jwks option"

record db =
  Clients :: "client_record list"
  ClientIdIndex :: "string \<rightharpoonup> nat"

record 'w fake_world_lib =
  fw_uuid :: "('w, string) prog"
  fw_Now :: "'w \<Rightarrow> time_text \<times> 'w"

definition InvalidClientName :: go_error where
  "InvalidClientName = Errorf ''invalid client ID'' []"

definition ClientAlreadyExists :: go_error where
  "ClientAlreadyExists = Errorf ''client already exists'' []"

definition SupplierOrgNo :: string where
  "SupplierOrgNo = ''11111111''"

definition NewDb :: db where
  "NewDb = \<lparr>Clients = [], ClientIdIndex = Map.empty\<rparr>"

text \<open>The client that \<open>Insert\<close> makes of a request.\<close>

definition new_client :: "add_client_request \<Rightarrow> string \<Rightarrow> time_text \<Rightarrow> client_response" where
  "new_client req clientId now = zero_client_response\<lparr>
     cr_ClientId := clientId,
     cr_ClientName := ac_ClientName req,
     cr_LogoUri := ac_LogoUri req,
     cr_Description := ac_Description req,
     cr_Scopes := ac_Scopes req,
     cr_RedirectUris := ac_RedirectUris req,
     cr_PostLogoutRedirectUris := ac_PostLogoutRedirectUris req,
     cr_AuthorizationLifetime := ac_AuthorizationLifetime req,
     cr_AccessTokenLifetime := ac_AccessTokenLifetime req,
     cr_RefreshTokenLifetime := ac_RefreshTokenLifetime req,
     cr_RefreshTokenUsage := ac_RefreshTokenUsage req,
     cr_FrontchannelLogoutUri := ac_FrontchannelLogoutUri req,
     cr_FrontchannelLogoutSessionRequired := ac_FrontchannelLogoutSessionRequired req,
     cr_TokenEndpointAuthMethod := ac_TokenEndpointAuthMethod req,
     cr_GrantTypes := ac_GrantTypes req,
     cr_IntegrationType := ac_IntegrationType req,
     cr_ApplicationType := ac_ApplicationType req,
     cr_SsoDisabled := ac_SsoDisabled req,
     cr_CodeChallengeMethod := ac_CodeChallengeMethod req,
     cr_LastUpdated := Some now,
     cr_Created := Some now,
     cr_ClientSecret := None,
     cr_ClientOrgno := ac_ClientOrgno req,
     cr_SupplierOrgno := Some SupplierOrgNo,
     cr_Active := Some True,
     cr_JwksUri := Some []\<rparr>"

definition add_record :: "client_record \<Rightarrow> db \<Rightarrow> db" where
  "add_record r d = d\<lparr>Clients := Clients d @ [r],
     ClientIdIndex := (ClientIdIndex d)(rec_ClientId r \<mapsto> length (Clients d))\<rparr>"

definition in_world_part :: "('w, 'a) prog \<Rightarrow> (db \<times> 'w, 'a) prog" where
  "in_world_part = on_part snd (\<lambda>w s. (fst s, w))"

definition Insert ::
  "'w fake_world_lib \<Rightarrow> add_client_request \<Rightarrow> jwks option \<Rightarrow> string \<Rightarrow> (db \<times> 'w, client_record) prog"
where
  "Insert F req jwks overrideClientId =
     (if ac_ClientName req = None \<or> ac_ClientName req = Some [] then fail InvalidClientName
      else
        bind (if overrideClientId \<noteq> [] then ret overrideClientId else in_world_part (fw_uuid F)) (\<lambda>clientId.
        bind (\<lambda>(d, w). (Ok (ClientIdIndex d clientId), (d, w))) (\<lambda>found.
        if found \<noteq> None then fail ClientAlreadyExists
        else
          bind (in_world_part (reading (fw_Now F))) (\<lambda>now.
          let r = \<lparr>rec_ClientId = clientId, rec_Client = new_client req clientId now, rec_Jwks = jwks\<rparr>
          in (\<lambda>(d, w). (Ok r, (add_record r d, w)))))))"

definition set_jwks :: "jwks option \<Rightarrow> client_record \<Rightarrow> client_record" where
  "set_jwks jwks r = r\<lparr>rec_Jwks := jwks\<rparr>"

definition UpdateJwks :: "string \<Rightarrow> jwks option \<Rightarrow> (db, unit) prog" where
  "UpdateJwks clientId jwks d = (case ClientIdIndex d clientId of
       None \<Rightarrow> (Err (ErrorNew ''client not found''), d)
     | Some i \<Rightarrow>
         if i < length (Clients d)
         then (Ok (), d\<lparr>Clients := (Clients d)[i := set_jwks jwks (Clients d ! i)]\<rparr>)
         else (Panic IndexOutOfRange, d))"

text \<open>
  The entry of the index goes first. Reading the last record of an empty slice is out of range;
  the index of the record that moves is not changed.
\<close>

definition Db_Delete :: "string \<Rightarrow> (db, bool) prog" where
  "Db_Delete clientId d = (case ClientIdIndex d clientId of
       None \<Rightarrow> (Ok False, d)
     | Some i \<Rightarrow>
         (let d = d\<lparr>ClientIdIndex := (ClientIdIndex d)(clientId := None)\<rparr>; cs = Clients d in
          if i < length cs then (Ok True, d\<lparr>Clients := butlast (cs[i := last cs])\<rparr>)
          else (Panic IndexOutOfRange, d)))"

definition Db_Get :: "string \<Rightarrow> db \<Rightarrow> client_record option outcome" where
  "Db_Get clientId d = (case ClientIdIndex d clientId of
       None \<Rightarrow> Ok None
     | Some i \<Rightarrow> obind (index (Clients d) i) (\<lambda>client.
         if rec_ClientId client \<noteq> clientId then Panic (PanicWith ''inconsistent state'')
         else Ok (Some client)))"

text \<open>The predicate of a query may panic.\<close>

fun Query :: "(client_record \<Rightarrow> bool outcome) \<Rightarrow> client_record list \<Rightarrow> client_record list outcome" where
  "Query p [] = Ok []"
| "Query p (r # rs) = obind (p r) (\<lambda>b.
     obind (Query p rs) (\<lambda>result. Ok (if b then r # result else result)))"


section \<open>A store of records, abstractly\<close>

text \<open>
  What the handlers rely on: a new record is found under its key and leaves the others alone,
  keys are compared by what is looked up, and both ways of writing keep the store sound. Deletion
  is not among the promises.
\<close>

locale record_store =
  fixes sound :: "'s \<Rightarrow> bool"
    and key :: "'r \<Rightarrow> 'k"
    and find_rec :: "'k \<Rightarrow> 's \<Rightarrow> 'r option"
    and add :: "'r \<Rightarrow> 's \<Rightarrow> 's"
    and modify :: "'k \<Rightarrow> ('r \<Rightarrow> 'r) \<Rightarrow> 's \<Rightarrow> 's"
  assumes find_key: "sound s \<Longrightarrow> find_rec k s = Some r \<Longrightarrow> key r = k"
    and sound_add: "sound s \<Longrightarrow> find_rec (key r) s = None \<Longrightarrow> sound (add r s)"
    and find_add: "sound s \<Longrightarrow> find_rec (key r) s = None \<Longrightarrow>
          find_rec k (add r s) = (if k = key r then Some r else find_rec k s)"
    and sound_modify: "sound s \<Longrightarrow> (\<And>r. key (f r) = key r) \<Longrightarrow> sound (modify k f s)"
    and find_modify: "sound s \<Longrightarrow> (\<And>r. key (f r) = key r) \<Longrightarrow>
          find_rec k' (modify k f s) = (if k' = k then map_option f (find_rec k s) else find_rec k' s)"
begin

text \<open>A record that is added and then modified is found modified, and nothing else changed.\<close>

lemma find_add_modify:
  assumes "sound s" and "find_rec (key r) s = None" and "\<And>r. key (f r) = key r"
  shows "find_rec k (modify (key r) f (add r s)) = (if k = key r then Some (f r) else find_rec k s)"
  using assms sound_add [OF assms(1,2)] by (simp add: find_modify find_add)

lemma find_adds:
  assumes "sound s" and "distinct (map key rs)" and "\<forall>r\<in>set rs. find_rec (key r) s = None"
  shows "sound (fold add rs s) \<and> find_rec k (fold add rs s) =
    (case find (\<lambda>r. key r = k) rs of None \<Rightarrow> find_rec k s | Some r \<Rightarrow> Some r)"
  using assms
proof (induction rs arbitrary: s)
  case Nil
  then show ?case by simp
next
  case (Cons r rs)
  have "\<forall>r'\<in>set rs. find_rec (key r') (add r s) = None"
    using Cons.prems by (simp add: find_add) (metis image_eqI)
  with Cons.IH [of "add r s"] Cons.prems sound_add [of s r]
  have "sound (fold add rs (add r s)) \<and> find_rec k (fold add rs (add r s)) =
      (case find (\<lambda>r. key r = k) rs of None \<Rightarrow> find_rec k (add r s) | Some r \<Rightarrow> Some r)" by simp
  moreover have "key r = k \<Longrightarrow> find (\<lambda>r. key r = k) rs = None"
    using Cons.prems(2) by (simp add: find_None_iff) (metis image_eqI)
  ultimately show ?case
    using Cons.prems by (auto simp: find_add split: option.splits)
qed

end

text \<open>
  A database is sound when its index holds exactly the positions of the records under their ids.
  Then \<open>Db_Get\<close> is the search of the slice that the index replaces.
\<close>

definition db_ok :: "db \<Rightarrow> bool" where
  "db_ok d \<longleftrightarrow> (\<forall>k i. ClientIdIndex d k = Some i \<longleftrightarrow>
     i < length (Clients d) \<and> rec_ClientId (Clients d ! i) = k)"

definition db_find :: "string \<Rightarrow> db \<Rightarrow> client_record option" where
  "db_find k d = find (\<lambda>r. rec_ClientId r = k) (Clients d)"

definition modify_record :: "string \<Rightarrow> (client_record \<Rightarrow> client_record) \<Rightarrow> db \<Rightarrow> db" where
  "modify_record k f d = (case ClientIdIndex d k of
       None \<Rightarrow> d
     | Some i \<Rightarrow> d\<lparr>Clients := (Clients d)[i := f (Clients d ! i)]\<rparr>)"

lemma db_ok_NewDb [simp]: "db_ok NewDb"
  by (simp add: db_ok_def NewDb_def)

lemma db_find_NewDb [simp]: "db_find k NewDb = None"
  by (simp add: db_find_def NewDb_def)

lemma db_okD:
  "db_ok d \<Longrightarrow> ClientIdIndex d k = Some i \<Longrightarrow> i < length (Clients d) \<and> rec_ClientId (Clients d ! i) = k"
  "db_ok d \<Longrightarrow> i < length (Clients d) \<Longrightarrow> ClientIdIndex d (rec_ClientId (Clients d ! i)) = Some i"
  by (auto simp: db_ok_def)

lemma db_ok_distinct: "db_ok d \<Longrightarrow> distinct (map rec_ClientId (Clients d))"
  by (simp add: distinct_conv_nth) (metis db_okD(2) option.inject)

lemma db_find_index:
  assumes "db_ok d"
  shows "db_find k d = map_option ((!) (Clients d)) (ClientIdIndex d k)"
proof (cases "ClientIdIndex d k")
  case None
  have "rec_ClientId r \<noteq> k" if "r \<in> set (Clients d)" for r
    using that db_okD(2) [OF assms] None by (auto simp: in_set_conv_nth)
  with None show ?thesis by (auto simp: db_find_def find_None_iff)
next
  case (Some i)
  with db_okD(1) [OF assms] have i: "i < length (Clients d)" "rec_ClientId (Clients d ! i) = k" by auto
  moreover have "rec_ClientId (Clients d ! j) \<noteq> k" if "j < i" for j
    using that i db_okD(2) [OF assms] Some by (metis option.inject order.strict_trans nat_neq_iff)
  ultimately have "db_find k d = Some (Clients d ! i)"
    unfolding db_find_def find_Some_iff by blast
  with Some show ?thesis by simp
qed

lemma Db_Get_find: "db_ok d \<Longrightarrow> Db_Get k d = Ok (db_find k d)"
  using db_okD(1) by (auto simp: Db_Get_def db_find_index index_def split: option.split)

lemma db_ok_add:
  assumes "db_ok d" and "db_find (rec_ClientId r) d = None"
  shows "db_ok (add_record r d)"
proof -
  have none: "ClientIdIndex d (rec_ClientId r) = None" using assms by (simp add: db_find_index)
  have "rec_ClientId (Clients d ! i) \<noteq> rec_ClientId r" if "i < length (Clients d)" for i
    using db_okD(2) [OF assms(1) that] none by auto
  then have "(if k = rec_ClientId r then Some (length (Clients d)) else ClientIdIndex d k) = Some i \<longleftrightarrow>
      i < Suc (length (Clients d)) \<and> rec_ClientId ((Clients d @ [r]) ! i) = k" for k i
    using assms(1) by (auto simp: db_ok_def nth_append less_Suc_eq)
  then show ?thesis by (simp add: db_ok_def add_record_def)
qed

lemma find_append_case: "find P (xs @ ys) = (case find P xs of None \<Rightarrow> find P ys | Some x \<Rightarrow> Some x)"
  by (induction xs) auto

lemma db_find_add:
  assumes "db_find (rec_ClientId r) d = None"
  shows "db_find k (add_record r d) = (if k = rec_ClientId r then Some r else db_find k d)"
  using assms by (auto simp: db_find_def add_record_def find_append_case split: option.split)

lemma db_ok_modify:
  assumes "db_ok d" and "\<And>r. rec_ClientId (f r) = rec_ClientId r"
  shows "db_ok (modify_record k f d)"
  using assms
  by (auto simp: db_ok_def modify_record_def nth_list_update split: option.splits)

lemma db_find_modify:
  assumes "db_ok d" and "\<And>r. rec_ClientId (f r) = rec_ClientId r"
  shows "db_find k' (modify_record k f d) = (if k' = k then map_option f (db_find k d) else db_find k' d)"
proof (cases "ClientIdIndex d k")
  case None
  with assms(1) show ?thesis by (auto simp: db_find_index modify_record_def)
next
  case (Some i)
  have other: "ClientIdIndex d k' = Some j \<Longrightarrow> k' \<noteq> k \<Longrightarrow> j \<noteq> i" for j
    using db_okD(1) [OF assms(1)] Some by metis
  have "db_find k' (modify_record k f d) =
      map_option ((!) (Clients (modify_record k f d))) (ClientIdIndex (modify_record k f d) k')"
    by (rule db_find_index [OF db_ok_modify [OF assms]])
  also have "\<dots> = map_option ((!) ((Clients d)[i := f (Clients d ! i)])) (ClientIdIndex d k')"
    using Some by (simp add: modify_record_def)
  also have "\<dots> = (if k' = k then map_option f (db_find k d) else db_find k' d)"
    using Some other db_okD(1) [OF assms(1) Some]
    by (cases "ClientIdIndex d k'") (auto simp: db_find_index [OF assms(1)])
  finally show ?thesis .
qed

interpretation fdb: record_store db_ok rec_ClientId db_find add_record modify_record
proof unfold_locales
  fix d k r assume "db_ok d" and "db_find k d = Some r"
  then show "rec_ClientId r = k" by (auto simp: db_find_def find_Some_iff)
qed (rule db_ok_add db_find_add db_ok_modify db_find_modify; assumption)+


section \<open>The operations on a sound database\<close>

lemma UpdateJwks_ok:
  assumes "db_ok d"
  shows "UpdateJwks k jwks d = (if db_find k d = None then (Err (ErrorNew ''client not found''), d)
     else (Ok (), modify_record k (set_jwks jwks) d))"
  using assms db_okD(1) by (auto simp: UpdateJwks_def db_find_index modify_record_def split: option.split)

lemma set_jwks_id [simp]: "rec_ClientId (set_jwks ks r) = rec_ClientId r"
  by (simp add: set_jwks_def)

text \<open>\<open>Insert\<close> in one piece, and what a successful one did.\<close>

definition insert_id :: "'w fake_world_lib \<Rightarrow> string \<Rightarrow> ('w, string) prog" where
  "insert_id F override = (if override \<noteq> [] then ret override else fw_uuid F)"

lemma Insert_eq:
  "Insert F req jwks override (d, w) =
     (if ac_ClientName req = None \<or> ac_ClientName req = Some [] then (Err InvalidClientName, (d, w))
      else (case insert_id F override w of
          (Err e, w1) \<Rightarrow> (Err e, (d, w1))
        | (Panic p, w1) \<Rightarrow> (Panic p, (d, w1))
        | (Ok i, w1) \<Rightarrow>
            if ClientIdIndex d i \<noteq> None then (Err ClientAlreadyExists, (d, w1))
            else let r = \<lparr>rec_ClientId = i, rec_Client = new_client req i (fst (fw_Now F w1)), rec_Jwks = jwks\<rparr>
                 in (Ok r, (add_record r d, snd (fw_Now F w1)))))"
  unfolding Insert_def insert_id_def
  by (cases "fw_uuid F w"; cases "fst (fw_uuid F w)")
    (simp_all add: bind_def in_world_part_def on_part_def Let_def)

lemma Insert_Ok:
  assumes "Insert F req jwks override (d, w) = (Ok r, (d', w'))"
  obtains name i w1 now where "ac_ClientName req = Some name" and "name \<noteq> []"
    and "insert_id F override w = (Ok i, w1)" and "ClientIdIndex d i = None" and "fw_Now F w1 = (now, w')"
    and "r = \<lparr>rec_ClientId = i, rec_Client = new_client req i now, rec_Jwks = jwks\<rparr>"
    and "d' = add_record r d"
proof -
  from assms obtain name where name: "ac_ClientName req = Some name" "name \<noteq> []"
    by (cases "ac_ClientName req") (auto simp: Insert_eq split: if_splits)
  obtain x w1 where id: "insert_id F override w = (x, w1)" by (cases "insert_id F override w")
  with assms name obtain i where "x = Ok i" and "ClientIdIndex d i = None"
    by (cases x) (auto simp: Insert_eq split: if_splits)
  with assms name id that [of name i w1 "fst (fw_Now F w1)"] show ?thesis
    by (auto simp: Insert_eq Let_def)
qed

lemma Insert_run:
  assumes "ac_ClientName req = Some name" and "name \<noteq> []"
    and "insert_id F override w = (Ok i, w1)" and "ClientIdIndex d i = None"
  shows "Insert F req jwks override (d, w) =
    (let r = \<lparr>rec_ClientId = i, rec_Client = new_client req i (fst (fw_Now F w1)), rec_Jwks = jwks\<rparr>
     in (Ok r, (add_record r d, snd (fw_Now F w1))))"
  using assms by (simp add: Insert_eq)

lemma Insert_not_Ok_db:
  assumes "Insert F req jwks override (d, w) = (r, (d', w'))" and "\<not> is_Ok r"
  shows "d' = d"
proof -
  obtain x w1 where "insert_id F override w = (x, w1)" by (cases "insert_id F override w")
  with assms show ?thesis by (cases x) (auto simp: Insert_eq Let_def split: if_splits)
qed

text \<open>Every sequence of insertions and key updates, with their errors, keeps a database sound.\<close>

datatype db_op = InsertOp add_client_request "jwks option" string | UpdateOp string "jwks option"

fun run_db_op :: "'w fake_world_lib \<Rightarrow> db_op \<Rightarrow> db \<times> 'w \<Rightarrow> db \<times> 'w" where
  "run_db_op F (InsertOp req jwks override) s = snd (Insert F req jwks override s)"
| "run_db_op F (UpdateOp k jwks) (d, w) = (snd (UpdateJwks k jwks d), w)"

lemma run_db_op_ok:
  assumes "db_ok (fst s)" shows "db_ok (fst (run_db_op F p s))"
proof -
  obtain d w where s: "s = (d, w)" by (cases s)
  show ?thesis
  proof (cases p)
    case (InsertOp req jwks override)
    obtain r d' w' where run: "Insert F req jwks override (d, w) = (r, (d', w'))" by (metis surj_pair)
    show ?thesis
    proof (cases "is_Ok r")
      case True
      then obtain x where "r = Ok x" by (auto elim: is_Ok.elims)
      with run have "Insert F req jwks override (d, w) = (Ok x, (d', w'))" by simp
      then show ?thesis
      proof (rule Insert_Ok)
        fix name i w1 now
        assume "ClientIdIndex d i = None"
          and x: "x = \<lparr>rec_ClientId = i, rec_Client = new_client req i now, rec_Jwks = jwks\<rparr>"
          and d': "d' = add_record x d"
        then have "db_find (rec_ClientId x) d = None"
          using assms by (simp add: s db_find_index)
        with assms have "db_ok d'" unfolding d' by (intro db_ok_add) (simp_all add: s)
        then show ?thesis by (simp add: InsertOp s run)
      qed
    next
      case False
      with run have "d' = d" by (rule Insert_not_Ok_db)
      with assms run show ?thesis by (simp add: InsertOp s)
    qed
  next
    case (UpdateOp k jwks)
    with assms show ?thesis by (simp add: s UpdateJwks_ok db_ok_modify)
  qed
qed

lemma run_db_ops_ok: "db_ok (fst s) \<Longrightarrow> db_ok (fst (fold (run_db_op F) ps s))"
  by (induction ps arbitrary: s) (simp_all add: run_db_op_ok)

lemma Query_Ok_iff:
  "Query p rs = Ok res \<longleftrightarrow> (\<forall>r\<in>set rs. \<exists>b. p r = Ok b) \<and> res = filter (\<lambda>r. p r = Ok True) rs"
proof (induction rs arbitrary: res)
  case Nil
  then show ?case by auto
next
  case (Cons r rs)
  show ?case
  proof (cases "p r")
    case (Ok b)
    with Cons show ?thesis by (cases b) (auto simp: obind_Ok_iff)
  qed simp_all
qed

end
