(* ===== verification/FakesState.thy ===== *)
theory FakesState
  imports FakesDb HttpApi
begin

text \<open>
  The state of the fake Maskinporten, \<open>internal/fakes/state.go\<close>: one database per run of an operator,
  named by the run id that every request carries in a header, and made when a request first names
  it. \<open>GetDb\<close> returns a pointer to the database, which is the run id here. A call of an operation
  is one step; \<open>State\<close> has a lock for its map, but the databases have none, and handlers that
  interleave inside an operation are not modelled.
\<close>

record 'w fake_lib =
  fl_cfg :: config
  fl_jose :: jose_lib
  fl_jwt :: "'w jwt_lib"
  fl_world :: "'w fake_world_lib"

record 'w fake_state =
  fs_Db :: "(string \<times> db) list"
  fs_world :: 'w

definition NewState :: "'w \<Rightarrow> 'w fake_state" where
  "NewState w = \<lparr>fs_Db = [], fs_world = w\<rparr>"

text \<open>Header names are compared up to case.\<close>

definition Header_Get :: "string \<Rightarrow> http_request \<Rightarrow> string" where
  "Header_Get k req = (case filter (\<lambda>kv. fold_name (fst kv) = fold_name k) (rq_Headers req) of
       [] \<Rightarrow> []
     | kv # _ \<Rightarrow> snd kv)"

definition RunIdHeader :: string where
  "RunIdHeader = ''X-Altinn-Operator-RunId''"

text \<open>The client of the operator itself, with which a new database starts.\<close>

definition supplier_request :: "api_config \<Rightarrow> add_client_request" where
  "supplier_request cfg = zero_add_client_request\<lparr>
     ac_ClientName := Some (api_ClientId cfg),
     ac_ClientOrgno := Some ''991825827'',
     ac_GrantTypes := Some [GrantTypeJwtBearer],
     ac_Scopes := Some [api_Scope cfg],
     ac_IntegrationType := Some IntegrationTypeMaskinporten,
     ac_ApplicationType := Some ApplicationTypeWeb,
     ac_TokenEndpointAuthMethod := Some TokenEndpointAuthMethodPrivateKeyJwt\<rparr>"

definition initDb :: "'w fake_lib \<Rightarrow> ('w fake_state, db) prog" where
  "initDb F = (let cfg = MaskinportenApi (fl_cfg F) in
     case Option.bind (json_unmarshal (api_Jwk cfg)) (Jwk_UnmarshalJSON (fl_jose F) zero_jwk) of
       None \<Rightarrow> crash (FatalExit ''couldn't unmarshal JWK'')
     | Some jwk \<Rightarrow>
         bind (lift (Jwk_Public (fl_jose F) (Some jwk))) (\<lambda>publicJwk s.
         (case Insert (fl_world F) (supplier_request cfg) (Some (NewJwks [publicJwk])) (api_ClientId cfg)
                 (NewDb, fs_world s) of
            (Ok r, (d, w)) \<Rightarrow> (Ok d, s\<lparr>fs_world := w\<rparr>)
          | (Err e, (d, w)) \<Rightarrow> (Panic (FatalExit ''couldn't insert supplier client''), s\<lparr>fs_world := w\<rparr>)
          | (Panic p, (d, w)) \<Rightarrow> (Panic p, s\<lparr>fs_world := w\<rparr>))))"

text \<open>The database of a new run is built beside those of the others.\<close>

lemma initDb_keeps: "initDb F s = (r, s') \<Longrightarrow> fs_Db s' = fs_Db s"
  by (auto simp: initDb_def Let_def bind_def split: option.splits outcome.splits prod.splits)

definition GetDb :: "'w fake_lib \<Rightarrow> http_request \<Rightarrow> ('w fake_state, string) prog" where
  "GetDb F req = (let runId = Header_Get RunIdHeader req in
     if runId = [] then crash (FatalExit ''Missing X-Altinn-Operator-RunId header in request'')
     else (\<lambda>s. case map_of (fs_Db s) runId of
         Some d \<Rightarrow> (Ok runId, s)
       | None \<Rightarrow> bind (initDb F) (\<lambda>d s. (Ok runId, s\<lparr>fs_Db := (runId, d) # fs_Db s\<rparr>)) s))"

text \<open>The database that a run id names, and an operation on it.\<close>

definition db_of :: "string \<Rightarrow> 'w fake_state \<Rightarrow> db" where
  "db_of runId s = (case map_of (fs_Db s) runId of None \<Rightarrow> NewDb | Some d \<Rightarrow> d)"

fun set_db :: "string \<Rightarrow> db \<Rightarrow> (string \<times> db) list \<Rightarrow> (string \<times> db) list" where
  "set_db k d [] = [(k, d)]"
| "set_db k d ((k', d') # ds) = (if k' = k then (k, d) # ds else (k', d') # set_db k d ds)"

definition in_db :: "string \<Rightarrow> (db \<times> 'w, 'a) prog \<Rightarrow> ('w fake_state, 'a) prog" where
  "in_db runId = on_part (\<lambda>s. (db_of runId s, fs_world s))
     (\<lambda>(d, w) s. s\<lparr>fs_Db := set_db runId d (fs_Db s), fs_world := w\<rparr>)"

definition on_db :: "(db, 'a) prog \<Rightarrow> (db \<times> 'w, 'a) prog" where
  "on_db = on_part fst (\<lambda>d s. (d, snd s))"

definition read_db :: "(db \<Rightarrow> 'a outcome) \<Rightarrow> (db, 'a) prog" where
  "read_db f = (\<lambda>d. (f d, d))"

text \<open>\<open>GetAll\<close> copies every record of every database.\<close>

definition GetAll :: "'w fake_state \<Rightarrow> (string \<times> client_record list) list" where
  "GetAll s = map (\<lambda>(k, d). (k, Clients d)) (fs_Db s)"

lemma map_of_set_db [simp]: "map_of (set_db k d ds) = (map_of ds)(k \<mapsto> d)"
  by (induction k d ds rule: set_db.induct) auto

lemma db_of_simps [simp]:
  "db_of k (s\<lparr>fs_Db := set_db k d ds, fs_world := w\<rparr>) = d"
  "k' \<noteq> k \<Longrightarrow> db_of k' (s\<lparr>fs_Db := set_db k d (fs_Db s), fs_world := w\<rparr>) = db_of k' s"
  "db_of k (s\<lparr>fs_world := w\<rparr>) = db_of k s"
  by (simp_all add: db_of_def)


section \<open>Every database stays sound under insertion and key updates\<close>

definition dbs_ok :: "'w fake_state \<Rightarrow> bool" where
  "dbs_ok s \<longleftrightarrow> (\<forall>k d. map_of (fs_Db s) k = Some d \<longrightarrow> db_ok d)"

lemma dbs_ok_NewState [simp]: "dbs_ok (NewState w)"
  by (simp add: dbs_ok_def NewState_def)

lemma dbs_ok_db_of: "dbs_ok s \<Longrightarrow> db_ok (db_of k s)"
  by (auto simp: dbs_ok_def db_of_def split: option.split)

lemma GetDb_known:
  "Header_Get RunIdHeader req = runId \<Longrightarrow> runId \<noteq> [] \<Longrightarrow> map_of (fs_Db s) runId = Some d \<Longrightarrow>
     GetDb F req s = (Ok runId, s)"
  by (simp add: GetDb_def)

text \<open>A new database is sound and holds the operator's own client, under the id of the configuration.\<close>

lemma initDb_Ok:
  assumes "initDb F s = (Ok d, s')"
  obtains jwk now where "Option.bind (json_unmarshal (api_Jwk (MaskinportenApi (fl_cfg F))))
        (Jwk_UnmarshalJSON (fl_jose F) zero_jwk) = Some jwk"
    and "api_ClientId (MaskinportenApi (fl_cfg F)) \<noteq> []"
    and "\<exists>pub. Jwk_Public (fl_jose F) (Some jwk) = Ok pub \<and>
      d = add_record \<lparr>rec_ClientId = api_ClientId (MaskinportenApi (fl_cfg F)),
        rec_Client = new_client (supplier_request (MaskinportenApi (fl_cfg F)))
          (api_ClientId (MaskinportenApi (fl_cfg F))) now,
        rec_Jwks = Some (NewJwks [pub])\<rparr> NewDb"
    and "fs_Db s' = fs_Db s"
proof -
  let ?cfg = "MaskinportenApi (fl_cfg F)"
  from assms obtain jwk where jwk: "Option.bind (json_unmarshal (api_Jwk ?cfg))
        (Jwk_UnmarshalJSON (fl_jose F) zero_jwk) = Some jwk"
    by (auto simp: initDb_def Let_def split: option.splits)
  with assms obtain pub where pub: "Jwk_Public (fl_jose F) (Some jwk) = Ok pub"
    by (cases "Jwk_Public (fl_jose F) (Some jwk)") (auto simp: initDb_def Let_def)
  obtain x d' w where run: "Insert (fl_world F) (supplier_request ?cfg) (Some (NewJwks [pub])) (api_ClientId ?cfg)
        (NewDb, fs_world s) = (x, (d', w))" by (metis surj_pair)
  with assms jwk pub obtain r where ins: "Insert (fl_world F) (supplier_request ?cfg) (Some (NewJwks [pub]))
        (api_ClientId ?cfg) (NewDb, fs_world s) = (Ok r, (d, w))" and s': "s' = s\<lparr>fs_world := w\<rparr>"
    by (cases x) (auto simp: initDb_def Let_def)
  from ins show ?thesis
  proof (rule Insert_Ok)
    fix name i w1 now
    assume name: "ac_ClientName (supplier_request ?cfg) = Some name" "name \<noteq> []"
      and id: "insert_id (fl_world F) (api_ClientId ?cfg) (fs_world s) = (Ok i, w1)"
      and r: "r = \<lparr>rec_ClientId = i, rec_Client = new_client (supplier_request ?cfg) i now,
        rec_Jwks = Some (NewJwks [pub])\<rparr>" and d: "d = add_record r NewDb"
    from name have nonempty: "api_ClientId ?cfg \<noteq> []" by (simp add: supplier_request_def)
    with id have "i = api_ClientId ?cfg" by (simp add: insert_id_def)
    with that [OF jwk nonempty, of now] pub r d s' show ?thesis by auto
  qed
qed

lemma GetDb_Ok:
  assumes "GetDb F req s = (Ok runId, s')" and "dbs_ok s"
  shows "runId = Header_Get RunIdHeader req \<and> runId \<noteq> [] \<and> dbs_ok s' \<and>
    (\<exists>d. map_of (fs_Db s') runId = Some d) \<and>
    (\<forall>d. map_of (fs_Db s) runId = Some d \<longrightarrow> s' = s)"
proof -
  let ?k = "Header_Get RunIdHeader req"
  have k: "?k \<noteq> []" using assms(1) by (auto simp: GetDb_def Let_def)
  show ?thesis
  proof (cases "map_of (fs_Db s) ?k")
    case (Some d)
    with assms k show ?thesis by (auto simp: GetDb_def Let_def)
  next
    case None
    with assms(1) k obtain d s1 where init: "initDb F s = (Ok d, s1)"
      and s': "s' = s1\<lparr>fs_Db := (?k, d) # fs_Db s1\<rparr>" and runId: "runId = ?k"
      by (auto simp: GetDb_def Let_def bind_eq_Ok_iff)
    from init have "db_ok d \<and> fs_Db s1 = fs_Db s"
      by (rule initDb_Ok) (auto intro!: db_ok_add)
    with assms(2) None k runId show ?thesis by (auto simp: s' dbs_ok_def)
  qed
qed

end
