(* ===== verification/Base64.thy ===== *)
theory Base64
  imports GoStrings
begin

text \<open>
  \<open>base64.StdEncoding\<close> of Go's \<open>encoding/base64\<close>, which the fake Maskinporten uses to turn a token
  into text: padded, with the standard alphabet. The decoder skips line breaks, insists on the
  padding, and does not look at the bits that padding leaves over. What was encoded is decoded to
  the same bytes.
\<close>

definition b64_char :: "nat \<Rightarrow> char" where
  "b64_char n =
     (if n < 26 then char_of (65 + n) else if n < 52 then char_of (71 + n)
      else if n < 62 then char_of (n - 4) else if n = 62 then CHR ''+'' else CHR ''/'')"

definition b64_val :: "char \<Rightarrow> nat option" where
  "b64_val c = (let n = (of_char c :: nat) in
     if 65 \<le> n \<and> n \<le> 90 then Some (n - 65)
     else if 97 \<le> n \<and> n \<le> 122 then Some (n - 71)
     else if 48 \<le> n \<and> n \<le> 57 then Some (n + 4)
     else if c = CHR ''+'' then Some 62
     else if c = CHR ''/'' then Some 63
     else None)"

abbreviation b64_pad :: char where "b64_pad \<equiv> CHR ''=''"

text \<open>The four sextets of up to three bytes, and the bytes of sextets.\<close>

definition sextet1 :: "char \<Rightarrow> char" where
  "sextet1 a = b64_char (of_char a div 4)"

definition sextet2 :: "char \<Rightarrow> nat \<Rightarrow> char" where
  "sextet2 a q = b64_char (of_char a mod 4 * 16 + q div 16)"

definition sextet3 :: "char \<Rightarrow> nat \<Rightarrow> char" where
  "sextet3 b r = b64_char (of_char b mod 16 * 4 + r div 64)"

definition sextet4 :: "char \<Rightarrow> char" where
  "sextet4 c = b64_char (of_char c mod 64)"

fun EncodeToString :: "string \<Rightarrow> string" where
  "EncodeToString [] = []"
| "EncodeToString [a] = [sextet1 a, sextet2 a 0, b64_pad, b64_pad]"
| "EncodeToString [a, b] = [sextet1 a, sextet2 a (of_char b), sextet3 b 0, b64_pad]"
| "EncodeToString (a # b # c # rest) =
     [sextet1 a, sextet2 a (of_char b), sextet3 b (of_char c), sextet4 c] @ EncodeToString rest"

fun b64_groups :: "string \<Rightarrow> string option" where
  "b64_groups [] = Some []"
| "b64_groups (a # b # c # d # rest) = (case (b64_val a, b64_val b) of
       (Some x, Some y) \<Rightarrow>
         (let byte1 = char_of (x * 4 + y div 16) in
          if d = b64_pad \<and> rest = [] then
            (if c = b64_pad then Some [byte1]
             else (case b64_val c of
                 Some z \<Rightarrow> Some [byte1, char_of (y mod 16 * 16 + z div 4)]
               | None \<Rightarrow> None))
          else (case (b64_val c, b64_val d) of
              (Some z, Some u) \<Rightarrow>
                map_option (\<lambda>bs. [byte1, char_of (y mod 16 * 16 + z div 4), char_of (z mod 4 * 64 + u)] @ bs)
                  (b64_groups rest)
            | _ \<Rightarrow> None))
     | _ \<Rightarrow> None)"
| "b64_groups _ = None"

definition DecodeString :: "string \<Rightarrow> string option" where
  "DecodeString s = b64_groups (filter (\<lambda>c. c \<noteq> CHR 0x0A \<and> c \<noteq> CHR 0x0D) s)"


section \<open>Round trip\<close>

lemma b64_val_char [simp]: "n < 64 \<Longrightarrow> b64_val (b64_char n) = Some n"
proof -
  assume "n < 64"
  then consider "n < 26" | "26 \<le> n" "n < 52" | "52 \<le> n" "n < 62" | "n = 62" | "n = 63" by linarith
  then show ?thesis by cases (auto simp: b64_char_def b64_val_def Let_def)
qed

lemma b64_val_pad [simp]: "b64_val b64_pad = None"
  by (simp add: b64_val_def Let_def)

lemma b64_val_line_break: "b64_val (CHR 0x0A) = None" "b64_val (CHR 0x0D) = None"
  by (simp_all add: b64_val_def Let_def)

lemma b64_char_plain [simp]:
  "n < 64 \<Longrightarrow> b64_char n \<noteq> b64_pad" "n < 64 \<Longrightarrow> b64_char n \<noteq> CHR 0x0A" "n < 64 \<Longrightarrow> b64_char n \<noteq> CHR 0x0D"
  using b64_val_char b64_val_pad b64_val_line_break by (metis option.distinct(1))+

lemma of_char_256 [simp]: "(of_char c :: nat) < 256"
  by (rule nat_of_char_less_256)

lemma sextet_range [simp]:
  "(of_char a :: nat) div 4 < 64"
  "q < 256 \<Longrightarrow> (of_char a :: nat) mod 4 * 16 + q div 16 < 64"
  "q < 256 \<Longrightarrow> (of_char a :: nat) mod 16 * 4 + q div 64 < 64"
proof -
  show "(of_char a :: nat) div 4 < 64" using of_char_256 [of a] by linarith
  assume "q < 256"
  moreover have "(of_char a :: nat) mod 4 < 4" "(of_char a :: nat) mod 16 < 16" by simp_all
  ultimately show "(of_char a :: nat) mod 4 * 16 + q div 16 < 64" "(of_char a :: nat) mod 16 * 4 + q div 64 < 64"
    by linarith+
qed

text \<open>The parts of a byte that sextets carry, put together again.\<close>

lemma byte_parts [simp]:
  "(of_char b :: nat) div 16 div 16 = 0" "(of_char b :: nat) div 16 mod 16 = of_char b div 16"
  "(of_char b :: nat) div 64 div 4 = 0" "(of_char b :: nat) div 64 mod 4 = of_char b div 64"
proof -
  have "(of_char b :: nat) div 16 < 16" "(of_char b :: nat) div 64 < 4"
    using of_char_256 [of b] by linarith+
  then show "(of_char b :: nat) div 16 div 16 = 0" "(of_char b :: nat) div 16 mod 16 = of_char b div 16"
      "(of_char b :: nat) div 64 div 4 = 0" "(of_char b :: nat) div 64 mod 4 = of_char b div 64"
    by simp_all
qed

lemmas sextet_defs = sextet1_def sextet2_def sextet3_def sextet4_def

lemma b64_groups_encode: "b64_groups (EncodeToString s) = Some s"
proof (induction s rule: EncodeToString.induct)
  case (2 a)
  show ?case by (simp add: sextet_defs Let_def)
next
  case (3 a b)
  show ?case by (simp add: sextet_defs Let_def)
next
  case (4 a b c rest)
  then show ?case by (simp add: sextet_defs Let_def)
qed simp

lemma EncodeToString_chars: "c \<in> set (EncodeToString s) \<Longrightarrow> c = b64_pad \<or> b64_val c \<noteq> None"
  by (induction s rule: EncodeToString.induct) (auto simp: sextet_defs)

theorem DecodeString_EncodeToString [simp]: "DecodeString (EncodeToString s) = Some s"
proof -
  have "filter (\<lambda>c. c \<noteq> CHR 0x0A \<and> c \<noteq> CHR 0x0D) (EncodeToString s) = EncodeToString s"
    using EncodeToString_chars b64_val_line_break by (fastforce simp: filter_id_conv)
  then show ?thesis by (simp add: DecodeString_def b64_groups_encode)
qed

lemma EncodeToString_Nil_iff [simp]: "EncodeToString s = [] \<longleftrightarrow> s = []"
  by (cases s rule: EncodeToString.cases) auto

end
