(* ===== verification/FakesServer.thy ===== *)
theory FakesServer
  imports FakesState Base64 "HOL-Library.Char_ord" "HOL-Library.List_Lexorder"
begin

text \<open>
  The fake Maskinporten, \<open>cmd/maskinporten_fakes/main.go\<close>: an authority that hands out access
  tokens and a self-service API that keeps clients. A handler is a program over the server's
  state and the \<open>http.ResponseWriter\<close>; the response is what the writer holds at the end. As in
  \<open>net/http\<close>, the first \<open>WriteHeader\<close> decides the status and the headers that are sent, a \<open>Write\<close>
  before it sends 200, and later calls are ignored. A write to a connection that broke is not
  modelled, and neither are the log lines.
\<close>


section \<open>The response writer\<close>

record response_writer =
  w_Status :: "int option"
  w_Header :: "(string \<times> string) list"
  w_Sent :: "(string \<times> string) list"
  w_Body :: string

record 'w handling =
  hs_state :: "'w fake_state"
  hs_writer :: response_writer

definition fresh_writer :: response_writer where
  "fresh_writer = \<lparr>w_Status = None, w_Header = [], w_Sent = [], w_Body = []\<rparr>"

definition put_status :: "int \<Rightarrow> response_writer \<Rightarrow> response_writer" where
  "put_status code w =
     (if w_Status w = None then w\<lparr>w_Status := Some code, w_Sent := w_Header w\<rparr> else w)"

definition WriteHeader :: "int \<Rightarrow> ('w handling, unit) prog" where
  "WriteHeader code s = (Ok (), s\<lparr>hs_writer := put_status code (hs_writer s)\<rparr>)"

definition Writer_Write :: "string \<Rightarrow> ('w handling, unit) prog" where
  "Writer_Write txt s = (let w = put_status 200 (hs_writer s) in
     (Ok (), s\<lparr>hs_writer := w\<lparr>w_Body := w_Body w @ txt\<rparr>\<rparr>))"

definition Add_Header :: "string \<Rightarrow> string \<Rightarrow> ('w handling, unit) prog" where
  "Add_Header k v s = (let w = hs_writer s in
     (Ok (), s\<lparr>hs_writer := w\<lparr>w_Header := w_Header w @ [(k, v)]\<rparr>\<rparr>))"

definition json_content :: "('w handling, unit) prog" where
  "json_content = Add_Header ''Content-Type'' ''application/json''"

text \<open>\<open>json.NewEncoder(w).Encode\<close> writes nothing when marshalling fails; the handlers then try 500.\<close>

definition Encode :: "json outcome \<Rightarrow> ('w handling, unit) prog" where
  "Encode r = (case r of
       Ok j \<Rightarrow> Writer_Write (json_text j @ [CHR 0x0A])
     | Err e \<Rightarrow> WriteHeader 500
     | Panic p \<Rightarrow> crash p)"

definition in_server :: "('w fake_state, 'a) prog \<Rightarrow> ('w handling, 'a) prog" where
  "in_server = on_part hs_state (\<lambda>a s. s\<lparr>hs_state := a\<rparr>)"

definition with_db ::
  "'w fake_lib \<Rightarrow> http_request \<Rightarrow> (db \<times> 'w, 'a) prog \<Rightarrow> ('w handling, 'a) prog"
where
  "with_db F req m = bind (in_server (GetDb F req)) (\<lambda>runId. in_server (in_db runId m))"

text \<open>A call whose error the handler answers with 400.\<close>

definition or_400 :: "('w handling, 'a) prog \<Rightarrow> ('a \<Rightarrow> ('w handling, unit) prog) \<Rightarrow> ('w handling, unit) prog" where
  "or_400 m f s = (case m s of
       (Ok x, s1) \<Rightarrow> f x s1
     | (Err e, s1) \<Rightarrow> WriteHeader 400 s1
     | (Panic p, s1) \<Rightarrow> (Panic p, s1))"


section \<open>Tokens\<close>

record fake_token =
  ft_Scopes :: "string slice"
  ft_ClientId :: string

definition zero_fake_token :: fake_token where
  "zero_fake_token = \<lparr>ft_Scopes = None, ft_ClientId = []\<rparr>"

definition enc_slice :: "('a \<Rightarrow> json) \<Rightarrow> 'a slice \<Rightarrow> json" where
  "enc_slice enc p = (case p of None \<Rightarrow> JNull | Some xs \<Rightarrow> JArr (map enc xs))"

definition enc_fake_token :: "fake_token \<Rightarrow> json" where
  "enc_fake_token t = JObj [(''scopes'', enc_slice JStr (ft_Scopes t)), (''client_id'', JStr (ft_ClientId t))]"

definition dec_fake_token :: "fake_token decoder" where
  "dec_fake_token = dec_object (\<lambda>ms.
     Option.bind (dec_field (dec_slice dec_string []) None ''scopes'' ms) (\<lambda>x1.
     Option.bind (dec_field dec_string [] ''client_id'' ms) (\<lambda>x2.
     Some \<lparr>ft_Scopes = x1, ft_ClientId = x2\<rparr>)))"

definition dcr_scope :: string where
  "dcr_scope = ''idporten:dcr.altinn''"

definition slice_list :: "'a slice \<Rightarrow> 'a list" where
  "slice_list p = (case p of None \<Rightarrow> [] | Some xs \<Rightarrow> xs)"

definition selfServiceAuth :: "http_request \<Rightarrow> fake_token option" where
  "selfServiceAuth req =
     (if Header_Get ''Authorization'' req = [] then None
      else let encoded = TrimPrefix (Header_Get ''Authorization'' req) ''Bearer '' in
        if encoded = [] then None
        else (case DecodeString encoded of
            None \<Rightarrow> None
          | Some decoded \<Rightarrow>
              (case Option.bind (json_unmarshal decoded) (dec_fake_token zero_fake_token) of
                 None \<Rightarrow> None
               | Some t \<Rightarrow> if dcr_scope \<notin> set (slice_list (ft_Scopes t)) then None else Some t)))"

definition enc_token_response :: "token_response \<Rightarrow> json" where
  "enc_token_response t = JObj [(''access_token'', JStr (tr_AccessToken t)), (''token_type'', JStr (tr_TokenType t)),
     (''expires_in'', enc_int (tr_ExpiresIn t)), (''scope'', JStr (tr_Scope t))]"

definition enc_well_known :: "well_known_response \<Rightarrow> json" where
  "enc_well_known r = JObj [(''issuer'', JStr (wk_Issuer r)), (''token_endpoint'', JStr (wk_TokenEndpoint r)),
     (''jwks_uri'', JStr (wk_JwksURI r)),
     (''token_endpoint_auth_methods_supported'', enc_slice JStr (wk_TokenEndpointAuthMethodsSupported r)),
     (''grant_types_supported'', enc_slice JStr (wk_GrantTypesSupported r)),
     (''token_endpoint_auth_signing_alg_values_supported'',
        enc_slice JStr (wk_TokenEndpointAuthSigningAlgValuesSupported r))]"

text \<open>\<open>url.Values.Get\<close>: the first value, or the empty string.\<close>

definition Query_Get :: "string \<Rightarrow> http_request \<Rightarrow> string" where
  "Query_Get k req = (case filter (\<lambda>kv. fst kv = k) (u_Query (rq_URL req)) of
       [] \<Rightarrow> []
     | kv # _ \<Rightarrow> snd kv)"

definition jwt_bearer :: string where
  "jwt_bearer = ''urn:ietf:params:oauth:grant-type:jwt-bearer''"

text \<open>Whether a record has a key with the id; a \<open>nil\<close> key panics.\<close>

fun has_key_id :: "string \<Rightarrow> jwk_ptr list \<Rightarrow> bool outcome" where
  "has_key_id keyID [] = Ok False"
| "has_key_id keyID (k # ks) = obind (Jwk_KeyID k) (\<lambda>i. if i = keyID then Ok True else has_key_id keyID ks)"

definition knows_key :: "string \<Rightarrow> client_record \<Rightarrow> bool outcome" where
  "knows_key keyID r = (case rec_Jwks r of None \<Rightarrow> Ok False | Some ks \<Rightarrow> has_key_id keyID (Keys ks))"

text \<open>What follows once the one client that knows the key is found.\<close>

definition grant_token :: "'w fake_lib \<Rightarrow> jwt \<Rightarrow> client_record \<Rightarrow> ('w handling, unit) prog" where
  "grant_token F j client =
     bind (lift (deref (rec_Jwks client))) (\<lambda>jwks.
     bind (lift (index (Keys jwks) 0)) (\<lambda>key.
     or_400 (lift (DecodeClaims (fl_jwt F) j key)) (\<lambda>claims.
     if cl_Issuer claims = [] then WriteHeader 400
     else if cl_Issuer claims \<noteq> rec_ClientId client then WriteHeader 400
     else if cl_Scope claims = [] then WriteHeader 400
     else
       let requestedScopes = Fields (cl_Scope claims) in
       if \<exists>scope\<in>set requestedScopes. scope \<notin> set (slice_list (cr_Scopes (rec_Client client)))
       then WriteHeader 400
       else
         bind json_content (\<lambda>_.
         let tokenJson = json_text (enc_fake_token
               \<lparr>ft_Scopes = Some requestedScopes, ft_ClientId = rec_ClientId client\<rparr>)
         in Encode (Ok (enc_token_response
              \<lparr>tr_AccessToken = EncodeToString tokenJson, tr_TokenType = ''Bearer'', tr_ExpiresIn = 120,
               tr_Scope = join_with '' '' requestedScopes\<rparr>))))))"

definition handleToken :: "'w fake_lib \<Rightarrow> http_request \<Rightarrow> ('w handling, unit) prog" where
  "handleToken F req =
     (if rq_Method req \<noteq> ''POST'' then WriteHeader 404
      else if Query_Get ''grant_type'' req \<noteq> jwt_bearer then WriteHeader 400
      else if Query_Get ''assertion'' req = [] then WriteHeader 400
      else
        or_400 (lift (ParseJWT (fl_jwt F) (Query_Get ''assertion'' req))) (\<lambda>jwt.
        bind (lift (Jwt_KeyID jwt)) (\<lambda>keyID.
        if keyID = [] then WriteHeader 400
        else
          bind (with_db F req (on_db (\<lambda>d. (Query (knows_key keyID) (Clients d), d)))) (\<lambda>clients.
          case clients of
            [client] \<Rightarrow> grant_token F jwt client
          | _ \<Rightarrow> WriteHeader 400))))"

definition fake_well_known :: well_known_response where
  "fake_well_known = \<lparr>wk_Issuer = ''http://localhost:8050'', wk_TokenEndpoint = ''http://localhost:8050/token'',
     wk_JwksURI = ''http://localhost:8050/jwks'',
     wk_TokenEndpointAuthMethodsSupported = Some [''private_key_jwt''],
     wk_GrantTypesSupported = Some [jwt_bearer],
     wk_TokenEndpointAuthSigningAlgValuesSupported = Some SignatureAlgorithmsStr\<rparr>"

definition handleWellKnown :: "http_request \<Rightarrow> ('w handling, unit) prog" where
  "handleWellKnown req =
     (if rq_Method req \<noteq> ''GET'' then WriteHeader 404
      else bind json_content (\<lambda>_. Encode (Ok (enc_well_known fake_well_known))))"


section \<open>The self-service API\<close>

text \<open>A request without a token that names the scope of the API is answered with 401.\<close>

definition authorized :: "http_request \<Rightarrow> ('w handling, unit) prog \<Rightarrow> ('w handling, unit) prog" where
  "authorized req m = (if selfServiceAuth req = None then WriteHeader 401 else m)"

text \<open>\<open>json.NewDecoder(r.Body).Decode\<close> into a zero value; a request without a body is at its end.\<close>

definition decode_body :: "'a decoder \<Rightarrow> 'a \<Rightarrow> http_request \<Rightarrow> ('s, 'a) prog" where
  "decode_body dec zero req =
     (case Option.bind (case rq_Body req of None \<Rightarrow> None | Some b \<Rightarrow> json_decode b) (dec zero) of
        None \<Rightarrow> fail json_error
      | Some x \<Rightarrow> ret x)"

text \<open>The response of a write: 200, and only then a header that is no longer sent.\<close>

definition answer_client :: "'w fake_lib \<Rightarrow> client_record \<Rightarrow> ('w handling, unit) prog" where
  "answer_client F r =
     bind (WriteHeader 200) (\<lambda>_.
     bind json_content (\<lambda>_.
     Encode (enc_client_response (fl_jose F) (rec_Client r))))"

definition enc_clients :: "jose_lib \<Rightarrow> client_record list \<Rightarrow> json outcome" where
  "enc_clients J rs = obind (omapM (\<lambda>r. enc_client_response J (rec_Client r)) rs) (\<lambda>js. Ok (JArr js))"

definition handleClients :: "'w fake_lib \<Rightarrow> http_request \<Rightarrow> ('w handling, unit) prog" where
  "handleClients F req =
     (if rq_Method req = ''GET'' then authorized req (
        bind json_content (\<lambda>_.
        bind (with_db F req (on_db (\<lambda>d. (Ok (Clients d), d)))) (\<lambda>records.
        Encode (enc_clients (fl_jose F) records))))
      else if rq_Method req = ''POST'' then authorized req (
        or_400 (decode_body dec_add_client_request zero_add_client_request req) (\<lambda>client.
        if dcr_scope \<in> set (slice_list (ac_Scopes client)) then WriteHeader 400
        else
          or_400 (with_db F req (Insert (fl_world F) client None [])) (answer_client F)))
      else authorized req (WriteHeader 404))"

definition update_to_add :: "update_client_request \<Rightarrow> add_client_request" where
  "update_to_add client = \<lparr>ac_ClientId = uc_ClientId client, ac_ClientName = uc_ClientName client,
     ac_ClientOrgno = uc_ClientOrgno client, ac_SupplierOrgno = uc_SupplierOrgno client,
     ac_Description = uc_Description client, ac_Active = uc_Active client,
     ac_ApplicationType = uc_ApplicationType client, ac_IntegrationType = uc_IntegrationType client,
     ac_Scopes = uc_Scopes client, ac_GrantTypes = uc_GrantTypes client,
     ac_TokenEndpointAuthMethod = uc_TokenEndpointAuthMethod client,
     ac_RefreshTokenLifetime = uc_RefreshTokenLifetime client,
     ac_RefreshTokenUsage = uc_RefreshTokenUsage client,
     ac_AccessTokenLifetime = uc_AccessTokenLifetime client,
     ac_AuthorizationLifetime = uc_AuthorizationLifetime client, ac_LogoUri = uc_LogoUri client,
     ac_RedirectUris = uc_RedirectUris client, ac_PostLogoutRedirectUris = uc_PostLogoutRedirectUris client,
     ac_FrontchannelLogoutSessionRequired = uc_FrontchannelLogoutSessionRequired client,
     ac_FrontchannelLogoutUri = uc_FrontchannelLogoutUri client, ac_SsoDisabled = uc_SsoDisabled client,
     ac_CodeChallengeMethod = uc_CodeChallengeMethod client\<rparr>"

definition zero_update_client_request :: update_client_request where
  "zero_update_client_request = ConvertAddRequestToUpdateRequest zero_add_client_request"

text \<open>An update deletes the client and inserts it again, without its keys; a delete does nothing.\<close>

definition handleClientByID :: "'w fake_lib \<Rightarrow> string \<Rightarrow> http_request \<Rightarrow> ('w handling, unit) prog" where
  "handleClientByID F clientId req =
     (if rq_Method req = ''GET'' then authorized req (
        bind (with_db F req (on_db (read_db (Db_Get clientId)))) (\<lambda>clientRecord.
        case clientRecord of
          None \<Rightarrow> WriteHeader 404
        | Some r \<Rightarrow> bind json_content (\<lambda>_. Encode (enc_client_response (fl_jose F) (rec_Client r)))))
      else if rq_Method req = ''PUT'' then authorized req (
        or_400 (decode_body dec_update_client_request zero_update_client_request req) (\<lambda>client.
        if dcr_scope \<in> set (slice_list (uc_Scopes client)) then WriteHeader 400
        else
          bind (with_db F req (on_db (Db_Delete clientId))) (\<lambda>deleted.
          if \<not> deleted then WriteHeader 400
          else
            or_400 (with_db F req (Insert (fl_world F) (update_to_add client) None clientId))
              (answer_client F))))
      else if rq_Method req = ''DELETE'' then authorized req (ret ())
      else authorized req (WriteHeader 404))"

definition handleClientJwks :: "'w fake_lib \<Rightarrow> string \<Rightarrow> http_request \<Rightarrow> ('w handling, unit) prog" where
  "handleClientJwks F clientId req =
     (if rq_Method req = ''GET'' then authorized req (
        bind json_content (\<lambda>_.
        bind (with_db F req (on_db (read_db (Db_Get clientId)))) (\<lambda>clientRecord.
        case clientRecord of
          None \<Rightarrow> WriteHeader 404
        | Some r \<Rightarrow> Encode (enc_jwks_ptr (fl_jose F) (rec_Jwks r)))))
      else if rq_Method req = ''POST'' then authorized req (
        or_400 (decode_body (dec_jwks (fl_jose F)) \<lparr>Keys = []\<rparr> req) (\<lambda>jwks.
        or_400 (with_db F req (on_db (UpdateJwks clientId (Some jwks)))) (\<lambda>_.
        WriteHeader 201)))
      else authorized req (WriteHeader 404))"

text \<open>The dump of everything, which asks for no token: a JSON object with sorted keys.\<close>

definition enc_record :: "jose_lib \<Rightarrow> client_record \<Rightarrow> json outcome" where
  "enc_record J r =
     obind (enc_client_response J (rec_Client r)) (\<lambda>client.
     obind (enc_jwks_ptr J (rec_Jwks r)) (\<lambda>jwks.
     Ok (JObj [(''ClientId'', JStr (rec_ClientId r)), (''Client'', client), (''Jwks'', jwks)])))"

definition enc_dump :: "jose_lib \<Rightarrow> (string \<times> client_record list) list \<Rightarrow> json outcome" where
  "enc_dump J m = obind (omapM (\<lambda>(k, rs).
       obind (omapM (enc_record J) rs) (\<lambda>js. Ok (k, JArr js))) (sort_key fst m)) (\<lambda>ms. Ok (JObj ms))"

definition handleDumpPlease :: "'w fake_lib \<Rightarrow> ('w handling, unit) prog" where
  "handleDumpPlease F =
     bind json_content (\<lambda>_ s. Encode (enc_dump (fl_jose F) (GetAll (hs_state s))) s)"


section \<open>Routing\<close>

text \<open>
  The patterns of \<open>http.ServeMux\<close>: a wildcard matches one part of the path that is not empty. A
  path that is not clean is redirected; the body of the redirect is left out.
\<close>

definition mux_clean :: "string \<Rightarrow> string" where
  "mux_clean p =
     (let p = (if path_IsAbs p then p else CHR ''/'' # p); np = path_Clean p
      in if last p = CHR ''/'' \<and> np \<noteq> ''/'' then np @ ''/'' else np)"

datatype api = AuthorityApi | SelfServiceApi

definition healthEndpoint :: "('w handling, unit) prog" where
  "healthEndpoint = WriteHeader 200"

definition not_found :: "('w handling, unit) prog" where
  "not_found = bind (WriteHeader 404) (\<lambda>_. Writer_Write (''404 page not found'' @ [CHR 0x0A]))"

fun client_route :: "'w fake_lib \<Rightarrow> string list \<Rightarrow> http_request \<Rightarrow> ('w handling, unit) prog" where
  "client_route F [] req = handleClients F req"
| "client_route F [i] req = (if i \<noteq> [] then handleClientByID F i req else not_found)"
| "client_route F [i, p] req =
     (if i \<noteq> [] \<and> p = ''jwks'' then handleClientJwks F i req else not_found)"
| "client_route F _ req = not_found"

definition route :: "'w fake_lib \<Rightarrow> api \<Rightarrow> http_request \<Rightarrow> ('w handling, unit) prog" where
  "route F api req =
     (let p = u_Path (rq_URL req); parts = split_on CHR ''/'' p in
      if mux_clean p \<noteq> p then WriteHeader 301
      else if p = ''/health'' then healthEndpoint
      else (case api of
          AuthorityApi \<Rightarrow>
            if p = ''/token'' then handleToken F req
            else if p = ''/.well-known/oauth-authorization-server'' then handleWellKnown req
            else not_found
        | SelfServiceApi \<Rightarrow>
            if p = ''/dump/please'' then handleDumpPlease F
            else if take 6 parts = split_on CHR ''/'' clients_path then client_route F (drop 6 parts) req
            else not_found))"

definition status_text :: "int \<Rightarrow> string" where
  "status_text code =
     (if code = 200 then ''OK'' else if code = 201 then ''Created''
      else if code = 301 then ''Moved Permanently'' else if code = 400 then ''Bad Request''
      else if code = 401 then ''Unauthorized'' else if code = 404 then ''Not Found''
      else if code = 500 then ''Internal Server Error'' else [])"

definition response_of :: "response_writer \<Rightarrow> http_response" where
  "response_of w = (let code = (case w_Status w of None \<Rightarrow> 200 | Some c \<Rightarrow> c) in
     \<lparr>rs_StatusCode = code, rs_Status = itoa code @ '' '' @ status_text code, rs_Body = w_Body w,
      rs_ReadErr = None\<rparr>)"

text \<open>One request: the handler runs on a fresh writer.\<close>

definition serve :: "'w fake_lib \<Rightarrow> api \<Rightarrow> http_request \<Rightarrow> ('w fake_state, http_response) prog" where
  "serve F api req s = (case route F api req \<lparr>hs_state = s, hs_writer = fresh_writer\<rparr> of
       (Ok u, h) \<Rightarrow> (Ok (response_of (hs_writer h)), hs_state h)
     | (Err e, h) \<Rightarrow> (Err e, hs_state h)
     | (Panic p, h) \<Rightarrow> (Panic p, hs_state h))"

end
