(* ===== verification/FakesProperties.thy ===== *)
theory FakesProperties
  imports FakesServer
begin

text \<open>
  The properties of the fake Maskinporten: its database as a search of the clients, how an update
  spoils it, and who is let in. \<open>FakesLogin\<close> has the properties of the operator's API client against
  these servers.
\<close>


section \<open>The database\<close>

text \<open>
  C34: A database on which clients are inserted and their keys updated, in any order and with any
  errors, looks clients up as a search of its records would, never panics, and has every id once.
\<close>

theorem fake_db_lookup:
  "(let d = fst (fold (run_db_op F) ops (NewDb, w)) in
     Db_Get k d = Ok (find (\<lambda>r. rec_ClientId r = k) (Clients d)) \<and> distinct (map rec_ClientId (Clients d)))"
proof -
  have "db_ok (fst (fold (run_db_op F) ops (NewDb, w)))" by (rule run_db_ops_ok) simp
  then show ?thesis by (simp add: Db_Get_find db_ok_distinct db_find_def Let_def)
qed

lemma Db_Delete_known:
  assumes "db_ok d" and "ClientIdIndex d k = Some i"
  shows "Db_Delete k d = (Ok True, \<lparr>Clients = butlast ((Clients d)[i := last (Clients d)]),
     ClientIdIndex = (ClientIdIndex d)(k := None)\<rparr>)"
  using db_okD(1) [OF assms] assms(2) by (simp add: Db_Delete_def Let_def)

text \<open>
  C35: An update of a client that is not the last one, which the server does by deleting the client and
  inserting it again, leaves the last client where a lookup panics: after the deletion the index
  still has its old position, and the insertion puts the updated client there. The updated
  client itself is found, without the keys it had.
\<close>

theorem fake_update_breaks_lookup:
  assumes "db_ok d" and "ClientIdIndex d k = Some i" and "Suc i < length (Clients d)" and "k \<noteq> []"
    and "Insert F req None k (snd (Db_Delete k d), w) = (Ok r, (d', w'))"
  shows "Db_Get (rec_ClientId (last (Clients d))) (snd (Db_Delete k d)) = Panic IndexOutOfRange \<and>
    Db_Get (rec_ClientId (last (Clients d))) d' = Panic (PanicWith ''inconsistent state'') \<and>
    Db_Get k d' = Ok (Some r) \<and> rec_Jwks r = None"
proof -
  let ?n = "length (Clients d) - 1" and ?k' = "rec_ClientId (last (Clients d))"
  have cs: "Clients d \<noteq> []" "?n < length (Clients d)" using assms(3) by auto
  then have last: "last (Clients d) = Clients d ! ?n" by (simp add: last_conv_nth)
  have idx: "ClientIdIndex d ?k' = Some ?n"
    unfolding last using assms(1) cs(2) by (rule db_okD(2))
  have other: "?k' \<noteq> k"
    using idx assms(2,3) by auto
  have del: "snd (Db_Delete k d) = \<lparr>Clients = butlast ((Clients d)[i := last (Clients d)]),
     ClientIdIndex = (ClientIdIndex d)(k := None)\<rparr>"
    using Db_Delete_known [OF assms(1,2)] by simp
  from assms(5) have r: "rec_ClientId r = k" "rec_Jwks r = None" and d': "d' = add_record r (snd (Db_Delete k d))"
    using assms(4) by (auto elim!: Insert_Ok simp: insert_id_def)
  have "Db_Get ?k' (snd (Db_Delete k d)) = Panic IndexOutOfRange"
    using idx other by (simp add: del Db_Get_def index_def)
  moreover have "Db_Get ?k' d' = Panic (PanicWith ''inconsistent state'')"
    using idx other r by (simp add: d' del add_record_def Db_Get_def index_def nth_append)
  moreover have "Db_Get k d' = Ok (Some r)"
    using r by (simp add: d' del add_record_def Db_Get_def index_def nth_append)
  ultimately show ?thesis using r(2) by blast
qed


definition two_clients_db :: db where
  "two_clients_db = add_record \<lparr>rec_ClientId = ''b'', rec_Client = zero_client_response, rec_Jwks = None\<rparr>
     (add_record \<lparr>rec_ClientId = ''a'', rec_Client = zero_client_response, rec_Jwks = None\<rparr> NewDb)"

lemma fake_update_breaks_lookup_witness:
  "\<exists>r d'. Insert \<lparr>fw_uuid = ret ''c'', fw_Now = (\<lambda>w. (''now'', w))\<rparr>
      (zero_add_client_request\<lparr>ac_ClientName := Some ''app''\<rparr>) None ''a'' (snd (Db_Delete ''a'' two_clients_db), ()) =
      (Ok r, (d', ())) \<and>
    Db_Get ''b'' d' = Panic (PanicWith ''inconsistent state'')"
proof -
  let ?F = "\<lparr>fw_uuid = ret ''c'', fw_Now = (\<lambda>w. (''now'', w))\<rparr>"
  let ?a = "\<lparr>rec_ClientId = ''a'', rec_Client = zero_client_response, rec_Jwks = None\<rparr>"
  have fresh: "db_find i NewDb = None" for i by (simp add: db_find_def NewDb_def)
  then have "db_ok (add_record ?a NewDb)" by (intro db_ok_add) simp_all
  then have ok: "db_ok two_clients_db"
    unfolding two_clients_db_def by (intro db_ok_add) (simp_all add: db_find_add fresh)
  have d: "ClientIdIndex two_clients_db ''a'' = Some 0" "Suc 0 < length (Clients two_clients_db)"
      "''a'' \<noteq> []" "rec_ClientId (last (Clients two_clients_db)) = ''b''"
    by (simp_all add: two_clients_db_def add_record_def NewDb_def)
  have "ClientIdIndex (snd (Db_Delete ''a'' two_clients_db)) ''a'' = None"
    using Db_Delete_known [OF ok d(1)] by simp
  then obtain r d' where ins: "Insert ?F (zero_add_client_request\<lparr>ac_ClientName := Some ''app''\<rparr>) None ''a''
      (snd (Db_Delete ''a'' two_clients_db), ()) = (Ok r, (d', ()))"
    by (simp add: Insert_eq insert_id_def Let_def)
  from fake_update_breaks_lookup [OF ok d(1-3) ins] ins d(4) show ?thesis by auto
qed


section \<open>Who is let in\<close>

lemma fake_token_roundtrip:
  "json_unmarshal (json_text (enc_fake_token \<lparr>ft_Scopes = Some xs, ft_ClientId = i\<rparr>)) =
     Some (enc_fake_token \<lparr>ft_Scopes = Some xs, ft_ClientId = i\<rparr>)"
  "dec_fake_token z (enc_fake_token \<lparr>ft_Scopes = Some xs, ft_ClientId = i\<rparr>) =
     Some \<lparr>ft_Scopes = Some xs, ft_ClientId = i\<rparr>"
proof -
  have "those (map (dec_string [] \<circ> JStr) xs) = Some xs"
    by (induction xs) (simp_all add: dec_string_def)
  then show "dec_fake_token z (enc_fake_token \<lparr>ft_Scopes = Some xs, ft_ClientId = i\<rparr>) =
     Some \<lparr>ft_Scopes = Some xs, ft_ClientId = i\<rparr>"
    by (simp add: dec_fake_token_def dec_object_def enc_fake_token_def enc_slice_def dec_field_def
        field_values_Cons fold_name_def fold_char_def dec_slice_def dec_string_def)
  show "json_unmarshal (json_text (enc_fake_token \<lparr>ft_Scopes = Some xs, ft_ClientId = i\<rparr>)) =
     Some (enc_fake_token \<lparr>ft_Scopes = Some xs, ft_ClientId = i\<rparr>)"
    by (rule json_unmarshal_text) (simp add: enc_fake_token_def enc_slice_def list_all_iff)
qed

definition token_text :: "string list \<Rightarrow> string \<Rightarrow> string" where
  "token_text scopes clientId =
     EncodeToString (json_text (enc_fake_token \<lparr>ft_Scopes = Some scopes, ft_ClientId = clientId\<rparr>))"

lemma token_text_not_Nil [simp]: "token_text scopes i \<noteq> []"
  by (simp add: token_text_def enc_fake_token_def)

lemma selfServiceAuth_token:
  assumes "Header_Get ''Authorization'' req = ''Bearer '' @ token_text scopes i"
  shows "selfServiceAuth req =
    (if dcr_scope \<in> set scopes then Some \<lparr>ft_Scopes = Some scopes, ft_ClientId = i\<rparr> else None)"
proof -
  have "TrimPrefix (''Bearer '' @ token_text scopes i) ''Bearer '' = token_text scopes i"
    by (rule TrimPrefix_append)
  moreover have "DecodeString (token_text scopes i) =
      Some (json_text (enc_fake_token \<lparr>ft_Scopes = Some scopes, ft_ClientId = i\<rparr>))"
    by (simp add: token_text_def)
  ultimately show ?thesis
    using assms token_text_not_Nil [of scopes i]
    by (simp add: selfServiceAuth_def Let_def fake_token_roundtrip slice_list_def del: token_text_not_Nil json_text.simps)
qed

lemma Header_Get_Set: "Header_Get k (Header_Set k v (NewRequest m u b)) = v"
  by (simp add: Header_Get_def Header_Set_def NewRequest_def)

text \<open>The paths under which clients are served.\<close>

lemma client_path_parts:
  assumes "\<forall>p\<in>set ids. plain_segment p"
  shows "split_on CHR ''/'' (join_with ''/'' (clients_path # ids)) =
    [[], ''api'', ''v1'', ''altinn'', ''admin'', ''clients''] @ ids"
proof (cases "ids = []")
  case True
  then show ?thesis by (simp add: clients_path_parts)
next
  case False
  have "split_on CHR ''/'' (join_with ''/'' ids) = ids"
    using assms False by (intro split_on_join_plain) (auto simp: plain_segment_def)
  with False show ?thesis
    by (simp add: join_with_Cons split_on_append_sep clients_path_parts)
qed

lemma last_join_plain:
  assumes "ps \<noteq> []" and "\<forall>p\<in>set ps. plain_segment p"
  shows "last (join_with ''/'' ps) \<noteq> CHR ''/'' \<and> join_with ''/'' ps \<noteq> []"
  using assms
proof (induction ps)
  case (Cons p ps)
  have "p \<noteq> []" and "CHR ''/'' \<notin> set p" using Cons.prems(2) by (simp_all add: plain_segment_def)
  then have p: "p \<noteq> []" "last p \<noteq> CHR ''/''" using last_in_set [of p] by metis+
  show ?case
  proof (cases "ps = []")
    case True
    with p show ?thesis by simp
  next
    case False
    with Cons p show ?thesis by (simp add: join_with_Cons)
  qed
qed simp

lemma client_path_clean:
  assumes "\<forall>p\<in>set ids. plain_segment p"
  shows "mux_clean (join_with ''/'' (clients_path # ids)) = join_with ''/'' (clients_path # ids)"
proof -
  let ?segs = "[''api'', ''v1'', ''altinn'', ''admin'', ''clients''] @ ids" and ?p = "join_with ''/'' (clients_path # ids)"
  have plain: "\<forall>p\<in>set ?segs. plain_segment p" using assms by (auto simp: plain_segment_def)
  have p: "?p = ''/'' @ join_with ''/'' ?segs" by (cases ids) (simp_all add: clients_path_def)
  have "clean_segments True [] ?segs = ?segs" using plain by (subst clean_segments_plain) simp_all
  then have "path_Clean ?p = ''/'' @ join_with ''/'' ?segs"
    using client_path_parts [OF assms] p by (simp add: path_Clean_def path_IsAbs_def Let_def)
  moreover have "last ?p \<noteq> CHR ''/''"
    using last_join_plain [of ?segs] plain unfolding p by simp
  moreover have "path_IsAbs ?p" unfolding p by (simp add: path_IsAbs_def)
  ultimately show ?thesis using p by (simp add: mux_clean_def Let_def)
qed

lemma client_path_other:
  assumes "\<forall>p\<in>set ids. plain_segment p"
  shows "join_with ''/'' (clients_path # ids) \<noteq> ''/health''" "join_with ''/'' (clients_path # ids) \<noteq> ''/dump/please''"
proof -
  have "split_on CHR ''/'' ''/health'' = [[], ''health'']" "split_on CHR ''/'' ''/dump/please'' = [[], ''dump'', ''please'']"
    by simp_all
  with client_path_parts [OF assms] show "join_with ''/'' (clients_path # ids) \<noteq> ''/health''"
      "join_with ''/'' (clients_path # ids) \<noteq> ''/dump/please''"
    by force+
qed

lemma route_clients:
  assumes "u_Path (rq_URL req) = join_with ''/'' (clients_path # ids)" and "\<forall>p\<in>set ids. plain_segment p"
  shows "route F SelfServiceApi req = client_route F ids req"
  using client_path_parts [OF assms(2)] client_path_clean [OF assms(2)] client_path_other [OF assms(2)]
  by (simp add: route_def assms(1) Let_def clients_path_parts del: join_with.simps)

text \<open>
  C37: Without an \<open>Authorization\<close> header, or with a token that does not decode or whose scopes lack
  the one of the API, every request about clients, their keys or the collection is answered with
  401 and leaves the server as it was, whatever its method, body and run id; and of the tokens
  that the authority writes exactly those with that scope are let in.
\<close>

theorem fake_auth_required:
  assumes "u_Path (rq_URL req) = join_with ''/'' (clients_path # ids)" and "\<forall>p\<in>set ids. plain_segment p"
    and "ids = [] \<or> ids = [i] \<or> ids = [i, ''jwks'']"
  shows "(selfServiceAuth req = None \<longrightarrow> serve F SelfServiceApi req s =
      (Ok \<lparr>rs_StatusCode = 401, rs_Status = ''401 Unauthorized'', rs_Body = [], rs_ReadErr = None\<rparr>, s)) \<and>
    (Header_Get ''Authorization'' req = ''Bearer '' @ token_text scopes clientId \<longrightarrow>
      (selfServiceAuth req \<noteq> None \<longleftrightarrow> dcr_scope \<in> set scopes))"
proof (intro conjI impI)
  assume none: "selfServiceAuth req = None"
  have handlers: "handleClients F req = WriteHeader 401" "handleClientByID F i req = WriteHeader 401"
      "handleClientJwks F i req = WriteHeader 401"
    by (simp_all add: handleClients_def handleClientByID_def handleClientJwks_def authorized_def none)
  from assms(3) have "client_route F ids req = WriteHeader 401"
  proof (elim disjE)
    assume "ids = [i]"
    with assms(2) have "i \<noteq> []" by (simp add: plain_segment_def)
    with \<open>ids = [i]\<close> handlers show ?thesis by simp
  next
    assume "ids = [i, ''jwks'']"
    with assms(2) have "i \<noteq> []" by (simp add: plain_segment_def)
    with \<open>ids = [i, ''jwks'']\<close> handlers show ?thesis by simp
  qed (simp add: handlers)
  then have "route F SelfServiceApi req = WriteHeader 401"
    by (simp add: route_clients [OF assms(1,2)])
  moreover have "itoa 401 = ''401''"
    by (simp add: itoa_def nat_digits.simps [of 401] nat_digits.simps [of 40] nat_digits.simps [of 4] digit_char_def
        char_of_eq_iff take_bit_eq_mod)
  ultimately show "serve F SelfServiceApi req s =
      (Ok \<lparr>rs_StatusCode = 401, rs_Status = ''401 Unauthorized'', rs_Body = [], rs_ReadErr = None\<rparr>, s)"
    by (simp add: serve_def WriteHeader_def fresh_writer_def put_status_def response_of_def status_text_def Let_def)
next
  assume "Header_Get ''Authorization'' req = ''Bearer '' @ token_text scopes clientId"
  from selfServiceAuth_token [OF this]
  show "selfServiceAuth req \<noteq> None \<longleftrightarrow> dcr_scope \<in> set scopes" by simp
qed

lemma fake_auth_required_witness:
  "\<forall>F s. serve (F :: unit fake_lib) SelfServiceApi (NewRequest ''DELETE''
      \<lparr>u_Origin = ''http://localhost:8051'', u_Path = clients_path @ ''/id-1'', u_Query = []\<rparr> None) s =
    (Ok \<lparr>rs_StatusCode = 401, rs_Status = ''401 Unauthorized'', rs_Body = [], rs_ReadErr = None\<rparr>, s)"
proof (intro allI)
  fix F :: "unit fake_lib" and s
  let ?req = "NewRequest ''DELETE''
      \<lparr>u_Origin = ''http://localhost:8051'', u_Path = clients_path @ ''/id-1'', u_Query = []\<rparr> None"
  have path: "u_Path (rq_URL ?req) = join_with ''/'' (clients_path # [''id-1''])" by (simp add: NewRequest_def)
  have plain: "\<forall>p\<in>set [''id-1'']. plain_segment p" by (simp add: plain_segment_def)
  have "selfServiceAuth ?req = None"
    by (simp add: selfServiceAuth_def Header_Get_def NewRequest_def)
  with fake_auth_required [OF path plain, of "''id-1''" F s]
  show "serve F SelfServiceApi ?req s =
    (Ok \<lparr>rs_StatusCode = 401, rs_Status = ''401 Unauthorized'', rs_Body = [], rs_ReadErr = None\<rparr>, s)" by blast
qed

end
