(* ===== verification/FakesRun.thy ===== *)
theory FakesRun
  imports FakesProperties HttpProperties
begin

text \<open>
  The operator's API client against the fake Maskinporten, as in the local environment
  (\<open>local.env\<close>): the network delivers a request to the server that listens at its origin. A base
  URL is an origin without a path here, and a request whose body was read before is refused.
\<close>


section \<open>The local network\<close>

definition api_at :: "string \<Rightarrow> api option" where
  "api_at origin = (if origin = ''http://localhost:8050'' then Some AuthorityApi
     else if origin = ''http://localhost:8051'' then Some SelfServiceApi else None)"

definition fakes_net :: "'w fake_lib \<Rightarrow> nat \<Rightarrow> 'w fake_state net_lib" where
  "fakes_net F retries = \<lparr>
     url_Parse = (\<lambda>base. Ok \<lparr>bu_Origin = base, bu_Path = [], bu_EscapedPath = []\<rparr>),
     http_Do = (\<lambda>req s.
       if (case rq_Body req of None \<Rightarrow> False | Some b \<Rightarrow> length (rq_unread req) < length b)
       then ((Err (ErrExternal ''http: ContentLength with shorter body''), rq_unread req), s)
       else (case api_at (u_Origin (rq_URL req)) of
           None \<Rightarrow> ((Err (ErrExternal ''connection refused''), rq_unread req), s)
         | Some api \<Rightarrow> (case serve F api req s of
               (Ok resp, s1) \<Rightarrow> ((Ok resp, []), s1)
             | (_, s1) \<Rightarrow> ((Err (ErrExternal ''EOF''), []), s1)))),
     backoff_NextBackOff = steady_backoff retries,
     backoff_sleep = (\<lambda>p s. s)\<rparr>"

lemma fakes_net_laws: "net_laws (fakes_net F n)"
  by (auto simp: net_laws_def fakes_net_def split: if_splits option.splits prod.splits outcome.splits)

text \<open>A client that is configured like the server, and a token of its cache that has not expired now.\<close>

definition local_client :: "'w fake_lib \<Rightarrow> 'w fake_state http_api \<Rightarrow> bool" where
  "local_client F c \<longleftrightarrow>
     (\<exists>n. hc_net c = fakes_net F n) \<and> hc_config c = MaskinportenApi (fl_cfg F) \<and>
     api_AuthorityUrl (hc_config c) = ''http://localhost:8050'' \<and>
     api_SelfServiceUrl (hc_config c) = ''http://localhost:8051'' \<and>
     RunId (hc_context c) \<noteq> [] \<and> hc_jose c = fl_jose F"

definition live_token :: "'w fake_state http_api \<Rightarrow> 'w fake_state http_state \<Rightarrow> bool" where
  "live_token c s \<longleftrightarrow>
     \<not> atom_expired (accessToken s) (fst (hc_clock c (env s))) \<and> snd (hc_clock c (env s)) = env s \<and>
     (\<exists>tok scopes i. current (accessToken s) = Some tok \<and> tr_AccessToken tok = token_text scopes i \<and>
        dcr_scope \<in> set scopes)"

lemma createReq_live:
  assumes "\<not> atom_expired (accessToken s) (fst (hc_clock c (env s)))" and "snd (hc_clock c (env s)) = env s"
    and "current (accessToken s) = Some tok"
  shows "createReq c u m body s =
    (Ok (Header_Set ''Authorization'' (''Bearer '' @ tr_AccessToken tok) (NewRequest m u body)), s)"
proof -
  obtain t where clock: "hc_clock c (env s) = (t, env s)" using assms(2) by (cases "hc_clock c (env s)") simp
  have "\<not> atom_expired (accessToken s) (fst (api_clock c s))" "snd (api_clock c s) = s"
    using assms(1) by (simp_all add: api_clock_def clock)
  with atc.Get_hit [of s c] assms(3) have "GetAccessToken c s = (Ok (Some tok), s)"
    by (simp add: GetAccessToken_def)
  then show ?thesis by (simp add: createReq_def wrapping_def bind_def ret_def)
qed

text \<open>The request as it leaves the client, after \<open>retryableHTTPDo\<close> has added the run id.\<close>

definition sent_request :: "'w http_api \<Rightarrow> http_request \<Rightarrow> http_request" where
  "sent_request c req = Header_Add ''X-Altinn-Operator-RunId'' (RunId (hc_context c)) req"

lemma sent_request_simps [simp]:
  "rq_Method (sent_request c req) = rq_Method req" "rq_URL (sent_request c req) = rq_URL req"
  "rq_Body (sent_request c req) = rq_Body req" "rq_unread (sent_request c req) = rq_unread req"
  by (simp_all add: sent_request_def Header_Add_def)

lemma sent_headers:
  fixes m v :: string and u :: url and b :: "string option"
  defines "req \<equiv> Header_Set ''Authorization'' v (NewRequest m u b)"
  shows "Header_Get ''Authorization'' (sent_request c req) = v"
    "Header_Get RunIdHeader (sent_request c req) = RunId (hc_context c)"
    "Header_Get ''Authorization'' (sent_request c (accept_json req)) = v"
    "Header_Get RunIdHeader (sent_request c (accept_json req)) = RunId (hc_context c)"
    "Header_Get ''Authorization'' (sent_request c (json_headers req)) = v"
    "Header_Get RunIdHeader (sent_request c (json_headers req)) = RunId (hc_context c)"
  unfolding req_def
  by (simp_all add: sent_request_def accept_json_def json_headers_def Header_Get_def Header_Set_def
      Header_Add_def NewRequest_def RunIdHeader_def fold_name_def fold_char_def)

lemma request_parts [simp]:
  "rq_Method (Header_Set k v (NewRequest m u b)) = m" "rq_URL (Header_Set k v (NewRequest m u b)) = u"
  "rq_Body (Header_Set k v (NewRequest m u b)) = b"
  "rq_Method (accept_json req) = rq_Method req" "rq_URL (accept_json req) = rq_URL req"
  "rq_Body (accept_json req) = rq_Body req"
  "rq_Method (json_headers req) = rq_Method req" "rq_URL (json_headers req) = rq_URL req"
  "rq_Body (json_headers req) = rq_Body req"
  "rq_unread (Header_Set k v (NewRequest m u b)) = (case b of None \<Rightarrow> [] | Some b \<Rightarrow> b)"
  "rq_unread (accept_json req) = rq_unread req" "rq_unread (json_headers req) = rq_unread req"
  by (simp_all add: accept_json_def json_headers_def Header_Set_def NewRequest_def)

text \<open>A request that the server answers with a status below 500 is sent once.\<close>

lemma fakes_send:
  assumes "hc_net c = fakes_net F n" and "api_at (u_Origin (rq_URL req)) = Some api"
    and "case rq_Body req of None \<Rightarrow> True | Some b \<Rightarrow> rq_unread req = b"
    and "serve F api (sent_request c req) (env s) = (Ok resp, w')" and "rs_StatusCode resp < 500"
  shows "retryableHTTPDo c req s = (Ok resp, s\<lparr>env := w'\<rparr>)"
proof -
  have "http_Do (fakes_net F n) (sent_request c req) (env s) = ((Ok resp, []), w')"
    using assms(2-4) by (cases "rq_Body req") (simp_all add: fakes_net_def)
  then show ?thesis
    using assms(1,5)
    by (simp add: retryableHTTPDo_def in_env_def on_part_def http_retry.simps operation_error_def sent_request_def [symmetric])
qed

lemma self_service_endpoint:
  assumes "local_client F c" and "\<forall>p\<in>set ids. plain_segment p \<and> CHR ''%'' \<notin> set p"
  shows "self_service_url c ids =
    Ok \<lparr>u_Origin = ''http://localhost:8051'', u_Path = join_with ''/'' (clients_path # ids), u_Query = []\<rparr>"
proof -
  obtain n where n: "hc_net c = fakes_net F n" using assms(1) by (auto simp: local_client_def)
  have "url_Parse (hc_net c) ''http://localhost:8051'' =
      Ok \<lparr>bu_Origin = ''http://localhost:8051'', bu_Path = [], bu_EscapedPath = []\<rparr>"
    by (simp add: n fakes_net_def)
  moreover have "api_SelfServiceUrl (hc_config c) = ''http://localhost:8051''"
    using assms(1) unfolding local_client_def by blast
  ultimately show ?thesis
    using client_url [OF _ _ assms(2), of "hc_net c" "''http://localhost:8051''"]
    by (simp add: self_service_url_def)
qed


section \<open>Handlers on a known database\<close>

definition put_db :: "string \<Rightarrow> db \<Rightarrow> 'w \<Rightarrow> 'w fake_state \<Rightarrow> 'w fake_state" where
  "put_db k d w s = s\<lparr>fs_Db := set_db k d (fs_Db s), fs_world := w\<rparr>"

lemma set_db_same: "map_of ds k = Some d \<Longrightarrow> set_db k d ds = ds"
  by (induction k d ds rule: set_db.induct) (auto split: if_splits)

lemma put_db_simps [simp]:
  "map_of (fs_Db (put_db k d w s)) k = Some d" "fs_world (put_db k d w s) = w"
  "put_db k d' w' (put_db k d w s) = put_db k d' w' s"
  "map_of (fs_Db s) k = Some d \<Longrightarrow> put_db k d (fs_world s) s = s"
proof -
  have "set_db k d' (set_db k d ds) = set_db k d' ds" for ds
    by (induction k d ds rule: set_db.induct) auto
  then show "put_db k d' w' (put_db k d w s) = put_db k d' w' s" by (simp add: put_db_def)
qed (simp_all add: put_db_def set_db_same)

lemma with_db_known:
  assumes "Header_Get RunIdHeader req = k" and "k \<noteq> []" and "map_of (fs_Db (hs_state h)) k = Some d"
  shows "with_db F req m h = (case m (d, fs_world (hs_state h)) of
    (r, (d', w')) \<Rightarrow> (r, h\<lparr>hs_state := put_db k d' w' (hs_state h)\<rparr>))"
  using assms GetDb_known [of req k "hs_state h" d F]
  by (simp add: with_db_def bind_def in_server_def on_part_def in_db_def db_of_def put_db_def
      split: prod.split)

lemma json_decode_line: "json_ok j \<Longrightarrow> json_decode (json_text j @ [CHR 0x0A]) = Some j"
  using read_value_text [of j "[CHR 0x0A]"]
  by (simp add: json_decode_def ends_number_def number_char_def is_digit_def digit_of_def
      del: read_value.simps)

lemma new_client_encodes:
  assumes "client_response_ok (new_client req i now)"
  obtains j where "enc_client_response J (new_client req i now) = Ok j" and "json_ok j"
    and "dec_client_response J z j = Some (sent_client_response (new_client req i now))"
proof -
  have none: "cr_Jwks (new_client req i now) = None"
    by (simp add: new_client_def zero_client_response_def)
  then obtain j where "enc_client_response J (new_client req i now) = Ok j"
    by (simp add: enc_client_response_def enc_jwks_field_def)
  with client_response_roundtrip [OF assms none this] that show ?thesis by blast
qed

lemma new_client_ok:
  assumes "add_client_request_ints_ok req" and "rfc3339_ok now"
  shows "client_response_ok (new_client (sent_add_client_request req) i now)"
  using assms
  by (simp add: client_response_ok_def add_client_request_ints_ok_def new_client_def zero_client_response_def
      sent_add_client_request_def)

lemma new_client_sent:
  "sent_client_response (new_client (sent_add_client_request req) i now) = new_client (sent_add_client_request req) i now"
  by (simp add: sent_client_response_def new_client_def zero_client_response_def sent_add_client_request_def)

text \<open>A response with a body, and its reading.\<close>

definition json_response :: "int \<Rightarrow> json \<Rightarrow> http_response" where
  "json_response code j = \<lparr>rs_StatusCode = code, rs_Status = itoa code @ '' '' @ status_text code,
     rs_Body = json_text j @ [CHR 0x0A], rs_ReadErr = None\<rparr>"

lemma deserialize_json_response:
  "json_ok j \<Longrightarrow> dec zero j = Some x \<Longrightarrow> deserialize dec zero (json_response code j) s = (Ok x, s)"
  by (simp add: json_response_def json_decode_line)

lemma json_response_status: "rs_StatusCode (json_response code j) = code"
  by (simp add: json_response_def)

lemmas writer_defs = WriteHeader_def Writer_Write_def Add_Header_def json_content_def put_status_def
  fresh_writer_def response_of_def json_response_def

text \<open>A request about clients from a run with a known database, with a token that is let in.\<close>

definition asks :: "http_request \<Rightarrow> string \<Rightarrow> string list \<Rightarrow> string \<Rightarrow> bool" where
  "asks req m ids k \<longleftrightarrow> u_Path (rq_URL req) = join_with ''/'' (clients_path # ids) \<and> rq_Method req = m \<and>
     selfServiceAuth req \<noteq> None \<and> Header_Get RunIdHeader req = k \<and> k \<noteq> []"

definition plain_ids :: "string list \<Rightarrow> bool" where
  "plain_ids ids \<longleftrightarrow> (\<forall>p\<in>set ids. plain_segment p \<and> CHR ''%'' \<notin> set p)"

lemma plain_ids_simps [simp]: "plain_ids []"
  "plain_ids [i, ''jwks''] = plain_ids [i]"
  by (simp_all add: plain_ids_def plain_segment_def)

lemma asks_route: "asks req m ids k \<Longrightarrow> plain_ids ids \<Longrightarrow> route F SelfServiceApi req = client_route F ids req"
  by (rule route_clients) (simp_all add: asks_def plain_ids_def)

lemma asks_client_route:
  assumes "asks req m [i] k" and "plain_ids [i]" shows "route F SelfServiceApi req = handleClientByID F i req"
  using asks_route [OF assms, of F] assms(2) by (simp add: plain_ids_def plain_segment_def)

lemma asks_jwks_route:
  assumes "asks req m [i, ''jwks''] k" and "plain_ids [i]" shows "route F SelfServiceApi req = handleClientJwks F i req"
  using asks_route [of req m "[i, ''jwks'']" k F] assms by (simp add: plain_ids_def plain_segment_def)

lemma asks_authorized: "asks req m ids k \<Longrightarrow> authorized req h = h"
  by (auto simp: asks_def authorized_def)

lemma asks_with_db:
  assumes "asks req m ids k" and "map_of (fs_Db s) k = Some d"
  shows "with_db F req h \<lparr>hs_state = s, hs_writer = w\<rparr> = (case h (d, fs_world s) of
    (r, (d', w')) \<Rightarrow> (r, \<lparr>hs_state = put_db k d' w' s, hs_writer = w\<rparr>))"
  using assms by (subst with_db_known [where k = k and d = d]) (simp_all add: asks_def split: prod.split)

lemma asks_read_db:
  assumes "asks req m ids k" and "map_of (fs_Db s) k = Some d"
  shows "with_db F req (on_db (read_db f)) \<lparr>hs_state = s, hs_writer = w\<rparr> = (f d, \<lparr>hs_state = s, hs_writer = w\<rparr>)"
  using assms(2) by (simp add: asks_with_db [OF assms] on_db_def on_part_def read_db_def)

text \<open>What the four handlers answer that the client's methods use, on a database that is known.\<close>

lemma serve_create:
  assumes "asks req ''POST'' [] k" and "map_of (fs_Db s) k = Some d"
    and "rq_Body req = Some (json_text (enc_add_client_request areq))" and "add_client_request_ints_ok areq"
    and "dcr_scope \<notin> set (slice_list (ac_Scopes areq))"
    and "ac_ClientName areq = Some name" and "name \<noteq> []"
    and "fw_uuid (fl_world F) (fs_world s) = (Ok i, w1)" and "ClientIdIndex d i = None"
    and "enc_client_response (fl_jose F) (new_client (sent_add_client_request areq) i (fst (fw_Now (fl_world F) w1))) = Ok j"
  shows "serve F SelfServiceApi req s = (Ok (json_response 200 j),
    put_db k (add_record \<lparr>rec_ClientId = i,
        rec_Client = new_client (sent_add_client_request areq) i (fst (fw_Now (fl_world F) w1)), rec_Jwks = None\<rparr> d)
      (snd (fw_Now (fl_world F) w1)) s)"
proof -
  let ?areq = "sent_add_client_request areq" and ?now = "fw_Now (fl_world F) w1"
  let ?r = "\<lparr>rec_ClientId = i, rec_Client = new_client ?areq i (fst ?now), rec_Jwks = None\<rparr>"
  have route: "route F SelfServiceApi req = handleClients F req"
    using asks_route [OF assms(1), of F] by simp
  have "slice_list (ac_Scopes ?areq) = slice_list (ac_Scopes areq)"
    by (cases "ac_Scopes areq" rule: omit_empty.cases) (simp_all add: sent_add_client_request_def slice_list_def)
  then have scopes: "dcr_scope \<notin> set (slice_list (ac_Scopes ?areq))" using assms(5) by simp
  have body: "decode_body dec_add_client_request zero_add_client_request req h = (Ok ?areq, h)" for h :: "'a handling"
    using assms(3,4) enc_add_client_request_ok [of areq]
    by (simp add: decode_body_def add_client_request_roundtrip del: json_text.simps)
  have "Insert (fl_world F) ?areq None [] (d, fs_world s) = (Ok ?r, (add_record ?r d, snd ?now))"
    using assms(6-9) by (simp add: Insert_eq insert_id_def sent_add_client_request_def Let_def)
  then have ins: "with_db F req (Insert (fl_world F) ?areq None []) \<lparr>hs_state = s, hs_writer = fresh_writer\<rparr> =
      (Ok ?r, \<lparr>hs_state = put_db k (add_record ?r d) (snd ?now) s, hs_writer = fresh_writer\<rparr>)"
    by (subst asks_with_db [OF assms(1,2)]) simp
  have post: "rq_Method req = ''POST''" using assms(1) by (simp add: asks_def)
  have "handleClients F req \<lparr>hs_state = s, hs_writer = fresh_writer\<rparr> =
      answer_client F ?r \<lparr>hs_state = put_db k (add_record ?r d) (snd ?now) s, hs_writer = fresh_writer\<rparr>"
    using scopes by (simp add: handleClients_def post asks_authorized [OF assms(1)] or_400_def body ins)
  then show ?thesis
    using assms(10) by (simp add: serve_def route answer_client_def bind_def Encode_def writer_defs Let_def)
qed

lemma serve_get_client:
  assumes "asks req ''GET'' [i] k" and "plain_ids [i]" and "map_of (fs_Db s) k = Some d"
    and "db_ok d" and "db_find i d = Some r" and "enc_client_response (fl_jose F) (rec_Client r) = Ok j"
  shows "serve F SelfServiceApi req s = (Ok (json_response 200 j), s)"
proof -
  have get: "rq_Method req = ''GET''" using assms(1) by (simp add: asks_def)
  have found: "with_db F req (on_db (read_db (Db_Get i))) \<lparr>hs_state = s, hs_writer = w\<rparr> =
      (Ok (Some r), \<lparr>hs_state = s, hs_writer = w\<rparr>)" for w
    using assms(4,5) by (simp add: asks_read_db [OF assms(1,3)] Db_Get_find)
  show ?thesis
    by (simp add: serve_def asks_client_route [OF assms(1,2)] handleClientByID_def get
        asks_authorized [OF assms(1)] bind_def found Encode_def assms(6) writer_defs Let_def)
qed

lemma serve_get_jwks:
  assumes "asks req ''GET'' [i, ''jwks''] k" and "plain_ids [i]" and "map_of (fs_Db s) k = Some d"
    and "db_ok d" and "db_find i d = Some r" and "enc_jwks_ptr (fl_jose F) (rec_Jwks r) = Ok j"
  shows "serve F SelfServiceApi req s = (Ok (json_response 200 j), s)"
proof -
  have get: "rq_Method req = ''GET''" using assms(1) by (simp add: asks_def)
  have found: "with_db F req (on_db (read_db (Db_Get i))) \<lparr>hs_state = s, hs_writer = w\<rparr> =
      (Ok (Some r), \<lparr>hs_state = s, hs_writer = w\<rparr>)" for w
    using assms(4,5) by (simp add: asks_read_db [OF assms(1,3)] Db_Get_find)
  show ?thesis
    by (simp add: serve_def asks_jwks_route [OF assms(1,2)] handleClientJwks_def get
        asks_authorized [OF assms(1)] bind_def found Encode_def assms(6) writer_defs Let_def)
qed

lemma serve_post_jwks:
  assumes "asks req ''POST'' [i, ''jwks''] k" and "plain_ids [i]" and "map_of (fs_Db s) k = Some d"
    and "db_ok d" and "db_find i d \<noteq> None"
    and "jose_laws (fl_jose F)" and "enc_jwks (fl_jose F) ks = Ok kj" and "rq_Body req = Some (json_text kj)"
  shows "serve F SelfServiceApi req s =
    (Ok \<lparr>rs_StatusCode = 201, rs_Status = itoa 201 @ '' '' @ status_text 201, rs_Body = [], rs_ReadErr = None\<rparr>,
     put_db k (modify_record i (set_jwks (Some ks)) d) (fs_world s) s)"
proof -
  have post: "rq_Method req = ''POST''" using assms(1) by (simp add: asks_def)
  from jwks_roundtrip [OF assms(6,7)]
  have body: "decode_body (dec_jwks (fl_jose F)) \<lparr>Keys = []\<rparr> req h = (Ok ks, h)" for h :: "'a handling"
    using assms(8) by (simp add: decode_body_def del: json_text.simps)
  have upd: "with_db F req (on_db (UpdateJwks i (Some ks))) \<lparr>hs_state = s, hs_writer = w\<rparr> =
      (Ok (), \<lparr>hs_state = put_db k (modify_record i (set_jwks (Some ks)) d) (fs_world s) s, hs_writer = w\<rparr>)" for w
    using assms(5) by (simp add: asks_with_db [OF assms(1,3)] on_db_def on_part_def UpdateJwks_ok [OF assms(4)])
  show ?thesis
    by (simp add: serve_def asks_jwks_route [OF assms(1,2)] handleClientJwks_def post
        asks_authorized [OF assms(1)] or_400_def body upd writer_defs Let_def)
qed


section \<open>The client's methods against the server\<close>

text \<open>Every method sends such a request: its URL, its headers, and the server that gets it.\<close>

lemma local_request:
  assumes "local_client F c" and "live_token c s" and "plain_ids ids"
  obtains n u req where "hc_net c = fakes_net F n" and "self_service_url c ids = Ok u"
    and "createReq c u m body s = (Ok req, s)"
    and "asks (sent_request c req) m ids (RunId (hc_context c))"
    and "asks (sent_request c (accept_json req)) m ids (RunId (hc_context c))"
    and "asks (sent_request c (json_headers req)) m ids (RunId (hc_context c))"
    and "rq_Body req = body" and "case body of None \<Rightarrow> True | Some b \<Rightarrow> rq_unread req = b"
    and "api_at (u_Origin (rq_URL req)) = Some SelfServiceApi"
proof -
  let ?u = "\<lparr>u_Origin = ''http://localhost:8051'', u_Path = join_with ''/'' (clients_path # ids), u_Query = []\<rparr>"
  obtain n where n: "hc_net c = fakes_net F n" using assms(1) unfolding local_client_def by blast
  have run: "RunId (hc_context c) \<noteq> []" using assms(1) unfolding local_client_def by blast
  have u: "self_service_url c ids = Ok ?u"
    using assms(1,3) by (intro self_service_endpoint) (simp_all add: plain_ids_def)
  from assms(2) obtain tok scopes i where tok: "current (accessToken s) = Some tok"
      "tr_AccessToken tok = token_text scopes i" "dcr_scope \<in> set scopes"
      and live: "\<not> atom_expired (accessToken s) (fst (hc_clock c (env s)))" "snd (hc_clock c (env s)) = env s"
    unfolding live_token_def by blast
  let ?req = "Header_Set ''Authorization'' (''Bearer '' @ token_text scopes i) (NewRequest m ?u body)"
  have req: "createReq c ?u m body s = (Ok ?req, s)"
    using createReq_live [of s c tok] live tok by simp
  have auth: "selfServiceAuth x \<noteq> None" if "Header_Get ''Authorization'' x = ''Bearer '' @ token_text scopes i" for x
    using selfServiceAuth_token [OF that] tok(3) by simp
  have "asks (sent_request c x) m ids (RunId (hc_context c))"
    if "x \<in> {?req, accept_json ?req, json_headers ?req}" for x
    unfolding asks_def using that run auth by (auto simp: sent_headers)
  with n u req that show ?thesis
    by (simp add: api_at_def split: option.split)
qed

lemma CreateClientJwks_local:
  assumes "local_client F c" and "live_token c s" and "plain_ids [i]"
    and "jose_laws (fl_jose F)" and "check_public (fl_jose F) i (Keys ks) = Ok ()" and "enc_jwks (fl_jose F) ks = Ok kj"
    and "map_of (fs_Db (env s)) (RunId (hc_context c)) = Some d" and "db_ok d" and "db_find i d \<noteq> None"
  shows "CreateClientJwks c i (Some ks) s =
    (Ok (), s\<lparr>env := put_db (RunId (hc_context c)) (modify_record i (set_jwks (Some ks)) d) (fs_world (env s)) (env s)\<rparr>)"
proof -
  have i: "i \<noteq> []" using assms(3) by (simp add: plain_ids_def plain_segment_def)
  have jose: "hc_jose c = fl_jose F" using assms(1) unfolding local_client_def by blast
  have ids: "plain_ids [i, ''jwks'']" using assms(3) by simp
  obtain n u req where "hc_net c = fakes_net F n" and u: "self_service_url c [i, ''jwks''] = Ok u"
      and req: "createReq c u ''POST'' (Some (json_text kj)) s = (Ok req, s)"
      and asks: "asks (sent_request c (json_headers req)) ''POST'' [i, ''jwks''] (RunId (hc_context c))"
      and body: "rq_Body req = Some (json_text kj)" "rq_unread req = json_text kj"
      and api: "api_at (u_Origin (rq_URL req)) = Some SelfServiceApi"
    by (rule local_request [OF assms(1,2) ids, of "''POST''" "Some (json_text kj)"]) simp
  then have "retryableHTTPDo c (json_headers req) s =
      (Ok \<lparr>rs_StatusCode = 201, rs_Status = itoa 201 @ '' '' @ status_text 201, rs_Body = [], rs_ReadErr = None\<rparr>,
       s\<lparr>env := put_db (RunId (hc_context c)) (modify_record i (set_jwks (Some ks)) d) (fs_world (env s)) (env s)\<rparr>)"
    using serve_post_jwks [OF asks assms(3,7,8,9,4,6)] body by (intro fakes_send) simp_all
  then show ?thesis
    using i u req assms(5,6) by (simp add: CreateClientJwks_def jose bind_def expect_status_def)
qed

lemma CreateClient_local:
  assumes "local_client F c" and "live_token c s" and "plain_ids [i]"
    and "jose_laws (fl_jose F)" and "check_public (fl_jose F) i (Keys ks) = Ok ()" and "enc_jwks (fl_jose F) ks = Ok kj"
    and "map_of (fs_Db (env s)) (RunId (hc_context c)) = Some d" and "db_ok d" and "ClientIdIndex d i = None"
    and "add_client_request_ints_ok areq" and "dcr_scope \<notin> set (slice_list (ac_Scopes areq))"
    and "ac_ClientName areq = Some name" and "name \<noteq> []"
    and "fw_uuid (fl_world F) (fs_world (env s)) = (Ok i, w1)" and "fw_Now (fl_world F) w1 = (now, w2)"
    and "rfc3339_ok now"
    and "\<forall>v. fs_world v = w2 \<longrightarrow> live_token c (s\<lparr>env := v\<rparr>)"
  shows "CreateClient c (Some areq) (Some ks) s = (Ok (new_client (sent_add_client_request areq) i now),
    s\<lparr>env := put_db (RunId (hc_context c)) (add_record \<lparr>rec_ClientId = i,
        rec_Client = new_client (sent_add_client_request areq) i now, rec_Jwks = Some ks\<rparr> d) w2 (env s)\<rparr>)"
proof -
  let ?cl = "new_client (sent_add_client_request areq) i now" and ?run = "RunId (hc_context c)"
  let ?r = "\<lparr>rec_ClientId = i, rec_Client = ?cl, rec_Jwks = None\<rparr>"
  let ?s1 = "s\<lparr>env := put_db ?run (add_record ?r d) w2 (env s)\<rparr>"
  have jose: "hc_jose c = fl_jose F" using assms(1) unfolding local_client_def by blast
  have ok: "client_response_ok ?cl" using assms(10,16) by (rule new_client_ok)
  obtain j where j: "enc_client_response (fl_jose F) ?cl = Ok j"
      and dec: "json_ok j" "dec_client_response (fl_jose F) zero_client_response j = Some (sent_client_response ?cl)"
    using new_client_encodes [OF ok] by blast
  obtain n u req where "hc_net c = fakes_net F n" and u: "self_service_url c [] = Ok u"
      and req: "createReq c u ''POST'' (Some (json_text (enc_add_client_request areq))) s = (Ok req, s)"
      and asks: "asks (sent_request c (json_headers req)) ''POST'' [] ?run"
      and body: "rq_Body req = Some (json_text (enc_add_client_request areq))"
        "rq_unread req = json_text (enc_add_client_request areq)"
      and api: "api_at (u_Origin (rq_URL req)) = Some SelfServiceApi"
    by (rule local_request [OF assms(1,2), of "[]" "''POST''" "Some (json_text (enc_add_client_request areq))"]) simp_all
  have "serve F SelfServiceApi (sent_request c (json_headers req)) (env s) =
      (Ok (json_response 200 j), put_db ?run (add_record ?r d) w2 (env s))"
    using serve_create [OF asks assms(7) _ assms(10-14,9), of j] body(1) assms(15) j by simp
  then have post: "retryableHTTPDo c (json_headers req) s = (Ok (json_response 200 j), ?s1)"
    using \<open>hc_net c = fakes_net F n\<close> api body by (intro fakes_send) (simp_all add: json_response_def)
  have none: "db_find i d = None" using assms(8,9) by (simp add: db_find_index)
  have "db_ok (add_record ?r d)" using assms(8) none by (intro db_ok_add) simp_all
  moreover have "db_find i (add_record ?r d) = Some ?r" using none by (subst db_find_add) simp_all
  moreover have "live_token c ?s1" using assms(17) by simp
  ultimately have upload: "CreateClientJwks c i (Some ks) ?s1 = (Ok (),
      ?s1\<lparr>env := put_db ?run (modify_record i (set_jwks (Some ks)) (add_record ?r d)) w2 (env ?s1)\<rparr>)"
    using CreateClientJwks_local [OF assms(1) _ assms(3-6), of ?s1 "add_record ?r d"] by simp
  have "modify_record i (set_jwks (Some ks)) (add_record ?r d) = add_record (?r\<lparr>rec_Jwks := Some ks\<rparr>) d"
    by (simp add: modify_record_def add_record_def set_jwks_def)
  with upload have upload': "CreateClientJwks c i (Some ks) ?s1 = (Ok (),
      s\<lparr>env := put_db ?run (add_record \<lparr>rec_ClientId = i, rec_Client = ?cl, rec_Jwks = Some ks\<rparr> d) w2 (env s)\<rparr>)"
    by simp
  have id: "cr_ClientId ?cl = i" by (simp add: new_client_def)
  show ?thesis
    using u req post upload'
    by (simp add: deserialize_json_response [of j "dec_client_response (fl_jose F)" zero_client_response, OF dec]
        new_client_sent  CreateClient_def enc_add_client_request_ptr_def bind_def expect_status_def jose id wrapping_def ret_def
        json_response_status)
qed

lemma GetClient_local:
  assumes "local_client F c" and "live_token c s" and "plain_ids [i]" and "jose_laws (fl_jose F)"
    and "map_of (fs_Db (env s)) (RunId (hc_context c)) = Some d" and "db_ok d"
    and "db_find i d = Some \<lparr>rec_ClientId = i, rec_Client = cl, rec_Jwks = Some ks\<rparr>"
    and "enc_client_response (fl_jose F) cl = Ok j" and "json_ok j"
    and "dec_client_response (fl_jose F) zero_client_response j = Some cl"
    and "cr_ClientName cl = Some name" and "has_prefix (hc_clientNamePrefix c) name" and "hc_clientNamePrefix c \<noteq> []"
    and "enc_jwks (fl_jose F) ks = Ok kj"
  shows "GetClient c i s = (Ok (cl, ks), s)"
proof -
  have i: "i \<noteq> []" using assms(3) by (simp add: plain_ids_def plain_segment_def)
  have jose: "hc_jose c = fl_jose F" using assms(1) unfolding local_client_def by blast
  obtain n u req where "hc_net c = fakes_net F n" and u: "self_service_url c [i] = Ok u"
      and req: "createReq c u ''GET'' None s = (Ok req, s)"
      and asks: "asks (sent_request c (accept_json req)) ''GET'' [i] (RunId (hc_context c))"
      and "rq_Body req = None" "api_at (u_Origin (rq_URL req)) = Some SelfServiceApi"
    by (rule local_request [OF assms(1-3), of "''GET''" None])
  then have "retryableHTTPDo c (accept_json req) s = (Ok (json_response 200 j), s\<lparr>env := env s\<rparr>)"
    using serve_get_client [OF asks assms(3,5,6,7), of F j] assms(8)
    by (intro fakes_send) (simp_all add: json_response_status)
  then have get: "retryableHTTPDo c (accept_json req) s = (Ok (json_response 200 j), s)" by simp
  have ids: "plain_ids [i, ''jwks'']" using assms(3) by simp
  obtain n' v req' where "hc_net c = fakes_net F n'" and v: "self_service_url c [i, ''jwks''] = Ok v"
      and req': "createReq c v ''GET'' None s = (Ok req', s)"
      and asks': "asks (sent_request c (accept_json req')) ''GET'' [i, ''jwks''] (RunId (hc_context c))"
      and "rq_Body req' = None" "api_at (u_Origin (rq_URL req')) = Some SelfServiceApi"
    by (rule local_request [OF assms(1,2) ids, of "''GET''" None])
  then have "retryableHTTPDo c (accept_json req') s = (Ok (json_response 200 kj), s\<lparr>env := env s\<rparr>)"
    using serve_get_jwks [OF asks' assms(3,5,6,7), of F kj] assms(14)
    by (intro fakes_send) (simp_all add: json_response_status enc_jwks_ptr_def)
  then have get': "retryableHTTPDo c (accept_json req') s = (Ok (json_response 200 kj), s)" by simp
  note ks = jwks_roundtrip [OF assms(4,14)]
  have name: "TrimPrefix name (hc_clientNamePrefix c) \<noteq> name"
    using assms(12,13) by (simp add: TrimPrefix_eq_self_iff)
  have keys: "getClientJwks c i s = (Ok ks, s)"
    using i v req' get' ks
    by (simp add: getClientJwks_def bind_def expect_status_def json_response_status ret_def jose
        deserialize_json_response [of kj "dec_jwks (fl_jose F)" "\<lparr>Keys = []\<rparr>"])
  show ?thesis
    using u req get assms(11) name keys
    by (simp add: GetClient_def bind_def expect_status_def json_response_status ret_def jose
        deserialize_json_response [of j "dec_client_response (fl_jose F)" zero_client_response, OF assms(9,10)])
qed

end
