(* ===== verification/FakesSecrecy.thy ===== *)
theory FakesSecrecy
  imports Secrecy FakesRun
begin

text \<open>
  What the fake API stores: a request without private keys leaves none in the databases, whichever
  handler it reaches.
\<close>


section \<open>Databases without private keys\<close>

definition public_record :: "client_record \<Rightarrow> bool" where
  "public_record r \<longleftrightarrow> (\<forall>ks. rec_Jwks r = Some ks \<longrightarrow> no_private_keys ks)"

definition public_db :: "db \<Rightarrow> bool" where
  "public_db d \<longleftrightarrow> (\<forall>r\<in>set (Clients d). public_record r)"

definition public_dbs :: "(string \<times> db) list \<Rightarrow> bool" where
  "public_dbs ds \<longleftrightarrow> (\<forall>(k, d)\<in>set ds. public_db d)"

lemma public_NewDb [simp]: "public_db NewDb"
  by (simp add: public_db_def NewDb_def)

lemma public_add: "public_db d \<Longrightarrow> public_record r \<Longrightarrow> public_db (add_record r d)"
  by (auto simp: public_db_def add_record_def)

lemma public_update: "public_db d \<Longrightarrow> public_record r \<Longrightarrow> public_db (d\<lparr>Clients := (Clients d)[i := r]\<rparr>)"
  unfolding public_db_def using set_update_subset_insert [of "Clients d" i r] by auto

lemma public_remove: "public_db d \<Longrightarrow> i < length (Clients d) \<Longrightarrow>
    public_db (d\<lparr>ClientIdIndex := m, Clients := butlast ((Clients d)[i := last (Clients d)])\<rparr>)"
  unfolding public_db_def using set_update_subset_insert [of "Clients d" i "last (Clients d)"]
  by (auto dest!: in_set_butlastD) (metis insertE last_in_set length_pos_if_in_set list.size(3) not_less_zero subsetD)

lemma public_db_of: "public_dbs (fs_Db s) \<Longrightarrow> public_db (db_of k s)"
  by (auto simp: public_dbs_def db_of_def split: option.split dest: map_of_SomeD)

lemma public_set_db: "public_dbs ds \<Longrightarrow> public_db d \<Longrightarrow> public_dbs (set_db k d ds)"
  by (induction k d ds rule: set_db.induct) (auto simp: public_dbs_def)


section \<open>The operations of the database\<close>

definition at_db :: "db \<times> 'w \<Rightarrow> bool" where
  "at_db s \<longleftrightarrow> public_db (fst s)"

lemma at_db_world [preserves_intros]: "preserves at_db (in_world_part m)"
  by (auto simp: preserves_def in_world_part_def on_part_def at_db_def split: prod.split)

lemma Insert_public:
  assumes "\<forall>ks. jwks = Some ks \<longrightarrow> no_private_keys ks" shows "preserves at_db (Insert F req jwks i)"
  unfolding Insert_def
proof (intro preserves_intros)
  show "preserves at_db (\<lambda>(d, w). (Ok (ClientIdIndex d x), (d, w)))" for x by (auto simp: preserves_def)
  show "preserves at_db (\<lambda>(d, w). (Ok \<lparr>rec_ClientId = x, rec_Client = new_client req x y, rec_Jwks = jwks\<rparr>,
      (add_record \<lparr>rec_ClientId = x, rec_Client = new_client req x y, rec_Jwks = jwks\<rparr> d, w)))" for x y
    using assms by (auto simp: preserves_def at_db_def public_record_def intro!: public_add)
qed

lemma on_db_public [preserves_intros]: "preserves public_db m \<Longrightarrow> preserves at_db (on_db m)"
  unfolding on_db_def by (rule preserves_on_part) (auto simp: at_db_def)

lemma read_db_public [preserves_intros]: "preserves I (read_db f)" "preserves I (\<lambda>d. (f d, d))"
  by (simp_all add: preserves_def read_db_def)

lemma UpdateJwks_public:
  assumes "no_private_keys ks" shows "preserves public_db (UpdateJwks i (Some ks))"
  using assms
  by (auto simp: preserves_def UpdateJwks_def set_jwks_def public_record_def intro!: public_update split: option.split)

lemma Db_Delete_public: "preserves public_db (Db_Delete i)"
  by (auto simp: preserves_def Db_Delete_def Let_def public_remove split: option.split) (auto simp: public_db_def)


section \<open>The handlers\<close>

definition at_state :: "'w fake_state \<Rightarrow> bool" where
  "at_state s \<longleftrightarrow> public_dbs (fs_Db s)"

definition at_handling :: "'w handling \<Rightarrow> bool" where
  "at_handling h \<longleftrightarrow> at_state (hs_state h)"

lemma initDb_public:
  assumes "jose_laws (fl_jose F)" and "initDb F s = (Ok d, s')" shows "public_db d"
  using assms(2)
proof (rule initDb_Ok)
  fix jwk now
  assume "\<exists>pub. Jwk_Public (fl_jose F) (Some jwk) = Ok pub \<and>
      d = add_record \<lparr>rec_ClientId = api_ClientId (MaskinportenApi (fl_cfg F)),
        rec_Client = new_client (supplier_request (MaskinportenApi (fl_cfg F))) (api_ClientId (MaskinportenApi (fl_cfg F))) now,
        rec_Jwks = Some (NewJwks [pub])\<rparr> NewDb"
  then obtain pub where pub: "Jwk_Public (fl_jose F) (Some jwk) = Ok pub"
    and d: "d = add_record \<lparr>rec_ClientId = api_ClientId (MaskinportenApi (fl_cfg F)),
        rec_Client = new_client (supplier_request (MaskinportenApi (fl_cfg F))) (api_ClientId (MaskinportenApi (fl_cfg F))) now,
        rec_Jwks = Some (NewJwks [pub])\<rparr> NewDb" by blast
  have "no_private_keys (NewJwks [pub])"
    using pub jose_private_not_public [OF assms(1)] jose_Public_not_private [OF assms(1)]
    by (auto simp: Jwk_Public_def no_private_keys_def NewJwks_def private_rsa_key_def split: if_splits)
  then show "public_db d" unfolding d by (intro public_add) (simp_all add: public_record_def)
qed

lemma GetDb_public:
  assumes "jose_laws (fl_jose F)" shows "preserves at_state (GetDb F req)"
proof (rule preservesI)
  fix s r s' assume run: "GetDb F req s = (r, s')" and "at_state s"
  obtain q s1 where init: "initDb F s = (q, s1)" by fastforce
  then have "fs_Db s1 = fs_Db s" by (rule initDb_keeps)
  with run init \<open>at_state s\<close> initDb_public [OF assms] show "at_state s'"
    by (cases q) (auto simp: GetDb_def Let_def bind_def at_state_def public_dbs_def split: if_splits option.splits)
qed

lemma in_db_public: "preserves at_db m \<Longrightarrow> preserves at_state (in_db k m)"
  unfolding in_db_def
  by (rule preserves_on_part [where J = at_db]) (auto simp: at_state_def at_db_def public_db_of intro: public_set_db split: prod.split)

lemma in_server_public [preserves_intros]: "preserves at_state m \<Longrightarrow> preserves at_handling (in_server m)"
  unfolding in_server_def by (rule preserves_on_part) (auto simp: at_handling_def)

lemma with_db_public: "jose_laws (fl_jose F) \<Longrightarrow> preserves at_db m \<Longrightarrow> preserves at_handling (with_db F req m)"
  unfolding with_db_def by (intro preserves_intros GetDb_public in_db_public)

lemma writer_public [preserves_intros]:
  "preserves at_handling (WriteHeader c)" "preserves at_handling (Writer_Write t)" "preserves at_handling (Add_Header x y)"
  "preserves at_handling json_content"
  by (auto simp: preserves_def at_handling_def WriteHeader_def Writer_Write_def Add_Header_def json_content_def Let_def)

lemma Encode_public [preserves_intros]: "preserves at_handling (Encode q)" "preserves at_handling (\<lambda>s. Encode (f s) s)"
  using writer_public by (auto simp: preserves_def Encode_def split: outcome.split)

lemma or_400_Ok:
  assumes "preserves at_handling m" and "\<And>x s s'. m s = (Ok x, s') \<Longrightarrow> preserves at_handling (f x)"
  shows "preserves at_handling (or_400 m f)"
proof (rule preservesI)
  fix s r s' assume run: "or_400 m f s = (r, s')" and "at_handling s"
  obtain q s1 where m: "m s = (q, s1)" by fastforce
  with \<open>at_handling s\<close> have "at_handling s1" by (rule preservesD [OF assms(1), rotated])
  then show "at_handling s'"
    using run m preservesD [OF assms(2) [of s _ s1]] preservesD [OF writer_public(1) [of 400]]
    by (cases q) (auto simp: or_400_def)
qed

lemma or_400_public:
  "preserves at_handling m \<Longrightarrow> (\<And>x. preserves at_handling (f x)) \<Longrightarrow> preserves at_handling (or_400 m f)"
  by (rule or_400_Ok)

lemma authorized_public [preserves_intros]: "preserves at_handling m \<Longrightarrow> preserves at_handling (authorized req m)"
  unfolding authorized_def by (intro preserves_intros)

lemma decode_body_public [preserves_intros]: "preserves I (decode_body dec zero req)"
  unfolding decode_body_def by (intro preserves_intros)

lemma single_public [preserves_intros]:
  "preserves I m \<Longrightarrow> (\<And>x. preserves I (g x)) \<Longrightarrow> preserves I (case xs of [x] \<Rightarrow> g x | _ \<Rightarrow> m)"
  by (simp split: list.split)

lemma handleClientJwks_public:
  assumes "jose_laws (fl_jose F)" and "discreet (fl_jose F) req"
  shows "preserves at_handling (handleClientJwks F i req)"
proof -
  have "no_private_keys ks" if "decode_body (dec_jwks (fl_jose F)) \<lparr>Keys = []\<rparr> req s = (Ok ks, s')" for ks and s s' :: "'a handling"
    using that assms(2) by (auto simp: decode_body_def discreet_def bind_eq_Some_conv split: option.splits)
  then have post: "preserves at_handling (or_400 (decode_body (dec_jwks (fl_jose F)) \<lparr>Keys = []\<rparr> req) (\<lambda>jwks.
      or_400 (with_db F req (on_db (UpdateJwks i (Some jwks)))) (\<lambda>_. WriteHeader 201)))"
    by (intro or_400_Ok [where m = "decode_body (dec_jwks (fl_jose F)) \<lparr>Keys = []\<rparr> req"] or_400_public preserves_intros
        with_db_public [OF assms(1)] UpdateJwks_public)
  show ?thesis
    unfolding handleClientJwks_def by (intro post preserves_intros with_db_public [OF assms(1)])
qed

lemma handlers_public:
  assumes "jose_laws (fl_jose F)"
  shows "preserves at_handling (handleToken F req)" and "preserves at_handling (handleWellKnown req)"
    and "preserves at_handling (handleClients F req)" and "preserves at_handling (handleClientByID F i req)"
    and "preserves at_handling (handleDumpPlease F)"
  unfolding handleToken_def handleWellKnown_def handleClients_def handleClientByID_def handleDumpPlease_def
    grant_token_def answer_client_def
  by (intro preserves_intros or_400_public with_db_public [OF assms] Insert_public Db_Delete_public; simp)+

lemma not_found_public [preserves_intros]: "preserves at_handling not_found"
  unfolding not_found_def by (intro preserves_intros)

lemma serve_public:
  assumes "jose_laws (fl_jose F)" and "discreet (fl_jose F) req" shows "preserves at_state (serve F a req)"
proof -
  note handlers = handlers_public [OF assms(1)] handleClientJwks_public [OF assms]
  have "preserves at_handling (client_route F parts req)" for parts
    by (cases "(F, parts, req)" rule: client_route.cases) (auto intro: handlers preserves_intros)
  then have "preserves at_handling (route F a req)"
    unfolding route_def Let_def healthEndpoint_def
    by (cases a; simp only: api.case) (intro preserves_intros handlers)+
  then show ?thesis
    by (auto simp: preserves_def serve_def at_handling_def split: prod.splits outcome.splits) (metis handling.select_convs(1) snd_conv)+
qed

text \<open>So the local network is one that requests without private keys do not spoil.\<close>

lemma fakes_net_discreet:
  assumes "jose_laws (fl_jose F)" shows "discreet_net (fl_jose F) (\<lambda>s. public_dbs (fs_Db s)) (fakes_net F n)"
proof -
  have "public_dbs (fs_Db s')" if "serve F a req s = (r, s')" "discreet (fl_jose F) req" "public_dbs (fs_Db s)" for a req s r s'
    using preservesD [OF serve_public [OF assms that(2)] that(1)] that(3) by (simp add: at_state_def)
  then show ?thesis
    by (auto simp: discreet_net_def fakes_net_def split: option.split prod.split outcome.split)
qed

end
