(* ===== verification/FakesLogin.thy ===== *)
theory FakesLogin
  imports FakesRun
begin

text \<open>
  The operator logs in at the fake authority: the metadata it reads, the grant it signs, the access
  token it gets for it, and the API that lets the token in. And the client it creates there is the
  client it reads.
\<close>


section \<open>The two calls to the authority\<close>

lemma authority_endpoint:
  assumes "local_client F c"
  shows "url_JoinPath (hc_net c) (api_AuthorityUrl (hc_config c)) [''/token''] =
      Ok \<lparr>u_Origin = ''http://localhost:8050'', u_Path = ''/token'', u_Query = []\<rparr>"
    "url_JoinPath (hc_net c) (api_AuthorityUrl (hc_config c)) [''/.well-known/oauth-authorization-server''] =
      Ok \<lparr>u_Origin = ''http://localhost:8050'', u_Path = ''/.well-known/oauth-authorization-server'', u_Query = []\<rparr>"
proof -
  obtain n where "hc_net c = fakes_net F n" using assms unfolding local_client_def by blast
  moreover have "api_AuthorityUrl (hc_config c) = ''http://localhost:8050''"
    using assms unfolding local_client_def by blast
  ultimately show "url_JoinPath (hc_net c) (api_AuthorityUrl (hc_config c)) [''/token''] =
      Ok \<lparr>u_Origin = ''http://localhost:8050'', u_Path = ''/token'', u_Query = []\<rparr>"
    "url_JoinPath (hc_net c) (api_AuthorityUrl (hc_config c)) [''/.well-known/oauth-authorization-server''] =
      Ok \<lparr>u_Origin = ''http://localhost:8050'', u_Path = ''/.well-known/oauth-authorization-server'', u_Query = []\<rparr>"
    by (simp_all add: url_JoinPath_def fakes_net_def joined_path_def path_Join_def path_Clean_def path_IsAbs_def
        has_suffix_slash_def rooted_path_def Let_def)
qed

lemma well_known_roundtrip:
  "dec_well_known z (enc_well_known fake_well_known) = Some fake_well_known"
  "json_ok (enc_well_known fake_well_known)"
  by (simp_all add: fake_well_known_def enc_well_known_def dec_well_known_def dec_object_def enc_slice_def dec_field_def
      field_values_Cons fold_name_def fold_char_def dec_slice_def dec_string_def SignatureAlgorithmsStr_def
      jwt_bearer_def)

lemma token_response_roundtrip:
  assumes "in_int64 (tr_ExpiresIn t)"
  shows "dec_token_response z (enc_token_response t) = Some t" "json_ok (enc_token_response t)"
  using decodes_int [OF assms, of 0]
  by (simp_all add: decodes_def enc_token_response_def dec_token_response_def dec_object_def dec_field_def
      field_values_Cons fold_name_def fold_char_def dec_string_def)


lemma authority_request:
  assumes "local_client F c" and "u_Origin (rq_URL req) = ''http://localhost:8050''" and "rq_Body req = None"
    and "serve F AuthorityApi (sent_request c req) (env s) = (Ok (json_response 200 j), w')"
  shows "retryableHTTPDo c req s = (Ok (json_response 200 j), s\<lparr>env := w'\<rparr>)"
proof -
  obtain n where n: "hc_net c = fakes_net F n" using assms(1) unfolding local_client_def by blast
  from assms(2-4) show ?thesis
    by (intro fakes_send [OF n]) (simp_all add: api_at_def json_response_status)
qed

lemma serve_well_known:
  assumes "rq_Method req = ''GET''" and "u_Path (rq_URL req) = ''/.well-known/oauth-authorization-server''"
  shows "serve F AuthorityApi req s = (Ok (json_response 200 (enc_well_known fake_well_known)), s)"
proof -
  have "mux_clean ''/.well-known/oauth-authorization-server'' = ''/.well-known/oauth-authorization-server''"
    by (simp add: mux_clean_def path_IsAbs_def path_Clean_def Let_def)
  then have "route F AuthorityApi req = handleWellKnown req"
    using assms(2) by (simp add: route_def Let_def)
  then show ?thesis
    using assms(1) by (simp add: serve_def handleWellKnown_def Encode_def writer_defs bind_def Let_def)
qed

lemma wellKnown_local:
  assumes "local_client F c"
  shows "wellKnownFetcher c s = (Ok (Some fake_well_known), s)"
proof -
  let ?u = "\<lparr>u_Origin = ''http://localhost:8050'', u_Path = ''/.well-known/oauth-authorization-server'', u_Query = []\<rparr>"
  have "retryableHTTPDo c (NewRequest ''GET'' ?u None) s =
      (Ok (json_response 200 (enc_well_known fake_well_known)), s\<lparr>env := env s\<rparr>)"
    by (rule authority_request [OF assms]) (simp_all add: NewRequest_def serve_well_known)
  then have "retryableHTTPDo c (NewRequest ''GET'' ?u None) s =
      (Ok (json_response 200 (enc_well_known fake_well_known)), s)" by simp
  with authority_endpoint(2) [OF assms] well_known_roundtrip show ?thesis
    by (simp add: wellKnownFetcher_def bind_def expect_status_def json_response_status ret_def
        deserialize_json_response [of "enc_well_known fake_well_known" dec_well_known])
qed


section \<open>The operator's own client on the server\<close>

definition supplier_record :: "'w fake_lib \<Rightarrow> jwk \<Rightarrow> time_text \<Rightarrow> client_record" where
  "supplier_record F k now = (let cfg = MaskinportenApi (fl_cfg F) in
     \<lparr>rec_ClientId = api_ClientId cfg, rec_Client = new_client (supplier_request cfg) (api_ClientId cfg) now,
      rec_Jwks = Some (NewJwks [Some (public_half (fl_jose F) k)])\<rparr>)"

definition operator_key :: "'w fake_lib \<Rightarrow> jwk \<Rightarrow> bool" where
  "operator_key F k \<longleftrightarrow>
     Option.bind (json_unmarshal (api_Jwk (MaskinportenApi (fl_cfg F)))) (Jwk_UnmarshalJSON (fl_jose F) zero_jwk) = Some k \<and>
     private_rsa_key k \<and> jose_KeyID (inner k) \<noteq> [] \<and> api_ClientId (MaskinportenApi (fl_cfg F)) \<noteq> []"

lemma initDb_run:
  assumes "operator_key F k" and "jose_laws (fl_jose F)" and "fw_Now (fl_world F) (fs_world s) = (now, w)"
  shows "initDb F s = (Ok (add_record (supplier_record F k now) NewDb), s\<lparr>fs_world := w\<rparr>)"
proof -
  let ?cfg = "MaskinportenApi (fl_cfg F)"
  have key: "Option.bind (json_unmarshal (api_Jwk ?cfg)) (Jwk_UnmarshalJSON (fl_jose F) zero_jwk) = Some k"
      and id: "api_ClientId ?cfg \<noteq> []"
    using assms(1) by (simp_all add: operator_key_def)
  have "\<not> jose_IsPublic (fl_jose F) (inner k)"
    using assms(1,2) by (auto simp: operator_key_def private_rsa_key_def jose_private_not_public)
  then have pub: "Jwk_Public (fl_jose F) (Some k) = Ok (Some (public_half (fl_jose F) k))"
    by (rule Jwk_Public_private)
  have "Insert (fl_world F) (supplier_request ?cfg) (Some (NewJwks [Some (public_half (fl_jose F) k)]))
      (api_ClientId ?cfg) (NewDb, fs_world s) = (Ok (supplier_record F k now), (add_record (supplier_record F k now) NewDb, w))"
    using id assms(3) by (simp add: Insert_eq insert_id_def supplier_request_def supplier_record_def NewDb_def Let_def)
  then show ?thesis by (simp add: initDb_def Let_def key pub)
qed

lemma with_db_new:
  assumes "operator_key F k" and "jose_laws (fl_jose F)" and "fw_Now (fl_world F) (fs_world s) = (now, w)"
    and "Header_Get RunIdHeader req = run" and "run \<noteq> []" and "map_of (fs_Db s) run = None"
  shows "with_db F req (on_db (\<lambda>d. (f (Clients d), d))) \<lparr>hs_state = s, hs_writer = v\<rparr> = (f [supplier_record F k now],
    \<lparr>hs_state = s\<lparr>fs_Db := (run, add_record (supplier_record F k now) NewDb) # fs_Db s, fs_world := w\<rparr>, hs_writer = v\<rparr>)"
proof -
  have "GetDb F req s = (Ok run, s\<lparr>fs_Db := (run, add_record (supplier_record F k now) NewDb) # fs_Db s, fs_world := w\<rparr>)"
    using assms(4-6) initDb_run [OF assms(1-3)] by (simp add: GetDb_def bind_def Let_def)
  then show ?thesis
    by (simp add: with_db_def bind_def in_server_def on_part_def in_db_def on_db_def db_of_def add_record_def NewDb_def)
qed


section \<open>The login\<close>

text \<open>The operator's token library is the server's; its ids come from the same outside world.\<close>

definition operator_jwt :: "'w jwt_lib \<Rightarrow> 'w fake_state jwt_lib" where
  "operator_jwt L = \<lparr>jwt_ParseSigned = jwt_ParseSigned L, jwt_Claims = jwt_Claims L,
     jwt_PrivateClaims = jwt_PrivateClaims L, jwt_Sign = jwt_Sign L, jwt_NumericDate = jwt_NumericDate L,
     jwt_Time = jwt_Time L, uuid_New = on_part fs_world (\<lambda>w s. s\<lparr>fs_world := w\<rparr>) (uuid_New L)\<rparr>"

lemma operator_jwt_sel:
  "jwt_ParseSigned (operator_jwt L) = jwt_ParseSigned L" "jwt_Claims (operator_jwt L) = jwt_Claims L"
  "jwt_PrivateClaims (operator_jwt L) = jwt_PrivateClaims L" "jwt_Sign (operator_jwt L) = jwt_Sign L"
  "jwt_NumericDate (operator_jwt L) = jwt_NumericDate L" "jwt_Time (operator_jwt L) = jwt_Time L"
  by (simp_all add: operator_jwt_def)

lemma operator_jwt_simps [simp]:
  "ParseJWT (operator_jwt L) = ParseJWT L" "DecodeClaims (operator_jwt L) = DecodeClaims L"
  "jwt_laws (operator_jwt L) = jwt_laws L"
  by (simp_all only: fun_eq_iff ParseJWT_def DecodeClaims_def claim_time_def jwt_laws_def operator_jwt_sel simp_thms)

definition login_token :: "string \<Rightarrow> token_response" where
  "login_token clientId = \<lparr>tr_AccessToken = token_text [dcr_scope] clientId, tr_TokenType = ''Bearer'',
     tr_ExpiresIn = 120, tr_Scope = dcr_scope\<rparr>"

lemma dcr_scope_fields: "Fields dcr_scope = [dcr_scope]" "dcr_scope \<noteq> []"
  by (simp_all add: dcr_scope_def Fields_single visible_def)

lemma grant_supplier:
  assumes "DecodeClaims (fl_jwt F) j (Some (public_half (fl_jose F) k)) = Ok cl"
    and "cl_Issuer cl = api_ClientId (MaskinportenApi (fl_cfg F))" and "cl_Issuer cl \<noteq> []"
    and "cl_Scope cl = dcr_scope" and "api_Scope (MaskinportenApi (fl_cfg F)) = dcr_scope"
  shows "grant_token F j (supplier_record F k now) h =
    bind json_content (\<lambda>_. Encode (Ok (enc_token_response (login_token (cl_Issuer cl))))) h"
  using assms dcr_scope_fields
  by (simp add: grant_token_def supplier_record_def NewJwks_def or_400_def new_client_def supplier_request_def
      slice_list_def login_token_def token_text_def index_def Let_def)

lemma serve_token:
  assumes "rq_Method req = ''POST''" and "u_Path (rq_URL req) = ''/token''"
    and "Query_Get ''grant_type'' req = jwt_bearer" and "Query_Get ''assertion'' req = grant" and "grant \<noteq> []"
    and "Header_Get RunIdHeader req = run" and "run \<noteq> []" and "map_of (fs_Db s) run = None"
    and "operator_key F k" and "jose_laws (fl_jose F)" and "fw_Now (fl_world F) (fs_world s) = (now, w)"
    and "ParseJWT (fl_jwt F) grant = Ok j" and "Jwt_KeyID j = Ok (jose_KeyID (inner k))"
    and "DecodeClaims (fl_jwt F) j (Some (public_half (fl_jose F) k)) = Ok cl"
    and "cl_Issuer cl = api_ClientId (MaskinportenApi (fl_cfg F))"
    and "cl_Scope cl = dcr_scope" and "api_Scope (MaskinportenApi (fl_cfg F)) = dcr_scope"
  shows "serve F AuthorityApi req s = (Ok (json_response 200 (enc_token_response (login_token (cl_Issuer cl)))),
    s\<lparr>fs_Db := (run, add_record (supplier_record F k now) NewDb) # fs_Db s, fs_world := w\<rparr>)"
proof -
  have "mux_clean ''/token'' = ''/token''"
    by (simp add: mux_clean_def path_IsAbs_def path_Clean_def Let_def)
  then have route: "route F AuthorityApi req = handleToken F req"
    using assms(2) by (simp add: route_def Let_def)
  obtain sk where sk: "jose_Key (inner k) = RsaPrivate sk"
    using assms(9) by (auto simp: operator_key_def private_rsa_key_def)
  have kid: "jose_KeyID (inner (public_half (fl_jose F) k)) = jose_KeyID (inner k)"
    by (simp add: public_half_private [OF assms(10) sk])
  have some: "jose_KeyID (inner k) \<noteq> []" and id: "cl_Issuer cl \<noteq> []"
    using assms(9,15) by (simp_all add: operator_key_def)
  have "Query (knows_key (jose_KeyID (inner k))) [supplier_record F k now] = Ok [supplier_record F k now]"
    by (simp add: knows_key_def supplier_record_def NewJwks_def kid Let_def)
  then have db: "with_db F req (on_db (\<lambda>d. (Query (knows_key (jose_KeyID (inner k))) (Clients d), d)))
      \<lparr>hs_state = s, hs_writer = fresh_writer\<rparr> = (Ok [supplier_record F k now],
      \<lparr>hs_state = s\<lparr>fs_Db := (run, add_record (supplier_record F k now) NewDb) # fs_Db s, fs_world := w\<rparr>,
       hs_writer = fresh_writer\<rparr>)"
    by (simp add: with_db_new [OF assms(9-11,6-8)])
  let ?h = "\<lparr>hs_state = s\<lparr>fs_Db := (run, add_record (supplier_record F k now) NewDb) # fs_Db s, fs_world := w\<rparr>,
       hs_writer = fresh_writer\<rparr>"
  have "handleToken F req \<lparr>hs_state = s, hs_writer = fresh_writer\<rparr> = grant_token F j (supplier_record F k now) ?h"
    using assms(1,3-5,12,13) some by (simp add: handleToken_def or_400_def bind_def db)
  also have "\<dots> = bind json_content (\<lambda>_. Encode (Ok (enc_token_response (login_token (cl_Issuer cl))))) ?h"
    by (rule grant_supplier [OF assms(14,15) id assms(16,17)])
  finally show ?thesis
    by (simp add: serve_def route bind_def Encode_def writer_defs Let_def)
qed

text \<open>A grant that the operator signed, as the authority reads it.\<close>

lemma grant_local:
  assumes "hc_config c = MaskinportenApi (fl_cfg F)" and "hc_jwt c = operator_jwt (fl_jwt F)"
    and "jwt_laws (fl_jwt F)" and "jose_laws (fl_jose F)" and "operator_key F (hc_jwk c)"
    and "createGrant c s = (Ok grant, s1)"
  obtains j cl where "ParseJWT (fl_jwt F) grant = Ok j" and "Jwt_KeyID j = Ok (jose_KeyID (inner (hc_jwk c)))"
    and "DecodeClaims (fl_jwt F) j (Some (public_half (fl_jose F) (hc_jwk c))) = Ok cl"
    and "cl_Issuer cl = api_ClientId (MaskinportenApi (fl_cfg F))" and "cl_Scope cl = api_Scope (MaskinportenApi (fl_cfg F))"
proof -
  let ?k = "hc_jwk c"
  obtain sk where sk: "jose_Key (inner ?k) = RsaPrivate sk"
    using assms(5) by (auto simp: operator_key_def private_rsa_key_def)
  have pk: "jose_Key (inner (public_half (fl_jose F) ?k)) = RsaPublic (PublicKey sk)"
    by (simp add: public_half_private [OF assms(4) sk])
  have laws: "jwt_laws (hc_jwt c)" using assms(2,3) by simp
  from assms(6) obtain wk t w1 w2 where "current (wellKnown s1) = Some wk" and new: "NewJWT (hc_jose c) (hc_jwt c) (Some ?k) [wk_Issuer wk]
      (api_ClientId (hc_config c)) (api_Scope (hc_config c)) (t + 60 * Second) (hc_clock c) w1 = (Ok grant, w2)"
    by (rule createGrant_Ok)
  from jwt_accepts [OF laws new sk pk] obtain j cl where "ParseJWT (hc_jwt c) grant = Ok j"
      and "Jwt_KeyID j = Ok (jose_KeyID (inner ?k))"
      and "DecodeClaims (hc_jwt c) j (Some (public_half (fl_jose F) ?k)) = Ok cl"
      and "cl_Issuer cl = api_ClientId (hc_config c)" and "cl_Scope cl = api_Scope (hc_config c)"
    by blast
  with that assms(1,2) show ?thesis by simp
qed

text \<open>The token that the grant buys; the database of the run is made on the way.\<close>

lemma token_local:
  assumes "local_client F c" and "hc_jwt c = operator_jwt (fl_jwt F)"
    and "jwt_laws (fl_jwt F)" and "jose_laws (fl_jose F)" and "operator_key F (hc_jwk c)"
    and "api_Scope (hc_config c) = dcr_scope" and "createGrant c s = (Ok grant, s1)" and "grant \<noteq> []"
    and "map_of (fs_Db (env s1)) (RunId (hc_context c)) = None"
    and now: "fw_Now (fl_world F) (fs_world (env s1)) = (now, w)"
  shows "accessTokenFetcher c s = (Ok (Some (login_token (api_ClientId (hc_config c)))),
      s1\<lparr>env := (env s1)\<lparr>fs_Db := (RunId (hc_context c), add_record (supplier_record F (hc_jwk c) now) NewDb) # fs_Db (env s1),
        fs_world := w\<rparr>\<rparr>)"
proof -
  let ?run = "RunId (hc_context c)" and ?k = "hc_jwk c" and ?tok = "login_token (api_ClientId (hc_config c))"
  have cfg: "hc_config c = MaskinportenApi (fl_cfg F)" and run: "?run \<noteq> []"
    using assms(1) unfolding local_client_def by blast+
  obtain j cl where jwt: "ParseJWT (fl_jwt F) grant = Ok j" "DecodeClaims (fl_jwt F) j (Some (public_half (fl_jose F) ?k)) = Ok cl"
      and kid: "Jwt_KeyID j = Ok (jose_KeyID (inner ?k))"
      and cl: "cl_Issuer cl = api_ClientId (MaskinportenApi (fl_cfg F))" "cl_Scope cl = api_Scope (MaskinportenApi (fl_cfg F))"
    using grant_local [OF cfg assms(2-5,7)] by metis
  have scope: "api_Scope (MaskinportenApi (fl_cfg F)) = dcr_scope" using assms(6) by (simp add: cfg)
  let ?u = "\<lparr>u_Origin = ''http://localhost:8050'', u_Path = ''/token'',
    u_Query = [(''assertion'', grant), (''grant_type'', jwt_bearer)]\<rparr>"
  let ?req = "Header_Set ''Content-Type'' ''application/x-www-form-urlencoded'' (NewRequest ''POST'' ?u None)"
  let ?s1 = "s1\<lparr>env := (env s1)\<lparr>fs_Db := (?run, add_record (supplier_record F ?k now) NewDb) # fs_Db (env s1), fs_world := w\<rparr>\<rparr>"
  have "serve F AuthorityApi (sent_request c ?req) (env s1) =
      (Ok (json_response 200 (enc_token_response (login_token (cl_Issuer cl)))), env ?s1)"
    unfolding http_state.select_convs http_state.update_convs
    by (subst serve_token [OF _ _ _ _ assms(8) _ run assms(9,5,4) now jwt(1) kid jwt(2) cl(1) cl(2) [unfolded scope] scope])
      (simp_all add: Query_Get_def NewRequest_def sent_request_def Header_Get_def Header_Set_def
        Header_Add_def RunIdHeader_def fold_name_def fold_char_def)
  then have post: "retryableHTTPDo c ?req s1 = (Ok (json_response 200 (enc_token_response ?tok)), ?s1)"
    using authority_request [OF assms(1), of ?req s1] cl(1) by (simp add: cfg)
  have "in_int64 (tr_ExpiresIn ?tok)" by (simp add: login_token_def in_int64_def)
  note codec = token_response_roundtrip [OF this]
  show ?thesis
    using assms(7) authority_endpoint(1) [OF assms(1)] post codec
    by (simp add: accessTokenFetcher_def bind_def expect_status_def json_response_status ret_def jwt_bearer_def
        deserialize_json_response [of "enc_token_response ?tok" dec_token_response] Let_def)
qed

text \<open>
  C18: Against the fake authority, of a run that has no database yet, the operator reads the metadata,
  and for the grant it signs with its key it gets an access token with the scope of the API, which
  the self-service API lets in; the database of the run is then there and sound.
\<close>

theorem operator_logs_in:
  assumes "local_client F c" and "hc_jwt c = operator_jwt (fl_jwt F)"
    and "jwt_laws (fl_jwt F)" and "jose_laws (fl_jose F)" and "operator_key F (hc_jwk c)"
    and "api_Scope (hc_config c) = dcr_scope" and "api_ClientId (hc_config c) = clientId"
    and "createGrant c s = (Ok grant, s1)" and "grant \<noteq> []"
    and "map_of (fs_Db (env s1)) (RunId (hc_context c)) = None"
  shows "wellKnownFetcher c s = (Ok (Some fake_well_known), s) \<and>
    (\<exists>s2 d. accessTokenFetcher c s = (Ok (Some (login_token clientId)), s2) \<and>
       map_of (fs_Db (env s2)) (RunId (hc_context c)) = Some d \<and> db_ok d) \<and>
    (\<forall>req. Header_Get ''Authorization'' req = ''Bearer '' @ tr_AccessToken (login_token clientId) \<longrightarrow>
       selfServiceAuth req = Some \<lparr>ft_Scopes = Some [dcr_scope], ft_ClientId = clientId\<rparr>)"
proof (intro conjI allI impI)
  show "wellKnownFetcher c s = (Ok (Some fake_well_known), s)" by (rule wellKnown_local [OF assms(1)])
next
  obtain now w where now: "fw_Now (fl_world F) (fs_world (env s1)) = (now, w)" by fastforce
  have "db_ok (add_record (supplier_record F (hc_jwk c) now) NewDb)" by (intro db_ok_add) simp_all
  with token_local [OF assms(1-6,8-10) now]
  show "\<exists>s2 d. accessTokenFetcher c s = (Ok (Some (login_token clientId)), s2) \<and>
      map_of (fs_Db (env s2)) (RunId (hc_context c)) = Some d \<and> db_ok d"
    unfolding assms(7) by (intro exI conjI) (assumption | simp)+
next
  fix req assume "Header_Get ''Authorization'' req = ''Bearer '' @ tr_AccessToken (login_token clientId)"
  then have "Header_Get ''Authorization'' req = ''Bearer '' @ token_text [dcr_scope] clientId"
    by (simp add: login_token_def)
  from selfServiceAuth_token [OF this]
  show "selfServiceAuth req = Some \<lparr>ft_Scopes = Some [dcr_scope], ft_ClientId = clientId\<rparr>" by simp
qed


text \<open>
  A concrete local environment: the key set of the table library holds the operator's key and its
  public half, the configuration's key is the first of them, the library signs the one grant of
  the run, and the clock stands still.
\<close>

definition local_keys :: "jose_jwk list" where
  "local_keys = [inner (sample_key 0 0 0 0),
     (inner (sample_key 0 0 0 0))\<lparr>jose_Key := RsaPublic (PublicKey (sample_private_key 0)), jose_Certificates := []\<rparr>]"

definition local_config :: api_config where
  "local_config = \<lparr>api_ClientId = ''operator'', api_AuthorityUrl = ''http://localhost:8050'',
     api_SelfServiceUrl = ''http://localhost:8051'', api_Jwk = json_text (JStr []), api_Scope = dcr_scope\<rparr>"

definition local_lib :: "script_world fake_lib" where
  "local_lib = \<lparr>fl_cfg = zero_config\<lparr>MaskinportenApi := local_config\<rparr>, fl_jose = table_jose local_keys,
     fl_jwt = one_token_jwt ''RS512'' (inner (sample_key 0 0 0 0)) (jose_KeyID (inner (sample_key 0 0 0 0)))
       \<lparr>jc_Audience = [''http://localhost:8050''], jc_Issuer = ''operator'', jc_Subject = [],
        jc_IssuedAt = Some 1030, jc_NotBefore = Some 1030, jc_Expiry = Some 1090, jc_ID = ''uuid''\<rparr> dcr_scope,
     fl_world = \<lparr>fw_uuid = ret ''id-1'', fw_Now = (\<lambda>w. (''2025-01-01T00:00:00Z'', w))\<rparr>\<rparr>"

definition local_hc :: "script_world fake_state http_api" where
  "local_hc = \<lparr>hc_config = local_config, hc_context = sample_ctx, hc_jwk = sample_key 0 0 0 0,
     hc_clock = (\<lambda>s. (1030 * Second, s)), hc_clientNamePrefix = getClientNamePrefix sample_ctx,
     hc_jose = table_jose local_keys, hc_jwt = operator_jwt (fl_jwt local_lib), hc_net = fakes_net local_lib 3\<rparr>"

definition local_start :: "script_world fake_state http_state" where
  "local_start = \<lparr>
     wellKnown = \<lparr>current = Some fake_well_known, currentFetchedAt = 1000 * Second, expireAfter = 5 * Minute\<rparr>,
     accessToken = \<lparr>current = Some (login_token ''operator''), currentFetchedAt = 1000 * Second,
       expireAfter = 1 * Minute\<rparr>,
     env = NewState (sample_start, [])\<rparr>"

lemmas local_defs = local_hc_def local_config_def local_lib_def

lemma local_hc_client: "local_client local_lib local_hc"
  unfolding local_client_def by (auto simp: local_defs zero_config_def sample_ctx_def)

lemma local_hc_jwt: "hc_jwt local_hc = operator_jwt (fl_jwt local_lib)"
  by (simp add: local_hc_def)

lemma local_lib_laws: "jwt_laws (fl_jwt local_lib)" "jose_laws (fl_jose local_lib)"
  by (simp_all add: local_lib_def one_token_laws table_jose_laws)

lemma local_hc_key: "operator_key local_lib (hc_jwk local_hc)"
proof -
  have "json_unmarshal (json_text (JStr [])) = Some (JStr [])" by (rule json_unmarshal_text) simp
  then show ?thesis
    by (simp add: operator_key_def local_defs zero_config_def Jwk_UnmarshalJSON_def table_jose_def local_keys_def
        private_rsa_key_def sample_key_def del: json_text.simps)
qed

lemma local_start_wellKnown: "\<not> atom_expired (wellKnown local_start) (fst (api_clock local_hc local_start))"
  by (simp add: api_clock_def local_start_def local_hc_def atom_expired_def time_IsZero_def time_Sub_def
      time_units max_duration_def min_duration_def)

lemma local_grant: "createGrant local_hc local_start = (Ok ''token'', local_start)"
proof -
  have "snd (api_clock local_hc local_start) = local_start"
    by (simp add: api_clock_def local_start_def local_hc_def)
  then have "GetWellKnownConfiguration local_hc local_start = (Ok (Some fake_well_known), local_start)"
    using wkc.Get_hit [OF local_start_wellKnown]
    by (simp add: GetWellKnownConfiguration_def) (simp add: local_start_def)
  then show ?thesis
    unfolding createGrant_def
    by (subst bind_Ok, assumption) (simp add: api_clock_def local_defs local_start_def in_env_def on_part_def
        Jwk_NewJWT_def NewJWT_def operator_jwt_def bind_def reading_def ret_def Let_def Jwk_IsPublic_def
        Jwk_Algorithm_def table_jose_def sample_key_def SignatureAlgorithmsStr_def one_token_jwt_def
        fake_well_known_def time_units)
qed

lemma operator_logs_in_witness:
  "\<exists>s2. accessTokenFetcher local_hc local_start = (Ok (Some (login_token ''operator'')), s2)"
proof -
  have "api_Scope (hc_config local_hc) = dcr_scope" "api_ClientId (hc_config local_hc) = ''operator''"
      "map_of (fs_Db (env local_start)) (RunId (hc_context local_hc)) = None"
    by (simp_all add: local_defs local_start_def NewState_def)
  with operator_logs_in [OF local_hc_client local_hc_jwt local_lib_laws local_hc_key _ _ local_grant]
  show ?thesis by blast
qed


section \<open>The client that was created is the client that is read\<close>

text \<open>
  A client that the operator creates on the fake API, with a token that is live when it sends its requests and in a run whose
  database is sound, is the client it then reads: same id, same name, same fields, and the key set
  that was uploaded for it.
\<close>

theorem created_client_is_served:
  assumes "local_client F c" and "live_token c s" and "plain_ids [i]"
    and "jose_laws (fl_jose F)" and "check_public (fl_jose F) i (Keys ks) = Ok ()" and "enc_jwks (fl_jose F) ks = Ok kj"
    and "map_of (fs_Db (env s)) (RunId (hc_context c)) = Some d" and "db_ok d" and "ClientIdIndex d i = None"
    and "add_client_request_ints_ok areq" and "dcr_scope \<notin> set (slice_list (ac_Scopes areq))"
    and "ac_ClientName areq = Some (hc_clientNamePrefix c @ rest)" and "hc_clientNamePrefix c \<noteq> []"
    and "fw_uuid (fl_world F) (fs_world (env s)) = (Ok i, w1)" and "rfc3339_ok (fst (fw_Now (fl_world F) w1))"
    and "\<forall>v. fs_world v = snd (fw_Now (fl_world F) w1) \<longrightarrow> live_token c (s\<lparr>env := v\<rparr>)"
  shows "\<exists>cl s1. CreateClient c (Some areq) (Some ks) s = (Ok cl, s1) \<and> cr_ClientId cl = i \<and>
    cr_ClientName cl = ac_ClientName areq \<and> GetClient c i s1 = (Ok (cl, ks), s1)"
proof -
  obtain now w2 where now: "fw_Now (fl_world F) w1 = (now, w2)" by fastforce
  let ?cl = "new_client (sent_add_client_request areq) i now" and ?run = "RunId (hc_context c)"
  let ?r = "\<lparr>rec_ClientId = i, rec_Client = ?cl, rec_Jwks = Some ks\<rparr>"
  let ?s1 = "s\<lparr>env := put_db ?run (add_record ?r d) w2 (env s)\<rparr>"
  have rfc: "rfc3339_ok now" using assms(15) now by simp
  have name: "hc_clientNamePrefix c @ rest \<noteq> []" using assms(13) by simp
  have later: "\<forall>v. fs_world v = w2 \<longrightarrow> live_token c (s\<lparr>env := v\<rparr>)" using assms(16) now by simp
  then have made: "CreateClient c (Some areq) (Some ks) s = (Ok ?cl, ?s1)"
    by (rule CreateClient_local [OF assms(1-12) name assms(14) now rfc])
  obtain j where enc: "enc_client_response (fl_jose F) ?cl = Ok j" "json_ok j"
      "dec_client_response (fl_jose F) zero_client_response j = Some ?cl"
    using new_client_encodes [OF new_client_ok [OF assms(10) rfc], of "fl_jose F" i zero_client_response]
    by (metis new_client_sent)
  have none: "db_find i d = None" using assms(8,9) by (simp add: db_find_index)
  have ok: "db_ok (add_record ?r d)" using assms(8) none by (intro db_ok_add) simp_all
  have found: "db_find i (add_record ?r d) = Some ?r" using none by (subst db_find_add) simp_all
  have named: "cr_ClientName ?cl = Some (hc_clientNamePrefix c @ rest)"
    using assms(12) by (simp add: new_client_def sent_add_client_request_def)
  have "GetClient c i ?s1 = (Ok (?cl, ks), ?s1)"
    by (rule GetClient_local [OF assms(1) _ assms(3,4) _ ok found enc named _ assms(13,6)])
      (simp_all add: later)
  with made named assms(12) show ?thesis by (auto simp: new_client_def)
qed

definition local_known :: "script_world fake_state http_state" where
  "local_known = local_start\<lparr>env := \<lparr>fs_Db = [(''run-1'', NewDb)], fs_world = (sample_start, [])\<rparr>\<rparr>"

definition local_request_app :: add_client_request where
  "local_request_app = zero_add_client_request\<lparr>ac_ClientName := Some (getClientNamePrefix sample_ctx @ ''app'')\<rparr>"

lemma local_known_token: "live_token local_hc (local_known\<lparr>env := v\<rparr>)"
proof -
  have "\<not> atom_expired (accessToken local_known) (1030 * Second)"
    by (simp add: local_known_def local_start_def atom_expired_def time_IsZero_def time_Sub_def time_units
        max_duration_def min_duration_def)
  moreover have "current (accessToken local_known) = Some (login_token ''operator'')"
    by (simp add: local_known_def local_start_def)
  moreover have "tr_AccessToken (login_token ''operator'') = token_text [dcr_scope] ''operator''"
    by (simp add: login_token_def)
  moreover have "fst (hc_clock local_hc w) = 1030 * Second" "snd (hc_clock local_hc w) = w" for w
    by (simp_all add: local_hc_def)
  ultimately show ?thesis by (auto simp: live_token_def)
qed

lemma created_client_is_served_witness:
  "\<exists>cl s1. CreateClient local_hc (Some local_request_app) (Some (NewJwks [Some (Jwk (local_keys ! 1))])) local_known =
      (Ok cl, s1) \<and> cr_ClientId cl = ''id-1'' \<and>
    GetClient local_hc ''id-1'' s1 = (Ok (cl, NewJwks [Some (Jwk (local_keys ! 1))]), s1)"
proof -
  let ?ks = "NewJwks [Some (Jwk (local_keys ! 1))]"
  have ids: "plain_ids [''id-1'']" by (simp add: plain_ids_def plain_segment_def)
  have public: "check_public (fl_jose local_lib) ''id-1'' (Keys ?ks) = Ok ()"
    by (simp add: local_lib_def table_jose_def local_keys_def NewJwks_def Jwk_IsPublic_def)
  obtain kj where keys: "enc_jwks (fl_jose local_lib) ?ks = Ok kj"
    by (simp add: local_lib_def table_jose_def local_keys_def sample_key_def NewJwks_def enc_jwks_def enc_jwk_ptr_def
        Jwk_MarshalJSON_def)
  have run: "map_of (fs_Db (env local_known)) (RunId (hc_context local_hc)) = Some NewDb"
    by (simp add: local_known_def local_hc_def sample_ctx_def)
  have db: "db_ok NewDb" "ClientIdIndex NewDb ''id-1'' = None" by (simp, simp add: NewDb_def)
  have req: "add_client_request_ints_ok local_request_app"
      "dcr_scope \<notin> set (slice_list (ac_Scopes local_request_app))"
    by (simp_all add: local_request_app_def add_client_request_ints_ok_def zero_add_client_request_def slice_list_def)
  have name: "ac_ClientName local_request_app = Some (hc_clientNamePrefix local_hc @ ''app'')"
      "hc_clientNamePrefix local_hc \<noteq> []"
    by (simp_all add: local_request_app_def local_hc_def)
  have world: "fw_uuid (fl_world local_lib) (fs_world (env local_known)) = (Ok ''id-1'', (sample_start, []))"
      "rfc3339_ok (fst (fw_Now (fl_world local_lib) (sample_start, [])))"
    by (simp_all add: local_lib_def local_known_def ret_def digit_of_def is_digit_def two_digits_def days_in_month_def
        fraction_zone_ok_def)
  have live: "live_token local_hc local_known" using local_known_token [of "env local_known"] by simp
  from created_client_is_served [OF local_hc_client live ids local_lib_laws(2) public keys run db req name world]
  show ?thesis using local_known_token by blast
qed

end
