(* ===== verification/FakesReconcile.thy ===== *)
theory FakesReconcile
  imports FakesLogin ControllerProperties
begin

text \<open>
  The controller against the fake Maskinporten and a cluster that keeps the secret it is given: a
  client that is created is there at the next call, with the keys and the secret that belong
  together, and that call finds nothing to do.
\<close>


section \<open>The operator in the local environment\<close>

text \<open>
  A controller whose runtime is put together as \<open>NewRuntime\<close> does and whose API client reaches the
  fakes, and a cluster, in the world outside the fakes, where a
  secret that was written is the one that is listed then.
\<close>

definition local_operator :: "'w fake_lib \<Rightarrow> 'w fake_state reconciler \<Rightarrow> bool" where
  "local_operator F r \<longleftrightarrow> (let rt = rc_runtime r; c = rt_maskinportenApiClient rt in
     local_client F c \<and> rc_jose r = fl_jose F \<and> jose_laws (fl_jose F) \<and>
     hc_context c = rt_operatorContext rt \<and> hc_config c = MaskinportenApi (rt_config rt) \<and>
     hc_clientNamePrefix c = getClientNamePrefix (rt_operatorContext rt))"

definition keeps_secret :: "'w fake_state k8s_lib \<Rightarrow> maskinporten_client_request \<Rightarrow> k8s_secret \<Rightarrow> bool" where
  "keeps_secret K req secret \<longleftrightarrow> sec_Type secret = SecretTypeOpaque \<and>
     (\<forall>d w. \<exists>w'. k8s_UpdateSecret K (secret\<lparr>sec_Data := d\<rparr>) w = (Ok (), w') \<and> fs_Db w' = fs_Db w \<and>
        (\<forall>v. fs_world v = fs_world w' \<longrightarrow>
           k8s_ListSecrets K (mr_Namespace req) (mr_AppLabel req) v = (Ok [secret\<lparr>sec_Data := d\<rparr>], v)))"

lemma keeps_secretE:
  assumes "keeps_secret K req secret"
  obtains w' where "k8s_UpdateSecret K (secret\<lparr>sec_Data := d\<rparr>) w = (Ok (), w')" and "fs_Db w' = fs_Db w"
    and "\<And>v. fs_world v = fs_world w' \<Longrightarrow>
      k8s_ListSecrets K (mr_Namespace req) (mr_AppLabel req) v = (Ok [secret\<lparr>sec_Data := d\<rparr>], v)"
  using assms unfolding keeps_secret_def by blast

lemma on_api_simps [simp]:
  "api_st (s\<lparr>api_st := a\<rparr>) = a" "in_api m s = (case m (api_st s) of (r, a) \<Rightarrow> (r, s\<lparr>api_st := a\<rparr>))"
  "in_k8s k s = (case k (env (api_st s)) of (r, w) \<Rightarrow> (r, s\<lparr>api_st := (api_st s)\<lparr>env := w\<rparr>\<rparr>))"
  by (auto simp: in_api_def in_k8s_def in_env_def on_part_def split: prod.split)


section \<open>The commands of a creation\<close>

text \<open>What the two commands of a creation leave: the client in the fake database, the secret in the cluster.\<close>

definition made_client :: "'w fake_lib \<Rightarrow> add_client_request \<Rightarrow> string \<Rightarrow> 'w \<Rightarrow> client_response" where
  "made_client F areq i w = new_client (sent_add_client_request areq) i (fst (fw_Now (fl_world F) w))"

lemma run_create_local:
  assumes op: "local_operator F r" and live: "live_token (rt_maskinportenApiClient (rc_runtime r)) (api_st s)"
    and heap: "api_cells (cheap s) = [\<lparr>as_ClientId = [], as_Req = Some (buildApiReq cs (rt_operatorContext (rc_runtime r))), as_Jwks = Some pub\<rparr>]"
    and pub: "check_public (fl_jose F) i (Keys pub) = Ok ()" "enc_jwks (fl_jose F) pub = Ok kj"
    and db: "map_of (fs_Db (env (api_st s))) (RunId (rt_operatorContext (rc_runtime r))) = Some d" "db_ok d" "ClientIdIndex d i = None"
    and scopes: "dcr_scope \<notin> set (slice_list (crd_Scopes (Crd cs)))"
    and id: "fw_uuid (fl_world F) (fs_world (env (api_st s))) = (Ok i, w1)" "plain_ids [i]"
    and now: "rfc3339_ok (fst (fw_Now (fl_world F) w1))"
    and still: "\<forall>v. fs_world v = snd (fw_Now (fl_world F) w1) \<longrightarrow>
      live_token (rt_maskinportenApiClient (rc_runtime r)) ((api_st s)\<lparr>env := v\<rparr>)"
  obtains w2 where "run_command r cs \<lparr>cmd_Data = CreateClientInApiCommand 0, cmd_Callback = Some (SetClientId 0 0)\<rparr> s =
     (Ok (), s\<lparr>api_st := (api_st s)\<lparr>env := put_db (RunId (rt_operatorContext (rc_runtime r)))
          (add_record \<lparr>rec_ClientId = i, rec_Client = made_client F (buildApiReq cs (rt_operatorContext (rc_runtime r))) i w1,
             rec_Jwks = Some pub\<rparr> d) w2 (env (api_st s))\<rparr>,
         cheap := set_sec_id 0 i (set_api_id 0 i (cheap s))\<rparr>)"
proof -
  let ?ctx = "rt_operatorContext (rc_runtime r)" and ?c = "rt_maskinportenApiClient (rc_runtime r)"
  let ?areq = "buildApiReq cs ?ctx"
  obtain now w2 where w2: "fw_Now (fl_world F) w1 = (now, w2)" by fastforce
  have c: "local_client F ?c" "hc_context ?c = ?ctx" "jose_laws (fl_jose F)"
    using op by (simp_all add: local_operator_def Let_def)
  have req: "add_client_request_ints_ok ?areq" "dcr_scope \<notin> set (slice_list (ac_Scopes ?areq))"
      "ac_ClientName ?areq = Some (GetClientName ?ctx (AppId cs))" "GetClientName ?ctx (AppId cs) \<noteq> []"
    using scopes by (simp_all add: buildApiReq_def add_client_request_ints_ok_def zero_add_client_request_def
        GetClientName_def getClientNamePrefix_def)
  have "CreateClient ?c (Some ?areq) (Some pub) (api_st s) = (Ok (made_client F ?areq i w1),
      (api_st s)\<lparr>env := put_db (RunId ?ctx) (add_record \<lparr>rec_ClientId = i, rec_Client = made_client F ?areq i w1,
         rec_Jwks = Some pub\<rparr> d) w2 (env (api_st s))\<rparr>)"
    using CreateClient_local [OF c(1) live id(2) c(3) pub _ db(2,3) req id(1) w2] db(1) now w2 c(2) still
    by (simp add: made_client_def)
  moreover have "cr_ClientId (made_client F ?areq i w1) = i" by (simp add: made_client_def new_client_def)
  ultimately show ?thesis
    using that by (simp add: run_command_def Let_def bind_def read_store_def ClientState.api_at_def heap in_store_def on_part_def)
qed

text \<open>The contents are written into the secret, and read back from it.\<close>

lemma run_write_local:
  assumes op: "local_operator F r" and keep: "keeps_secret (rc_k8s r) req (Secret_Manifest cs)"
    and c: "sec_at (cheap s) 0 = c" "sc_ClientId c \<noteq> []" "is_Ok (enc_secret_content (fl_jose F) c)"
  obtains w' secret where "run_command r cs (plain_command (UpdateSecretContentCommand 0)) s =
      (Ok (), s\<lparr>api_st := (api_st s)\<lparr>env := w'\<rparr>\<rparr>)"
    and "w' = snd (k8s_UpdateSecret (rc_k8s r) secret (env (api_st s)))"
    and "fs_Db w' = fs_Db (env (api_st s))" and "sec_Type secret = SecretTypeOpaque"
    and "\<forall>v. fs_world v = fs_world w' \<longrightarrow> k8s_ListSecrets (rc_k8s r) (mr_Namespace req) (mr_AppLabel req) v = (Ok [secret], v)"
    and "get_content (fl_jose F) secret = Ok (Some c)"
proof -
  have jose: "rc_jose r = fl_jose F" "jose_laws (fl_jose F)" using op by (simp_all add: local_operator_def Let_def)
  obtain data where "SerializeTo (fl_jose F) c (Some (Secret_Manifest cs)) = Ok (Secret_Manifest cs\<lparr>sec_Data := Some data\<rparr>)"
    using c(3) by (auto simp: SerializeTo_def Let_def elim!: is_Ok.elims)
  note put = this
  obtain w' where w': "k8s_UpdateSecret (rc_k8s r) (Secret_Manifest cs\<lparr>sec_Data := Some data\<rparr>) (env (api_st s)) = (Ok (), w')"
      "fs_Db w' = fs_Db (env (api_st s))"
      "\<And>v. fs_world v = fs_world w' \<Longrightarrow> k8s_ListSecrets (rc_k8s r) (mr_Namespace req) (mr_AppLabel req) v =
        (Ok [Secret_Manifest cs\<lparr>sec_Data := Some data\<rparr>], v)"
    using keeps_secretE [OF keep] by metis
  have "run_command r cs (plain_command (UpdateSecretContentCommand 0)) s = (Ok (), s\<lparr>api_st := (api_st s)\<lparr>env := w'\<rparr>\<rparr>)"
    using c(2) w'(1) put
    by (simp add: run_command_def plain_command_def Let_def bind_def read_store_def c(1) AssertWith_def jose(1) lift_def ret_def)
  moreover have "get_content (fl_jose F) (Secret_Manifest cs\<lparr>sec_Data := Some data\<rparr>) = Ok (Some c)"
    using put by (intro sst.get_put [OF jose(2)]) (simp add: put_content_def)
  moreover have "sec_Type (Secret_Manifest cs\<lparr>sec_Data := Some data\<rparr>) = SecretTypeOpaque"
    using keep by (simp add: keeps_secret_def)
  moreover have "w' = snd (k8s_UpdateSecret (rc_k8s r) (Secret_Manifest cs\<lparr>sec_Data := Some data\<rparr>) (env (api_st s)))"
    by (simp add: w'(1))
  ultimately show ?thesis using w'(2,3) by (intro that [of w' "Secret_Manifest cs\<lparr>sec_Data := Some data\<rparr>"]) blast+
qed


section \<open>The next call\<close>

text \<open>
  The state in which a later call of the controller may find everything: any time may have passed, any requests
  of other runs been served, and the token may be another one, but the database of the run and the
  secret are as they were left, and the token has not expired then.
\<close>

definition later ::
  "'w fake_state reconciler \<Rightarrow> maskinporten_client_request \<Rightarrow> 'w fake_state ctrl_state \<Rightarrow> 'w fake_state ctrl_state \<Rightarrow> bool"
where
  "later r req s u \<longleftrightarrow> (let rt = rc_runtime r; run = RunId (rt_operatorContext rt); w = env (api_st s); v = env (api_st u) in
     map_of (fs_Db v) run = map_of (fs_Db w) run \<and>
     k8s_ListSecrets (rc_k8s r) (mr_Namespace req) (mr_AppLabel req) v =
       (fst (k8s_ListSecrets (rc_k8s r) (mr_Namespace req) (mr_AppLabel req) w), v) \<and>
     live_token (rt_maskinportenApiClient rt) (api_st u))"

lemma laterD:
  assumes "later r req s u"
    and "k8s_ListSecrets (rc_k8s r) (mr_Namespace req) (mr_AppLabel req) (env (api_st s)) = (Ok [secret], env (api_st s))"
    and "map_of (fs_Db (env (api_st s))) (RunId (rt_operatorContext (rc_runtime r))) = Some d"
  shows "live_token (rt_maskinportenApiClient (rc_runtime r)) (api_st u)"
    and "k8s_ListSecrets (rc_k8s r) (mr_Namespace req) (mr_AppLabel req) (env (api_st u)) = (Ok [secret], env (api_st u))"
    and "map_of (fs_Db (env (api_st u))) (RunId (rt_operatorContext (rc_runtime r))) = Some d"
  using assms by (simp_all add: later_def Let_def)

text \<open>A client as the fake database holds it: it can be sent, and arrives as it is.\<close>

definition wire_client :: "client_response \<Rightarrow> bool" where
  "wire_client cl \<longleftrightarrow> client_response_ok cl \<and> cr_Jwks cl = None \<and> sent_client_response cl = cl"

lemma wire_client_encodes:
  assumes "wire_client cl"
  obtains j where "enc_client_response J cl = Ok j" and "json_ok j" and "dec_client_response J z j = Some cl"
proof -
  have cl: "client_response_ok cl" "cr_Jwks cl = None" "sent_client_response cl = cl"
    using assms by (simp_all add: wire_client_def)
  then obtain j where "enc_client_response J cl = Ok j" by (simp add: enc_client_response_def enc_jwks_field_def)
  with client_response_roundtrip [OF cl(1,2) this, of z] cl(3) that show ?thesis by simp
qed

lemma made_client_simps:
  "cr_ClientId (made_client F areq i w) = i" "cr_ClientName (made_client F areq i w) = ac_ClientName areq"
  "cr_Scopes (made_client F areq i w) = omit_empty (ac_Scopes areq)"
  by (simp_all add: made_client_def new_client_def sent_add_client_request_def)

lemma made_client_wire:
  assumes "rfc3339_ok (fst (fw_Now (fl_world F) w))"
  shows "wire_client (made_client F (buildApiReq cs ctx) i w)"
proof -
  have "add_client_request_ints_ok (buildApiReq cs ctx)"
    by (simp add: buildApiReq_def add_client_request_ints_ok_def zero_add_client_request_def)
  from new_client_ok [OF this assms] show ?thesis
    by (simp add: wire_client_def made_client_def new_client_sent) (simp add: new_client_def zero_client_response_def)
qed

text \<open>The state that the next call fetches: that of the resource, with the client and the secret.\<close>

lemma fetch_local:
  assumes op: "local_operator F r" and live: "live_token (rt_maskinportenApiClient (rc_runtime r)) (api_st s)"
    and list: "k8s_ListSecrets (rc_k8s r) (mr_Namespace req) (mr_AppLabel req) (env (api_st s)) = (Ok [secret], env (api_st s))"
    and secret: "sec_Type secret = SecretTypeOpaque" "get_content (fl_jose F) secret = Ok (Some c)" "sc_ClientId c = i"
    and db: "map_of (fs_Db (env (api_st s))) (RunId (rt_operatorContext (rc_runtime r))) = Some d" "db_ok d"
    and found: "db_find i d = Some \<lparr>rec_ClientId = i, rec_Client = cl, rec_Jwks = Some pub\<rparr>"
    and cl: "wire_client cl" "cr_ClientName cl = Some (getClientNamePrefix (rt_operatorContext (rc_runtime r)) @ rest)"
    and enc: "enc_jwks (fl_jose F) pub = Ok kj" and i: "plain_ids [i]"
    and new: "NewClientState (mr_Instance req) (Some cl) (Some pub) (Some secret) (Some c) = Ok cs"
  shows "fetchCurrentState r req s = (Ok cs, s)"
proof -
  let ?ctx = "rt_operatorContext (rc_runtime r)" and ?c = "rt_maskinportenApiClient (rc_runtime r)"
  have c: "local_client F ?c" "hc_context ?c = ?ctx" "jose_laws (fl_jose F)" "rc_jose r = fl_jose F"
      "hc_clientNamePrefix ?c = getClientNamePrefix ?ctx"
    using op by (simp_all add: local_operator_def Let_def)
  obtain j where j: "enc_client_response (fl_jose F) cl = Ok j" "json_ok j"
      "dec_client_response (fl_jose F) zero_client_response j = Some cl"
    using cl(1) by (rule wire_client_encodes)
  have "GetClient ?c i (api_st s) = (Ok (cl, pub), api_st s)"
    by (rule GetClient_local [OF c(1) live i c(3) _ db(2) found j cl(2) _ _ enc])
      (simp_all add: db(1) c(2,5))
  moreover have "i \<noteq> []" using i by (simp add: plain_ids_def plain_segment_def)
  ultimately have "fetch_client r req (Some c) s = (Ok (Some (cl, pub)), s)"
    using secret(3) by (simp add: fetch_client_def Let_def bind_def ret_def)
  moreover have "find_secret [secret] = Ok (Some secret)" using secret(1) by (simp add: find_secret_def)
  moreover have "DeserializeSecretStateContent (rc_jose r) (Some secret) = Ok (Some c)"
    using secret(2) by (simp add: get_content_def c(4))
  ultimately show ?thesis
    using list new by (simp add: fetchCurrentState_def bind_def lift_def)
qed

lemma NewClientState_parts:
  assumes "NewClientState inst cl jwks (Some manifest) content = Ok cs"
  shows "Api cs = map_option (\<lambda>cl. \<lparr>as_ClientId = cr_ClientId cl, as_Req = Some (mapClientResponseToAddRequest cl), as_Jwks = jwks\<rparr>) cl"
    and "Secret_Content cs = content" and "Secret_Manifest cs = manifest"
  using assms by (cases cl; auto simp: NewClientState_def Let_def obind_Ok_iff split: option.splits if_splits)+

text \<open>A state that was built once is built again, with another client, secret and contents.\<close>

lemma NewClientState_again:
  assumes "NewClientState inst cl0 jwks0 (Some manifest) content = Ok cs" and "cr_ClientId cl \<noteq> []"
  shows "NewClientState inst (Some cl) (Some jwks) (Some secret) content' = Ok (cs\<lparr>Api := Some \<lparr>as_ClientId = cr_ClientId cl,
      as_Req = Some (mapClientResponseToAddRequest cl), as_Jwks = Some jwks\<rparr>, Secret_Content := content', Secret_Manifest := secret\<rparr>)"
  using assms by (auto simp: NewClientState_def Let_def obind_Ok_iff split: option.splits if_splits)

text \<open>A call that finds what the resource asks for, and a key that is not due, schedules none.\<close>

lemma idle_call:
  fixes r :: "'w reconciler"
  defines "rt \<equiv> rc_runtime r"
  assumes fetch: "fetchCurrentState r req s = (Ok cs, s1)"
    and cs: "crd_DeletionTimestamp (Crd cs) = None" "Api cs = Some \<lparr>as_ClientId = i, as_Req = Some q, as_Jwks = pub\<rparr>"
      "Secret_Content cs = Some c" "sc_Jwks c = Some ks" "good_jwks ks"
    and same: "sc_Authority c = api_AuthorityUrl (MaskinportenApi (rt_config rt))" "crd_Scopes (Crd cs) = ac_Scopes q"
    and fresh: "fst (cs_clock (rt_crypto rt) (snd (rt_clock rt (env (api_st s1))))) + rotation_window < cert_expiry (current_key ks)"
  shows "fst (reconcile_loaded r req inst s) = Ok 0"
proof -
  let ?plan = "Reconcile (rc_jose r) cs (rt_operatorContext rt) (rt_config rt) (rt_crypto rt) (rt_clock rt) (env (api_st s1), empty_heap)"
  have "fst ?plan = Ok []" using same fresh by (simp add: Reconcile_idle [OF cs(1,2) _ cs(3-5)])
  then obtain w h where "?plan = (Ok [], (w, h))" by (metis prod.exhaust_sel)
  with fetch show ?thesis
    by (simp add: reconcile_loaded_def reconcile_def Let_def in_cmds_def on_part_def bind_def ret_def rt_def)
qed


section \<open>After a creation\<close>

lemma enc_secret_content_id:
  "is_Ok (enc_secret_content J (c\<lparr>sc_ClientId := i\<rparr>)) = is_Ok (enc_secret_content J c)"
  by (cases "enc_jwks_ptr J (sc_Jwks c)"; cases "enc_jwk_ptr J (sc_Jwk c)"; simp add: enc_secret_content_def)

text \<open>
  A creation as a whole, from the plan to the world it leaves.
\<close>

lemma creation_local:
  fixes r :: "'w fake_state reconciler"
  defines "rt \<equiv> rc_runtime r"
  assumes op: "local_operator F r" and keep: "keeps_secret (rc_k8s r) req (Secret_Manifest cs)"
    and crd: "crd_DeletionTimestamp (Crd cs) = None" "Api cs = None" "dcr_scope \<notin> set (slice_list (crd_Scopes (Crd cs)))"
    and plan: "in_cmds (Reconcile (rc_jose r) cs (rt_operatorContext rt) (rt_config rt) (rt_crypto rt) (rt_clock rt)) s = (Ok cmds, s1)"
    and enc: "is_Ok (enc_secret_content (fl_jose F) (sec_at (cheap s1) 0))"
      "is_Ok (enc_jwks_ptr (fl_jose F) (as_Jwks (ClientState.api_at (cheap s1) 0)))"
    and db: "map_of (fs_Db (env (api_st s1))) (RunId (rt_operatorContext rt)) = Some d" "db_ok d" "ClientIdIndex d i = None"
    and id: "fw_uuid (fl_world F) (fs_world (env (api_st s1))) = (Ok i, w1)" "plain_ids [i]"
      "rfc3339_ok (fst (fw_Now (fl_world F) w1))"
    and live: "live_token (rt_maskinportenApiClient rt) (api_st s1)"
      "\<forall>v. fs_world v = snd (fw_Now (fl_world F) w1) \<longrightarrow> live_token (rt_maskinportenApiClient rt) ((api_st s1)\<lparr>env := v\<rparr>)"
  obtains s2 secret c ks pub w kj where "reconcile r cs s = (Ok (Some cmds, None), s2)"
    and "map_of (fs_Db (env (api_st s2))) (RunId (rt_operatorContext rt)) =
      Some (add_record \<lparr>rec_ClientId = i, rec_Client = made_client F (buildApiReq cs (rt_operatorContext rt)) i w1, rec_Jwks = Some pub\<rparr> d)"
    and "k8s_ListSecrets (rc_k8s r) (mr_Namespace req) (mr_AppLabel req) (env (api_st s2)) = (Ok [secret], env (api_st s2))"
    and "sec_Type secret = SecretTypeOpaque" and "get_content (fl_jose F) secret = Ok (Some c)"
    and "sc_ClientId c = i" and "sc_Authority c = api_AuthorityUrl (MaskinportenApi (rt_config rt))" and "sc_Jwks c = Some ks"
    and "CreateJwks (rt_crypto rt) (AppId cs) (fst (rt_clock rt (env (api_st s))) + Hour * 24 * 30) (snd (rt_clock rt (env (api_st s)))) = (Ok ks, w)"
    and "ToPublic (fl_jose F) (Some ks) = Ok pub" and "enc_jwks (fl_jose F) pub = Ok kj"
proof -
  let ?ctx = "rt_operatorContext rt" and ?J = "fl_jose F" and ?areq = "buildApiReq cs (rt_operatorContext rt)"
  have J: "rc_jose r = ?J" "jose_laws ?J" using op by (simp_all add: local_operator_def Let_def)
  obtain w h where run: "Reconcile ?J cs ?ctx (rt_config rt) (rt_crypto rt) (rt_clock rt) (env (api_st s), empty_heap) = (Ok cmds, (w, h))"
      and s1: "s1 = s\<lparr>api_st := (api_st s)\<lparr>env := w\<rparr>, cheap := h\<rparr>"
    using plan by (auto simp: in_cmds_def on_part_def J(1) split: prod.splits)
  obtain ks pub k where cmds: "cmds = [\<lparr>cmd_Data = CreateClientInApiCommand 0, cmd_Callback = Some (SetClientId 0 0)\<rparr>,
        plain_command (UpdateSecretContentCommand 0)]"
      and api: "api_cells h = [\<lparr>as_ClientId = [], as_Req = Some ?areq, as_Jwks = Some pub\<rparr>]"
      and sec: "sec_cells h = [\<lparr>sc_ClientId = [], sc_Authority = api_AuthorityUrl (MaskinportenApi (rt_config rt)),
        sc_Jwks = Some ks, sc_Jwk = Some k\<rparr>]"
      and ks: "CreateJwks (rt_crypto rt) (AppId cs) (fst (rt_clock rt (env (api_st s))) + Hour * 24 * 30) (snd (rt_clock rt (env (api_st s)))) = (Ok ks, w)"
      and pub: "ToPublic ?J (Some ks) = Ok pub"
    using run unfolding Reconcile_create_eq [OF crd(1,2)] by (elim reconcile_create_Ok) blast
  from ks have "good_jwks ks" by (rule CreateJwks_Ok)
  then obtain js where "Keys ks = map Some js" "\<forall>k\<in>set js. private_rsa_key k" by (rule good_jwksE)
  then have public: "check_public ?J i (Keys pub) = Ok ()"
    using check_public_set [OF J(2)] ToPublic_public_set [OF pub] by metis
  from enc(2) obtain kj where kj: "enc_jwks ?J pub = Ok kj"
    by (auto simp: s1 ClientState.api_at_def api enc_jwks_ptr_def elim: is_Ok.elims)
  have heap: "api_cells (cheap s1) = [\<lparr>as_ClientId = [], as_Req = Some (buildApiReq cs (rt_operatorContext (rc_runtime r))), as_Jwks = Some pub\<rparr>]"
    by (simp add: s1 api rt_def)
  obtain w2 where "run_command r cs \<lparr>cmd_Data = CreateClientInApiCommand 0, cmd_Callback = Some (SetClientId 0 0)\<rparr> s1 =
     (Ok (), s1\<lparr>api_st := (api_st s1)\<lparr>env := put_db (RunId ?ctx)
          (add_record \<lparr>rec_ClientId = i, rec_Client = made_client F ?areq i w1, rec_Jwks = Some pub\<rparr> d) w2 (env (api_st s1))\<rparr>,
         cheap := set_sec_id 0 i (set_api_id 0 i (cheap s1))\<rparr>)" (is "_ = (Ok (), ?s)")
    using run_create_local [OF op live(1) [unfolded rt_def] heap public kj _ db(2,3) crd(3) id live(2) [unfolded rt_def]] db(1) unfolding rt_def by blast
  note create = this
  let ?c = "\<lparr>sc_ClientId = i, sc_Authority = api_AuthorityUrl (MaskinportenApi (rt_config rt)), sc_Jwks = Some ks, sc_Jwk = Some k\<rparr>"
  have cell: "sec_at (cheap ?s) 0 = ?c" by (simp add: s1 sec sec_at_def set_sec_id_def set_api_id_def)
  have named: "sc_ClientId ?c \<noteq> []" using id(2) by (simp add: plain_ids_def plain_segment_def)
  have "sec_at (cheap s1) 0\<lparr>sc_ClientId := i\<rparr> = ?c" by (simp add: s1 sec sec_at_def)
  then have encodes: "is_Ok (enc_secret_content ?J ?c)" using enc(1) enc_secret_content_id by metis
  obtain w' secret where written: "run_command r cs (plain_command (UpdateSecretContentCommand 0)) ?s =
      (Ok (), ?s\<lparr>api_st := (api_st ?s)\<lparr>env := w'\<rparr>\<rparr>)" and fs: "fs_Db w' = fs_Db (env (api_st ?s))"
    and secret: "sec_Type secret = SecretTypeOpaque"
      "\<forall>v. fs_world v = fs_world w' \<longrightarrow> k8s_ListSecrets (rc_k8s r) (mr_Namespace req) (mr_AppLabel req) v = (Ok [secret], v)"
      "get_content ?J secret = Ok (Some ?c)"
    by (rule run_write_local [OF op keep cell named encodes])
  have "reconcile r cs s = (Ok (Some cmds, None), ?s\<lparr>api_st := (api_st ?s)\<lparr>env := w'\<rparr>\<rparr>)"
    using plan create written by (simp add: reconcile_def Let_def rt_def cmds)
  then show ?thesis
    using fs secret ks pub kj
    by (intro that [of "?s\<lparr>api_st := (api_st ?s)\<lparr>env := w'\<rparr>\<rparr>" pub secret ?c ks w kj]) (simp_all add: s1)
qed


section \<open>After a rotation\<close>

text \<open>The commands of a rotation when authority and scopes are as they were: the secret first, then the keys.\<close>

lemma reconcile_rotation_Ok:
  assumes "reconcile_update J cs api content ctx cfg crypto clock (w, empty_heap) = (Ok cmds, (w', h))"
    and "as_Req api = Some q" and "crd_Scopes (Crd cs) = ac_Scopes q"
    and "sc_Jwks content = Some ks" and "good_jwks ks"
    and "cert_expiry (current_key ks) \<le> fst (cs_clock crypto (snd (clock w))) + rotation_window"
  obtains ks' pub k where "cmds = [plain_command (UpdateSecretContentCommand 0), plain_command (UpdateClientInApiCommand 0)]"
    and "api_cells h = [\<lparr>as_ClientId = as_ClientId api, as_Req = None, as_Jwks = Some pub\<rparr>]"
    and "sec_cells h = [\<lparr>sc_ClientId = as_ClientId api, sc_Authority = api_AuthorityUrl (MaskinportenApi cfg),
      sc_Jwks = Some ks', sc_Jwk = k\<rparr>]"
    and "RotateIfNeeded crypto (AppId cs) (fst (clock w) + Hour * 24 * 30) (Some ks) (snd (clock w)) = (Ok (Some ks'), w')"
    and "ToPublic J (Some ks') = Ok pub" and "index (Keys ks') 0 = Ok k"
proof -
  from assms(1-4) obtain rotated w2 c1 c2 t1 t2
    where rot: "RotateIfNeeded crypto (AppId cs) (fst (clock w) + Hour * 24 * 30) (Some ks) (snd (clock w)) = (Ok rotated, w2)"
      and c1: "update_secret_cmds api content cfg rotated (w2, empty_heap) = (Ok c1, t1)"
      and c2: "upload_jwks_cmds J api rotated t1 = (Ok c2, t2)" and out: "cmds = c1 @ c2" "t2 = (w', h)"
    by (auto simp: reconcile_update_def bind_eq_Ok_iff getNotAfter_Ok_iff Let_def update_scopes_cmds_def)
  have "fst (rotate_from crypto cn t k v) \<noteq> Ok None" for cn t k v by (rule rotate_from_not_None)
  then obtain ks' where ks': "rotated = Some ks'"
    using rot assms(6) by (cases rotated) (auto simp: good_RotateIfNeeded [OF assms(5)] dest!: arg_cong [where f = fst] split: if_splits)
  from c1 ks' obtain k where k: "index (Keys ks') 0 = Ok k" and c1': "c1 = [plain_command (UpdateSecretContentCommand 0)]"
      and t1: "t1 = (w2, \<lparr>api_cells = [], sec_cells = [\<lparr>sc_ClientId = as_ClientId api,
        sc_Authority = api_AuthorityUrl (MaskinportenApi cfg), sc_Jwks = Some ks', sc_Jwk = k\<rparr>]\<rparr>)"
    by (auto simp: update_secret_cmds_def bind_eq_Ok_iff empty_heap_def)
  from c2 ks' t1 obtain pub where "ToPublic J (Some ks') = Ok pub" "c2 = [plain_command (UpdateClientInApiCommand 0)]"
      and "t2 = (w2, \<lparr>api_cells = [\<lparr>as_ClientId = as_ClientId api, as_Req = None, as_Jwks = Some pub\<rparr>],
        sec_cells = sec_cells (snd t1)\<rparr>)"
    by (auto simp: upload_jwks_cmds_def bind_eq_Ok_iff)
  with rot ks' k c1' t1 out show ?thesis by (intro that [of pub ks' k]) auto
qed

text \<open>The upload of the keys, on the fakes.\<close>

lemma run_upload_local:
  assumes op: "local_operator F r" and live: "live_token (rt_maskinportenApiClient (rc_runtime r)) (api_st s)"
    and heap: "ClientState.api_at (cheap s) 0 = \<lparr>as_ClientId = i, as_Req = None, as_Jwks = Some pub\<rparr>"
    and pub: "check_public (fl_jose F) i (Keys pub) = Ok ()" "enc_jwks (fl_jose F) pub = Ok kj"
    and db: "map_of (fs_Db (env (api_st s))) (RunId (rt_operatorContext (rc_runtime r))) = Some d" "db_ok d" "db_find i d \<noteq> None"
    and i: "plain_ids [i]"
  shows "run_command r cs (plain_command (UpdateClientInApiCommand 0)) s =
     (Ok (), s\<lparr>api_st := (api_st s)\<lparr>env := put_db (RunId (rt_operatorContext (rc_runtime r)))
          (modify_record i (set_jwks (Some pub)) d) (fs_world (env (api_st s))) (env (api_st s))\<rparr>\<rparr>)"
proof -
  have c: "local_client F (rt_maskinportenApiClient (rc_runtime r))" "jose_laws (fl_jose F)"
      "hc_context (rt_maskinportenApiClient (rc_runtime r)) = rt_operatorContext (rc_runtime r)"
    using op by (simp_all add: local_operator_def Let_def)
  show ?thesis
    using CreateClientJwks_local [OF c(1) live i c(2) pub _ db(2,3)] db(1)
    by (simp add: run_command_def plain_command_def Let_def bind_def read_store_def heap ret_def c(3))
qed

text \<open>The first half of a rotation: the secret is written, and the upload of its public keys is due.\<close>

lemma rotation_written:
  fixes r :: "'w fake_state reconciler"
  defines "rt \<equiv> rc_runtime r"
  assumes op: "local_operator F r" and keep: "keeps_secret (rc_k8s r) req (Secret_Manifest cs)"
    and cs: "crd_DeletionTimestamp (Crd cs) = None" "Api cs = Some api" "as_Req api = Some q" "crd_Scopes (Crd cs) = ac_Scopes q"
      "Secret_Content cs = Some c" "sc_Jwks c = Some ks" "good_jwks ks"
    and due: "cert_expiry (current_key ks) \<le> fst (cs_clock (rt_crypto rt) (snd (rt_clock rt (env (api_st s))))) + rotation_window"
      "fst (cs_clock (rt_crypto rt) (snd (rt_clock rt (env (api_st s))))) + rotation_window \<le>
       whole_seconds (fst (rt_clock rt (env (api_st s))) + Hour * 24 * 30)"
    and plan: "in_cmds (Reconcile (rc_jose r) cs (rt_operatorContext rt) (rt_config rt) (rt_crypto rt) (rt_clock rt)) s = (Ok cmds, s1)"
    and enc: "is_Ok (enc_secret_content (fl_jose F) (sec_at (cheap s1) 0))"
      "is_Ok (enc_jwks_ptr (fl_jose F) (as_Jwks (ClientState.api_at (cheap s1) 0)))"
    and id: "plain_ids [as_ClientId api]"
  obtains w' secret c2 ks2 n pub kj where
      "cmds = [plain_command (UpdateSecretContentCommand 0), plain_command (UpdateClientInApiCommand 0)]"
    and "run_command r cs (plain_command (UpdateSecretContentCommand 0)) s1 = (Ok (), s1\<lparr>api_st := (api_st s1)\<lparr>env := w'\<rparr>\<rparr>)"
    and "w' = snd (k8s_UpdateSecret (rc_k8s r) secret (env (api_st s1)))" and "fs_Db w' = fs_Db (env (api_st s1))"
    and "\<forall>v. fs_world v = fs_world w' \<longrightarrow> k8s_ListSecrets (rc_k8s r) (mr_Namespace req) (mr_AppLabel req) v = (Ok [secret], v)"
    and "sec_Type secret = SecretTypeOpaque" and "get_content (fl_jose F) secret = Ok (Some c2)"
    and "c2 = \<lparr>sc_ClientId = as_ClientId api, sc_Authority = api_AuthorityUrl (MaskinportenApi (rt_config rt)),
      sc_Jwks = Some ks2, sc_Jwk = Some n\<rparr>"
    and "Keys ks2 = [Some n, Some (current_key ks)]" and "good_jwks ks2" and "current_key ks2 = n"
    and "cert_expiry n = whole_seconds (fst (rt_clock rt (env (api_st s))) + Hour * 24 * 30)"
    and "ClientState.api_at (cheap s1) 0 = \<lparr>as_ClientId = as_ClientId api, as_Req = None, as_Jwks = Some pub\<rparr>"
    and "pub = public_set (fl_jose F) ks2" and "enc_jwks (fl_jose F) pub = Ok kj"
    and "check_public (fl_jose F) (as_ClientId api) (Keys pub) = Ok ()"
proof -
  let ?ctx = "rt_operatorContext rt" and ?J = "fl_jose F" and ?i = "as_ClientId api"
  have J: "rc_jose r = ?J" "jose_laws ?J" using op by (simp_all add: local_operator_def Let_def)
  obtain w h where run: "Reconcile ?J cs ?ctx (rt_config rt) (rt_crypto rt) (rt_clock rt) (env (api_st s), empty_heap) = (Ok cmds, (w, h))"
      and s1: "s1 = s\<lparr>api_st := (api_st s)\<lparr>env := w\<rparr>, cheap := h\<rparr>"
    using plan by (auto simp: in_cmds_def on_part_def J(1) split: prod.splits)
  obtain ks2 pub k where cmds: "cmds = [plain_command (UpdateSecretContentCommand 0), plain_command (UpdateClientInApiCommand 0)]"
      and api: "api_cells h = [\<lparr>as_ClientId = ?i, as_Req = None, as_Jwks = Some pub\<rparr>]"
      and sec: "sec_cells h = [\<lparr>sc_ClientId = ?i, sc_Authority = api_AuthorityUrl (MaskinportenApi (rt_config rt)),
        sc_Jwks = Some ks2, sc_Jwk = k\<rparr>]"
      and rot: "RotateIfNeeded (rt_crypto rt) (AppId cs) (fst (rt_clock rt (env (api_st s))) + Hour * 24 * 30) (Some ks)
        (snd (rt_clock rt (env (api_st s)))) = (Ok (Some ks2), w)"
      and pub: "ToPublic ?J (Some ks2) = Ok pub" and k: "index (Keys ks2) 0 = Ok k"
    using reconcile_rotation_Ok [OF run [unfolded Reconcile_update_eq [OF cs(1,2,5)]] cs(3,4,6,7) due(1)] by metis
  obtain n where keys: "Keys ks2 = [Some n, Some (current_key ks)]" "good_jwks ks2" "current_key ks2 = n"
      "cert_expiry n = whole_seconds (fst (rt_clock rt (env (api_st s))) + Hour * 24 * 30)"
    using RotateIfNeeded_good [OF cs(7) rot due(2)] by metis
  have pub': "pub = public_set ?J ks2" using pub by (rule ToPublic_public_set)
  obtain js where "Keys ks2 = map Some js" "\<forall>k\<in>set js. private_rsa_key k" using keys(2) by (rule good_jwksE)
  then have public: "check_public ?J ?i (Keys pub) = Ok ()" unfolding pub' by (rule check_public_set [OF J(2)])
  from enc(2) obtain kj where kj: "enc_jwks ?J pub = Ok kj"
    by (auto simp: s1 ClientState.api_at_def api enc_jwks_ptr_def elim: is_Ok.elims)
  let ?c = "\<lparr>sc_ClientId = ?i, sc_Authority = api_AuthorityUrl (MaskinportenApi (rt_config rt)), sc_Jwks = Some ks2, sc_Jwk = Some n\<rparr>"
  have cell: "sec_at (cheap s1) 0 = ?c" using k by (simp add: s1 sec sec_at_def keys(1))
  have named: "sc_ClientId ?c \<noteq> []" using id by (simp add: plain_ids_def plain_segment_def)
  have encodes: "is_Ok (enc_secret_content ?J ?c)" using enc(1) cell by simp
  obtain w' secret where written: "run_command r cs (plain_command (UpdateSecretContentCommand 0)) s1 =
      (Ok (), s1\<lparr>api_st := (api_st s1)\<lparr>env := w'\<rparr>\<rparr>)" and w': "w' = snd (k8s_UpdateSecret (rc_k8s r) secret (env (api_st s1)))"
    and fs: "fs_Db w' = fs_Db (env (api_st s1))"
    and secret: "sec_Type secret = SecretTypeOpaque"
      "\<forall>v. fs_world v = fs_world w' \<longrightarrow> k8s_ListSecrets (rc_k8s r) (mr_Namespace req) (mr_AppLabel req) v = (Ok [secret], v)"
      "get_content ?J secret = Ok (Some ?c)"
    by (rule run_write_local [OF op keep cell named encodes])
  have heap: "ClientState.api_at (cheap s1) 0 = \<lparr>as_ClientId = ?i, as_Req = None, as_Jwks = Some pub\<rparr>"
    by (simp add: s1 ClientState.api_at_def api)
  show ?thesis
    by (rule that [OF cmds written w' fs secret(2,1,3) refl keys heap pub' kj public])
qed

text \<open>A rotation as a whole.\<close>

lemma rotation_local:
  fixes r :: "'w fake_state reconciler"
  defines "rt \<equiv> rc_runtime r"
  assumes op: "local_operator F r" and keep: "keeps_secret (rc_k8s r) req (Secret_Manifest cs)"
    and cs: "crd_DeletionTimestamp (Crd cs) = None" "Api cs = Some api" "as_Req api = Some q" "crd_Scopes (Crd cs) = ac_Scopes q"
      "Secret_Content cs = Some c" "sc_Jwks c = Some ks" "good_jwks ks"
    and due: "cert_expiry (current_key ks) \<le> fst (cs_clock (rt_crypto rt) (snd (rt_clock rt (env (api_st s))))) + rotation_window"
      "fst (cs_clock (rt_crypto rt) (snd (rt_clock rt (env (api_st s))))) + rotation_window \<le>
       whole_seconds (fst (rt_clock rt (env (api_st s))) + Hour * 24 * 30)"
    and plan: "in_cmds (Reconcile (rc_jose r) cs (rt_operatorContext rt) (rt_config rt) (rt_crypto rt) (rt_clock rt)) s = (Ok cmds, s1)"
    and enc: "is_Ok (enc_secret_content (fl_jose F) (sec_at (cheap s1) 0))"
      "is_Ok (enc_jwks_ptr (fl_jose F) (as_Jwks (ClientState.api_at (cheap s1) 0)))"
    and db: "map_of (fs_Db (env (api_st s1))) (RunId (rt_operatorContext rt)) = Some d" "db_ok d" "db_find (as_ClientId api) d \<noteq> None"
    and id: "plain_ids [as_ClientId api]"
    and live: "\<forall>x. live_token (rt_maskinportenApiClient rt) ((api_st s1)\<lparr>env := snd (k8s_UpdateSecret (rc_k8s r) x (env (api_st s1)))\<rparr>)"
  obtains s2 pub secret c2 n ks2 kj where "reconcile r cs s = (Ok (Some cmds, None), s2)"
    and "map_of (fs_Db (env (api_st s2))) (RunId (rt_operatorContext rt)) =
      Some (modify_record (as_ClientId api) (set_jwks (Some pub)) d)"
    and "k8s_ListSecrets (rc_k8s r) (mr_Namespace req) (mr_AppLabel req) (env (api_st s2)) = (Ok [secret], env (api_st s2))"
    and "sec_Type secret = SecretTypeOpaque" and "get_content (fl_jose F) secret = Ok (Some c2)"
    and "c2 = \<lparr>sc_ClientId = as_ClientId api, sc_Authority = api_AuthorityUrl (MaskinportenApi (rt_config rt)),
      sc_Jwks = Some ks2, sc_Jwk = Some n\<rparr>"
    and "Keys ks2 = [Some n, Some (current_key ks)]" and "good_jwks ks2" and "current_key ks2 = n"
    and "cert_expiry n = whole_seconds (fst (rt_clock rt (env (api_st s))) + Hour * 24 * 30)"
    and "pub = public_set (fl_jose F) ks2" and "enc_jwks (fl_jose F) pub = Ok kj"
proof -
  let ?ctx = "rt_operatorContext rt" and ?i = "as_ClientId api"
  obtain w' secret c2 ks2 n pub kj where
      cmds: "cmds = [plain_command (UpdateSecretContentCommand 0), plain_command (UpdateClientInApiCommand 0)]"
    and written: "run_command r cs (plain_command (UpdateSecretContentCommand 0)) s1 = (Ok (), s1\<lparr>api_st := (api_st s1)\<lparr>env := w'\<rparr>\<rparr>)"
      (is "_ = (Ok (), ?s)")
    and w': "w' = snd (k8s_UpdateSecret (rc_k8s r) secret (env (api_st s1)))" and fs: "fs_Db w' = fs_Db (env (api_st s1))"
    and secret: "\<forall>v. fs_world v = fs_world w' \<longrightarrow> k8s_ListSecrets (rc_k8s r) (mr_Namespace req) (mr_AppLabel req) v = (Ok [secret], v)"
      "sec_Type secret = SecretTypeOpaque" "get_content (fl_jose F) secret = Ok (Some c2)"
    and c2: "c2 = \<lparr>sc_ClientId = as_ClientId api, sc_Authority = api_AuthorityUrl (MaskinportenApi (rt_config rt)),
      sc_Jwks = Some ks2, sc_Jwk = Some n\<rparr>"
    and keys: "Keys ks2 = [Some n, Some (current_key ks)]" "good_jwks ks2" "current_key ks2 = n"
      "cert_expiry n = whole_seconds (fst (rt_clock rt (env (api_st s))) + Hour * 24 * 30)"
    and heap: "ClientState.api_at (cheap s1) 0 = \<lparr>as_ClientId = ?i, as_Req = None, as_Jwks = Some pub\<rparr>"
    and pub: "pub = public_set (fl_jose F) ks2" "enc_jwks (fl_jose F) pub = Ok kj"
    and public: "check_public (fl_jose F) ?i (Keys pub) = Ok ()"
    by (rule rotation_written [OF op keep cs due [unfolded rt_def] plan [unfolded rt_def] enc id]) (rule that; simp only: rt_def)
  let ?w = "put_db (RunId ?ctx) (modify_record ?i (set_jwks (Some pub)) d) (fs_world w') w'"
  have live1: "live_token (rt_maskinportenApiClient (rc_runtime r)) (api_st ?s)"
    using live by (simp add: w' rt_def)
  have "run_command r cs (plain_command (UpdateClientInApiCommand 0)) ?s = (Ok (), ?s\<lparr>api_st := (api_st ?s)\<lparr>env := ?w\<rparr>\<rparr>)"
    using run_upload_local [OF op live1 _ public pub(2) _ db(2,3) id] db(1) fs heap by (simp add: rt_def)
  then have "reconcile r cs s = (Ok (Some cmds, None), ?s\<lparr>api_st := (api_st ?s)\<lparr>env := ?w\<rparr>\<rparr>)"
    using plan written by (simp add: reconcile_def Let_def rt_def cmds)
  then show ?thesis
    using secret keys pub c2
    by (intro that [of "?s\<lparr>api_st := (api_st ?s)\<lparr>env := ?w\<rparr>\<rparr>" pub secret c2 ks2 n kj]) simp_all
qed


section \<open>After an upload\<close>

text \<open>
  Once the keys of a secret are in the API, the next call fetches both, and has nothing to do while the
  current key is not due.
\<close>

lemma db_upload:
  assumes "db_ok d" and "db_find i d = Some \<lparr>rec_ClientId = i, rec_Client = cl, rec_Jwks = jwks\<rparr>"
  shows "db_ok (modify_record i (set_jwks pub) d)"
    and "db_find i (modify_record i (set_jwks pub) d) = Some \<lparr>rec_ClientId = i, rec_Client = cl, rec_Jwks = pub\<rparr>"
  using assms by (simp_all add: set_jwks_def db_ok_modify db_find_modify)

lemma settled_local:
  fixes r :: "'w fake_state reconciler"
  defines "rt \<equiv> rc_runtime r"
  assumes op: "local_operator F r" and live: "live_token (rt_maskinportenApiClient rt) (api_st s)"
    and list: "k8s_ListSecrets (rc_k8s r) (mr_Namespace req) (mr_AppLabel req) (env (api_st s)) = (Ok [secret], env (api_st s))"
    and secret: "sec_Type secret = SecretTypeOpaque" "get_content (fl_jose F) secret = Ok (Some c)"
    and c: "sc_ClientId c = cr_ClientId cl" "sc_Authority c = api_AuthorityUrl (MaskinportenApi (rt_config rt))"
      "sc_Jwks c = Some ks" "good_jwks ks"
    and db: "map_of (fs_Db (env (api_st s))) (RunId (rt_operatorContext rt)) = Some d" "db_ok d"
      "db_find (cr_ClientId cl) d = Some \<lparr>rec_ClientId = cr_ClientId cl, rec_Client = cl, rec_Jwks = Some pub\<rparr>"
    and cl: "wire_client cl" "cr_ClientName cl = Some (getClientNamePrefix (rt_operatorContext rt) @ rest)" "plain_ids [cr_ClientId cl]"
    and pub: "enc_jwks (fl_jose F) pub = Ok kj"
    and new: "NewClientState (mr_Instance req) cl0 jwks (Some manifest) content = Ok cs"
      "crd_DeletionTimestamp (Crd cs) = None" "crd_Scopes (Crd cs) = cr_Scopes cl"
  shows "fetchCurrentState r req s = (Ok (cs\<lparr>Api := Some \<lparr>as_ClientId = cr_ClientId cl,
      as_Req = Some (mapClientResponseToAddRequest cl), as_Jwks = Some pub\<rparr>, Secret_Content := Some c, Secret_Manifest := secret\<rparr>), s)"
    and "fst (cs_clock (rt_crypto rt) (snd (rt_clock rt (env (api_st s))))) + rotation_window < cert_expiry (current_key ks) \<Longrightarrow>
      fst (reconcile_loaded r req inst s) = Ok 0"
proof -
  let ?i = "cr_ClientId cl" and ?q = "mapClientResponseToAddRequest cl"
  let ?api = "\<lparr>as_ClientId = ?i, as_Req = Some ?q, as_Jwks = Some pub\<rparr>"
  let ?cs2 = "cs\<lparr>Api := Some ?api, Secret_Content := Some c, Secret_Manifest := secret\<rparr>"
  have "NewClientState (mr_Instance req) (Some cl) (Some pub) (Some secret) (Some c) = Ok ?cs2"
    using new(1) by (rule NewClientState_again) (use cl(3) in \<open>simp add: plain_ids_def plain_segment_def\<close>)
  then show fetched: "fetchCurrentState r req s = (Ok ?cs2, s)"
    using db(1) c(1) by (intro fetch_local [OF op live [unfolded rt_def] list secret _ _ db(2,3) cl(1,2) [unfolded rt_def] pub cl(3)])
      (simp_all add: rt_def)
  have scopes: "crd_Scopes (Crd ?cs2) = ac_Scopes ?q" using new(3) by (simp add: mapClientResponseToAddRequest_def)
  then show "fst (reconcile_loaded r req inst s) = Ok 0"
    if "fst (cs_clock (rt_crypto rt) (snd (rt_clock rt (env (api_st s))))) + rotation_window < cert_expiry (current_key ks)"
    using that by (intro idle_call [OF fetched _ _ _ c(3,4)]) (simp_all add: rt_def new(2) c(2))
qed

end
