(* ===== verification/FakesReconcileProperties.thy ===== *)
theory FakesReconcileProperties
  imports FakesReconcile
begin

text \<open>
  The operator, the fakes and the cluster together: a creation and a rotation reach both the API and
  the secret, and the call after them is idle. A cluster in memory stands for the one of the
  hypotheses.
\<close>


section \<open>Creation\<close>

text \<open>
  C6: An operator that creates a client on the fake Maskinporten, in a run whose database is sound,
  with a token that has not expired when its two requests are made, and with a cluster that keeps
  the secret it is given, succeeds. The scopes of the resource are no empty list and do not name the
  scope of the API itself. A later call, at any time and with any token that has not expired then,
  that finds the database of the run and the secret as they were left, fetches the client that was
  created: the id in the API is the id in the secret, and the keys in the API are the public halves
  of those in the secret. As long as the key has more than seven of its thirty days left, such a
  call finds nothing to do and schedules none.
\<close>

theorem creation_converges:
  fixes r :: "'w fake_state reconciler"
  defines "rt \<equiv> rc_runtime r"
  assumes op: "local_operator F r" and keep: "keeps_secret (rc_k8s r) req (Secret_Manifest cs)"
    and new: "NewClientState (mr_Instance req) None None (Some (Secret_Manifest cs)) content = Ok cs"
    and crd: "crd_DeletionTimestamp (Crd cs) = None" "crd_Scopes (Crd cs) \<noteq> Some []" "dcr_scope \<notin> set (slice_list (crd_Scopes (Crd cs)))"
    and plan: "in_cmds (Reconcile (rc_jose r) cs (rt_operatorContext rt) (rt_config rt) (rt_crypto rt) (rt_clock rt)) s = (Ok cmds, s1)"
    and enc: "is_Ok (enc_secret_content (fl_jose F) (sec_at (cheap s1) 0))"
      "is_Ok (enc_jwks_ptr (fl_jose F) (as_Jwks (ClientState.api_at (cheap s1) 0)))"
    and db: "map_of (fs_Db (env (api_st s1))) (RunId (rt_operatorContext rt)) = Some d" "db_ok d" "ClientIdIndex d i = None"
    and id: "fw_uuid (fl_world F) (fs_world (env (api_st s1))) = (Ok i, w1)" "plain_ids [i]"
      "rfc3339_ok (fst (fw_Now (fl_world F) w1))"
    and live: "live_token (rt_maskinportenApiClient rt) (api_st s1)"
      "\<forall>v. fs_world v = snd (fw_Now (fl_world F) w1) \<longrightarrow> live_token (rt_maskinportenApiClient rt) ((api_st s1)\<lparr>env := v\<rparr>)"
  shows "\<exists>s2 api pub c. reconcile r cs s = (Ok (Some cmds, None), s2) \<and> as_ClientId api = i \<and> sc_ClientId c = i \<and>
    as_Jwks api = Some pub \<and> ToPublic (fl_jose F) (sc_Jwks c) = Ok pub \<and>
    (\<forall>u. later r req s2 u \<longrightarrow>
      (\<exists>cs2. fetchCurrentState r req u = (Ok cs2, u) \<and> Api cs2 = Some api \<and> Secret_Content cs2 = Some c) \<and>
      (fst (cs_clock (rt_crypto rt) (snd (rt_clock rt (env (api_st u))))) + rotation_window <
         whole_seconds (fst (rt_clock rt (env (api_st s))) + Hour * 24 * 30) \<longrightarrow>
       fst (reconcile_loaded r req inst u) = Ok 0))"
proof -
  let ?ctx = "rt_operatorContext (rc_runtime r)" and ?areq = "buildApiReq cs (rt_operatorContext (rc_runtime r))"
  have api: "Api cs = None"
    using NewClientState_parts [OF new] by simp
  obtain s2 secret c ks pub kj w where run: "reconcile r cs s = (Ok (Some cmds, None), s2)"
      and db2: "map_of (fs_Db (env (api_st s2))) (RunId ?ctx) =
        Some (add_record \<lparr>rec_ClientId = i, rec_Client = made_client F ?areq i w1, rec_Jwks = Some pub\<rparr> d)"
      and list: "k8s_ListSecrets (rc_k8s r) (mr_Namespace req) (mr_AppLabel req) (env (api_st s2)) = (Ok [secret], env (api_st s2))"
      and secret: "sec_Type secret = SecretTypeOpaque" "get_content (fl_jose F) secret = Ok (Some c)" "sc_ClientId c = i"
      and c: "sc_Authority c = api_AuthorityUrl (MaskinportenApi (rt_config rt))" "sc_Jwks c = Some ks"
      and ks: "CreateJwks (rt_crypto rt) (AppId cs) (fst (rt_clock rt (env (api_st s))) + Hour * 24 * 30)
        (snd (rt_clock rt (env (api_st s)))) = (Ok ks, w)"
      and pub: "ToPublic (fl_jose F) (Some ks) = Ok pub" "enc_jwks (fl_jose F) pub = Ok kj"
    by (rule creation_local [OF op keep crd(1) api crd(3) plan [unfolded rt_def] enc db(1) [unfolded rt_def] db(2,3) id live [unfolded rt_def]])
      (rule that; simp only: rt_def)
  let ?cl = "made_client F ?areq i w1"
  let ?api = "\<lparr>as_ClientId = cr_ClientId ?cl, as_Req = Some (mapClientResponseToAddRequest ?cl), as_Jwks = Some pub\<rparr>"
  have none: "db_find i d = None" using db(2,3) by (simp add: db_find_index)
  then have known: "db_ok (add_record \<lparr>rec_ClientId = i, rec_Client = ?cl, rec_Jwks = Some pub\<rparr> d)"
      "db_find i (add_record \<lparr>rec_ClientId = i, rec_Client = ?cl, rec_Jwks = Some pub\<rparr> d) =
       Some \<lparr>rec_ClientId = i, rec_Client = ?cl, rec_Jwks = Some pub\<rparr>"
    using db(2) by (simp_all add: db_ok_add db_find_add)
  have made: "cr_ClientId ?cl = i" "cr_ClientName ?cl = Some (getClientNamePrefix ?ctx @ AppId cs)"
      "crd_Scopes (Crd cs) = cr_Scopes ?cl"
    by (simp_all add: made_client_simps buildApiReq_def GetClientName_def omit_empty_eq_self_iff [THEN iffD2, OF crd(2)])
  then have same: "sc_ClientId c = cr_ClientId ?cl" "db_find (cr_ClientId ?cl) (add_record \<lparr>rec_ClientId = i, rec_Client = ?cl, rec_Jwks = Some pub\<rparr> d) =
       Some \<lparr>rec_ClientId = cr_ClientId ?cl, rec_Client = ?cl, rec_Jwks = Some pub\<rparr>" "plain_ids [cr_ClientId ?cl]"
    using known(2) secret(3) id(2) by simp_all
  from ks have good: "good_jwks ks" and expiry: "cert_expiry (current_key ks) = whole_seconds (fst (rt_clock rt (env (api_st s))) + Hour * 24 * 30)"
    by (auto elim: CreateJwks_Ok)
  have "(\<exists>cs2. fetchCurrentState r req u = (Ok cs2, u) \<and> Api cs2 = Some ?api \<and> Secret_Content cs2 = Some c) \<and>
      (fst (cs_clock (rt_crypto rt) (snd (rt_clock rt (env (api_st u))))) + rotation_window < cert_expiry (current_key ks) \<longrightarrow>
       fst (reconcile_loaded r req inst u) = Ok 0)" if "later r req s2 u" for u
  proof -
    note at = laterD [OF that list db2]
    note settled = settled_local [OF op at(1,2) secret(1,2) same(1) c(1) [unfolded rt_def] c(2) good at(3) known(1) same(2)
          made_client_wire [OF id(3)] made(2) same(3) pub(2) new crd(1) made(3)]
    from settled(1) settled(2) [of inst] show ?thesis by (simp add: rt_def)
  qed
  then show ?thesis using run secret(3) c(2) pub(1) made(1) expiry
    by (intro exI [of _ s2] exI [of _ ?api] exI [of _ pub] exI [of _ c]) simp
qed


section \<open>Rotation\<close>

text \<open>
  C7: When the key of an existing client is due and the scopes of its resource are those of the
  client, a call on the fake Maskinporten, with a cluster that keeps the secret and a token that has
  not expired when the keys are uploaded, rotates the key on both sides. A later call, at any time
  and with any token that has not expired then, that finds the database of the run and the secret as
  they were left, fetches the new key and the one that was current in the secret, and exactly their
  public halves in the API, so that tokens signed with either are accepted; it finds nothing to do
  until the new key is due, and schedules no call.
\<close>

theorem rotation_reaches_api:
  fixes r :: "'w fake_state reconciler"
  defines "rt \<equiv> rc_runtime r"
  assumes op: "local_operator F r" and keep: "keeps_secret (rc_k8s r) req (Secret_Manifest cs)"
    and new: "NewClientState (mr_Instance req) (Some cl) jwks (Some (Secret_Manifest cs)) (Some c) = Ok cs"
    and cs: "crd_DeletionTimestamp (Crd cs) = None" "crd_Scopes (Crd cs) = cr_Scopes cl" "sc_Jwks c = Some ks" "good_jwks ks"
    and due: "cert_expiry (current_key ks) \<le> fst (cs_clock (rt_crypto rt) (snd (rt_clock rt (env (api_st s))))) + rotation_window"
      "fst (cs_clock (rt_crypto rt) (snd (rt_clock rt (env (api_st s))))) + rotation_window \<le>
       whole_seconds (fst (rt_clock rt (env (api_st s))) + Hour * 24 * 30)"
    and plan: "in_cmds (Reconcile (rc_jose r) cs (rt_operatorContext rt) (rt_config rt) (rt_crypto rt) (rt_clock rt)) s = (Ok cmds, s1)"
    and enc: "is_Ok (enc_secret_content (fl_jose F) (sec_at (cheap s1) 0))"
      "is_Ok (enc_jwks_ptr (fl_jose F) (as_Jwks (ClientState.api_at (cheap s1) 0)))"
    and db: "map_of (fs_Db (env (api_st s1))) (RunId (rt_operatorContext rt)) = Some d" "db_ok d"
      "db_find (cr_ClientId cl) d = Some \<lparr>rec_ClientId = cr_ClientId cl, rec_Client = cl, rec_Jwks = jwks\<rparr>"
    and cl: "wire_client cl" "cr_ClientName cl = Some (getClientNamePrefix (rt_operatorContext rt) @ rest)" "plain_ids [cr_ClientId cl]"
    and live: "\<forall>x. live_token (rt_maskinportenApiClient rt) ((api_st s1)\<lparr>env := snd (k8s_UpdateSecret (rc_k8s r) x (env (api_st s1)))\<rparr>)"
  shows "\<exists>s2 api c2 ks2 n. reconcile r cs s = (Ok (Some cmds, None), s2) \<and> sc_ClientId c2 = as_ClientId api \<and>
    sc_Jwk c2 = Some n \<and> sc_Jwks c2 = Some ks2 \<and> Keys ks2 = [Some n, Some (current_key ks)] \<and>
    as_Jwks api = Some \<lparr>Keys = [Some (public_half (fl_jose F) n), Some (public_half (fl_jose F) (current_key ks))]\<rparr> \<and>
    cert_expiry n = whole_seconds (fst (rt_clock rt (env (api_st s))) + Hour * 24 * 30) \<and>
    (\<forall>u. later r req s2 u \<longrightarrow>
      (\<exists>cs2. fetchCurrentState r req u = (Ok cs2, u) \<and> Api cs2 = Some api \<and> Secret_Content cs2 = Some c2) \<and>
      (fst (cs_clock (rt_crypto rt) (snd (rt_clock rt (env (api_st u))))) + rotation_window < cert_expiry n \<longrightarrow>
       fst (reconcile_loaded r req inst u) = Ok 0))"
proof -
  let ?ctx = "rt_operatorContext (rc_runtime r)" and ?i = "cr_ClientId cl" and ?q = "mapClientResponseToAddRequest cl"
  let ?api = "\<lparr>as_ClientId = ?i, as_Req = Some ?q, as_Jwks = jwks\<rparr>"
  have i: "?i \<noteq> []" using cl(3) by (simp add: plain_ids_def plain_segment_def)
  have api: "Api cs = Some ?api" "Secret_Content cs = Some c"
    using NewClientState_parts [OF new] by simp_all
  have scopes: "crd_Scopes (Crd cs) = ac_Scopes ?q" using cs(2) by (simp add: mapClientResponseToAddRequest_def)
  have req: "as_Req ?api = Some ?q" by simp
  have known: "db_find (as_ClientId ?api) d \<noteq> None" "plain_ids [as_ClientId ?api]" using db(3) cl(3) by simp_all
  obtain s2 pub secret c2 n ks2 kj where run: "reconcile r cs s = (Ok (Some cmds, None), s2)"
      and db2: "map_of (fs_Db (env (api_st s2))) (RunId ?ctx) = Some (modify_record (as_ClientId ?api) (set_jwks (Some pub)) d)"
      and list: "k8s_ListSecrets (rc_k8s r) (mr_Namespace req) (mr_AppLabel req) (env (api_st s2)) = (Ok [secret], env (api_st s2))"
      and secret: "sec_Type secret = SecretTypeOpaque" "get_content (fl_jose F) secret = Ok (Some c2)"
      and c2: "c2 = \<lparr>sc_ClientId = as_ClientId ?api, sc_Authority = api_AuthorityUrl (MaskinportenApi (rt_config rt)),
        sc_Jwks = Some ks2, sc_Jwk = Some n\<rparr>"
      and keys: "Keys ks2 = [Some n, Some (current_key ks)]" "good_jwks ks2" "current_key ks2 = n"
        "cert_expiry n = whole_seconds (fst (rt_clock rt (env (api_st s))) + Hour * 24 * 30)"
      and pub: "pub = public_set (fl_jose F) ks2" "enc_jwks (fl_jose F) pub = Ok kj"
    by (rule rotation_local [OF op keep cs(1) api(1) req scopes api(2) cs(3,4) due [unfolded rt_def]
          plan [unfolded rt_def] enc db(1) [unfolded rt_def] db(2) known live [unfolded rt_def]])
      (rule that; simp only: rt_def)
  let ?api2 = "\<lparr>as_ClientId = ?i, as_Req = Some ?q, as_Jwks = Some pub\<rparr>"
  have c2': "sc_ClientId c2 = ?i" "sc_Authority c2 = api_AuthorityUrl (MaskinportenApi (rt_config (rc_runtime r)))"
      "sc_Jwks c2 = Some ks2" "sc_Jwk c2 = Some n"
    by (simp_all add: c2 rt_def)
  have "(\<exists>cs2. fetchCurrentState r req u = (Ok cs2, u) \<and> Api cs2 = Some ?api2 \<and> Secret_Content cs2 = Some c2) \<and>
      (fst (cs_clock (rt_crypto rt) (snd (rt_clock rt (env (api_st u))))) + rotation_window < cert_expiry n \<longrightarrow>
       fst (reconcile_loaded r req inst u) = Ok 0)" if "later r req s2 u" for u
  proof -
    note at = laterD [OF that list db2]
    note settled = settled_local [OF op at(1,2) secret c2'(1-3) keys(2) at(3) [simplified] db_upload [OF db(2,3)]
          cl(1) cl(2) [unfolded rt_def] cl(3) pub(2) new cs(1,2)]
    from settled(1) settled(2) [of inst] keys(3) show ?thesis by (simp add: rt_def)
  qed
  moreover have "pub = \<lparr>Keys = [Some (public_half (fl_jose F) n), Some (public_half (fl_jose F) (current_key ks))]\<rparr>"
    by (simp add: pub(1) public_set_def keys(1))
  ultimately show ?thesis using run keys(1,4) c2'
    by (intro exI [of _ s2] exI [of _ ?api2] exI [of _ c2] exI [of _ ks2] exI [of _ n]) simp
qed


section \<open>A cluster in memory\<close>

text \<open>A cluster that holds one secret, and the fakes, with the time as a part of the world.\<close>

type_synonym kept_world = "k8s_secret \<times> instant"

definition kept_clock :: "kept_world fake_state clock" where
  "kept_clock w = (snd (fs_world w), w)"

definition kept_cfg :: config where
  "kept_cfg = sample_cfg\<lparr>MaskinportenApi := local_config\<rparr>"

definition kept_lib :: "jose_lib \<Rightarrow> kept_world fake_lib" where
  "kept_lib J = \<lparr>fl_cfg = kept_cfg, fl_jose = J, fl_jwt = no_jwt,
     fl_world = \<lparr>fw_uuid = ret ''id-1'', fw_Now = (\<lambda>w. (''2025-01-01T00:00:00Z'', w))\<rparr>\<rparr>"

definition kept_k8s :: "maskinporten_client \<Rightarrow> kept_world fake_state k8s_lib" where
  "kept_k8s inst = \<lparr>
     k8s_Get = (\<lambda>ns n. ret inst), k8s_ListSecrets = (\<lambda>ns l w. (Ok [fst (fs_world w)], w)),
     k8s_UpdateSecret = (\<lambda>s w. (Ok (), w\<lparr>fs_world := (s, snd (fs_world w))\<rparr>)), k8s_Update = (\<lambda>i. ret i), k8s_StatusUpdate = (\<lambda>i. ret i),
     k8s_IsNotFound = (\<lambda>e. False),
     fin_Contains = (\<lambda>fs f. f \<in> set fs),
     fin_Add = (\<lambda>fs f. if f \<in> set fs then (fs, False) else (fs @ [f], True)),
     fin_Remove = (\<lambda>fs f. (filter (\<lambda>g. g \<noteq> f) fs, f \<in> set fs)),
     metav1_Now = kept_clock,
     rand_Int64N = (\<lambda>n w. (0, w))\<rparr>"

definition kept_hc :: "jose_lib \<Rightarrow> kept_world fake_state http_api" where
  "kept_hc J = \<lparr>hc_config = local_config, hc_context = sample_ctx, hc_jwk = zero_jwk, hc_clock = kept_clock,
     hc_clientNamePrefix = getClientNamePrefix sample_ctx, hc_jose = J, hc_jwt = no_jwt,
     hc_net = fakes_net (kept_lib J) 3\<rparr>"

definition kept_rc :: "jose_lib \<Rightarrow> kept_world fake_state reconciler" where
  "kept_rc J = \<lparr>
     rc_runtime = \<lparr>rt_config = kept_cfg, rt_operatorContext = sample_ctx, rt_crypto = fixed_crypto kept_clock,
       rt_maskinportenApiClient = kept_hc J, rt_clock = kept_clock\<rparr>,
     rc_jose = J, rc_k8s = kept_k8s (sample_crd None (Some [''s'']))\<rparr>"

definition kept_start :: "db \<Rightarrow> kept_world fake_state ctrl_state" where
  "kept_start d = \<lparr>api_st = \<lparr>wellKnown = NewCachedAtom (5 * Minute),
       accessToken = \<lparr>current = Some (login_token ''operator''), currentFetchedAt = 1000 * Second, expireAfter = 1 * Minute\<rparr>,
       env = \<lparr>fs_Db = [(''run-1'', d)], fs_world = (sample_secret, 1030 * Second)\<rparr>\<rparr>,
     cheap = empty_heap\<rparr>"

definition kept_request :: maskinporten_client_request where
  "kept_request = \<lparr>mr_Name = ''ttd-app'', mr_Namespace = ''default'', mr_AppId = ''app'', mr_AppLabel = ''ttd-app-deployment'',
     mr_Kind = Some RequestUpdateKind, mr_Instance = Some (sample_crd None (Some [''s'']))\<rparr>"

definition kept_new :: client_state where
  "kept_new = sample_state None (Some [''s'']) None None"

lemma kept_sel:
  "rt_maskinportenApiClient (rc_runtime (kept_rc J)) = kept_hc J" "rt_operatorContext (rc_runtime (kept_rc J)) = sample_ctx"
  "rt_config (rc_runtime (kept_rc J)) = kept_cfg" "rt_crypto (rc_runtime (kept_rc J)) = fixed_crypto kept_clock"
  "rt_clock (rc_runtime (kept_rc J)) = kept_clock" "rc_jose (kept_rc J) = J" "fl_jose (kept_lib J) = J"
  by (simp_all add: kept_rc_def kept_lib_def)

lemma kept_operator: "jose_laws J \<Longrightarrow> local_operator (kept_lib J) (kept_rc J)"
  by (auto simp: local_operator_def local_client_def Let_def kept_sel)
    (auto simp: kept_hc_def kept_lib_def kept_cfg_def local_config_def sample_ctx_def)

lemma kept_secret: "keeps_secret (rc_k8s (kept_rc J)) req sample_secret"
  by (auto simp: keeps_secret_def kept_rc_def kept_k8s_def sample_secret_def)

lemma kept_live:
  assumes "snd (fs_world v) = 1030 * Second"
  shows "live_token (rt_maskinportenApiClient (rc_runtime (kept_rc J))) ((api_st (kept_start d))\<lparr>env := v\<rparr>)"
proof -
  have "\<not> atom_expired (accessToken (api_st (kept_start d))) (1030 * Second)"
    by (simp add: kept_start_def atom_expired_def time_IsZero_def time_Sub_def time_units max_duration_def min_duration_def)
  moreover have "current (accessToken (api_st (kept_start d))) = Some (login_token ''operator'')"
    by (simp add: kept_start_def)
  moreover have "tr_AccessToken (login_token ''operator'') = token_text [dcr_scope] ''operator''"
    by (simp add: login_token_def)
  moreover have "hc_clock (kept_hc J) v = (1030 * Second, v)" using assms by (simp add: kept_hc_def kept_clock_def)
  ultimately show ?thesis by (auto simp: live_token_def kept_sel)
qed

text \<open>At a later time, with a token that was fetched then.\<close>

definition kept_later :: "instant \<Rightarrow> kept_world fake_state ctrl_state \<Rightarrow> kept_world fake_state ctrl_state" where
  "kept_later t s = s\<lparr>api_st := (api_st s)\<lparr>
     accessToken := \<lparr>current = Some (login_token ''operator''), currentFetchedAt = t, expireAfter = 1 * Minute\<rparr>,
     env := (env (api_st s))\<lparr>fs_world := (fst (fs_world (env (api_st s))), t)\<rparr>\<rparr>\<rparr>"

lemma kept_later:
  assumes "0 < t" shows "later (kept_rc J) req s (kept_later t s)"
proof -
  have "time_Sub t t = 0" by (simp add: time_Sub_def max_duration_def min_duration_def)
  then have "\<not> atom_expired (accessToken (api_st (kept_later t s))) t"
    using assms by (simp add: kept_later_def atom_expired_def time_IsZero_def time_units)
  moreover have "current (accessToken (api_st (kept_later t s))) = Some (login_token ''operator'')"
    by (simp add: kept_later_def)
  moreover have "tr_AccessToken (login_token ''operator'') = token_text [dcr_scope] ''operator''"
    by (simp add: login_token_def)
  moreover have "hc_clock (kept_hc J) (env (api_st (kept_later t s))) = (t, env (api_st (kept_later t s)))"
    by (simp add: kept_hc_def kept_clock_def kept_later_def)
  ultimately have "live_token (kept_hc J) (api_st (kept_later t s))" by (auto simp: live_token_def)
  moreover have "fs_Db (env (api_st (kept_later t s))) = fs_Db (env (api_st s))" by (simp add: kept_later_def)
  moreover have "k8s_ListSecrets (rc_k8s (kept_rc J)) ns l v = (Ok [fst (fs_world v)], v)" for ns l v
    by (simp add: kept_rc_def kept_k8s_def)
  ultimately show ?thesis by (simp add: later_def Let_def kept_sel) (simp add: kept_later_def)
qed

definition twenty_days_on :: instant where
  "twenty_days_on = 1030 * Second + Hour * 24 * 20"

lemma twenty_days_on: "0 < twenty_days_on"
  "twenty_days_on + rotation_window < whole_seconds (1030 * Second + Hour * 24 * 30)"
  by (simp_all add: twenty_days_on_def rotation_window_def whole_seconds_def time_units)

lemma kept_now:
  "fst (kept_clock (env (api_st (kept_start d)))) = 1030 * Second" "fst (kept_clock (env (api_st (kept_later t s)))) = t"
  "snd (kept_clock w) = w" "cs_clock (fixed_crypto kept_clock) = kept_clock"
  by (simp_all add: kept_clock_def kept_start_def kept_later_def fixed_crypto_def)

lemma kept_NewClientState: "NewClientState (mr_Instance kept_request) None None (Some sample_secret) None = Ok kept_new"
  by (simp add: NewClientState_def kept_request_def kept_new_def client_samples index_def)

lemma kept_time: "rfc3339_ok (fst (fw_Now (fl_world (kept_lib J)) w))" and kept_id: "plain_ids [''id-1'']"
  by (simp_all add: kept_lib_def plain_ids_def plain_segment_def digit_of_def is_digit_def two_digits_def
      days_in_month_def fraction_zone_ok_def)

lemma kept_run: "map_of (fs_Db (env (api_st (kept_start d)))) (RunId sample_ctx) = Some d"
  by (simp add: kept_start_def sample_ctx_def)

lemma creation_converges_witness:
  "\<exists>s2 u cs2 api c. reconcile (kept_rc created_jose) kept_new (kept_start NewDb) =
      (Ok (Some [\<lparr>cmd_Data = CreateClientInApiCommand 0, cmd_Callback = Some (SetClientId 0 0)\<rparr>,
          plain_command (UpdateSecretContentCommand 0)], None), s2) \<and>
    u = kept_later twenty_days_on s2 \<and> fetchCurrentState (kept_rc created_jose) kept_request u = (Ok cs2, u) \<and> Api cs2 = Some api \<and> Secret_Content cs2 = Some c \<and>
    as_ClientId api = ''id-1'' \<and> sc_ClientId c = ''id-1'' \<and>
    fst (reconcile_loaded (kept_rc created_jose) kept_request (sample_crd None (Some [''s''])) u) = Ok 0"
proof -
  let ?rc = "kept_rc created_jose" and ?F = "kept_lib created_jose"
  let ?s1 = "kept_start NewDb\<lparr>cheap := \<lparr>api_cells = [\<lparr>as_ClientId = [], as_Req = Some (buildApiReq kept_new sample_ctx),
      as_Jwks = Some \<lparr>Keys = [Some (Jwk created_public_key)]\<rparr>\<rparr>], sec_cells = [content_for [] kept_cfg created_keys]\<rparr>\<rparr>"
  have new: "NewClientState (mr_Instance kept_request) None None (Some (Secret_Manifest kept_new)) None = Ok kept_new"
    using kept_NewClientState by (simp add: kept_new_def sample_state_def)
  have crd: "crd_DeletionTimestamp (Crd kept_new) = None" "crd_Scopes (Crd kept_new) \<noteq> Some []"
      "dcr_scope \<notin> set (slice_list (crd_Scopes (Crd kept_new)))"
    by (simp_all add: kept_new_def client_samples dcr_scope_def slice_list_def)
  have plan: "in_cmds (Reconcile (rc_jose ?rc) kept_new (rt_operatorContext (rc_runtime ?rc)) (rt_config (rc_runtime ?rc))
      (rt_crypto (rc_runtime ?rc)) (rt_clock (rc_runtime ?rc))) (kept_start NewDb) =
    (Ok [\<lparr>cmd_Data = CreateClientInApiCommand 0, cmd_Callback = Some (SetClientId 0 0)\<rparr>,
        plain_command (UpdateSecretContentCommand 0)], ?s1)"
    using fixed_plan [of kept_clock "env (api_st (kept_start NewDb))" kept_new]
    by (simp add: kept_sel in_cmds_def on_part_def kept_clock_def kept_start_def kept_new_def client_samples)
  have enc: "is_Ok (enc_secret_content (fl_jose ?F) (sec_at (cheap ?s1) 0))"
      "is_Ok (enc_jwks_ptr (fl_jose ?F) (as_Jwks (ClientState.api_at (cheap ?s1) 0)))"
    by (simp_all add: kept_sel sec_at_def ClientState.api_at_def enc_secret_content_def content_for_def enc_jwks_ptr_def created_marshal)
  have db: "map_of (fs_Db (env (api_st ?s1))) (RunId (rt_operatorContext (rc_runtime ?rc))) = Some NewDb"
      "db_ok NewDb" "ClientIdIndex NewDb ''id-1'' = None"
    using kept_run [of NewDb] by (simp_all add: kept_sel, simp add: NewDb_def)
  have id: "fw_uuid (fl_world ?F) (fs_world (env (api_st ?s1))) = (Ok ''id-1'', fs_world (env (api_st ?s1)))"
    by (simp add: kept_lib_def ret_def)
  have keep: "keeps_secret (rc_k8s ?rc) kept_request (Secret_Manifest kept_new)"
    using kept_secret by (simp add: kept_new_def client_samples)
  have live: "live_token (rt_maskinportenApiClient (rc_runtime ?rc)) (api_st ?s1)"
      "\<forall>v. fs_world v = snd (fw_Now (fl_world ?F) (fs_world (env (api_st ?s1)))) \<longrightarrow>
        live_token (rt_maskinportenApiClient (rc_runtime ?rc)) ((api_st ?s1)\<lparr>env := v\<rparr>)"
    using kept_live [of "env (api_st (kept_start NewDb))" created_jose NewDb] kept_live [of _ created_jose NewDb]
    by (auto simp: kept_start_def kept_lib_def)
  from creation_converges [OF kept_operator [OF created_jose_laws] keep new crd plan enc db id kept_id kept_time live,
      of "sample_crd None (Some [''s''])"]
  obtain s2 api c where run: "reconcile ?rc kept_new (kept_start NewDb) =
      (Ok (Some [\<lparr>cmd_Data = CreateClientInApiCommand 0, cmd_Callback = Some (SetClientId 0 0)\<rparr>,
          plain_command (UpdateSecretContentCommand 0)], None), s2)" "as_ClientId api = ''id-1''" "sc_ClientId c = ''id-1''"
    and after: "\<forall>u. later ?rc kept_request s2 u \<longrightarrow>
      (\<exists>cs2. fetchCurrentState ?rc kept_request u = (Ok cs2, u) \<and> Api cs2 = Some api \<and> Secret_Content cs2 = Some c) \<and>
      (fst (cs_clock (rt_crypto (rc_runtime ?rc)) (snd (rt_clock (rc_runtime ?rc) (env (api_st u))))) + rotation_window <
         whole_seconds (fst (rt_clock (rc_runtime ?rc) (env (api_st (kept_start NewDb)))) + Hour * 24 * 30) \<longrightarrow>
       fst (reconcile_loaded ?rc kept_request (sample_crd None (Some [''s''])) u) = Ok 0)"
    by blast
  let ?u = "kept_later twenty_days_on s2"
  note at = after [rule_format, OF kept_later [OF twenty_days_on(1)]]
  obtain cs2 where "fetchCurrentState ?rc kept_request ?u = (Ok cs2, ?u)" "Api cs2 = Some api" "Secret_Content cs2 = Some c"
    using at by blast
  moreover have "fst (reconcile_loaded ?rc kept_request (sample_crd None (Some [''s''])) ?u) = Ok 0"
    using at twenty_days_on(2) by (simp add: kept_sel kept_now)
  ultimately show ?thesis using run by blast
qed

text \<open>A client whose only key has a day left.\<close>

definition public_part :: "jwk \<Rightarrow> jose_jwk" where
  "public_part k = (inner k)\<lparr>jose_Key := RsaPublic (PublicKey (sample_private_key 0)), jose_Certificates := []\<rparr>"

definition due_key :: jwk where "due_key = sample_key 0 0 (Hour * 24) 0"

definition next_key :: jwk where "next_key = sample_key 0 (1030 * Second) (1030 * Second + Hour * 24 * 30) 1"

definition due_jose :: jose_lib where
  "due_jose = table_jose [public_part next_key, public_part due_key, inner next_key, inner due_key]"

lemma due_jose_laws: "jose_laws due_jose"
  unfolding due_jose_def by (rule table_jose_laws)

definition due_client :: client_response where
  "due_client = made_client (kept_lib due_jose) (buildApiReq kept_new sample_ctx) ''id-1'' (sample_secret, 1030 * Second)"

lemma due_client_sel: "wire_client due_client" "cr_ClientId due_client = ''id-1''" "cr_Scopes due_client = Some [''s'']"
  "cr_ClientName due_client = Some (getClientNamePrefix sample_ctx @ ''app'')"
  unfolding due_client_def made_client_simps
  by (rule made_client_wire [OF kept_time]) (simp_all add: buildApiReq_def GetClientName_def kept_new_def client_samples)

definition due_content :: secret_content where
  "due_content = content_for ''id-1'' kept_cfg \<lparr>Keys = [Some due_key]\<rparr>"

definition due_state :: client_state where
  "due_state = kept_new\<lparr>Api := Some \<lparr>as_ClientId = cr_ClientId due_client,
     as_Req = Some (mapClientResponseToAddRequest due_client), as_Jwks = Some \<lparr>Keys = [Some (Jwk (public_part due_key))]\<rparr>\<rparr>,
     Secret_Content := Some due_content, Secret_Manifest := sample_secret\<rparr>"

lemma public_half_sample: "jose_laws J \<Longrightarrow> public_half J (sample_key 0 t0 t1 i) = Jwk (public_part (sample_key 0 t0 t1 i))"
  by (subst jwk.expand [of "public_half J (sample_key 0 t0 t1 i)" "Jwk (public_part (sample_key 0 t0 t1 i))"])
    (simp_all add: public_half_private [of _ _ "sample_private_key 0"] public_part_def sample_key_def)

lemma due_public:
  "ToPublic due_jose (Some \<lparr>Keys = [Some next_key, Some due_key]\<rparr>) =
     Ok \<lparr>Keys = [Some (Jwk (public_part next_key)), Some (Jwk (public_part due_key))]\<rparr>"
proof -
  have "ToPublic due_jose (Some \<lparr>Keys = [Some next_key, Some due_key]\<rparr>) =
      Ok \<lparr>Keys = map (\<lambda>k. Some (public_half due_jose k)) [next_key, due_key]\<rparr>"
    by (rule ToPublic_private_keys [OF due_jose_laws]) (simp_all add: next_key_def due_key_def in_int64_def)
  then show ?thesis by (simp add: next_key_def due_key_def public_half_sample [OF due_jose_laws])
qed

lemma due_good: "good_jwks \<lparr>Keys = [Some due_key]\<rparr>" "current_key \<lparr>Keys = [Some due_key]\<rparr> = due_key"
  by (auto simp: good_jwks_def current_key_def due_key_def in_int64_def intro!: exI [of _ "[due_key]"])

lemma due_expiry: "cert_expiry due_key = Hour * 24"
  by (simp add: due_key_def in_int64_def whole_seconds_def time_units)

lemma due_plan:
  fixes clock :: "'w clock"
  assumes "clock w = (1030 * Second, w)"
  shows "Reconcile due_jose due_state sample_ctx kept_cfg (fixed_crypto clock) clock (w, empty_heap) =
   (Ok [plain_command (UpdateSecretContentCommand 0), plain_command (UpdateClientInApiCommand 0)], w,
    \<lparr>api_cells = [\<lparr>as_ClientId = ''id-1'', as_Req = None,
        as_Jwks = Some \<lparr>Keys = [Some (Jwk (public_part next_key)), Some (Jwk (public_part due_key))]\<rparr>\<rparr>],
     sec_cells = [content_for ''id-1'' kept_cfg \<lparr>Keys = [Some next_key, Some due_key]\<rparr>]\<rparr>)"
proof -
  have index: "atoi (last (split_on CHR ''.'' (jose_KeyID (inner due_key)))) = Some 0"
    using sample_key_index [of 0 0 0 "Hour * 24"] by (simp add: key_index_def in_int64_def due_key_def)
  have "createCert (fixed_crypto clock) ''app'' (1030 * Second + Hour * 24 * 30) w =
      (Ok (sample_cert 0 (1030 * Second) (1030 * Second + Hour * 24 * 30), sample_private_key 0), w)"
    by (rule fixed_createCert) (simp_all add: assms time_units)
  then have "rotate_from (fixed_crypto clock) ''app'' (1030 * Second + Hour * 24 * 30) due_key w =
      (Ok (Some \<lparr>Keys = [Some next_key, Some due_key]\<rparr>), w)"
    by (simp add: rotate_from_def wrapping_def bind_def index fixed_createJWKS next_key_def ret_def wrap64_def)
  then have "RotateIfNeeded (fixed_crypto clock) ''app'' (1030 * Second + Hour * 24 * 30) (Some \<lparr>Keys = [Some due_key]\<rparr>) w =
      (Ok (Some \<lparr>Keys = [Some next_key, Some due_key]\<rparr>), w)"
    by (simp add: good_RotateIfNeeded [OF due_good(1)] due_good(2) due_expiry fixed_crypto_def assms rotation_window_def time_units)
  moreover have "AppId due_state = ''app''" by (simp add: due_state_def kept_new_def sample_state_def)
  moreover have "Reconcile due_jose due_state ctx cfg crypto clock v = reconcile_update due_jose due_state
      \<lparr>as_ClientId = cr_ClientId due_client, as_Req = Some (mapClientResponseToAddRequest due_client),
       as_Jwks = Some \<lparr>Keys = [Some (Jwk (public_part due_key))]\<rparr>\<rparr> due_content ctx cfg crypto clock v"
    for ctx cfg and crypto :: "'w crypto_service" and clock v
    by (subst Reconcile_update_eq) (simp_all add: due_state_def kept_new_def client_samples)
  moreover have "crd_Scopes (Crd due_state) = Some [''s'']" by (simp add: due_state_def kept_new_def client_samples)
  ultimately show ?thesis
    using due_public due_client_sel(2,3)
    by (simp add: reconcile_update_def getNotAfter_def in_world_apply
        update_secret_cmds_def upload_jwks_cmds_def update_scopes_cmds_def mapClientResponseToAddRequest_def
        bind_def ret_def empty_heap_def content_for_def Let_def due_content_def assms)
qed

definition due_db :: db where
  "due_db = add_record \<lparr>rec_ClientId = cr_ClientId due_client, rec_Client = due_client,
     rec_Jwks = Some \<lparr>Keys = [Some (Jwk (public_part due_key))]\<rparr>\<rparr> NewDb"

lemma due_db_ok: "db_ok due_db"
  "db_find (cr_ClientId due_client) due_db = Some \<lparr>rec_ClientId = cr_ClientId due_client, rec_Client = due_client,
     rec_Jwks = Some \<lparr>Keys = [Some (Jwk (public_part due_key))]\<rparr>\<rparr>"
  by (simp_all add: due_db_def db_ok_add db_find_add)

lemma due_marshal:
  "is_Ok (enc_jwks due_jose \<lparr>Keys = [Some next_key, Some due_key]\<rparr>)" "is_Ok (enc_jwk_ptr due_jose (Some next_key))"
  "is_Ok (enc_jwks due_jose \<lparr>Keys = [Some (Jwk (public_part next_key)), Some (Jwk (public_part due_key))]\<rparr>)"
  by (simp_all add: enc_jwks_def enc_jwk_ptr_def Jwk_MarshalJSON_def due_jose_def table_jose_def)

text \<open>The first call plans the rotation; what it needs of the operator, the fakes and the cluster.\<close>

definition due_planned :: "kept_world fake_state ctrl_state" where
  "due_planned = kept_start due_db\<lparr>cheap := \<lparr>api_cells = [\<lparr>as_ClientId = ''id-1'', as_Req = None,
      as_Jwks = Some \<lparr>Keys = [Some (Jwk (public_part next_key)), Some (Jwk (public_part due_key))]\<rparr>\<rparr>],
    sec_cells = [content_for ''id-1'' kept_cfg \<lparr>Keys = [Some next_key, Some due_key]\<rparr>]\<rparr>\<rparr>"

lemma due_state_parts: "Secret_Manifest due_state = sample_secret" "crd_DeletionTimestamp (Crd due_state) = None"
  "crd_Scopes (Crd due_state) = cr_Scopes due_client" "sc_Jwks due_content = Some \<lparr>Keys = [Some due_key]\<rparr>"
  by (simp_all add: due_state_def due_content_def content_for_def due_client_sel kept_new_def client_samples)

lemma due_keeps: "keeps_secret (rc_k8s (kept_rc J)) req (Secret_Manifest due_state)"
  unfolding due_state_parts(1) by (rule kept_secret)

lemma due_new: "NewClientState (mr_Instance kept_request) (Some due_client) (Some \<lparr>Keys = [Some (Jwk (public_part due_key))]\<rparr>)
    (Some (Secret_Manifest due_state)) (Some due_content) = Ok due_state"
  unfolding due_state_parts(1) unfolding due_state_def
  by (rule NewClientState_again [OF kept_NewClientState]) (simp add: due_client_sel)

lemma due_now:
  fixes J defines "rt \<equiv> rc_runtime (kept_rc J)"
  shows "cert_expiry (current_key \<lparr>Keys = [Some due_key]\<rparr>) \<le>
      fst (cs_clock (rt_crypto rt) (snd (rt_clock rt (env (api_st (kept_start d)))))) + rotation_window"
    and "fst (cs_clock (rt_crypto rt) (snd (rt_clock rt (env (api_st (kept_start d)))))) + rotation_window \<le>
      whole_seconds (fst (rt_clock rt (env (api_st (kept_start d)))) + Hour * 24 * 30)"
  by (simp_all add: rt_def kept_sel kept_now due_good(2) due_expiry rotation_window_def whole_seconds_def time_units)

lemma due_planning:
  "in_cmds (Reconcile (rc_jose (kept_rc due_jose)) due_state (rt_operatorContext (rc_runtime (kept_rc due_jose)))
      (rt_config (rc_runtime (kept_rc due_jose))) (rt_crypto (rc_runtime (kept_rc due_jose))) (rt_clock (rc_runtime (kept_rc due_jose))))
    (kept_start due_db) =
   (Ok [plain_command (UpdateSecretContentCommand 0), plain_command (UpdateClientInApiCommand 0)], due_planned)"
  by (simp add: kept_sel in_cmds_def on_part_def due_plan kept_clock_def kept_start_def due_planned_def)

lemma due_enc:
  "is_Ok (enc_secret_content (fl_jose (kept_lib due_jose)) (sec_at (cheap due_planned) 0))"
  "is_Ok (enc_jwks_ptr (fl_jose (kept_lib due_jose)) (as_Jwks (ClientState.api_at (cheap due_planned) 0)))"
  using due_marshal by (auto simp: kept_sel sec_at_def ClientState.api_at_def enc_secret_content_def content_for_def
    enc_jwks_ptr_def due_planned_def elim!: is_Ok.elims)

lemma due_run: "map_of (fs_Db (env (api_st due_planned))) (RunId (rt_operatorContext (rc_runtime (kept_rc J)))) = Some due_db"
  using kept_run [of due_db] by (simp add: kept_sel due_planned_def)

lemma due_wire: "wire_client due_client" "plain_ids [cr_ClientId due_client]"
  "cr_ClientName due_client = Some (getClientNamePrefix (rt_operatorContext (rc_runtime (kept_rc J))) @ ''app'')"
  using due_client_sel kept_id by (simp_all add: kept_sel)

lemma due_live: "\<forall>x. live_token (rt_maskinportenApiClient (rc_runtime (kept_rc due_jose)))
    ((api_st due_planned)\<lparr>env := snd (k8s_UpdateSecret (rc_k8s (kept_rc due_jose)) x (env (api_st due_planned)))\<rparr>)"
  using kept_live [of _ due_jose due_db] by (auto simp: kept_start_def kept_rc_def kept_k8s_def due_planned_def)

lemma rotation_reaches_api_witness:
  "\<exists>s2 u cs2 api c2 ks2. reconcile (kept_rc due_jose) due_state (kept_start due_db) =
      (Ok (Some [plain_command (UpdateSecretContentCommand 0), plain_command (UpdateClientInApiCommand 0)], None), s2) \<and>
    u = kept_later twenty_days_on s2 \<and> fetchCurrentState (kept_rc due_jose) kept_request u = (Ok cs2, u) \<and> Api cs2 = Some api \<and> Secret_Content cs2 = Some c2 \<and>
    sc_Jwks c2 = Some ks2 \<and> last (Keys ks2) = Some due_key \<and> length (Keys (the (as_Jwks api))) = 2 \<and>
    fst (reconcile_loaded (kept_rc due_jose) kept_request (sample_crd None (Some [''s''])) u) = Ok 0"
proof -
  let ?rc = "kept_rc due_jose" and ?F = "kept_lib due_jose"
  from rotation_reaches_api [OF kept_operator [OF due_jose_laws] due_keeps due_new due_state_parts(2-4) due_good(1) due_now due_planning
        due_enc due_run due_db_ok due_wire(1,3,2) due_live, of "sample_crd None (Some [''s''])"]
  obtain s2 api c2 ks2 n where run: "reconcile ?rc due_state (kept_start due_db) =
      (Ok (Some [plain_command (UpdateSecretContentCommand 0), plain_command (UpdateClientInApiCommand 0)], None), s2)"
    and keys: "sc_Jwks c2 = Some ks2" "Keys ks2 = [Some n, Some (current_key \<lparr>Keys = [Some due_key]\<rparr>)]"
    "as_Jwks api = Some \<lparr>Keys = [Some (public_half (fl_jose ?F) n), Some (public_half (fl_jose ?F) (current_key \<lparr>Keys = [Some due_key]\<rparr>))]\<rparr>"
    and n: "cert_expiry n = whole_seconds (fst (rt_clock (rc_runtime ?rc) (env (api_st (kept_start due_db)))) + Hour * 24 * 30)"
    and after: "\<forall>u. later ?rc kept_request s2 u \<longrightarrow>
      (\<exists>cs2. fetchCurrentState ?rc kept_request u = (Ok cs2, u) \<and> Api cs2 = Some api \<and> Secret_Content cs2 = Some c2) \<and>
      (fst (cs_clock (rt_crypto (rc_runtime ?rc)) (snd (rt_clock (rc_runtime ?rc) (env (api_st u))))) + rotation_window < cert_expiry n \<longrightarrow>
       fst (reconcile_loaded ?rc kept_request (sample_crd None (Some [''s''])) u) = Ok 0)"
    by blast
  let ?u = "kept_later twenty_days_on s2"
  note at = after [rule_format, OF kept_later [OF twenty_days_on(1)]]
  obtain cs2 where "fetchCurrentState ?rc kept_request ?u = (Ok cs2, ?u)" "Api cs2 = Some api" "Secret_Content cs2 = Some c2"
    using at by blast
  moreover have "fst (reconcile_loaded ?rc kept_request (sample_crd None (Some [''s''])) ?u) = Ok 0"
    using at twenty_days_on(2) by (simp add: kept_sel kept_now n)
  moreover have "last (Keys ks2) = Some due_key" "length (Keys (the (as_Jwks api))) = 2" using keys by (simp_all add: due_good(2))
  ultimately show ?thesis using run keys(1) by blast
qed

end
