(* ===== verification/SecrecyProperties.thy ===== *)
theory SecrecyProperties
  imports FakesSecrecy FakesReconcileProperties
begin

text \<open>
  No private key leaves the operator: not in any request, and so not into the database of the fake
  API, however many calls the controller gets and whatever happens in between.
\<close>


section \<open>A network that writes down what is sent\<close>

definition logging :: "'w net_lib \<Rightarrow> ('w \<times> http_request list) net_lib" where
  "logging N = \<lparr>url_Parse = url_Parse N,
     http_Do = (\<lambda>req (w, sent). case http_Do N req w of (r, w1) \<Rightarrow> (r, (w1, req # sent))),
     backoff_NextBackOff = (\<lambda>b ps (w, sent). case backoff_NextBackOff N b ps w of (p, w1) \<Rightarrow> (p, (w1, sent))),
     backoff_sleep = (\<lambda>p (w, sent). (backoff_sleep N p w, sent))\<rparr>"

lemma logging_discreet:
  "discreet_net J (\<lambda>w. \<forall>req\<in>set (snd w). req \<in> old \<or> discreet J req) (logging N)"
  by (auto simp: discreet_net_def logging_def split: prod.splits)

text \<open>
  C4: Every request that the operator sends, over any number of calls for any resources, with any
  answers of the network and the cluster, and with anything that happens in between, is free of
  private keys: if its body reads as a key set at all, none of its keys is a private RSA key.
\<close>

theorem no_private_key_sent:
  fixes r :: "('w \<times> http_request list) reconciler"
  defines "c \<equiv> rt_maskinportenApiClient (rc_runtime r)"
  assumes "jose_laws (hc_jose c)" and "hc_net c = logging N" and "quiet_world snd r"
    and "\<forall>w w'. others w w' \<longrightarrow> snd w' = snd w" and "(operator_step r others)\<^sup>*\<^sup>* s s'"
  shows "\<forall>req\<in>set (snd (env (api_st s'))). req \<in> set (snd (env (api_st s))) \<or> discreet (hc_jose c) req"
proof -
  let ?P = "\<lambda>sent. \<forall>req\<in>set sent. req \<in> set (snd (env (api_st s))) \<or> discreet (hc_jose c) req"
  have "keeps_world (\<lambda>w. ?P (snd w)) r"
    using assms(2,3,4) logging_discreet unfolding c_def by (intro quiet_world_keeps) (simp_all only:)
  moreover have "others w w' \<Longrightarrow> ?P (snd w) \<Longrightarrow> ?P (snd w')" for w w' using assms(5) by metis
  ultimately have "at_ctrl (\<lambda>w. ?P (snd w)) s'"
    using assms(6) by (rule operator_steps_preserve) (auto simp: at_ctrl_def at_client_def)
  then show ?thesis by (simp add: at_ctrl_def at_client_def)
qed


text \<open>The local operator of \<open>FakesReconcileProperties\<close>, with a log beside its world.\<close>

definition beside :: "('w, 'a) prog \<Rightarrow> ('w \<times> 'l, 'a) prog" where
  "beside = on_part fst (\<lambda>w s. (w, snd s))"

definition still_clock :: "'w clock" where
  "still_clock w = (1030 * Second, w)"

definition logged_rc :: "jose_lib \<Rightarrow> (kept_world fake_state \<times> http_request list) reconciler" where
  "logged_rc J = (let K = rc_k8s (kept_rc J); hc = kept_hc J in \<lparr>
     rc_runtime = \<lparr>rt_config = kept_cfg, rt_operatorContext = sample_ctx, rt_crypto = fixed_crypto still_clock,
       rt_maskinportenApiClient = \<lparr>hc_config = hc_config hc, hc_context = hc_context hc, hc_jwk = hc_jwk hc,
         hc_clock = still_clock, hc_clientNamePrefix = hc_clientNamePrefix hc, hc_jose = J, hc_jwt = no_jwt,
         hc_net = logging (hc_net hc)\<rparr>,
       rt_clock = still_clock\<rparr>,
     rc_jose = J,
     rc_k8s = \<lparr>k8s_Get = (\<lambda>ns n. beside (k8s_Get K ns n)), k8s_ListSecrets = (\<lambda>ns l. beside (k8s_ListSecrets K ns l)),
       k8s_UpdateSecret = (\<lambda>x. beside (k8s_UpdateSecret K x)), k8s_Update = (\<lambda>x. beside (k8s_Update K x)),
       k8s_StatusUpdate = (\<lambda>x. beside (k8s_StatusUpdate K x)), k8s_IsNotFound = k8s_IsNotFound K,
       fin_Contains = fin_Contains K, fin_Add = fin_Add K, fin_Remove = fin_Remove K,
       metav1_Now = still_clock, rand_Int64N = (\<lambda>n w. (0, w))\<rparr>\<rparr>)"

lemma keeps_beside: "keeps snd (beside m)"
  by (auto simp: keeps_def beside_def on_part_def split: prod.splits)

lemma keeps_fixed:
  "f (snd (cs_clock (fixed_crypto still_clock) w)) = f w" "snd (cs_clock (fixed_crypto kept_clock) v) = v" "keeps f (rsa_GenerateKey (cs_random (fixed_crypto clock)) n)"
  "keeps f (random_ReadFull (cs_random (fixed_crypto clock)) m)" "keeps f (uuid_NewRandomFromReader (cs_random (fixed_crypto clock)))"
  "keeps f (x509_sign (cs_random (fixed_crypto clock)) crt k)" "keeps f (uuid_New no_jwt)"
  by (simp_all add: fixed_crypto_def still_clock_def kept_clock_def no_jwt_def one_token_jwt_def keeps_ret)

lemma logged_quiet: "quiet_world snd (logged_rc J)"
  by (simp add: quiet_world_def logged_rc_def Let_def keeps_beside keeps_fixed) (simp add: still_clock_def)

lemma no_private_key_sent_witness:
  "\<forall>ns name wk tok w. list_all (discreet due_jose) (snd (env (api_st (snd (Controller_Reconcile (logged_rc due_jose) ns name
     \<lparr>api_st = \<lparr>wellKnown = wk, accessToken = tok, env = (w, [])\<rparr>, cheap = empty_heap\<rparr>)))))"
proof (intro allI)
  fix ns name wk tok and w :: "kept_world fake_state"
  let ?r = "logged_rc due_jose" and ?s = "\<lparr>api_st = \<lparr>wellKnown = wk, accessToken = tok, env = (w, [])\<rparr>, cheap = empty_heap\<rparr>"
  let ?c = "rt_maskinportenApiClient (rc_runtime ?r)"
  obtain x s' where run: "Controller_Reconcile ?r ns name ?s = (x, s')" by fastforce
  then have steps: "(operator_step ?r (\<lambda>w w'. w' = w))\<^sup>*\<^sup>* ?s s'" by (blast intro: operator_step.call)
  have jose: "hc_jose ?c = due_jose" and net: "hc_net ?c = logging (hc_net (kept_hc due_jose))"
    by (simp_all add: logged_rc_def Let_def)
  have laws: "jose_laws (hc_jose ?c)" unfolding jose by (rule due_jose_laws)
  from no_private_key_sent [OF laws net logged_quiet _ steps]
  show "list_all (discreet due_jose) (snd (env (api_st (snd (Controller_Reconcile ?r ns name ?s)))))"
    by (simp add: run jose list_all_iff)
qed



section \<open>The keys of the fake API\<close>

text \<open>
  C11: As long as no one else sends private keys to the fake API, it stores none: from databases without
  private keys, any number of calls of operators that reach the fakes, for any resources and runs,
  lead to databases without private keys, whatever other requests come in between.
\<close>

theorem fake_keys_stay_public:
  fixes r :: "'w fake_state reconciler"
  defines "c \<equiv> rt_maskinportenApiClient (rc_runtime r)"
  assumes "jose_laws (fl_jose F)" and "hc_jose c = fl_jose F" and "hc_net c = fakes_net F n" and "quiet_world fs_Db r"
    and "\<forall>w w'. others w w' \<longrightarrow> fs_Db w' = fs_Db w \<or> (\<exists>a req q. discreet (fl_jose F) req \<and> serve F a req w = (q, w'))"
    and "(operator_step r others)\<^sup>*\<^sup>* s s'" and "public_dbs (fs_Db (env (api_st s)))"
  shows "\<forall>(run, d)\<in>set (fs_Db (env (api_st s'))). \<forall>rec\<in>set (Clients d). \<forall>ks key.
    rec_Jwks rec = Some ks \<longrightarrow> Some key \<in> set (Keys ks) \<longrightarrow> \<not> private_rsa_key key"
proof -
  have "keeps_world (\<lambda>w. public_dbs (fs_Db w)) r"
    using assms(2-5) fakes_net_discreet [OF assms(2)] unfolding c_def by (intro quiet_world_keeps) simp_all
  moreover have "public_dbs (fs_Db w')" if "others w w'" "public_dbs (fs_Db w)" for w w'
    using assms(6) that preservesD [OF serve_public [OF assms(2)]] by (metis at_state_def)
  ultimately have "at_ctrl (\<lambda>w. public_dbs (fs_Db w)) s'"
    using assms(7) by (rule operator_steps_preserve) (auto simp: at_ctrl_def at_client_def assms(8))
  then show ?thesis
    by (auto simp: at_ctrl_def at_client_def public_dbs_def public_db_def public_record_def no_private_keys_def)
qed

lemma kept_quiet_world: "quiet_world fs_Db (kept_rc J)"
  by (simp add: quiet_world_def kept_sel Let_def keeps_fixed)
    (simp add: kept_rc_def kept_k8s_def kept_hc_def kept_clock_def keeps_def ret_def no_jwt_def one_token_jwt_def)

lemma due_public_dbs: "public_dbs [(''run-1'', due_db)]"
  by (simp add: public_dbs_def public_db_def public_record_def due_db_def add_record_def NewDb_def no_private_keys_def
      private_rsa_key_def public_part_def)

lemma fake_keys_stay_public_witness:
  "\<forall>ns name. public_dbs (fs_Db (env (api_st (snd (Controller_Reconcile (kept_rc due_jose) ns name (kept_start due_db))))))"
proof (intro allI)
  fix ns name
  obtain x s' where run: "Controller_Reconcile (kept_rc due_jose) ns name (kept_start due_db) = (x, s')" by fastforce
  then have steps: "(operator_step (kept_rc due_jose) (\<lambda>w w'. fs_Db w' = fs_Db w))\<^sup>*\<^sup>* (kept_start due_db) s'"
    by (blast intro: operator_step.call)
  have start: "public_dbs (fs_Db (env (api_st (kept_start due_db))))" using due_public_dbs by (simp add: kept_start_def)
  have lib: "jose_laws (fl_jose (kept_lib due_jose))" "hc_jose (rt_maskinportenApiClient (rc_runtime (kept_rc due_jose))) = fl_jose (kept_lib due_jose)"
    "hc_net (rt_maskinportenApiClient (rc_runtime (kept_rc due_jose))) = fakes_net (kept_lib due_jose) 3"
    by (simp_all add: kept_sel due_jose_laws) (simp_all add: kept_hc_def)
  from fake_keys_stay_public [OF lib kept_quiet_world _ steps start]
  show "public_dbs (fs_Db (env (api_st (snd (Controller_Reconcile (kept_rc due_jose) ns name (kept_start due_db))))))"
    by (simp add: run public_dbs_def public_db_def public_record_def no_private_keys_def)
qed

end
