(* ===== verification/FakesRestore.thy ===== *)
theory FakesRestore
  imports FakesReconcile
begin

text \<open>
  Deletion and return on the fakes: a deletion empties the secret and leaves the client where it is, so
  that the next resource of the same app finds it by its name, in the list of all clients, and is
  given new keys.
\<close>


section \<open>The list of all clients\<close>

lemma serve_list_clients:
  assumes "asks req ''GET'' [] k" and "map_of (fs_Db s) k = Some d" and "enc_clients (fl_jose F) (Clients d) = Ok j"
  shows "serve F SelfServiceApi req s = (Ok (json_response 200 j), s)"
proof -
  have get: "rq_Method req = ''GET''" using assms(1) by (simp add: asks_def)
  have route: "route F SelfServiceApi req = handleClients F req"
    using asks_route [OF assms(1), of F] by simp
  have all: "with_db F req (on_db (\<lambda>d. (Ok (Clients d), d))) \<lparr>hs_state = s, hs_writer = w\<rparr> =
      (Ok (Clients d), \<lparr>hs_state = s, hs_writer = w\<rparr>)" for w
    using asks_read_db [OF assms(1,2), of F "\<lambda>d. Ok (Clients d)"] by (simp add: read_db_def)
  show ?thesis
    by (simp add: serve_def route handleClients_def get asks_authorized [OF assms(1)] bind_def all Encode_def assms(3)
        writer_defs Let_def)
qed

lemma enc_clients_wire:
  assumes "\<forall>r\<in>set rs. wire_client (rec_Client r)"
  obtains js where "enc_clients J rs = Ok (JArr js)" and "json_ok (JArr js)"
    and "those (map (dec_client_response J zero_client_response) js) = Some (map rec_Client rs)"
proof -
  have "\<exists>js. omapM (\<lambda>r. enc_client_response J (rec_Client r)) rs = Ok js \<and> list_all json_ok js \<and>
      those (map (dec_client_response J zero_client_response) js) = Some (map rec_Client rs)"
    using assms
  proof (induction rs)
    case (Cons r rs)
    then obtain js where "omapM (\<lambda>r. enc_client_response J (rec_Client r)) rs = Ok js" "list_all json_ok js"
        "those (map (dec_client_response J zero_client_response) js) = Some (map rec_Client rs)" by auto
    moreover obtain j where "enc_client_response J (rec_Client r) = Ok j" "json_ok j"
        "dec_client_response J zero_client_response j = Some (rec_Client r)"
      using Cons.prems wire_client_encodes [of "rec_Client r" J zero_client_response] by auto
    ultimately show ?case by simp
  qed simp
  with that show ?thesis by (auto simp: enc_clients_def)
qed

lemma GetAllClients_local:
  assumes "local_client F c" and "live_token c s"
    and "map_of (fs_Db (env s)) (RunId (hc_context c)) = Some d" and "\<forall>r\<in>set (Clients d). wire_client (rec_Client r)"
  shows "GetAllClients c s = (Ok (own_clients (hc_clientNamePrefix c) (map rec_Client (Clients d))), s)"
proof -
  have jose: "hc_jose c = fl_jose F" using assms(1) unfolding local_client_def by blast
  obtain js where js: "enc_clients (fl_jose F) (Clients d) = Ok (JArr js)" "json_ok (JArr js)"
      "those (map (dec_client_response (fl_jose F) zero_client_response) js) = Some (map rec_Client (Clients d))"
    using assms(4) by (rule enc_clients_wire)
  obtain n u req where "hc_net c = fakes_net F n" and u: "self_service_url c [] = Ok u"
      and req: "createReq c u ''GET'' None s = (Ok req, s)"
      and asks: "asks (sent_request c (accept_json req)) ''GET'' [] (RunId (hc_context c))"
      and "rq_Body req = None" "api_at (u_Origin (rq_URL req)) = Some SelfServiceApi"
    by (rule local_request [OF assms(1,2), of "[]" "''GET''" None]) simp_all
  then have "retryableHTTPDo c (accept_json req) s = (Ok (json_response 200 (JArr js)), s\<lparr>env := env s\<rparr>)"
    using serve_list_clients [OF asks assms(3) js(1)] by (intro fakes_send) (simp_all add: json_response_status)
  then have get: "retryableHTTPDo c (accept_json req) s = (Ok (json_response 200 (JArr js)), s)" by simp
  have "dec_slice (dec_client_response (fl_jose F)) zero_client_response None (JArr js) = Some (Some (map rec_Client (Clients d)))"
    using js(3) by (simp add: dec_slice_def)
  then show ?thesis
    using u req get js(2)
    by (simp add: GetAllClients_def bind_def expect_status_def json_response_status ret_def jose
        deserialize_json_response [of "JArr js" "dec_slice (dec_client_response (fl_jose F)) zero_client_response" None])
qed

lemma find_client_SomeD:
  assumes "find_client name cls = Some cl"
  shows "cr_ClientName cl = Some name" and "cl \<in> set cls"
  using assms by (induction name cls rule: find_client.induct) (auto split: if_splits)

lemma find_own_client:
  assumes "has_prefix prefix name" and "prefix \<noteq> []"
  shows "find_client name (own_clients prefix cls) = find_client name cls"
  using assms by (induction prefix cls rule: own_clients.induct) (auto simp: TrimPrefix_eq_self_iff split: option.split)


section \<open>The state that a call fetches without contents in the secret\<close>

lemma fetch_by_name_local:
  assumes op: "local_operator F r" and live: "live_token (rt_maskinportenApiClient (rc_runtime r)) (api_st s)"
    and list: "k8s_ListSecrets (rc_k8s r) (mr_Namespace req) (mr_AppLabel req) (env (api_st s)) = (Ok [secret], env (api_st s))"
    and secret: "sec_Type secret = SecretTypeOpaque" "get_content (fl_jose F) secret = Ok None"
    and db: "map_of (fs_Db (env (api_st s))) (RunId (rt_operatorContext (rc_runtime r))) = Some d" "db_ok d"
      "\<forall>r\<in>set (Clients d). wire_client (rec_Client r)"
    and named: "find_client (GetClientName (rt_operatorContext (rc_runtime r)) (mr_AppId req)) (map rec_Client (Clients d)) = Some cl"
    and found: "db_find (cr_ClientId cl) d = Some \<lparr>rec_ClientId = cr_ClientId cl, rec_Client = cl, rec_Jwks = Some pub\<rparr>"
    and enc: "enc_jwks (fl_jose F) pub = Ok kj" and i: "plain_ids [cr_ClientId cl]"
    and new: "NewClientState (mr_Instance req) (Some cl) (Some pub) (Some secret) None = Ok cs"
  shows "fetchCurrentState r req s = (Ok cs, s)"
proof -
  let ?ctx = "rt_operatorContext (rc_runtime r)" and ?c = "rt_maskinportenApiClient (rc_runtime r)"
  let ?name = "GetClientName ?ctx (mr_AppId req)"
  have c: "local_client F ?c" "hc_context ?c = ?ctx" "jose_laws (fl_jose F)" "rc_jose r = fl_jose F"
      "hc_clientNamePrefix ?c = getClientNamePrefix ?ctx"
    using op by (simp_all add: local_operator_def Let_def)
  have prefix: "has_prefix (getClientNamePrefix ?ctx) ?name" "getClientNamePrefix ?ctx \<noteq> []"
    by (simp_all add: GetClientName_def)
  obtain j where j: "enc_client_response (fl_jose F) cl = Ok j" "json_ok j"
      "dec_client_response (fl_jose F) zero_client_response j = Some cl"
    using find_client_SomeD(2) [OF named] db(3) by (auto elim: wire_client_encodes)
  have "GetClient ?c (cr_ClientId cl) (api_st s) = (Ok (cl, pub), api_st s)"
    by (rule GetClient_local [OF c(1) live i c(3) _ db(2) found j find_client_SomeD(1) [OF named] _ _ enc]) (simp_all add: db(1) c(2,5) prefix)
  moreover have "GetAllClients ?c (api_st s) =
      (Ok (own_clients (getClientNamePrefix ?ctx) (map rec_Client (Clients d))), api_st s)"
    using GetAllClients_local [OF c(1) live _ db(3)] db(1) c(2,5) by simp
  ultimately have "fetch_client r req None s = (Ok (Some (cl, pub)), s)"
    using named by (simp add: fetch_client_def Let_def bind_def ret_def find_own_client [OF prefix])
  moreover have "find_secret [secret] = Ok (Some secret)" using secret(1) by (simp add: find_secret_def)
  moreover have "DeserializeSecretStateContent (rc_jose r) (Some secret) = Ok None"
    using secret(2) by (simp add: get_content_def c(4))
  ultimately show ?thesis
    using list new by (simp add: fetchCurrentState_def bind_def lift_def)
qed



section \<open>Deletion\<close>

lemma serve_delete:
  assumes "asks req ''DELETE'' [i] k" and "plain_ids [i]"
  shows "serve F SelfServiceApi req s =
    (Ok \<lparr>rs_StatusCode = 200, rs_Status = itoa 200 @ '' '' @ status_text 200, rs_Body = [], rs_ReadErr = None\<rparr>, s)"
proof -
  have "rq_Method req = ''DELETE''" using assms(1) by (simp add: asks_def)
  then show ?thesis
    by (simp add: serve_def asks_client_route [OF assms] handleClientByID_def asks_authorized [OF assms(1)] writer_defs Let_def)
qed

lemma DeleteClient_local:
  assumes "local_client F c" and "live_token c s" and "plain_ids [i]"
  shows "DeleteClient c i s = (Ok (), s)"
proof -
  obtain n u req where "hc_net c = fakes_net F n" and u: "self_service_url c [i] = Ok u"
      and req: "createReq c u ''DELETE'' None s = (Ok req, s)"
      and asks: "asks (sent_request c req) ''DELETE'' [i] (RunId (hc_context c))"
      and "rq_Body req = None" "api_at (u_Origin (rq_URL req)) = Some SelfServiceApi"
    by (rule local_request [OF assms, of "''DELETE''" None])
  then have "retryableHTTPDo c req s =
      (Ok \<lparr>rs_StatusCode = 200, rs_Status = itoa 200 @ '' '' @ status_text 200, rs_Body = [], rs_ReadErr = None\<rparr>, s\<lparr>env := env s\<rparr>)"
    using serve_delete [OF asks assms(3)] by (intro fakes_send) simp_all
  then show ?thesis using u req by (simp add: DeleteClient_def bind_def expect_status_def)
qed

text \<open>A cluster that keeps a secret keeps it emptied too.\<close>

lemma keeps_secret_emptied:
  "keeps_secret K req secret \<Longrightarrow> keeps_secret K req (DeleteSecretStateContent secret)"
  "keeps_secret K req secret \<Longrightarrow> sec_Type (DeleteSecretStateContent secret) = SecretTypeOpaque"
  by (simp_all add: keeps_secret_def DeleteSecretStateContent_def)

text \<open>A deletion leaves the database alone, and an empty secret in the cluster.\<close>

lemma deletion_local:
  assumes op: "local_operator F r" and keep: "keeps_secret (rc_k8s r) req (Secret_Manifest cs)"
    and live: "live_token (rt_maskinportenApiClient (rc_runtime r)) ((api_st s)\<lparr>env :=
      snd (k8s_UpdateSecret (rc_k8s r) (DeleteSecretStateContent (Secret_Manifest cs)) (env (api_st s)))\<rparr>)"
    and cs: "crd_DeletionTimestamp (Crd cs) \<noteq> None" "Api cs = Some api" "Secret_Content cs = Some c" "plain_ids [as_ClientId api]"
  obtains w where "reconcile r cs s = (Ok (Some (reconcile_delete cs), None), s\<lparr>api_st := (api_st s)\<lparr>env := w\<rparr>, cheap := empty_heap\<rparr>)"
    and "fs_Db w = fs_Db (env (api_st s))"
    and "\<And>v. fs_world v = fs_world w \<Longrightarrow> k8s_ListSecrets (rc_k8s r) (mr_Namespace req) (mr_AppLabel req) v =
      (Ok [DeleteSecretStateContent (Secret_Manifest cs)], v)"
proof -
  let ?c = "rt_maskinportenApiClient (rc_runtime r)" and ?secret = "DeleteSecretStateContent (Secret_Manifest cs)"
  let ?s = "s\<lparr>cheap := empty_heap\<rparr>"
  have c: "local_client F ?c" using op by (simp add: local_operator_def Let_def)
  obtain w where w: "k8s_UpdateSecret (rc_k8s r) ?secret (env (api_st s)) = (Ok (), w)" "fs_Db w = fs_Db (env (api_st s))"
      and list: "\<And>v. fs_world v = fs_world w \<Longrightarrow> k8s_ListSecrets (rc_k8s r) (mr_Namespace req) (mr_AppLabel req) v = (Ok [?secret], v)"
    using keeps_secretE [OF keep] unfolding DeleteSecretStateContent_def by metis
  let ?s1 = "?s\<lparr>api_st := (api_st s)\<lparr>env := w\<rparr>\<rparr>"
  have cmds: "reconcile_delete cs = [plain_command DeleteSecretContentCommand, plain_command (DeleteClientInApiCommand (as_ClientId api))]"
    using cs(2,3) by (simp add: reconcile_delete_def)
  have "in_cmds (Reconcile (rc_jose r) cs ctx cfg crypto clock) s = (Ok (reconcile_delete cs), ?s)" for ctx cfg crypto clock
    using cs(1) by (simp add: in_cmds_def on_part_def Reconcile_deleted)
  moreover have "run_command r cs (plain_command DeleteSecretContentCommand) ?s = (Ok (), ?s1)"
    using w(1) by (simp add: run_command_def plain_command_def Let_def)
  moreover have "DeleteClient ?c (as_ClientId api) ((api_st s)\<lparr>env := w\<rparr>) = (Ok (), (api_st s)\<lparr>env := w\<rparr>)"
    using DeleteClient_local [OF c _ cs(4)] live w(1) by simp
  then have "run_command r cs (plain_command (DeleteClientInApiCommand (as_ClientId api))) ?s1 = (Ok (), ?s1)"
    by (simp add: run_command_def plain_command_def Let_def)
  ultimately have "reconcile r cs s = (Ok (Some (reconcile_delete cs), None), ?s1)"
    by (simp add: reconcile_def Let_def cmds)
  moreover have "?s1 = s\<lparr>api_st := (api_st s)\<lparr>env := w\<rparr>, cheap := empty_heap\<rparr>" by simp
  ultimately show ?thesis using w(2) list by (intro that [of w]) (simp_all only:)
qed


section \<open>Return\<close>

lemma restore_local:
  fixes r :: "'w fake_state reconciler"
  defines "rt \<equiv> rc_runtime r"
  assumes op: "local_operator F r" and keep: "keeps_secret (rc_k8s r) req (Secret_Manifest cs)"
    and cs: "crd_DeletionTimestamp (Crd cs) = None" "Api cs = Some api" "Secret_Content cs = None"
    and plan: "in_cmds (Reconcile (rc_jose r) cs (rt_operatorContext rt) (rt_config rt) (rt_crypto rt) (rt_clock rt)) s = (Ok cmds, s1)"
    and enc: "is_Ok (enc_secret_content (fl_jose F) (sec_at (cheap s1) 0))"
      "is_Ok (enc_jwks_ptr (fl_jose F) (as_Jwks (ClientState.api_at (cheap s1) 0)))"
    and db: "map_of (fs_Db (env (api_st s1))) (RunId (rt_operatorContext rt)) = Some d" "db_ok d" "db_find (as_ClientId api) d \<noteq> None"
    and id: "plain_ids [as_ClientId api]"
    and live: "live_token (rt_maskinportenApiClient rt) (api_st s1)"
  obtains s2 pub secret c2 n ks kj where "reconcile r cs s = (Ok (Some cmds, None), s2)"
    and "map_of (fs_Db (env (api_st s2))) (RunId (rt_operatorContext rt)) =
      Some (modify_record (as_ClientId api) (set_jwks (Some pub)) d)"
    and "k8s_ListSecrets (rc_k8s r) (mr_Namespace req) (mr_AppLabel req) (env (api_st s2)) = (Ok [secret], env (api_st s2))"
    and "sec_Type secret = SecretTypeOpaque" and "get_content (fl_jose F) secret = Ok (Some c2)"
    and "sc_ClientId c2 = as_ClientId api" "sc_Authority c2 = api_AuthorityUrl (MaskinportenApi (rt_config rt))"
    and "sc_Jwks c2 = Some ks" and "sc_Jwk c2 = Some n"
    and "Keys ks = [Some n]" and "good_jwks ks" and "current_key ks = n"
    and "cert_expiry n = whole_seconds (fst (rt_clock rt (env (api_st s))) + Hour * 24 * 30)"
    and "pub = public_set (fl_jose F) ks" and "enc_jwks (fl_jose F) pub = Ok kj"
proof -
  let ?ctx = "rt_operatorContext rt" and ?J = "fl_jose F" and ?i = "as_ClientId api"
  have J: "rc_jose r = ?J" "jose_laws ?J" using op by (simp_all add: local_operator_def Let_def)
  obtain w h where run: "Reconcile ?J cs ?ctx (rt_config rt) (rt_crypto rt) (rt_clock rt) (env (api_st s), empty_heap) = (Ok cmds, (w, h))"
      and s1: "s1 = s\<lparr>api_st := (api_st s)\<lparr>env := w\<rparr>, cheap := h\<rparr>"
    using plan by (auto simp: in_cmds_def on_part_def J(1) split: prod.splits)
  obtain ks pub n where cmds: "cmds = [plain_command (UpdateClientInApiCommand 0), plain_command (UpdateSecretContentCommand 0)]"
      and api: "api_cells h = [\<lparr>as_ClientId = ?i, as_Req = None, as_Jwks = Some pub\<rparr>]"
      and sec: "sec_cells h = [\<lparr>sc_ClientId = ?i, sc_Authority = api_AuthorityUrl (MaskinportenApi (rt_config rt)),
        sc_Jwks = Some ks, sc_Jwk = Some n\<rparr>]"
      and made: "CreateJwks (rt_crypto rt) (AppId cs) (fst (rt_clock rt (env (api_st s))) + Hour * 24 * 30)
        (snd (rt_clock rt (env (api_st s)))) = (Ok ks, w)"
      and pub: "ToPublic ?J (Some ks) = Ok pub" and keys: "Keys ks = [Some n]"
    using run unfolding Reconcile_restore_eq [OF cs] by (elim reconcile_restore_Ok) blast
  from made have good: "good_jwks ks" "current_key ks = n" and expiry: "cert_expiry n = whole_seconds (fst (rt_clock rt (env (api_st s))) + Hour * 24 * 30)"
    using keys by (auto elim!: CreateJwks_Ok)
  have pub': "pub = public_set ?J ks" using pub by (rule ToPublic_public_set)
  obtain js where "Keys ks = map Some js" "\<forall>k\<in>set js. private_rsa_key k" using good(1) by (rule good_jwksE)
  then have public: "check_public ?J ?i (Keys pub) = Ok ()" unfolding pub' by (rule check_public_set [OF J(2)])
  from enc(2) obtain kj where kj: "enc_jwks ?J pub = Ok kj"
    by (auto simp: s1 ClientState.api_at_def api enc_jwks_ptr_def elim: is_Ok.elims)
  have live1: "live_token (rt_maskinportenApiClient (rc_runtime r)) (api_st s1)" using live by (simp add: rt_def)
  have heap: "ClientState.api_at (cheap s1) 0 = \<lparr>as_ClientId = ?i, as_Req = None, as_Jwks = Some pub\<rparr>"
    by (simp add: s1 ClientState.api_at_def api)
  let ?w = "put_db (RunId ?ctx) (modify_record ?i (set_jwks (Some pub)) d) (fs_world (env (api_st s1))) (env (api_st s1))"
  have upload: "run_command r cs (plain_command (UpdateClientInApiCommand 0)) s1 = (Ok (), s1\<lparr>api_st := (api_st s1)\<lparr>env := ?w\<rparr>\<rparr>)"
    (is "_ = (Ok (), ?s)")
    using run_upload_local [OF op live1 heap public kj _ db(2,3) id] db(1) by (simp add: rt_def)
  let ?c = "\<lparr>sc_ClientId = ?i, sc_Authority = api_AuthorityUrl (MaskinportenApi (rt_config rt)), sc_Jwks = Some ks, sc_Jwk = Some n\<rparr>"
  have cell: "sec_at (cheap ?s) 0 = ?c" by (simp add: s1 sec sec_at_def)
  have named: "sc_ClientId ?c \<noteq> []" using id by (simp add: plain_ids_def plain_segment_def)
  have encodes: "is_Ok (enc_secret_content ?J ?c)" using enc(1) cell by simp
  obtain w' secret where written: "run_command r cs (plain_command (UpdateSecretContentCommand 0)) ?s =
      (Ok (), ?s\<lparr>api_st := (api_st ?s)\<lparr>env := w'\<rparr>\<rparr>)" and fs: "fs_Db w' = fs_Db (env (api_st ?s))"
    and secret: "sec_Type secret = SecretTypeOpaque"
      "\<forall>v. fs_world v = fs_world w' \<longrightarrow> k8s_ListSecrets (rc_k8s r) (mr_Namespace req) (mr_AppLabel req) v = (Ok [secret], v)"
      "get_content ?J secret = Ok (Some ?c)"
    by (rule run_write_local [OF op keep cell named encodes])
  have "reconcile r cs s = (Ok (Some cmds, None), ?s\<lparr>api_st := (api_st ?s)\<lparr>env := w'\<rparr>\<rparr>)"
    using plan upload written by (simp add: reconcile_def Let_def rt_def cmds)
  then show ?thesis
    using fs secret keys good expiry pub' kj
    by (intro that [of "?s\<lparr>api_st := (api_st ?s)\<lparr>env := w'\<rparr>\<rparr>" pub secret ?c ks n kj]) (simp_all add: s1)
qed

end
