(* ===== verification/FakesRestoreProperties.thy ===== *)
theory FakesRestoreProperties
  imports FakesRestore FakesReconcileProperties
begin

text \<open>
  The operator, the fakes and the cluster over the life of a client that is deleted and asked for
  again: the client comes back under the id it had, with one new key, on both sides.
\<close>


section \<open>Deletion and return\<close>

text \<open>
  C8: The deletion of a client on the fake Maskinporten, with a token that has not expired when it
  is sent, succeeds and leaves the client there and the secret empty. When a resource for the same
  app follows that asks for the scopes the client has, then a later call, with any token that has
  not expired when it fetches and when it uploads the key, fetches that client by its name, and
  gives it one new key that lives for thirty days. Any call later still finds the same id and the
  one new key in the secret, exactly its public half in the API, and nothing to do while the key has
  more than seven days left.
\<close>

theorem deleted_client_comes_back:
  fixes r :: "'w fake_state reconciler"
  defines "rt \<equiv> rc_runtime r"
  assumes op: "local_operator F r" and keep: "keeps_secret (rc_k8s r) req (Secret_Manifest old)"
    and live: "live_token (rt_maskinportenApiClient rt) ((api_st s)\<lparr>env :=
      snd (k8s_UpdateSecret (rc_k8s r) (DeleteSecretStateContent (Secret_Manifest old)) (env (api_st s)))\<rparr>)"
    and old: "crd_DeletionTimestamp (Crd old) \<noteq> None" "Api old = Some api" "Secret_Content old = Some c" "as_ClientId api = cr_ClientId cl"
    and db: "map_of (fs_Db (env (api_st s))) (RunId (rt_operatorContext rt)) = Some d" "db_ok d"
      "\<forall>rec\<in>set (Clients d). wire_client (rec_Client rec)"
    and cl: "find_client (GetClientName (rt_operatorContext rt) (mr_AppId req)) (map rec_Client (Clients d)) = Some cl"
      "db_find (cr_ClientId cl) d = Some \<lparr>rec_ClientId = cr_ClientId cl, rec_Client = cl, rec_Jwks = Some pub0\<rparr>"
      "enc_jwks (fl_jose F) pub0 = Ok kj0" "plain_ids [cr_ClientId cl]"
    and new: "NewClientState (mr_Instance req) (Some cl) (Some pub0) (Some (DeleteSecretStateContent (Secret_Manifest old))) None = Ok cs"
      "crd_DeletionTimestamp (Crd cs) = None" "crd_Scopes (Crd cs) = cr_Scopes cl"
    and then0: "later r req (snd (reconcile r old s)) t0"
    and plan: "in_cmds (Reconcile (rc_jose r) cs (rt_operatorContext rt) (rt_config rt) (rt_crypto rt) (rt_clock rt)) t0 = (Ok cmds, t1)"
      "map_of (fs_Db (env (api_st t1))) (RunId (rt_operatorContext rt)) = Some d"
      "live_token (rt_maskinportenApiClient rt) (api_st t1)"
    and enc: "is_Ok (enc_secret_content (fl_jose F) (sec_at (cheap t1) 0))"
      "is_Ok (enc_jwks_ptr (fl_jose F) (as_Jwks (ClientState.api_at (cheap t1) 0)))"
  shows "\<exists>t s2 api2 c2 ks n. reconcile r old s = (Ok (Some (reconcile_delete old), None), t) \<and>
    map_of (fs_Db (env (api_st t))) (RunId (rt_operatorContext rt)) = Some d \<and>
    k8s_ListSecrets (rc_k8s r) (mr_Namespace req) (mr_AppLabel req) (env (api_st t)) =
      (Ok [DeleteSecretStateContent (Secret_Manifest old)], env (api_st t)) \<and>
    fetchCurrentState r req t0 = (Ok cs, t0) \<and> reconcile r cs t0 = (Ok (Some cmds, None), s2) \<and>
    as_ClientId api2 = as_ClientId api \<and> sc_ClientId c2 = as_ClientId api \<and>
    sc_Jwk c2 = Some n \<and> sc_Jwks c2 = Some ks \<and> Keys ks = [Some n] \<and>
    as_Jwks api2 = Some \<lparr>Keys = [Some (public_half (fl_jose F) n)]\<rparr> \<and>
    cert_expiry n = whole_seconds (fst (rt_clock rt (env (api_st t0))) + Hour * 24 * 30) \<and>
    (\<forall>u. later r req s2 u \<longrightarrow>
      (\<exists>cs2. fetchCurrentState r req u = (Ok cs2, u) \<and> Api cs2 = Some api2 \<and> Secret_Content cs2 = Some c2) \<and>
      (fst (cs_clock (rt_crypto rt) (snd (rt_clock rt (env (api_st u))))) + rotation_window < cert_expiry n \<longrightarrow>
       fst (reconcile_loaded r req inst u) = Ok 0))"
proof -
  let ?ctx = "rt_operatorContext (rc_runtime r)" and ?i = "cr_ClientId cl" and ?q = "mapClientResponseToAddRequest cl"
  let ?secret = "DeleteSecretStateContent (Secret_Manifest old)"
  let ?api = "\<lparr>as_ClientId = ?i, as_Req = Some ?q, as_Jwks = Some pub0\<rparr>"
  have id: "plain_ids [as_ClientId api]" using cl(4) old(4) by simp
  obtain w where gone: "reconcile r old s = (Ok (Some (reconcile_delete old), None), s\<lparr>api_st := (api_st s)\<lparr>env := w\<rparr>, cheap := empty_heap\<rparr>)"
      (is "_ = (_, ?t)")
      and w: "fs_Db w = fs_Db (env (api_st s))"
      and list: "\<And>v. fs_world v = fs_world w \<Longrightarrow> k8s_ListSecrets (rc_k8s r) (mr_Namespace req) (mr_AppLabel req) v = (Ok [?secret], v)"
    by (rule deletion_local [OF op keep live [unfolded rt_def] old(1-3) id]) blast
  have left: "k8s_ListSecrets (rc_k8s r) (mr_Namespace req) (mr_AppLabel req) (env (api_st ?t)) = (Ok [?secret], env (api_st ?t))"
      "map_of (fs_Db (env (api_st ?t))) (RunId ?ctx) = Some d"
    using db(1) by (simp_all add: list w rt_def)
  note at0 = laterD [OF then0 [unfolded gone snd_conv] left]
  have fetched: "fetchCurrentState r req t0 = (Ok cs, t0)"
    by (rule fetch_by_name_local [OF op at0(1,2) keeps_secret_emptied(2) [OF keep] sst.get_del at0(3) db(2,3) cl(1) [unfolded rt_def] cl(2-4) new(1)])
  have parts: "Api cs = Some ?api" "Secret_Content cs = None" "Secret_Manifest cs = ?secret"
    using NewClientState_parts [OF new(1)] by simp_all
  have keep': "keeps_secret (rc_k8s r) req (Secret_Manifest cs)" using keeps_secret_emptied(1) [OF keep] by (simp add: parts)
  have again: "db_find (as_ClientId ?api) d \<noteq> None" "plain_ids [as_ClientId ?api]" using cl(2,4) by simp_all
  obtain s2 pub secret c2 n ks kj where run: "reconcile r cs t0 = (Ok (Some cmds, None), s2)"
      and db2: "map_of (fs_Db (env (api_st s2))) (RunId ?ctx) = Some (modify_record (as_ClientId ?api) (set_jwks (Some pub)) d)"
      and list2: "k8s_ListSecrets (rc_k8s r) (mr_Namespace req) (mr_AppLabel req) (env (api_st s2)) = (Ok [secret], env (api_st s2))"
      and secret: "sec_Type secret = SecretTypeOpaque" "get_content (fl_jose F) secret = Ok (Some c2)"
      and c2: "sc_ClientId c2 = as_ClientId ?api" "sc_Authority c2 = api_AuthorityUrl (MaskinportenApi (rt_config (rc_runtime r)))"
        "sc_Jwks c2 = Some ks" "sc_Jwk c2 = Some n"
      and keys: "Keys ks = [Some n]" "good_jwks ks" "current_key ks = n"
        "cert_expiry n = whole_seconds (fst (rt_clock rt (env (api_st t0))) + Hour * 24 * 30)"
      and pub: "pub = public_set (fl_jose F) ks" "enc_jwks (fl_jose F) pub = Ok kj"
    by (rule restore_local [OF op keep' new(2) parts(1,2) plan(1) [unfolded rt_def] enc plan(2) [unfolded rt_def] db(2) again plan(3) [unfolded rt_def]])
      (rule that; simp only: rt_def)
  note named = find_client_SomeD [OF cl(1) [unfolded rt_def]]
  have wire: "wire_client cl" "cr_ClientName cl = Some (getClientNamePrefix ?ctx @ mr_AppId req)"
    using named db(3) by (auto simp: GetClientName_def)
  let ?api2 = "\<lparr>as_ClientId = ?i, as_Req = Some ?q, as_Jwks = Some pub\<rparr>"
  have "(\<exists>cs2. fetchCurrentState r req u = (Ok cs2, u) \<and> Api cs2 = Some ?api2 \<and> Secret_Content cs2 = Some c2) \<and>
      (fst (cs_clock (rt_crypto rt) (snd (rt_clock rt (env (api_st u))))) + rotation_window < cert_expiry n \<longrightarrow>
       fst (reconcile_loaded r req inst u) = Ok 0)" if "later r req s2 u" for u
  proof -
    note at = laterD [OF that list2 db2]
    note settled = settled_local [OF op at(1,2) secret c2(1) [simplified] c2(2,3) keys(2) at(3) [simplified] db_upload [OF db(2) cl(2)]
      wire cl(4) pub(2) new]
    from settled(1) settled(2) [of inst] keys(3) show ?thesis by (simp add: rt_def)
  qed
  moreover have "pub = \<lparr>Keys = [Some (public_half (fl_jose F) n)]\<rparr>" by (simp add: pub(1) public_set_def keys(1))
  ultimately show ?thesis using gone left fetched run keys(1,4) c2 old(4)
    by (intro exI [of _ ?t] exI [of _ s2] exI [of _ ?api2] exI [of _ c2] exI [of _ ks] exI [of _ n]) (simp add: rt_def)
qed

text \<open>A client of an earlier resource, whose secret holds a key that is due.\<close>

definition returned_key :: jwk where
  "returned_key = sample_key 0 (1030 * Second) (1030 * Second + Hour * 24 * 30) 0"

definition returned_jose :: jose_lib where
  "returned_jose = table_jose [public_part returned_key, public_part due_key, inner returned_key]"

definition gone_state :: client_state where
  "gone_state = due_state\<lparr>Crd := sample_crd (Some 0) (Some [''s''])\<rparr>"

definition returned_state :: client_state where
  "returned_state = kept_new\<lparr>Api := Some \<lparr>as_ClientId = cr_ClientId due_client,
     as_Req = Some (mapClientResponseToAddRequest due_client), as_Jwks = Some \<lparr>Keys = [Some (Jwk (public_part due_key))]\<rparr>\<rparr>,
     Secret_Content := None, Secret_Manifest := DeleteSecretStateContent sample_secret\<rparr>"

lemma returned_jose_laws: "jose_laws returned_jose"
  unfolding returned_jose_def by (rule table_jose_laws)

lemma returned_NewClientState:
  "NewClientState (mr_Instance kept_request) (Some due_client) (Some \<lparr>Keys = [Some (Jwk (public_part due_key))]\<rparr>)
     (Some (DeleteSecretStateContent sample_secret)) None = Ok returned_state"
  unfolding returned_state_def by (rule NewClientState_again [OF kept_NewClientState]) (simp add: due_client_sel)

lemma returned_marshal:
  "is_Ok (enc_jwks returned_jose \<lparr>Keys = [Some returned_key]\<rparr>)" "is_Ok (enc_jwk_ptr returned_jose (Some returned_key))"
  "is_Ok (enc_jwks returned_jose \<lparr>Keys = [Some (Jwk (public_part returned_key))]\<rparr>)"
  "\<exists>j. enc_jwks returned_jose \<lparr>Keys = [Some (Jwk (public_part due_key))]\<rparr> = Ok j"
  by (simp_all add: enc_jwks_def enc_jwk_ptr_def Jwk_MarshalJSON_def returned_jose_def table_jose_def)

lemma returned_plan:
  fixes clock :: "'w clock"
  assumes "clock w = (1030 * Second, w)"
  shows "Reconcile returned_jose returned_state ctx kept_cfg (fixed_crypto clock) clock (w, empty_heap) =
   (Ok [plain_command (UpdateClientInApiCommand 0), plain_command (UpdateSecretContentCommand 0)], w,
    \<lparr>api_cells = [\<lparr>as_ClientId = ''id-1'', as_Req = None, as_Jwks = Some \<lparr>Keys = [Some (Jwk (public_part returned_key))]\<rparr>\<rparr>],
     sec_cells = [content_for ''id-1'' kept_cfg \<lparr>Keys = [Some returned_key]\<rparr>]\<rparr>)"
proof -
  have "ToPublic returned_jose (Some \<lparr>Keys = [Some returned_key]\<rparr>) =
      Ok \<lparr>Keys = map (\<lambda>k. Some (public_half returned_jose k)) [returned_key]\<rparr>"
    by (rule ToPublic_private_keys [OF returned_jose_laws]) (simp_all add: returned_key_def)
  then have "ToPublic returned_jose (Some \<lparr>Keys = [Some returned_key]\<rparr>) = Ok \<lparr>Keys = [Some (Jwk (public_part returned_key))]\<rparr>"
    by (simp add: returned_key_def public_half_sample [OF returned_jose_laws])
  moreover have "CreateJwks (fixed_crypto clock) ''app'' (1030 * Second + Hour * 24 * 30) w = (Ok \<lparr>Keys = [Some returned_key]\<rparr>, w)"
    using fixed_CreateJwks [of clock w "1030 * Second" "1030 * Second + Hour * 24 * 30"] assms
    by (simp add: returned_key_def time_units)
  moreover have "index [Some returned_key] 0 = Ok (Some returned_key)" by simp
  moreover have "AppId returned_state = ''app''" by (simp add: returned_state_def kept_new_def sample_state_def)
  moreover have "Reconcile returned_jose returned_state ctx kept_cfg crypto clock v = reconcile_restore returned_jose returned_state
      \<lparr>as_ClientId = cr_ClientId due_client, as_Req = Some (mapClientResponseToAddRequest due_client),
       as_Jwks = Some \<lparr>Keys = [Some (Jwk (public_part due_key))]\<rparr>\<rparr> kept_cfg crypto clock v"
    for crypto :: "'w crypto_service" and clock v
    by (subst Reconcile_restore_eq) (simp_all add: returned_state_def kept_new_def client_samples)
  ultimately show ?thesis
    using due_client_sel(2)
    by (simp add: reconcile_restore_def getNotAfter_def in_world_apply assms
        bind_def ret_def empty_heap_def content_for_def)
qed

lemma deleted_client_comes_back_witness:
  "\<exists>t t0 s2 u cs2 api2. reconcile (kept_rc returned_jose) gone_state (kept_start due_db) = (Ok (Some (reconcile_delete gone_state), None), t) \<and>
    t0 = kept_later (1030 * Second) t \<and> reconcile (kept_rc returned_jose) returned_state t0 =
      (Ok (Some [plain_command (UpdateClientInApiCommand 0), plain_command (UpdateSecretContentCommand 0)], None), s2) \<and>
    u = kept_later twenty_days_on s2 \<and>
    fetchCurrentState (kept_rc returned_jose) kept_request u = (Ok cs2, u) \<and> Api cs2 = Some api2 \<and> as_ClientId api2 = ''id-1'' \<and>
    fst (reconcile_loaded (kept_rc returned_jose) kept_request (sample_crd None (Some [''s''])) u) = Ok 0"
proof -
  let ?rc = "kept_rc returned_jose" and ?F = "kept_lib returned_jose"
  let ?h = "\<lparr>api_cells = [\<lparr>as_ClientId = ''id-1'', as_Req = None, as_Jwks = Some \<lparr>Keys = [Some (Jwk (public_part returned_key))]\<rparr>\<rparr>],
     sec_cells = [content_for ''id-1'' kept_cfg \<lparr>Keys = [Some returned_key]\<rparr>]\<rparr>"
  let ?t0 = "kept_later (1030 * Second) (snd (reconcile ?rc gone_state (kept_start due_db)))"
  let ?s1 = "?t0\<lparr>cheap := ?h\<rparr>"
  have manifest: "Secret_Manifest gone_state = sample_secret" by (simp add: gone_state_def due_state_def)
  have keep: "keeps_secret (rc_k8s ?rc) kept_request (Secret_Manifest gone_state)" unfolding manifest by (rule kept_secret)
  have old: "crd_DeletionTimestamp (Crd gone_state) \<noteq> None" "Api gone_state = Some \<lparr>as_ClientId = cr_ClientId due_client,
        as_Req = Some (mapClientResponseToAddRequest due_client), as_Jwks = Some \<lparr>Keys = [Some (Jwk (public_part due_key))]\<rparr>\<rparr>"
      "Secret_Content gone_state = Some due_content"
    by (simp_all add: gone_state_def due_state_def sample_crd_def)
  have id: "plain_ids [cr_ClientId due_client]" using kept_id by (simp add: due_client_sel)
  have live: "live_token (rt_maskinportenApiClient (rc_runtime ?rc)) ((api_st (kept_start due_db))\<lparr>env :=
      snd (k8s_UpdateSecret (rc_k8s ?rc) (DeleteSecretStateContent (Secret_Manifest gone_state)) (env (api_st (kept_start due_db))))\<rparr>)"
    by (rule kept_live) (simp add: kept_rc_def kept_k8s_def kept_start_def)
  obtain w where gone: "reconcile ?rc gone_state (kept_start due_db) = (Ok (Some (reconcile_delete gone_state), None),
        kept_start due_db\<lparr>api_st := (api_st (kept_start due_db))\<lparr>env := w\<rparr>, cheap := empty_heap\<rparr>)"
      and w: "fs_Db w = fs_Db (env (api_st (kept_start due_db)))"
    by (rule deletion_local [OF kept_operator [OF returned_jose_laws] keep live old]) (use id in auto)
  have plan: "in_cmds (Reconcile (rc_jose ?rc) returned_state (rt_operatorContext (rc_runtime ?rc)) (rt_config (rc_runtime ?rc))
      (rt_crypto (rc_runtime ?rc)) (rt_clock (rc_runtime ?rc))) ?t0 =
    (Ok [plain_command (UpdateClientInApiCommand 0), plain_command (UpdateSecretContentCommand 0)], ?s1)"
    by (simp add: kept_sel in_cmds_def on_part_def returned_plan kept_clock_def kept_later_def)
  have db: "map_of (fs_Db (env (api_st (kept_start due_db)))) (RunId (rt_operatorContext (rc_runtime ?rc))) = Some due_db"
      "map_of (fs_Db (env (api_st ?s1))) (RunId (rt_operatorContext (rc_runtime ?rc))) = Some due_db"
    using kept_run [of due_db] by (simp_all add: kept_sel gone w kept_later_def)
  have clients: "map rec_Client (Clients due_db) = [due_client]" by (simp add: due_db_def add_record_def NewDb_def)
  then have wire: "\<forall>rec\<in>set (Clients due_db). wire_client (rec_Client rec)" using due_client_sel(1) by (metis imageI list.set_map list.set_intros(1) set_ConsD empty_iff empty_set)
  have found: "find_client (GetClientName (rt_operatorContext (rc_runtime ?rc)) (mr_AppId kept_request)) (map rec_Client (Clients due_db)) = Some due_client"
    by (simp add: clients due_client_sel kept_sel kept_request_def GetClientName_def)
  obtain kj where kj: "enc_jwks (fl_jose ?F) \<lparr>Keys = [Some (Jwk (public_part due_key))]\<rparr> = Ok kj"
    using returned_marshal(4) by (auto simp: kept_sel)
  have new: "NewClientState (mr_Instance kept_request) (Some due_client) (Some \<lparr>Keys = [Some (Jwk (public_part due_key))]\<rparr>)
      (Some (DeleteSecretStateContent (Secret_Manifest gone_state))) None = Ok returned_state"
    unfolding manifest by (rule returned_NewClientState)
  have crd: "crd_DeletionTimestamp (Crd returned_state) = None" "crd_Scopes (Crd returned_state) = cr_Scopes due_client"
    by (simp_all add: returned_state_def due_client_sel kept_new_def client_samples)
  have enc: "is_Ok (enc_secret_content (fl_jose ?F) (sec_at (cheap ?s1) 0))"
      "is_Ok (enc_jwks_ptr (fl_jose ?F) (as_Jwks (ClientState.api_at (cheap ?s1) 0)))"
    using returned_marshal(1-3)
    by (auto simp: kept_sel sec_at_def ClientState.api_at_def enc_secret_content_def content_for_def enc_jwks_ptr_def elim!: is_Ok.elims)
  have "0 < 1030 * Second" by (simp add: time_units)
  from kept_later [OF this] have then0: "later ?rc kept_request (snd (reconcile ?rc gone_state (kept_start due_db))) ?t0" .
  then have live1: "live_token (rt_maskinportenApiClient (rc_runtime ?rc)) (api_st ?s1)" by (simp add: later_def Let_def)
  have now: "fst (rt_clock (rc_runtime ?rc) (env (api_st ?t0))) = 1030 * Second" by (simp add: kept_sel kept_now)
  from deleted_client_comes_back [OF kept_operator [OF returned_jose_laws] keep live old api_state.select_convs(1) db(1) due_db_ok(1) wire found due_db_ok(2) kj id
      new crd then0 plan db(2) live1 enc, of "sample_crd None (Some [''s''])", unfolded api_state.select_convs]
  obtain t s2 api2 c2 n where t: "reconcile ?rc gone_state (kept_start due_db) = (Ok (Some (reconcile_delete gone_state), None), t)"
    and run: "reconcile ?rc returned_state ?t0 =
      (Ok (Some [plain_command (UpdateClientInApiCommand 0), plain_command (UpdateSecretContentCommand 0)], None), s2)"
      "as_ClientId api2 = cr_ClientId due_client"
    and n: "cert_expiry n = whole_seconds (fst (rt_clock (rc_runtime ?rc) (env (api_st ?t0))) + Hour * 24 * 30)"
    and after: "\<forall>u. later ?rc kept_request s2 u \<longrightarrow>
      (\<exists>cs2. fetchCurrentState ?rc kept_request u = (Ok cs2, u) \<and> Api cs2 = Some api2 \<and> Secret_Content cs2 = Some c2) \<and>
      (fst (cs_clock (rt_crypto (rc_runtime ?rc)) (snd (rt_clock (rc_runtime ?rc) (env (api_st u))))) + rotation_window < cert_expiry n \<longrightarrow>
       fst (reconcile_loaded ?rc kept_request (sample_crd None (Some [''s''])) u) = Ok 0)"
    by blast
  let ?u = "kept_later twenty_days_on s2"
  note at = after [rule_format, OF kept_later [OF twenty_days_on(1)]]
  obtain cs2 where "fetchCurrentState ?rc kept_request ?u = (Ok cs2, ?u)" "Api cs2 = Some api2" using at by blast
  moreover have "fst (reconcile_loaded ?rc kept_request (sample_crd None (Some [''s''])) ?u) = Ok 0"
    using at twenty_days_on(2) by (simp add: n now) (simp add: kept_sel kept_now)
  moreover have "as_ClientId api2 = ''id-1''" using run(2) due_client_sel(2) by simp
  ultimately show ?thesis using t run(1) unfolding t snd_conv by blast
qed

end
