(* ===== verification/FakesOutage.thy ===== *)
theory FakesOutage
  imports FakesReconcileProperties
begin

text \<open>
  The operator, the fakes and the cluster when the API cannot be reached in the middle of a
  rotation: the keys are new in the secret and old in the API, and later calls leave it so.
\<close>


section \<open>An API that is down\<close>

text \<open>The network refuses every connection; backoff and the rest of the operator are as they were.\<close>

definition offline_net :: "'w net_lib \<Rightarrow> 'w net_lib" where
  "offline_net N = N\<lparr>http_Do := (\<lambda>req w. ((Err (ErrExternal ''connection refused''), rq_unread req), w))\<rparr>"

definition offline_api :: "'w http_api \<Rightarrow> 'w http_api" where
  "offline_api c = c\<lparr>hc_net := offline_net (hc_net c)\<rparr>"

definition offline :: "'w reconciler \<Rightarrow> 'w reconciler" where
  "offline r = r\<lparr>rc_runtime := (rc_runtime r)\<lparr>rt_maskinportenApiClient := offline_api (rt_maskinportenApiClient (rc_runtime r))\<rparr>\<rparr>"

lemma offline_simps [simp]:
  "rc_jose (offline r) = rc_jose r" "rc_k8s (offline r) = rc_k8s r"
  "rt_operatorContext (rc_runtime (offline r)) = rt_operatorContext (rc_runtime r)"
  "rt_config (rc_runtime (offline r)) = rt_config (rc_runtime r)" "rt_crypto (rc_runtime (offline r)) = rt_crypto (rc_runtime r)"
  "rt_clock (rc_runtime (offline r)) = rt_clock (rc_runtime r)"
  "rt_maskinportenApiClient (rc_runtime (offline r)) = offline_api (rt_maskinportenApiClient (rc_runtime r))"
  by (simp_all add: offline_def)

lemma offline_api_simps [simp]:
  "hc_context (offline_api c) = hc_context c" "hc_clock (offline_api c) = hc_clock c" "hc_jose (offline_api c) = hc_jose c"
  "hc_net (offline_api c) = offline_net (hc_net c)" "self_service_url (offline_api c) ids = self_service_url c ids"
  by (simp_all add: offline_api_def offline_net_def self_service_url_def url_JoinPath_def)

lemma offline_steps_world:
  assumes "(retry_step (offline_net (fakes_net F n)))\<^sup>*\<^sup>* (ps, req, w) (qs, sent, w1)" shows "w1 = w"
  using assms
proof (induction "(qs, sent, w1)" arbitrary: qs sent w1 rule: rtranclp_induct)
  case (step y)
  obtain qs' q v where y: "y = (qs', q, v)" by (cases y)
  from step(2) have "w1 = v"
    unfolding y by (auto elim!: retry_step.cases simp: offline_net_def fakes_net_def steady_backoff_def)
  with step(3) [OF y] show ?case by simp
qed simp

lemma offline_send:
  assumes "hc_net c = fakes_net F n"
  shows "retryableHTTPDo (offline_api c) req s = (Err (ErrExternal ''connection refused''), s)"
proof -
  let ?N = "offline_net (fakes_net F n)" and ?req = "Header_Add ''X-Altinn-Operator-RunId'' (RunId (hc_context c)) req"
  obtain r w' where run: "http_retry ?N [] ?req (env s) = (r, w')" by fastforce
  from run obtain qs sent w1 result unread w2 where steps: "(retry_step ?N)\<^sup>*\<^sup>* ([], ?req, env s) (qs, sent, w1)"
    and do: "http_Do ?N sent w1 = ((result, unread), w2)"
    and fin: "case operation_error result of None \<Rightarrow> r = result \<and> w' = w2 | Some e \<Rightarrow> r = Err e \<and> next_pause ?N qs w2 = (None, w')"
    by (rule http_retry_run)
  from offline_steps_world [OF steps] do have "result = Err (ErrExternal ''connection refused'')" "w2 = env s"
    by (simp_all add: offline_net_def)
  then have "r = Err (ErrExternal ''connection refused'')" "next_pause ?N qs (env s) = (None, w')"
    using fin by (simp_all add: operation_error_def)
  moreover have "snd (next_pause ?N qs v) = v" for v
    by (simp add: next_pause_def offline_net_def fakes_net_def steady_backoff_def split: option.splits)
  from this [of "env s"] have "next_pause ?N qs (env s) = (None, w') \<Longrightarrow> w' = env s" by simp
  ultimately have "r = Err (ErrExternal ''connection refused'') \<and> w' = env s" by simp
  with run show ?thesis by (simp add: retryableHTTPDo_def in_env_def on_part_def assms)
qed

text \<open>The upload of keys fails then, with the world as it was.\<close>

lemma offline_upload:
  assumes "local_client F c" and "live_token c s" and "plain_ids [i]"
    and "check_public (fl_jose F) i (Keys ks) = Ok ()" and "enc_jwks (fl_jose F) ks = Ok kj"
  shows "CreateClientJwks (offline_api c) i (Some ks) s = (Err (ErrExternal ''connection refused''), s)"
proof -
  have jose: "hc_jose c = fl_jose F" using assms(1) unfolding local_client_def by blast
  obtain n where n: "hc_net c = fakes_net F n" using assms(1) unfolding local_client_def by blast
  have "plain_ids [i, ''jwks'']" using assms(3) by simp
  from local_request [OF assms(1,2) this, of "''POST''" "Some (json_text kj)"]
  obtain u where u: "self_service_url c [i, ''jwks''] = Ok u" by blast
  from assms(2) obtain tok where "current (accessToken s) = Some tok" unfolding live_token_def by blast
  with assms(2) have req: "createReq (offline_api c) u ''POST'' (Some (json_text kj)) s =
      (Ok (Header_Set ''Authorization'' (''Bearer '' @ tr_AccessToken tok) (NewRequest ''POST'' u (Some (json_text kj)))), s)"
    by (intro createReq_live) (simp_all add: live_token_def)
  have "i \<noteq> []" using assms(3) by (simp add: plain_ids_def plain_segment_def)
  then show ?thesis
    using u req offline_send [OF n] assms(4,5) by (simp add: CreateClientJwks_def jose bind_def)
qed


section \<open>A rotation that is cut short\<close>

text \<open>A state with nothing to do has no command to run.\<close>

lemma idle_run:
  fixes r :: "'w reconciler"
  defines "rt \<equiv> rc_runtime r"
  assumes cs: "crd_DeletionTimestamp (Crd cs) = None" "Api cs = Some \<lparr>as_ClientId = i, as_Req = Some q, as_Jwks = pub\<rparr>"
      "Secret_Content cs = Some c" "sc_Jwks c = Some ks" "good_jwks ks"
    and same: "sc_Authority c = api_AuthorityUrl (MaskinportenApi (rt_config rt))" "crd_Scopes (Crd cs) = ac_Scopes q"
    and fresh: "fst (cs_clock (rt_crypto rt) (snd (rt_clock rt (env (api_st s))))) + rotation_window < cert_expiry (current_key ks)"
  shows "fst (reconcile r cs s) = Ok (Some [], None)"
proof -
  let ?plan = "Reconcile (rc_jose r) cs (rt_operatorContext rt) (rt_config rt) (rt_crypto rt) (rt_clock rt) (env (api_st s), empty_heap)"
  have "fst ?plan = Ok []" using same fresh by (simp add: Reconcile_idle [OF cs(1,2) _ cs(3-5)])
  then obtain w h where "?plan = (Ok [], (w, h))" by (metis prod.exhaust_sel)
  then show ?thesis by (simp add: reconcile_def Let_def in_cmds_def on_part_def rt_def)
qed

text \<open>
  C14: A rotation can be lost. When the key of an existing client is due, the scopes of its resource
  are those of the client, and the API cannot be reached, then the call writes the rotated keys to
  the secret and fails at the upload of their public halves. A later call that reaches the fake
  Maskinporten again, at any time and with any token that has not expired then, and finds the
  database of the run and the secret as they were left, fetches the new key in the secret and the
  old key set in the API; as long as the new key is not due itself, it has no command to run and
  asks for no further call, so the API keeps the old key set.
\<close>

theorem rotation_lost_when_api_is_down:
  fixes r :: "'w fake_state reconciler"
  defines "rt \<equiv> rc_runtime r"
  assumes op: "local_operator F r" and keep: "keeps_secret (rc_k8s r) req (Secret_Manifest cs)"
    and new: "NewClientState (mr_Instance req) (Some cl) (Some pub0) (Some (Secret_Manifest cs)) (Some c) = Ok cs"
    and cs: "crd_DeletionTimestamp (Crd cs) = None" "crd_Scopes (Crd cs) = cr_Scopes cl" "sc_Jwks c = Some ks" "good_jwks ks"
    and due: "cert_expiry (current_key ks) \<le> fst (cs_clock (rt_crypto rt) (snd (rt_clock rt (env (api_st s))))) + rotation_window"
      "fst (cs_clock (rt_crypto rt) (snd (rt_clock rt (env (api_st s))))) + rotation_window \<le>
       whole_seconds (fst (rt_clock rt (env (api_st s))) + Hour * 24 * 30)"
    and plan: "in_cmds (Reconcile (rc_jose r) cs (rt_operatorContext rt) (rt_config rt) (rt_crypto rt) (rt_clock rt)) s = (Ok cmds, s1)"
    and enc: "is_Ok (enc_secret_content (fl_jose F) (sec_at (cheap s1) 0))"
      "is_Ok (enc_jwks_ptr (fl_jose F) (as_Jwks (ClientState.api_at (cheap s1) 0)))"
    and db: "map_of (fs_Db (env (api_st s1))) (RunId (rt_operatorContext rt)) = Some d" "db_ok d"
      "db_find (cr_ClientId cl) d = Some \<lparr>rec_ClientId = cr_ClientId cl, rec_Client = cl, rec_Jwks = Some pub0\<rparr>"
    and cl: "wire_client cl" "cr_ClientName cl = Some (getClientNamePrefix (rt_operatorContext rt) @ rest)" "plain_ids [cr_ClientId cl]"
      "enc_jwks (fl_jose F) pub0 = Ok kj0"
    and live: "\<forall>x. live_token (rt_maskinportenApiClient rt) ((api_st s1)\<lparr>env := snd (k8s_UpdateSecret (rc_k8s r) x (env (api_st s1)))\<rparr>)"
  shows "\<exists>s2 api c2 ks2 n.
    reconcile (offline r) cs s =
      (Ok (Some [plain_command (UpdateSecretContentCommand 0)], Some (ErrExternal ''connection refused'')), s2) \<and>
    map_of (fs_Db (env (api_st s2))) (RunId (rt_operatorContext rt)) = Some d \<and>
    sc_Jwk c2 = Some n \<and> sc_Jwks c2 = Some ks2 \<and> Keys ks2 = [Some n, Some (current_key ks)] \<and>
    cert_expiry n = whole_seconds (fst (rt_clock rt (env (api_st s))) + Hour * 24 * 30) \<and>
    as_ClientId api = cr_ClientId cl \<and> as_Jwks api = Some pub0 \<and>
    (\<forall>u. later r req s2 u \<longrightarrow>
      (\<exists>cs2. fetchCurrentState r req u = (Ok cs2, u) \<and> Api cs2 = Some api \<and> Secret_Content cs2 = Some c2 \<and>
        (fst (cs_clock (rt_crypto rt) (snd (rt_clock rt (env (api_st u))))) + rotation_window < cert_expiry n \<longrightarrow>
         fst (reconcile r cs2 u) = Ok (Some [], None) \<and> fst (reconcile_loaded r req inst u) = Ok 0)))"
proof -
  let ?ctx = "rt_operatorContext (rc_runtime r)" and ?i = "cr_ClientId cl" and ?q = "mapClientResponseToAddRequest cl"
  let ?api = "\<lparr>as_ClientId = ?i, as_Req = Some ?q, as_Jwks = Some pub0\<rparr>"
  have c: "local_client F (rt_maskinportenApiClient (rc_runtime r))" using op by (simp add: local_operator_def Let_def)
  have api: "Api cs = Some ?api" "Secret_Content cs = Some c"
    using NewClientState_parts [OF new] by simp_all
  have scopes: "as_Req ?api = Some ?q" "crd_Scopes (Crd cs) = ac_Scopes ?q" using cs(2) by (simp_all add: mapClientResponseToAddRequest_def)
  have id: "plain_ids [as_ClientId ?api]" using cl(3) by simp
  obtain w' secret c2 ks2 n pub kj where
      cmds: "cmds = [plain_command (UpdateSecretContentCommand 0), plain_command (UpdateClientInApiCommand 0)]"
    and written: "run_command r cs (plain_command (UpdateSecretContentCommand 0)) s1 = (Ok (), s1\<lparr>api_st := (api_st s1)\<lparr>env := w'\<rparr>\<rparr>)"
      (is "_ = (Ok (), ?s2)")
    and w': "w' = snd (k8s_UpdateSecret (rc_k8s r) secret (env (api_st s1)))" "fs_Db w' = fs_Db (env (api_st s1))"
    and list: "\<forall>v. fs_world v = fs_world w' \<longrightarrow> k8s_ListSecrets (rc_k8s r) (mr_Namespace req) (mr_AppLabel req) v = (Ok [secret], v)"
    and secret: "sec_Type secret = SecretTypeOpaque" "get_content (fl_jose F) secret = Ok (Some c2)"
    and c2: "c2 = \<lparr>sc_ClientId = as_ClientId ?api, sc_Authority = api_AuthorityUrl (MaskinportenApi (rt_config (rc_runtime r))),
      sc_Jwks = Some ks2, sc_Jwk = Some n\<rparr>"
    and keys: "Keys ks2 = [Some n, Some (current_key ks)]" "good_jwks ks2" "current_key ks2 = n"
      "cert_expiry n = whole_seconds (fst (rt_clock rt (env (api_st s))) + Hour * 24 * 30)"
    and heap: "ClientState.api_at (cheap s1) 0 = \<lparr>as_ClientId = as_ClientId ?api, as_Req = None, as_Jwks = Some pub\<rparr>"
    and pub: "enc_jwks (fl_jose F) pub = Ok kj" "check_public (fl_jose F) (as_ClientId ?api) (Keys pub) = Ok ()"
    by (rule rotation_written [OF op keep cs(1) api(1) scopes api(2) cs(3,4) due [unfolded rt_def] plan [unfolded rt_def] enc id])
      (rule that; simp only: rt_def)
  have "run_command (offline r) cs (plain_command (UpdateSecretContentCommand 0)) s1 = (Ok (), ?s2)"
    using written by (simp add: run_command_def plain_command_def)
  moreover have "live_token (rt_maskinportenApiClient (rc_runtime r)) (api_st ?s2)" using live by (simp add: w'(1) rt_def)
  from offline_upload [OF c this id pub(2,1)]
  have "run_command (offline r) cs (plain_command (UpdateClientInApiCommand 0)) ?s2 = (Err (ErrExternal ''connection refused''), ?s2)"
    by (simp add: run_command_def plain_command_def Let_def bind_def in_cmds_def on_part_def read_store_def heap ret_def)
  ultimately have run: "reconcile (offline r) cs s =
      (Ok (Some [plain_command (UpdateSecretContentCommand 0)], Some (ErrExternal ''connection refused'')), ?s2)"
    using plan by (simp add: reconcile_def Let_def rt_def cmds)
  have left: "k8s_ListSecrets (rc_k8s r) (mr_Namespace req) (mr_AppLabel req) (env (api_st ?s2)) = (Ok [secret], env (api_st ?s2))"
      "map_of (fs_Db (env (api_st ?s2))) (RunId ?ctx) = Some d"
    using list db(1) by (simp_all add: w'(2) rt_def)
  have c2': "sc_ClientId c2 = ?i" "sc_Authority c2 = api_AuthorityUrl (MaskinportenApi (rt_config (rc_runtime r)))"
      "sc_Jwks c2 = Some ks2" "sc_Jwk c2 = Some n"
    by (simp_all add: c2)
  let ?cs2 = "cs\<lparr>Api := Some ?api, Secret_Content := Some c2, Secret_Manifest := secret\<rparr>"
  have "fetchCurrentState r req u = (Ok ?cs2, u) \<and>
      (fst (cs_clock (rt_crypto rt) (snd (rt_clock rt (env (api_st u))))) + rotation_window < cert_expiry n \<longrightarrow>
       fst (reconcile r ?cs2 u) = Ok (Some [], None) \<and> fst (reconcile_loaded r req inst u) = Ok 0)"
    if "later r req ?s2 u" for u
  proof -
    note at = laterD [OF that left]
    note settled = settled_local [OF op at(1,2) secret c2'(1-3) keys(2) at(3) db(2,3) cl(1) cl(2) [unfolded rt_def] cl(3,4) new cs(1,2)]
    have "fst (reconcile r ?cs2 u) = Ok (Some [], None)"
      if "fst (cs_clock (rt_crypto rt) (snd (rt_clock rt (env (api_st u))))) + rotation_window < cert_expiry n"
      using that by (intro idle_run [OF _ _ _ c2'(3) keys(2)]) (simp_all add: cs(1) c2'(2) scopes(2) rt_def keys(3))
    with settled(1) settled(2) [of inst] keys(3) show ?thesis by (simp add: rt_def)
  qed
  then have "(\<exists>cs2. fetchCurrentState r req u = (Ok cs2, u) \<and> Api cs2 = Some ?api \<and> Secret_Content cs2 = Some c2 \<and>
      (fst (cs_clock (rt_crypto rt) (snd (rt_clock rt (env (api_st u))))) + rotation_window < cert_expiry n \<longrightarrow>
       fst (reconcile r cs2 u) = Ok (Some [], None) \<and> fst (reconcile_loaded r req inst u) = Ok 0))"
    if "later r req ?s2 u" for u using that by (intro exI [of _ ?cs2]) simp
  with run left(2) keys(1,4) c2' show ?thesis
    by (intro exI [of _ ?s2] exI [of _ ?api] exI [of _ c2] exI [of _ ks2] exI [of _ n]) (simp add: rt_def)
qed

lemma rotation_lost_when_api_is_down_witness:
  "\<exists>s2 u cs2 api c2 ks2. reconcile (offline (kept_rc due_jose)) due_state (kept_start due_db) =
      (Ok (Some [plain_command (UpdateSecretContentCommand 0)], Some (ErrExternal ''connection refused'')), s2) \<and>
    u = kept_later twenty_days_on s2 \<and> fetchCurrentState (kept_rc due_jose) kept_request u = (Ok cs2, u) \<and> Api cs2 = Some api \<and>
    Secret_Content cs2 = Some c2 \<and> sc_Jwks c2 = Some ks2 \<and> length (Keys ks2) = 2 \<and>
    as_Jwks api = Some \<lparr>Keys = [Some (Jwk (public_part due_key))]\<rparr> \<and>
    fst (reconcile (kept_rc due_jose) cs2 u) = Ok (Some [], None)"
proof -
  let ?rc = "kept_rc due_jose" and ?F = "kept_lib due_jose"
  have "is_Ok (enc_jwks (fl_jose ?F) \<lparr>Keys = [Some (Jwk (public_part due_key))]\<rparr>)"
    by (simp add: enc_jwks_def enc_jwk_ptr_def Jwk_MarshalJSON_def due_jose_def table_jose_def kept_sel)
  then have "\<exists>kj0. enc_jwks (fl_jose ?F) \<lparr>Keys = [Some (Jwk (public_part due_key))]\<rparr> = Ok kj0"
    by (auto elim: is_Ok.elims)
  then obtain kj0 where kj0: "enc_jwks (fl_jose ?F) \<lparr>Keys = [Some (Jwk (public_part due_key))]\<rparr> = Ok kj0" by blast
  from rotation_lost_when_api_is_down [OF kept_operator [OF due_jose_laws] due_keeps due_new due_state_parts(2-4) due_good(1)
        due_now due_planning due_enc due_run due_db_ok due_wire(1,3,2) kj0 due_live, of "sample_crd None (Some [''s''])"]
  obtain s2 api c2 ks2 n where run: "reconcile (offline ?rc) due_state (kept_start due_db) =
      (Ok (Some [plain_command (UpdateSecretContentCommand 0)], Some (ErrExternal ''connection refused'')), s2)"
    and keys: "sc_Jwks c2 = Some ks2" "Keys ks2 = [Some n, Some (current_key \<lparr>Keys = [Some due_key]\<rparr>)]"
      "as_Jwks api = Some \<lparr>Keys = [Some (Jwk (public_part due_key))]\<rparr>"
    and n: "cert_expiry n = whole_seconds (fst (rt_clock (rc_runtime ?rc) (env (api_st (kept_start due_db)))) + Hour * 24 * 30)"
    and after: "\<forall>u. later ?rc kept_request s2 u \<longrightarrow>
      (\<exists>cs2. fetchCurrentState ?rc kept_request u = (Ok cs2, u) \<and> Api cs2 = Some api \<and> Secret_Content cs2 = Some c2 \<and>
      (fst (cs_clock (rt_crypto (rc_runtime ?rc)) (snd (rt_clock (rc_runtime ?rc) (env (api_st u))))) + rotation_window < cert_expiry n \<longrightarrow>
       fst (reconcile ?rc cs2 u) = Ok (Some [], None) \<and>
       fst (reconcile_loaded ?rc kept_request (sample_crd None (Some [''s''])) u) = Ok 0))"
    by blast
  let ?u = "kept_later twenty_days_on s2"
  have "fst (cs_clock (rt_crypto (rc_runtime ?rc)) (snd (rt_clock (rc_runtime ?rc) (env (api_st ?u))))) + rotation_window < cert_expiry n"
    using twenty_days_on(2) by (simp add: kept_sel kept_now n)
  with after [rule_format, OF kept_later [OF twenty_days_on(1)]]
  obtain cs2 where "fetchCurrentState ?rc kept_request ?u = (Ok cs2, ?u)" "Api cs2 = Some api" "Secret_Content cs2 = Some c2"
      "fst (reconcile ?rc cs2 ?u) = Ok (Some [], None)"
    by blast
  moreover have "length (Keys ks2) = 2" using keys by simp
  ultimately show ?thesis using run keys(1,3) by blast
qed

end
