(* ===== verification/FakesRace.thy ===== *)
theory FakesRace
  imports FakesDb
begin

text \<open>
  \<open>Insert\<close> of \<open>internal/fakes/db.go\<close> as its statements, for handlers that run at the same time.
  \<open>GetDb\<close> holds the lock of the state only while it looks the database up, so nothing keeps the
  statements of two insertions apart. One statement that reads or writes the database is one
  step; the memory model of Go allows more, so what is reached here is only a part of what can
  happen.
\<close>


section \<open>Insertions as steps\<close>

datatype insert_pc =
    Called add_client_request "jwks option" string
  | Checked client_record
  | Counted client_record nat
  | Appended client_record nat
  | Returned_insert "client_record outcome"

record 'w race =
  race_db :: db
  race_world :: 'w
  race_pc :: "nat \<Rightarrow> insert_pc"

inductive insert_step :: "'w fake_world_lib \<Rightarrow> 'w race \<Rightarrow> 'w race \<Rightarrow> bool" for F where
  no_name: "race_pc s g = Called req jwks override \<Longrightarrow> ac_ClientName req = None \<or> ac_ClientName req = Some [] \<Longrightarrow>
    insert_step F s (s\<lparr>race_pc := (race_pc s)(g := Returned_insert (Err InvalidClientName))\<rparr>)"
| no_id: "race_pc s g = Called req jwks override \<Longrightarrow> ac_ClientName req \<noteq> None \<Longrightarrow> ac_ClientName req \<noteq> Some [] \<Longrightarrow>
    insert_id F override (race_world s) = (Err e, w) \<Longrightarrow>
    insert_step F s (s\<lparr>race_world := w, race_pc := (race_pc s)(g := Returned_insert (Err e))\<rparr>)"
| id_panic: "race_pc s g = Called req jwks override \<Longrightarrow> ac_ClientName req \<noteq> None \<Longrightarrow> ac_ClientName req \<noteq> Some [] \<Longrightarrow>
    insert_id F override (race_world s) = (Panic p, w) \<Longrightarrow>
    insert_step F s (s\<lparr>race_world := w, race_pc := (race_pc s)(g := Returned_insert (Panic p))\<rparr>)"
| taken: "race_pc s g = Called req jwks override \<Longrightarrow> ac_ClientName req \<noteq> None \<Longrightarrow> ac_ClientName req \<noteq> Some [] \<Longrightarrow>
    insert_id F override (race_world s) = (Ok i, w) \<Longrightarrow> ClientIdIndex (race_db s) i \<noteq> None \<Longrightarrow>
    insert_step F s (s\<lparr>race_world := w, race_pc := (race_pc s)(g := Returned_insert (Err ClientAlreadyExists))\<rparr>)"
| free: "race_pc s g = Called req jwks override \<Longrightarrow> ac_ClientName req \<noteq> None \<Longrightarrow> ac_ClientName req \<noteq> Some [] \<Longrightarrow>
    insert_id F override (race_world s) = (Ok i, w) \<Longrightarrow> ClientIdIndex (race_db s) i = None \<Longrightarrow> fw_Now F w = (now, w') \<Longrightarrow>
    insert_step F s (s\<lparr>race_world := w', race_pc := (race_pc s)
      (g := Checked \<lparr>rec_ClientId = i, rec_Client = new_client req i now, rec_Jwks = jwks\<rparr>)\<rparr>)"
| count: "race_pc s g = Checked r \<Longrightarrow>
    insert_step F s (s\<lparr>race_pc := (race_pc s)(g := Counted r (length (Clients (race_db s))))\<rparr>)"
| append: "race_pc s g = Counted r idx \<Longrightarrow>
    insert_step F s (s\<lparr>race_db := (race_db s)\<lparr>Clients := Clients (race_db s) @ [r]\<rparr>,
      race_pc := (race_pc s)(g := Appended r idx)\<rparr>)"
| enter: "race_pc s g = Appended r idx \<Longrightarrow>
    insert_step F s (s\<lparr>race_db := (race_db s)\<lparr>ClientIdIndex := (ClientIdIndex (race_db s))(rec_ClientId r \<mapsto> idx)\<rparr>,
      race_pc := (race_pc s)(g := Returned_insert (Ok r))\<rparr>)"

text \<open>What is left of an insertion once the id is known to be free.\<close>

lemma insert_tail:
  assumes "race_pc s g = Checked r"
  shows "(insert_step F)\<^sup>*\<^sup>* s (s\<lparr>race_db := add_record r (race_db s), race_pc := (race_pc s)(g := Returned_insert (Ok r))\<rparr>)"
proof -
  let ?n = "length (Clients (race_db s))"
  let ?s1 = "s\<lparr>race_pc := (race_pc s)(g := Counted r ?n)\<rparr>"
  let ?s2 = "?s1\<lparr>race_db := (race_db s)\<lparr>Clients := Clients (race_db s) @ [r]\<rparr>, race_pc := (race_pc s)(g := Appended r ?n)\<rparr>"
  have "insert_step F s ?s1" using assms by (rule insert_step.count)
  moreover have "insert_step F ?s1 ?s2" using insert_step.append [of ?s1 g r ?n F] by simp
  moreover have "insert_step F ?s2 (s\<lparr>race_db := add_record r (race_db s), race_pc := (race_pc s)(g := Returned_insert (Ok r))\<rparr>)"
    using insert_step.enter [of ?s2 g r ?n F] by (simp add: add_record_def)
  ultimately show ?thesis by (meson converse_rtranclp_into_rtranclp rtranclp.rtrancl_refl)
qed

text \<open>An insertion that no other one interrupts is \<open>Insert\<close>.\<close>

lemma insert_uninterrupted:
  assumes "race_pc s g = Called req jwks override" and "Insert F req jwks override (race_db s, race_world s) = (q, (d, w))"
  shows "(insert_step F)\<^sup>*\<^sup>* s (s\<lparr>race_db := d, race_world := w, race_pc := (race_pc s)(g := Returned_insert q)\<rparr>)"
    (is "(_)\<^sup>*\<^sup>* s ?end")
proof (cases "ac_ClientName req = None \<or> ac_ClientName req = Some []")
  case True
  then have "?end = s\<lparr>race_pc := (race_pc s)(g := Returned_insert (Err InvalidClientName))\<rparr>"
    using assms(2) by (auto simp: Insert_eq)
  with insert_step.no_name [OF assms(1) True] show ?thesis by (metis r_into_rtranclp)
next
  case named: False
  obtain x w1 where id: "insert_id F override (race_world s) = (x, w1)" by fastforce
  show ?thesis
  proof (cases "\<exists>i. x = Ok i \<and> ClientIdIndex (race_db s) i = None")
    case True
    then obtain i where i: "x = Ok i" "ClientIdIndex (race_db s) i = None" by blast
    let ?r = "\<lparr>rec_ClientId = i, rec_Client = new_client req i (fst (fw_Now F w1)), rec_Jwks = jwks\<rparr>"
    let ?s1 = "s\<lparr>race_world := snd (fw_Now F w1), race_pc := (race_pc s)(g := Checked ?r)\<rparr>"
    have "insert_step F s ?s1"
      using named id i assms(1) by (intro insert_step.free) auto
    moreover have "?end = ?s1\<lparr>race_db := add_record ?r (race_db ?s1), race_pc := (race_pc ?s1)(g := Returned_insert (Ok ?r))\<rparr>"
      using assms(2) named id i by (auto simp: Insert_eq Let_def)
    then have "(insert_step F)\<^sup>*\<^sup>* ?s1 ?end" using insert_tail [of ?s1 g ?r F] by simp
    ultimately show ?thesis by (rule converse_rtranclp_into_rtranclp)
  next
    case False
    have "insert_step F s ?end"
    proof (cases x)
      case (Ok i)
      with False named id assms show ?thesis by (auto simp: Insert_eq intro!: insert_step.taken [OF assms(1), where i = i])
    next
      case (Err e)
      with named id assms show ?thesis by (auto simp: Insert_eq intro!: insert_step.no_id [OF assms(1)])
    next
      case (Panic p)
      with named id assms show ?thesis by (auto simp: Insert_eq intro!: insert_step.id_panic [OF assms(1)])
    qed
    then show ?thesis by (rule r_into_rtranclp)
  qed
qed


section \<open>Two at a time\<close>

lemma inserts_in_turn:
  assumes "race_pc s g = Called req1 jwks1 o1" and "race_pc s h = Called req2 jwks2 o2" and "g \<noteq> h"
    and "Insert F req1 jwks1 o1 (race_db s, race_world s) = (q1, (d1, w1))" and "Insert F req2 jwks2 o2 (d1, w1) = (q2, (d2, w2))"
  shows "(insert_step F)\<^sup>*\<^sup>* s (s\<lparr>race_db := d2, race_world := w2,
    race_pc := (race_pc s)(g := Returned_insert q1, h := Returned_insert q2)\<rparr>)"
proof -
  let ?t = "s\<lparr>race_db := d1, race_world := w1, race_pc := (race_pc s)(g := Returned_insert q1)\<rparr>"
  have "(insert_step F)\<^sup>*\<^sup>* s ?t" using assms(1,4) by (rule insert_uninterrupted)
  moreover have "race_pc ?t h = Called req2 jwks2 o2" using assms(2,3) by simp
  from insert_uninterrupted [OF this, of F q2 d2 w2]
  have "(insert_step F)\<^sup>*\<^sup>* ?t (s\<lparr>race_db := d2, race_world := w2,
      race_pc := (race_pc s)(g := Returned_insert q1, h := Returned_insert q2)\<rparr>)"
    using assms(5) by simp
  ultimately show ?thesis by (rule rtranclp_trans)
qed

text \<open>Two that have both found their ids free may both count before either appends.\<close>

lemma inserts_overlap:
  assumes "race_pc s g = Checked r1" and "race_pc s h = Checked r2" and "g \<noteq> h"
  shows "(insert_step F)\<^sup>*\<^sup>* s (s\<lparr>race_db := (race_db s)\<lparr>Clients := Clients (race_db s) @ [r1, r2],
      ClientIdIndex := (ClientIdIndex (race_db s))(rec_ClientId r1 \<mapsto> length (Clients (race_db s)), rec_ClientId r2 \<mapsto> length (Clients (race_db s)))\<rparr>,
    race_pc := (race_pc s)(g := Returned_insert (Ok r1), h := Returned_insert (Ok r2))\<rparr>)"
    (is "(_)\<^sup>*\<^sup>* s ?end")
proof -
  let ?n = "length (Clients (race_db s))" and ?d = "race_db s"
  let ?s1 = "s\<lparr>race_pc := (race_pc s)(g := Counted r1 ?n)\<rparr>"
  let ?s2 = "s\<lparr>race_pc := (race_pc s)(g := Counted r1 ?n, h := Counted r2 ?n)\<rparr>"
  let ?s3 = "s\<lparr>race_db := ?d\<lparr>Clients := Clients ?d @ [r1]\<rparr>, race_pc := (race_pc s)(h := Counted r2 ?n, g := Appended r1 ?n)\<rparr>"
  let ?s4 = "s\<lparr>race_db := ?d\<lparr>Clients := Clients ?d @ [r1, r2]\<rparr>, race_pc := (race_pc s)(g := Appended r1 ?n, h := Appended r2 ?n)\<rparr>"
  let ?s5 = "s\<lparr>race_db := ?d\<lparr>Clients := Clients ?d @ [r1, r2], ClientIdIndex := (ClientIdIndex ?d)(rec_ClientId r1 \<mapsto> ?n)\<rparr>,
    race_pc := (race_pc s)(h := Appended r2 ?n, g := Returned_insert (Ok r1))\<rparr>"
  have "insert_step F s ?s1" using assms(1) by (rule insert_step.count)
  moreover have "insert_step F ?s1 ?s2" using insert_step.count [of ?s1 h r2 F] assms(2,3) by simp
  moreover have "insert_step F ?s2 ?s3" using insert_step.append [of ?s2 g r1 ?n F] assms(3) by (simp add: fun_upd_twist)
  moreover have "insert_step F ?s3 ?s4" using insert_step.append [of ?s3 h r2 ?n F] assms(3) by (simp add: fun_upd_twist)
  moreover have "insert_step F ?s4 ?s5" using insert_step.enter [of ?s4 g r1 ?n F] assms(3) by (simp add: fun_upd_twist)
  moreover have "insert_step F ?s5 ?end" using insert_step.enter [of ?s5 h r2 ?n F] assms(3) by (simp add: fun_upd_twist)
  ultimately show ?thesis by (meson converse_rtranclp_into_rtranclp rtranclp.rtrancl_refl)
qed

text \<open>
  C36: Two insertions of new clients, one after the other, leave a database that finds both. When the
  two run at the same time, both may succeed and leave a database where the lookup of the
  second client panics: both count the records before either appends one, so that the index gives
  both the same position.
\<close>

theorem concurrent_inserts_break_lookup:
  fixes s :: "'w race"
  assumes calls: "race_pc s g = Called req1 jwks1 o1" "race_pc s h = Called req2 jwks2 o2" "g \<noteq> h"
    and named: "ac_ClientName req1 = Some n1" "n1 \<noteq> []" "ac_ClientName req2 = Some n2" "n2 \<noteq> []"
    and ids: "insert_id F o1 (race_world s) = (Ok i, w1)" "insert_id F o2 (snd (fw_Now F w1)) = (Ok j, w2)" "i \<noteq> j"
    and new: "db_ok (race_db s)" "db_find i (race_db s) = None" "db_find j (race_db s) = None"
  shows "\<exists>t u r1 r2. (insert_step F)\<^sup>*\<^sup>* s t \<and> (insert_step F)\<^sup>*\<^sup>* s u \<and>
    race_pc t g = Returned_insert (Ok r1) \<and> race_pc t h = Returned_insert (Ok r2) \<and> race_pc u = race_pc t \<and>
    db_ok (race_db t) \<and> Db_Get i (race_db t) = Ok (Some r1) \<and> Db_Get j (race_db t) = Ok (Some r2) \<and>
    Db_Get j (race_db u) = Panic (PanicWith ''inconsistent state'')"
proof -
  let ?d = "race_db s" and ?v1 = "snd (fw_Now F w1)" and ?v2 = "snd (fw_Now F w2)"
  let ?r1 = "\<lparr>rec_ClientId = i, rec_Client = new_client req1 i (fst (fw_Now F w1)), rec_Jwks = jwks1\<rparr>"
  let ?r2 = "\<lparr>rec_ClientId = j, rec_Client = new_client req2 j (fst (fw_Now F w2)), rec_Jwks = jwks2\<rparr>"
  have none: "ClientIdIndex ?d i = None" "ClientIdIndex ?d j = None" using new by (simp_all add: db_find_index)
  let ?pc = "(race_pc s)(g := Returned_insert (Ok ?r1), h := Returned_insert (Ok ?r2))"
  let ?t = "s\<lparr>race_db := add_record ?r2 (add_record ?r1 ?d), race_world := ?v2, race_pc := ?pc\<rparr>"
  have "Insert F req1 jwks1 o1 (?d, race_world s) = (Ok ?r1, (add_record ?r1 ?d, ?v1))"
    "Insert F req2 jwks2 o2 (add_record ?r1 ?d, ?v1) = (Ok ?r2, (add_record ?r2 (add_record ?r1 ?d), ?v2))"
    using named none ids by (simp_all add: Insert_eq Let_def add_record_def)
  then have t: "(insert_step F)\<^sup>*\<^sup>* s ?t" by (rule inserts_in_turn [OF calls])
  have one: "db_ok (add_record ?r1 ?d)" "db_find j (add_record ?r1 ?d) = None"
    using new ids(3) by (simp_all add: db_ok_add db_find_add)
  then have both: "db_ok (race_db ?t)" by (simp add: db_ok_add)
  have found: "Db_Get i (race_db ?t) = Ok (Some ?r1)" "Db_Get j (race_db ?t) = Ok (Some ?r2)"
    unfolding Db_Get_find [OF both] using one(2) new ids(3) by (simp_all add: db_find_add)
  let ?s1 = "s\<lparr>race_world := ?v1, race_pc := (race_pc s)(g := Checked ?r1)\<rparr>"
  let ?s2 = "s\<lparr>race_world := ?v2, race_pc := (race_pc s)(g := Checked ?r1, h := Checked ?r2)\<rparr>"
  let ?u = "?s2\<lparr>race_db := ?d\<lparr>Clients := Clients ?d @ [?r1, ?r2],
    ClientIdIndex := (ClientIdIndex ?d)(i \<mapsto> length (Clients ?d), j \<mapsto> length (Clients ?d))\<rparr>, race_pc := ?pc\<rparr>"
  have "insert_step F s ?s1" using calls(1) named none(1) ids(1) by (intro insert_step.free) auto
  moreover have "insert_step F ?s1 ?s2"
    using insert_step.free [of ?s1 h req2 jwks2 o2 F j w2 "fst (fw_Now F w2)" ?v2] calls(2,3) named(3,4) none(2) ids(2) by simp
  moreover have "(insert_step F)\<^sup>*\<^sup>* ?s2 ?u"
    using inserts_overlap [of ?s2 g ?r1 h ?r2 F] calls(3) by (simp add: fun_upd_twist)
  ultimately have u: "(insert_step F)\<^sup>*\<^sup>* s ?u" by (meson converse_rtranclp_into_rtranclp)
  have "Db_Get j (race_db ?u) = Panic (PanicWith ''inconsistent state'')"
    using ids(3) by (simp add: Db_Get_def index_def nth_append)
  with t u both found calls(3) show ?thesis by (intro exI [of _ ?t] exI [of _ ?u] exI [of _ ?r1] exI [of _ ?r2]) simp
qed

text \<open>Ids that are drawn in turn from a world that is a text.\<close>

definition race_lib :: "string fake_world_lib" where
  "race_lib = \<lparr>fw_uuid = (\<lambda>w. (Ok w, CHR ''x'' # w)), fw_Now = (\<lambda>w. (''2025-01-01T00:00:00Z'', w))\<rparr>"

definition race_start :: "string race" where
  "race_start = \<lparr>race_db = NewDb, race_world = ''id'',
     race_pc = (\<lambda>g. Called (zero_add_client_request\<lparr>ac_ClientName := Some (if g = 0 then ''a'' else ''b'')\<rparr>) None [])\<rparr>"

lemma concurrent_inserts_break_lookup_witness:
  "\<exists>t u. (insert_step race_lib)\<^sup>*\<^sup>* race_start t \<and> (insert_step race_lib)\<^sup>*\<^sup>* race_start u \<and> race_pc u = race_pc t \<and>
    (\<exists>r. Db_Get ''xid'' (race_db t) = Ok (Some r)) \<and> Db_Get ''xid'' (race_db u) = Panic (PanicWith ''inconsistent state'')"
proof -
  have calls: "race_pc race_start 0 = Called (zero_add_client_request\<lparr>ac_ClientName := Some ''a''\<rparr>) None []"
      "race_pc race_start 1 = Called (zero_add_client_request\<lparr>ac_ClientName := Some ''b''\<rparr>) None []" "(0::nat) \<noteq> 1"
    by (simp_all add: race_start_def)
  have ids: "insert_id race_lib [] (race_world race_start) = (Ok ''id'', ''xid'')"
      "insert_id race_lib [] (snd (fw_Now race_lib ''xid'')) = (Ok ''xid'', ''xxid'')" "''id'' \<noteq> ''xid''"
    by (simp_all add: insert_id_def race_lib_def race_start_def)
  have new: "db_ok (race_db race_start)" "db_find ''id'' (race_db race_start) = None" "db_find ''xid'' (race_db race_start) = None"
    by (simp_all add: race_start_def)
  show ?thesis
    using concurrent_inserts_break_lookup [OF calls _ _ _ _ ids new] by simp blast
qed

end
