(* ===== verification/FakesProcess.thy ===== *)
theory FakesProcess
  imports FakesServer GoProcess Runtime
begin

text \<open>
  The process of the fake Maskinporten, \<open>main\<close>, \<open>serve\<close> and \<open>setupSignalHandler\<close> of
  \<open>cmd/maskinporten_fakes/main.go\<close>: two servers on one state, each with a goroutine that closes it, a
  goroutine that waits for signals, and a main goroutine that waits for the servers. The goroutines
  interleave in steps; a request is one step.
\<close>


section \<open>Start\<close>

text \<open>The phases of \<open>ListenAndServe\<close>, of the goroutine that closes the server, and of the signal handler.\<close>

datatype server_phase = Starting | Serving | Stopped

datatype closer_phase = AwaitCancel | Closing | ClosedServer

datatype handler_phase = AwaitFirst | AwaitSecond

record 'w fakes_process =
  fp_state :: "'w fake_state"
  fp_server :: "api \<Rightarrow> server_phase"
  fp_closer :: "api \<Rightarrow> closer_phase"
  fp_signals :: nat
  fp_handler :: handler_phase
  fp_cancelled :: bool
  fp_wg :: nat
  fp_exit :: "nat option"

definition start_servers :: "'w \<Rightarrow> 'w fakes_process" where
  "start_servers w = \<lparr>fp_state = NewState w, fp_server = (\<lambda>a. Starting), fp_closer = (\<lambda>a. AwaitCancel), fp_signals = 0,
     fp_handler = AwaitFirst, fp_cancelled = False, fp_wg = 2, fp_exit = None\<rparr>"

text \<open>
  \<open>main\<close> up to \<open>wg.Wait()\<close>: the configuration and the servers. A function named \<open>OrDie\<close> panics where
  its namesake returns an error. The context is cancelled when a signal came before.
\<close>

definition call_or_die :: "('s \<Rightarrow> ('a outcome \<times> 's) option) \<Rightarrow> ('s, 'a) process" where
  "call_or_die m s = map_option (\<lambda>(r, s1). (case r of Ok x \<Rightarrow> Returned x | Err e \<Rightarrow> Crashed (PanicWith ''OrDie'') | Panic p \<Rightarrow> Crashed p, s1)) (m s)"

definition fakes_main ::
  "('k, 'w) runtime_libs \<Rightarrow> go_error option \<Rightarrow> ('k config_state \<times> 'w, config \<times> 'w fakes_process) process"
where
  "fakes_main L ctx_err =
     cli_bind (call_or_die (\<lambda>(st, w). case DiscoverOrDie (rl_uuid L) ctx_err w of (r, w1) \<Rightarrow> Some (r, st, w1))) (\<lambda>ctx.
     cli_bind (call_or_die (GetConfigOrDie (rl_config L) ctx ConfigSourceKoanf [])) (\<lambda>cfg s.
     Some (Returned (cfg, start_servers (snd s)), s)))"

lemma fakes_main_Returned:
  assumes "fakes_main L ctx_err s = Some (Returned (cfg, p), s')"
  shows "ctx_err = None" and "p = start_servers (snd s')" and "validator_sound (rl_config L) \<Longrightarrow> valid_config cfg"
proof -
  from assms obtain ctx s1 where disc: "call_or_die (\<lambda>(st, w). case DiscoverOrDie (rl_uuid L) ctx_err w of (r, w1) \<Rightarrow> Some (r, st, w1)) s =
      Some (Returned ctx, s1)"
    and cfg: "call_or_die (GetConfigOrDie (rl_config L) ctx ConfigSourceKoanf []) s1 = Some (Returned cfg, s')"
    and p: "p = start_servers (snd s')"
    by (auto simp: fakes_main_def cli_bind_Returned)
  show "ctx_err = None"
    using disc by (cases ctx_err) (auto simp: call_or_die_def DiscoverOrDie_def Discover_def split: prod.splits)
  show "p = start_servers (snd s')" by (rule p)
  from cfg obtain r where get: "GetConfig (rl_config L) ctx ConfigSourceKoanf [] s1 = Some (r, s')"
    by (auto simp: call_or_die_def GetConfigOrDie_def)
  with cfg have "r = Ok cfg"
    by (cases r) (simp_all add: call_or_die_def GetConfigOrDie_def)
  with get show "validator_sound (rl_config L) \<Longrightarrow> valid_config cfg" by (simp add: GetConfig_valid)
qed


section \<open>Steps\<close>

text \<open>
  Signals arrive in a channel that holds two. The handler takes the first one and cancels the
  context, and exits at the second one.
\<close>

inductive signal_step :: "'w fakes_process \<Rightarrow> 'w fakes_process \<Rightarrow> bool" where
  arrive: "signal_step s (s\<lparr>fp_signals := min 2 (Suc (fp_signals s))\<rparr>)"
| first: "fp_handler s = AwaitFirst \<Longrightarrow> 0 < fp_signals s \<Longrightarrow>
    signal_step s (s\<lparr>fp_handler := AwaitSecond, fp_signals := fp_signals s - 1, fp_cancelled := True\<rparr>)"
| second: "fp_handler s = AwaitSecond \<Longrightarrow> 0 < fp_signals s \<Longrightarrow> signal_step s (s\<lparr>fp_exit := Some 1\<rparr>)"

text \<open>
  A server. It may fail to listen or to accept, which ends the process; a request runs its handler,
  and a handler that calls \<open>log.Fatal\<close> ends the process, while \<open>net/http\<close> recovers from any other
  panic. A handler may still be running when its server has stopped. Once the context is cancelled
  the server is closed: from then on \<open>ListenAndServe\<close> returns \<open>ErrServerClosed\<close>, and \<open>Close\<close> itself may
  still fail.
\<close>

inductive server_step :: "'w fake_lib \<Rightarrow> api \<Rightarrow> 'w fakes_process \<Rightarrow> 'w fakes_process \<Rightarrow> bool" for F a where
  listen: "fp_server s a = Starting \<Longrightarrow> server_step F a s (s\<lparr>fp_server := (fp_server s)(a := Serving)\<rparr>)"
| serve_fails: "fp_server s a \<noteq> Stopped \<Longrightarrow> server_step F a s (s\<lparr>fp_exit := Some 1\<rparr>)"
| request: "fp_server s a \<noteq> Starting \<Longrightarrow> serve F a req (fp_state s) = (r, st) \<Longrightarrow> \<not> (\<exists>m. r = Panic (FatalExit m)) \<Longrightarrow>
    server_step F a s (s\<lparr>fp_state := st\<rparr>)"
| request_exits: "fp_server s a \<noteq> Starting \<Longrightarrow> serve F a req (fp_state s) = (Panic (FatalExit m), st) \<Longrightarrow>
    server_step F a s (s\<lparr>fp_state := st, fp_exit := Some 1\<rparr>)"
| close: "fp_cancelled s \<Longrightarrow> fp_closer s a = AwaitCancel \<Longrightarrow>
    server_step F a s (s\<lparr>fp_closer := (fp_closer s)(a := Closing)\<rparr>)"
| close_returns: "fp_closer s a = Closing \<Longrightarrow> server_step F a s (s\<lparr>fp_closer := (fp_closer s)(a := ClosedServer)\<rparr>)"
| close_fails: "fp_closer s a = Closing \<Longrightarrow> server_step F a s (s\<lparr>fp_exit := Some 1\<rparr>)"
| stop: "fp_closer s a \<noteq> AwaitCancel \<Longrightarrow> fp_server s a \<noteq> Stopped \<Longrightarrow>
    server_step F a s (s\<lparr>fp_server := (fp_server s)(a := Stopped), fp_wg := fp_wg s - 1\<rparr>)"

text \<open>The process, which takes no step once it has exited.\<close>

inductive fakes_step :: "'w fake_lib \<Rightarrow> 'w fakes_process \<Rightarrow> 'w fakes_process \<Rightarrow> bool" for F where
  signal: "fp_exit s = None \<Longrightarrow> signal_step s s' \<Longrightarrow> fakes_step F s s'"
| server: "fp_exit s = None \<Longrightarrow> server_step F a s s' \<Longrightarrow> fakes_step F s s'"
| main_returns: "fp_exit s = None \<Longrightarrow> fp_wg s = 0 \<Longrightarrow> fakes_step F s (s\<lparr>fp_exit := Some 0\<rparr>)"

inductive_cases signal_stepE: "signal_step s s'"
inductive_cases server_stepE: "server_step F a s s'"
inductive_cases fakes_stepE: "fakes_step F s s'"

inductive fakes_reachable :: "'w fake_lib \<Rightarrow> 'w fakes_process \<Rightarrow> bool" for F where
  start: "fakes_reachable F (start_servers w)"
| more: "fakes_reachable F s \<Longrightarrow> fakes_step F s s' \<Longrightarrow> fakes_reachable F s'"

lemma fakes_steps_reachable: "(fakes_step F)\<^sup>*\<^sup>* (start_servers w) s \<Longrightarrow> fakes_reachable F s"
  by (induction rule: rtranclp_induct) (auto intro: fakes_reachable.intros)


section \<open>What holds in every reachable state\<close>

definition running :: "'w fakes_process \<Rightarrow> nat" where
  "running s = (if fp_server s AuthorityApi = Stopped then 0 else 1) + (if fp_server s SelfServiceApi = Stopped then 0 else 1)"

definition process_ok :: "'w fakes_process \<Rightarrow> bool" where
  "process_ok s \<longleftrightarrow> fp_wg s = running s \<and>
     (\<forall>a. fp_server s a = Stopped \<longrightarrow> fp_closer s a \<noteq> AwaitCancel) \<and>
     (\<not> fp_cancelled s \<longrightarrow> (\<forall>a. fp_closer s a = AwaitCancel)) \<and>
     (fp_cancelled s \<longleftrightarrow> fp_handler s = AwaitSecond) \<and>
     (fp_exit s = None \<or> fp_exit s = Some 1 \<or> fp_exit s = Some 0 \<and> running s = 0)"

lemma all_api: "(\<forall>a. P a) \<longleftrightarrow> P AuthorityApi \<and> P SelfServiceApi"
  by (metis api.exhaust)

lemmas process_ok_simps = process_ok_def running_def all_api

lemma process_ok_start: "process_ok (start_servers w)"
  by (simp add: process_ok_simps start_servers_def)

lemma process_ok_signal: "process_ok s \<Longrightarrow> signal_step s s' \<Longrightarrow> fp_exit s = None \<Longrightarrow> process_ok s'"
  by (erule signal_stepE) (auto simp: process_ok_simps)

lemma process_ok_server: "process_ok s \<Longrightarrow> server_step F a s s' \<Longrightarrow> fp_exit s = None \<Longrightarrow> process_ok s'"
  by (cases a; erule server_stepE; auto simp: process_ok_simps split: if_splits)

lemma process_ok_step: "process_ok s \<Longrightarrow> fakes_step F s s' \<Longrightarrow> process_ok s'"
proof (erule fakes_stepE)
  assume "process_ok s" "fp_exit s = None" "signal_step s s'"
  then show "process_ok s'" by (simp add: process_ok_signal)
next
  fix a assume "process_ok s" "fp_exit s = None" "server_step F a s s'"
  then show "process_ok s'" by (simp add: process_ok_server)
next
  assume "process_ok s" "s' = s\<lparr>fp_exit := Some 0\<rparr>" "fp_wg s = 0"
  then show "process_ok s'" by (simp add: process_ok_def running_def)
qed

lemma process_ok_reachable: "fakes_reachable F s \<Longrightarrow> process_ok s"
  by (induction rule: fakes_reachable.induct) (auto intro: process_ok_start process_ok_step)


section \<open>Progress after a signal\<close>

text \<open>How much is left to do, counted down by every step but a signal that arrives or a request.\<close>

definition server_rank :: "'w fakes_process \<Rightarrow> api \<Rightarrow> nat" where
  "server_rank s a =
     (case fp_server s a of Starting \<Rightarrow> 2 | Serving \<Rightarrow> 1 | Stopped \<Rightarrow> 0) +
     (case fp_closer s a of AwaitCancel \<Rightarrow> 2 | Closing \<Rightarrow> 1 | ClosedServer \<Rightarrow> 0)"

definition process_rank :: "'w fakes_process \<Rightarrow> nat" where
  "process_rank s = (if fp_exit s \<noteq> None then 0 else
     1 + server_rank s AuthorityApi + server_rank s SelfServiceApi + (if fp_handler s = AwaitFirst then 1 else 0))"

lemmas rank_simps = process_rank_def server_rank_def

lemma rank_server: "server_step F a s s' \<Longrightarrow> fp_exit s = None \<Longrightarrow> process_rank s' \<le> process_rank s"
  by (cases a; erule server_stepE; simp add: rank_simps split: server_phase.splits)

lemma rank_signal: "signal_step s s' \<Longrightarrow> fp_exit s = None \<Longrightarrow> process_rank s' \<le> process_rank s"
  by (erule signal_stepE; simp add: rank_simps)

lemma rank_step: "fakes_step F s s' \<Longrightarrow> process_rank s' \<le> process_rank s"
  by (erule fakes_stepE) (simp_all add: rank_server rank_signal, simp add: rank_simps)

text \<open>While the process runs after a signal, some goroutine can go on by itself.\<close>

lemma rank_progress:
  assumes ok: "process_ok s" and run: "fp_exit s = None" and sig: "fp_cancelled s"
  obtains s' where "fakes_step F s s'" and "process_rank s' < process_rank s" and "fp_cancelled s'"
    and "fp_exit s' = None \<or> fp_exit s' = Some 0"
proof -
  consider a where "fp_closer s a = AwaitCancel" | a where "fp_closer s a \<noteq> AwaitCancel" "fp_server s a \<noteq> Stopped"
    | "fp_server s AuthorityApi = Stopped" "fp_server s SelfServiceApi = Stopped"
    by (metis api.exhaust)
  then show ?thesis
  proof cases
    case 1
    show ?thesis
    proof (rule that)
      show "fakes_step F s (s\<lparr>fp_closer := (fp_closer s)(a := Closing)\<rparr>)"
        using run sig 1 by (blast intro: fakes_step.server server_step.close)
      show "process_rank (s\<lparr>fp_closer := (fp_closer s)(a := Closing)\<rparr>) < process_rank s"
        using run 1 by (cases a) (simp_all add: rank_simps)
    qed (simp_all add: sig run)
  next
    case 2
    let ?s' = "s\<lparr>fp_server := (fp_server s)(a := Stopped), fp_wg := fp_wg s - 1\<rparr>"
    show ?thesis
    proof (rule that)
      show "fakes_step F s ?s'" using run 2 by (blast intro: fakes_step.server server_step.stop)
      show "process_rank ?s' < process_rank s"
        using run 2 by (cases a) (auto simp: rank_simps split: server_phase.splits)
    qed (simp_all add: sig run)
  next
    case 3
    then have "fp_wg s = 0" using ok by (simp add: process_ok_def running_def)
    show ?thesis
    proof (rule that)
      show "fakes_step F s (s\<lparr>fp_exit := Some 0\<rparr>)" using run \<open>fp_wg s = 0\<close> by (rule fakes_step.main_returns)
      show "process_rank (s\<lparr>fp_exit := Some 0\<rparr>) < process_rank s" using run by (simp add: rank_simps)
    qed (simp_all add: sig)
  qed
qed

end
