(* ===== verification/FakesProcessProperties.thy ===== *)
theory FakesProcessProperties
  imports FakesProcess FakesProperties RuntimeProperties
begin

text \<open>
  The properties of the fake Maskinporten as a process: how it ends, and that the runs of different
  operators on one fake do not see each other.
\<close>


section \<open>The end\<close>

lemma end_after_cancel:
  assumes "process_ok s" and "fp_exit s = None" and "fp_cancelled s"
  shows "\<exists>s'. (fakes_step F)\<^sup>*\<^sup>* s s' \<and> fp_exit s' = Some 0"
  using assms
proof (induction s rule: measure_induct_rule [where f = process_rank])
  case (less s)
  obtain s1 where step: "fakes_step F s s1" and "process_rank s1 < process_rank s" and "fp_cancelled s1"
    and ends: "fp_exit s1 = None \<or> fp_exit s1 = Some 0"
    using rank_progress [OF less.prems] by blast
  with less.IH [of s1] process_ok_step [OF less.prems(1) step] show ?case
    by (metis converse_rtranclp_into_rtranclp r_into_rtranclp)
qed

text \<open>
  C39: Once \<open>main\<close> has a valid configuration and started the servers, the process ends with 0 only after
  a signal and when both servers have stopped, and otherwise with 1. Once a signal was taken the
  process can end with 0 from wherever it is, by steps of its own; no step makes the way longer, and
  requests that still run do not.
\<close>

theorem fakes_end_after_signal:
  assumes "validator_sound (rl_config L)" and "fakes_main L ctx_err s0 = Some (Returned (cfg, p), s1)" and "(fakes_step F)\<^sup>*\<^sup>* p s"
  shows "ctx_err = None \<and> valid_config cfg \<and>
    (\<forall>n. fp_exit s = Some n \<longrightarrow> n = 1 \<or> n = 0 \<and> fp_cancelled s \<and> (\<forall>a. fp_server s a = Stopped)) \<and>
    (fp_exit s = None \<and> fp_cancelled s \<longrightarrow>
       (\<exists>s'. (fakes_step F)\<^sup>*\<^sup>* s s' \<and> fp_exit s' = Some 0) \<and>
       (\<forall>s'. fakes_step F s s' \<longrightarrow> process_rank s' \<le> process_rank s))"
proof -
  note main = fakes_main_Returned [OF assms(2)]
  have ok: "process_ok s"
    using assms(3) unfolding main(2) by (intro process_ok_reachable fakes_steps_reachable)
  have "n = 1 \<or> n = 0 \<and> fp_cancelled s \<and> (\<forall>a. fp_server s a = Stopped)" if "fp_exit s = Some n" for n
    using ok that by (auto simp: process_ok_simps split: if_splits)
  moreover have "\<exists>s'. (fakes_step F)\<^sup>*\<^sup>* s s' \<and> fp_exit s' = Some 0" if "fp_exit s = None" "fp_cancelled s"
    using ok that by (rule end_after_cancel)
  ultimately show ?thesis using main(1) main(3) [OF assms(1)] by (blast intro: rank_step)
qed

text \<open>A process that took a signal before its servers listen.\<close>

definition signalled :: "'w \<Rightarrow> 'w fakes_process" where
  "signalled w = (start_servers w)\<lparr>fp_signals := 0, fp_handler := AwaitSecond, fp_cancelled := True\<rparr>"

lemma signalled_steps: "(fakes_step F)\<^sup>*\<^sup>* (start_servers w) (signalled w)"
proof -
  let ?s = "start_servers w"
  let ?s1 = "?s\<lparr>fp_signals := min 2 (Suc (fp_signals ?s))\<rparr>"
  let ?s2 = "?s1\<lparr>fp_handler := AwaitSecond, fp_signals := fp_signals ?s1 - 1, fp_cancelled := True\<rparr>"
  have "fakes_step F ?s ?s1" by (intro fakes_step.signal signal_step.arrive) (simp add: start_servers_def)
  moreover have "fakes_step F ?s1 ?s2"
    by (intro fakes_step.signal signal_step.first) (simp_all add: start_servers_def)
  ultimately have "(fakes_step F)\<^sup>*\<^sup>* ?s ?s2" by (rule converse_rtranclp_into_rtranclp [OF _ r_into_rtranclp])
  then show ?thesis by (simp add: signalled_def start_servers_def)
qed

lemma fakes_end_after_signal_witness:
  "\<forall>F :: script_world fake_lib. \<exists>s'. (fakes_step F)\<^sup>*\<^sup>* (signalled (sample_start, [])) s' \<and> fp_exit s' = Some 0"
proof
  fix F :: "script_world fake_lib"
  let ?s0 = "(\<lparr>cwd = [''repo''], koanf = ()\<rparr>, (sample_start, []))"
  have valid: "validator_sound (rl_config sample_runtime_libs)"
    by (simp add: validator_sound_def sample_libs_def sample_runtime_libs_def)
  have main: "fakes_main sample_runtime_libs None ?s0 =
      Some (Returned (sample_runtime_config, start_servers (sample_start, [])), ?s0)"
    by (simp add: fakes_main_def cli_bind_def call_or_die_def DiscoverOrDie_def sample_Discover GetConfigOrDie_def sample_GetConfig)
  have "fp_exit (signalled w) = None \<and> fp_cancelled (signalled w)" for w :: script_world
    by (simp add: signalled_def start_servers_def)
  with fakes_end_after_signal [OF valid main signalled_steps [of F]]
  show "\<exists>s'. (fakes_step F)\<^sup>*\<^sup>* (signalled (sample_start, [])) s' \<and> fp_exit s' = Some 0" by blast
qed


section \<open>Separate runs\<close>

definition db_at :: "string \<Rightarrow> 'w handling \<Rightarrow> db option" where
  "db_at k h = map_of (fs_Db (hs_state h)) k"

lemma keeps_writer [keeps_intros]:
  "keeps (db_at k) (WriteHeader c)" "keeps (db_at k) (Writer_Write t)" "keeps (db_at k) (Add_Header x y)"
  "keeps (db_at k) json_content"
  by (auto simp: keeps_def db_at_def WriteHeader_def Writer_Write_def Add_Header_def json_content_def Let_def)

lemma WriteHeader_db: "WriteHeader c s = (r, s') \<Longrightarrow> db_at k s' = db_at k s"
  by (auto simp: db_at_def WriteHeader_def)

lemma keeps_crash [keeps_intros]: "keeps f (crash p)"
  by (simp add: keeps_def)

lemma keeps_Encode [keeps_intros]: "keeps (db_at k) (Encode r)"
  by (auto simp: Encode_def intro: keeps_intros split: outcome.split)

lemma keeps_or_400 [keeps_intros]:
  assumes "keeps (db_at k) m" and "\<And>x. keeps (db_at k) (f x)"
  shows "keeps (db_at k) (or_400 m f)"
  unfolding keeps_def
proof (intro allI impI)
  fix s r s' assume run: "or_400 m f s = (r, s')"
  obtain q s1 where m: "m s = (q, s1)" by fastforce
  with assms(1) have "db_at k s1 = db_at k s" by (simp add: keeps_def)
  moreover have "db_at k s' = db_at k s1"
    using run m assms(2) by (cases q) (auto simp: or_400_def keeps_def dest: WriteHeader_db)
  ultimately show "db_at k s' = db_at k s" by simp
qed

lemma GetDb_other:
  assumes "GetDb F req s = (r, s')" and "k \<noteq> Header_Get RunIdHeader req"
  shows "map_of (fs_Db s') k = map_of (fs_Db s) k" and "r = Ok i \<Longrightarrow> i = Header_Get RunIdHeader req"
  using assms
  by (auto simp: GetDb_def Let_def bind_def dest: initDb_keeps split: if_splits option.splits outcome.splits prod.splits)

lemma keeps_with_db:
  assumes "k \<noteq> Header_Get RunIdHeader req"
  shows "keeps (db_at k) (with_db F req m)"
  unfolding keeps_def
proof (intro allI impI)
  fix s r s' assume "with_db F req m s = (r, s')"
  then show "db_at k s' = db_at k s"
    unfolding with_db_def
  proof (cases rule: bind_eq_cases)
    case (Ok i s1)
    then have "i = Header_Get RunIdHeader req" "db_at k s1 = db_at k s"
      using GetDb_other(1) [OF _ assms] GetDb_other(2) [OF _ assms refl] by (auto simp: in_server_def on_part_def db_at_def split: prod.splits)
    with Ok(2) assms show ?thesis by (auto simp: in_server_def in_db_def on_part_def db_at_def split: prod.splits)
  qed (use GetDb_other [OF _ assms] in \<open>auto simp: in_server_def on_part_def db_at_def split: prod.splits\<close>)
qed

lemma keeps_authorized [keeps_intros]: "keeps (db_at k) m \<Longrightarrow> keeps (db_at k) (authorized req m)"
  by (simp add: authorized_def keeps_writer)

lemma keeps_decode_body [keeps_intros]: "keeps f (decode_body dec zero req)"
  by (auto simp: decode_body_def intro: keeps_intros split: option.split)

lemma keeps_Let [keeps_intros]: "keeps f (m x) \<Longrightarrow> keeps f (let y = x in m y)"
  by simp

lemma keeps_option [keeps_intros]:
  "keeps f m \<Longrightarrow> (\<And>x. keeps f (g x)) \<Longrightarrow> keeps f (case p of None \<Rightarrow> m | Some x \<Rightarrow> g x)"
  by (simp split: option.split)

lemma keeps_single [keeps_intros]:
  "keeps f m \<Longrightarrow> (\<And>x. keeps f (g x)) \<Longrightarrow> keeps f (case xs of [x] \<Rightarrow> g x | _ \<Rightarrow> m)"
  by (simp split: list.split)

lemma keeps_dump: "keeps (db_at k) (\<lambda>s. Encode (f s) s)"
  using keeps_Encode unfolding keeps_def by blast

lemma keeps_handlers:
  assumes "k \<noteq> Header_Get RunIdHeader req"
  shows "keeps (db_at k) (handleToken F req)" and "keeps (db_at k) (handleWellKnown req)"
    and "keeps (db_at k) (handleClients F req)" and "keeps (db_at k) (handleClientByID F i req)"
    and "keeps (db_at k) (handleClientJwks F i req)" and "keeps (db_at k) (handleDumpPlease F)"
  unfolding handleToken_def handleWellKnown_def handleClients_def handleClientByID_def handleClientJwks_def
    handleDumpPlease_def grant_token_def answer_client_def
  by (intro keeps_intros keeps_with_db [OF assms] keeps_dump)+

lemma keeps_not_found [keeps_intros]: "keeps (db_at k) not_found"
  unfolding not_found_def by (intro keeps_intros)

lemma keeps_client_route:
  assumes "k \<noteq> Header_Get RunIdHeader req"
  shows "keeps (db_at k) (client_route F parts req)"
  by (cases "(F, parts, req)" rule: client_route.cases) (auto intro: keeps_handlers [OF assms] keeps_intros)

lemma keeps_api [keeps_intros]:
  "keeps f m \<Longrightarrow> keeps f m' \<Longrightarrow> keeps f (case api of AuthorityApi \<Rightarrow> m | SelfServiceApi \<Rightarrow> m')"
  by (simp split: api.split)

lemma keeps_route:
  assumes "k \<noteq> Header_Get RunIdHeader req"
  shows "keeps (db_at k) (route F api req)"
  unfolding route_def Let_def healthEndpoint_def
  by (intro keeps_intros keeps_handlers [OF assms] keeps_client_route [OF assms])

text \<open>
  Requests one after the other, each with the server it goes to, while the process lives: a handler that
  calls \<open>log.Fatal\<close> ends it, and with it every database. \<open>net/http\<close> recovers from other panics. These
  are steps of the process.
\<close>

fun serve_all :: "'w fake_lib \<Rightarrow> (api \<times> http_request) list \<Rightarrow> 'w fake_state \<Rightarrow> 'w fake_state option" where
  "serve_all F [] s = Some s"
| "serve_all F ((a, req) # reqs) s = (case serve F a req s of
       (Panic (FatalExit m), s1) \<Rightarrow> None
     | (_, s1) \<Rightarrow> serve_all F reqs s1)"

lemma serve_all_Cons:
  "serve_all F ((a, req) # reqs) s =
     (if \<exists>m. fst (serve F a req s) = Panic (FatalExit m) then None else serve_all F reqs (snd (serve F a req s)))"
  by (simp split: prod.split outcome.split go_panic.split)

declare serve_all.simps(2) [simp del]

lemma serve_all_steps:
  assumes "serve_all F reqs (fp_state p) = Some st" and "fp_exit p = None" and "\<forall>a. fp_server p a \<noteq> Starting"
  shows "(fakes_step F)\<^sup>*\<^sup>* p (p\<lparr>fp_state := st\<rparr>)"
  using assms
proof (induction reqs arbitrary: p)
  case Nil
  then have "p\<lparr>fp_state := st\<rparr> = p" by auto
  then show ?case by simp
next
  case (Cons x reqs)
  obtain a req where x: "x = (a, req)" by (cases x)
  obtain r s1 where serve: "serve F a req (fp_state p) = (r, s1)" by fastforce
  with Cons.prems(1) x have "\<not> (\<exists>m. r = Panic (FatalExit m))" and run: "serve_all F reqs s1 = Some st"
    by (auto simp: serve_all_Cons split: if_splits)
  with serve Cons.prems have "fakes_step F p (p\<lparr>fp_state := s1\<rparr>)"
    by (intro fakes_step.server [where a = a] server_step.request) auto
  moreover have "(fakes_step F)\<^sup>*\<^sup>* (p\<lparr>fp_state := s1\<rparr>) (p\<lparr>fp_state := s1\<rparr>\<lparr>fp_state := st\<rparr>)"
    by (rule Cons.IH) (use run Cons.prems in simp_all)
  ultimately show ?case by (simp add: converse_rtranclp_into_rtranclp)
qed

lemma GetDb_no_run: "Header_Get RunIdHeader req = [] \<Longrightarrow>
    GetDb F req s = (Panic (FatalExit ''Missing X-Altinn-Operator-RunId header in request''), s)"
  by (simp add: GetDb_def)

text \<open>
  C38: Operators that share the fake do not see each other. As long as the process lives, the database
  of a run stays as it is whatever requests with other run ids arrive, and a request of that run is
  routed to it. A request without a run id that gets as far as the databases ends the process, an
  authorized request for all clients for example.
\<close>

theorem runs_are_separate:
  assumes "\<forall>(a, req)\<in>set reqs. Header_Get RunIdHeader req \<noteq> k"
  shows "(serve_all F reqs s = Some s' \<longrightarrow> map_of (fs_Db s') k = map_of (fs_Db s) k \<and>
      (\<forall>req d. Header_Get RunIdHeader req = k \<longrightarrow> k \<noteq> [] \<longrightarrow> map_of (fs_Db s) k = Some d \<longrightarrow>
         GetDb F req s' = (Ok k, s') \<and> db_of k s' = d)) \<and>
    (u_Path (rq_URL req) = clients_path \<and> rq_Method req = ''GET'' \<and> selfServiceAuth req \<noteq> None \<and>
       Header_Get RunIdHeader req = [] \<longrightarrow> serve_all F ((SelfServiceApi, req) # reqs) s = None)"
proof (intro conjI impI)
  assume run: "serve_all F reqs s = Some s'"
  have "map_of (fs_Db s') k = map_of (fs_Db s) k"
    using assms run
  proof (induction reqs arbitrary: s)
    case (Cons x reqs)
    obtain a req where x: "x = (a, req)" by (cases x)
    with Cons.prems(1) have "k \<noteq> Header_Get RunIdHeader req" by auto
    then have "db_at k (snd (route F a req h)) = db_at k h" for h by (intro keepsD keeps_route)
    from this [of "\<lparr>hs_state = s, hs_writer = fresh_writer\<rparr>"]
    have "map_of (fs_Db (snd (serve F a req s))) k = map_of (fs_Db s) k"
      by (auto simp: serve_def db_at_def split: prod.splits outcome.splits)
    with Cons x show ?case by (auto simp: serve_all_Cons split: if_splits)
  qed simp
  then show "map_of (fs_Db s') k = map_of (fs_Db s) k" and
    "\<forall>req d. Header_Get RunIdHeader req = k \<longrightarrow> k \<noteq> [] \<longrightarrow> map_of (fs_Db s) k = Some d \<longrightarrow>
       GetDb F req s' = (Ok k, s') \<and> db_of k s' = d"
    by (auto intro: GetDb_known simp: db_of_def)
next
  assume req: "u_Path (rq_URL req) = clients_path \<and> rq_Method req = ''GET'' \<and> selfServiceAuth req \<noteq> None \<and>
    Header_Get RunIdHeader req = []"
  have "route F SelfServiceApi req = client_route F [] req"
    by (rule route_clients) (use req in simp_all)
  with req have "serve F SelfServiceApi req s = (Panic (FatalExit ''Missing X-Altinn-Operator-RunId header in request''), s)"
    by (auto simp: serve_def handleClients_def authorized_def with_db_def bind_def in_server_def on_part_def
      GetDb_no_run json_content_def Add_Header_def)
  then show "serve_all F ((SelfServiceApi, req) # reqs) s = None" by (simp add: serve_all_Cons)
qed

text \<open>A request of one run, on a fake that knows another.\<close>

definition other_run :: http_request where
  "other_run = (NewRequest ''GET'' \<lparr>u_Origin = ''http://x'', u_Path = ''/token'', u_Query = []\<rparr> None)\<lparr>rq_Headers := [(''X-Altinn-Operator-RunId'', ''run-2'')]\<rparr>"

lemma other_run_served: "\<exists>resp. serve F a other_run s = (Ok resp, s)"
  by (cases a) (simp_all add: serve_def route_def other_run_def NewRequest_def mux_clean_def path_Clean_def path_IsAbs_def
    handleToken_def not_found_def bind_def WriteHeader_def Writer_Write_def put_status_def Let_def clients_path_def)

lemma runs_are_separate_witness:
  "\<forall>F :: unit fake_lib. \<forall>d. \<exists>s'. serve_all F [(SelfServiceApi, other_run), (AuthorityApi, other_run)]
     \<lparr>fs_Db = [(''run-1'', d)], fs_world = ()\<rparr> = Some s' \<and> map_of (fs_Db s') ''run-1'' = Some d"
proof (intro allI)
  fix F :: "unit fake_lib" and d
  let ?s = "\<lparr>fs_Db = [(''run-1'', d)], fs_world = ()\<rparr>"
  have "\<forall>(a, req)\<in>set [(SelfServiceApi, other_run), (AuthorityApi, other_run)]. Header_Get RunIdHeader req \<noteq> ''run-1''"
    by (simp add: Header_Get_def other_run_def RunIdHeader_def)
  note separate = runs_are_separate [OF this, of F ?s]
  obtain s' where "serve_all F [(SelfServiceApi, other_run), (AuthorityApi, other_run)] ?s = Some s'"
    using other_run_served [of F SelfServiceApi ?s] other_run_served [of F AuthorityApi ?s] by (auto simp: serve_all_Cons)
  with separate [of s'] show "\<exists>s'. serve_all F [(SelfServiceApi, other_run), (AuthorityApi, other_run)] ?s = Some s' \<and>
     map_of (fs_Db s') ''run-1'' = Some d" by simp
qed

end
