(* ===== verification/JsonIndent.thy ===== *)
theory JsonIndent
  imports Json
begin

text \<open>
  The output of \<open>json.MarshalIndent\<close> with two blanks: each element and each member on a line of its
  own. The white space does not matter to a reader: what is written this way is read back.
\<close>

definition new_line :: "nat \<Rightarrow> string" where
  "new_line n = CHR 0x0A # concat (replicate n ''  '')"

fun json_indent :: "nat \<Rightarrow> json \<Rightarrow> string" where
  "json_indent n (JArr js) =
     (if js = [] then ''[]''
      else ''['' @ new_line (Suc n) @ join_with ('','' @ new_line (Suc n)) (map (json_indent (Suc n)) js) @
        new_line n @ '']'')"
| "json_indent n (JObj ms) =
     (if ms = [] then ''{}''
      else ''{'' @ new_line (Suc n) @
        join_with ('','' @ new_line (Suc n)) (map (\<lambda>(k, v). quote_text k @ '': '' @ json_indent (Suc n) v) ms) @
        new_line n @ ''}'')"
| "json_indent n j = json_text j"

text \<open>\<open>json.Marshal\<close> or \<open>json.MarshalIndent\<close>.\<close>

definition json_output :: "bool \<Rightarrow> json \<Rightarrow> string" where
  "json_output pretty j = (if pretty then json_indent 0 j else json_text j)"


section \<open>White space is skipped\<close>

lemma new_line_space: "list_all json_space (new_line n)"
  by (induction n) (simp_all add: new_line_def json_space_def)

lemma skip_space_append: "list_all json_space ws \<Longrightarrow> skip_space (ws @ s) = skip_space s"
  by (induction ws) (simp_all add: skip_space_def)

lemma skip_new_line [simp]: "skip_space (new_line n @ s) = skip_space s"
  by (rule skip_space_append [OF new_line_space])

lemma read_value_space: "list_all json_space ws \<Longrightarrow> read_value n (ws @ s) = read_value n s"
  by (cases n) (simp_all add: skip_space_append)

lemma ends_number_new_line [simp]: "ends_number (new_line n @ s)"
  by (simp add: new_line_def ends_number_def number_char_def is_digit_def digit_of_def)

lemma json_indent_head:
  assumes "json_ok j"
  obtains c cs where "json_indent n j = c # cs" and "\<not> json_space c" and "c \<noteq> CHR '']''" and "c \<noteq> CHR ''}''"
proof (cases j)
  case (JArr js)
  then show ?thesis using that by (cases js) auto
next
  case (JObj ms)
  then show ?thesis using that by (cases ms) auto
qed (use json_text_head [OF assms] that in \<open>auto simp del: json_text.simps\<close>)


section \<open>Reading back\<close>

definition reads_indented :: "json \<Rightarrow> bool" where
  "reads_indented j \<longleftrightarrow> (\<forall>d n rest. length (json_indent d j) \<le> n \<longrightarrow> ends_number rest \<longrightarrow>
     read_value n (json_indent d j @ rest) = Some (j, rest))"

lemma reads_indentedD:
  "reads_indented j \<Longrightarrow> list_all json_space ws \<Longrightarrow> length (json_indent d j) \<le> n \<Longrightarrow> ends_number rest \<Longrightarrow>
     read_value n (ws @ json_indent d j @ rest) = Some (j, rest)"
  by (simp add: reads_indented_def read_value_space)

lemma read_elems_indent:
  assumes "js \<noteq> []" and "\<forall>j\<in>set js. reads_indented j" and "list_all json_space ws"
    and "Suc (length (join_with ('','' @ new_line d) (map (json_indent d) js))) \<le> n"
  shows "read_elems n (ws @ join_with ('','' @ new_line d) (map (json_indent d) js) @ new_line e @ CHR '']'' # rest) =
    Some (js, rest)"
  using assms
proof (induction js arbitrary: n ws)
  case Nil
  then show ?case by simp
next
  case (Cons j js)
  from Cons.prems(4) obtain m where n: "n = Suc m" by (cases n) auto
  from Cons.prems(2) have j: "reads_indented j" by simp
  show ?case
  proof (cases "js = []")
    case True
    with Cons.prems(4) n show ?thesis
      using reads_indentedD [OF j Cons.prems(3), of d m "new_line e @ CHR '']'' # rest"]
      by (simp add: skip_space_same)
  next
    case False
    let ?J = "join_with ('','' @ new_line d) (map (json_indent d) js)"
    have joined: "join_with ('','' @ new_line d) (map (json_indent d) (j # js)) = json_indent d j @ CHR '','' # new_line d @ ?J"
      using False by (simp add: join_with_Cons)
    from Cons.prems(4) n joined have le: "length (json_indent d j) \<le> m" "Suc (length ?J) \<le> m" by auto
    have "read_elems m (new_line d @ ?J @ new_line e @ CHR '']'' # rest) = Some (js, rest)"
      using Cons.IH [OF False _ new_line_space le(2)] Cons.prems(2) by simp
    then show ?thesis
      using reads_indentedD [OF j Cons.prems(3) le(1), of "CHR '','' # new_line d @ ?J @ new_line e @ CHR '']'' # rest"]
      unfolding joined n by (simp add: skip_space_same)
  qed
qed

abbreviation member_indent :: "nat \<Rightarrow> string \<times> json \<Rightarrow> string" where
  "member_indent d \<equiv> (\<lambda>(k, v). quote_text k @ '': '' @ json_indent d v)"

lemma read_members_indent:
  assumes "ms \<noteq> []" and "\<forall>kv\<in>set ms. reads_indented (snd kv)" and "list_all json_space ws"
    and "Suc (length (join_with ('','' @ new_line d) (map (member_indent d) ms))) \<le> n"
  shows "read_members n (ws @ join_with ('','' @ new_line d) (map (member_indent d) ms) @ new_line e @ CHR ''}'' # rest) =
    Some (ms, rest)"
  using assms
proof (induction ms arbitrary: n ws)
  case Nil
  then show ?case by simp
next
  case (Cons kv ms)
  obtain k v where kv: "kv = (k, v)" by (cases kv)
  from Cons.prems(4) obtain m where n: "n = Suc m" by (cases n) auto
  from Cons.prems(2) kv have v: "reads_indented v" by simp
  have blank: "list_all json_space '' ''" by (simp add: json_space_def)
  show ?case
  proof (cases "ms = []")
    case True
    with Cons.prems(3,4) n kv show ?thesis
      using reads_indentedD [OF v blank, of d m "new_line e @ CHR ''}'' # rest"]
      by (simp add: skip_space_append skip_space_same quote_text_def read_units_quoted)
  next
    case False
    let ?M = "join_with ('','' @ new_line d) (map (member_indent d) ms)"
    have joined: "join_with ('','' @ new_line d) (map (member_indent d) (kv # ms)) =
        quote_text k @ CHR '':'' # '' '' @ json_indent d v @ CHR '','' # new_line d @ ?M"
      using False kv by (simp add: join_with_Cons)
    from Cons.prems(4) n joined have le: "length (json_indent d v) \<le> m" "Suc (length ?M) \<le> m" by auto
    have "read_members m (new_line d @ ?M @ new_line e @ CHR ''}'' # rest) = Some (ms, rest)"
      using Cons.IH [OF False _ new_line_space le(2)] Cons.prems(2) by simp
    then show ?thesis
      using reads_indentedD [OF v blank le(1), of "CHR '','' # new_line d @ ?M @ new_line e @ CHR ''}'' # rest"]
        Cons.prems(3) kv
      unfolding joined n
      by (simp add: skip_space_append skip_space_same quote_text_def read_units_quoted)
  qed
qed

lemma reads_back_scalar: "json_ok j \<Longrightarrow> (\<And>d. json_indent d j = json_text j) \<Longrightarrow> reads_indented j"
  using json_ok_reads_back [of j] by (simp add: reads_indented_def reads_back_def)

lemma json_ok_reads_indented: "json_ok j \<Longrightarrow> reads_indented j"
proof (induction j)
  case (JArr js)
  show ?case
    unfolding reads_indented_def
  proof (intro allI impI)
    fix d n rest assume n: "length (json_indent d (JArr js)) \<le> n"
    then obtain m where m: "n = Suc m" by (cases n) (auto split: if_splits)
    show "read_value n (json_indent d (JArr js) @ rest) = Some (JArr js, rest)"
    proof (cases js)
      case Nil
      with m show ?thesis by (simp add: skip_space_same)
    next
      case (Cons j js')
      let ?J = "join_with ('','' @ new_line (Suc d)) (map (json_indent (Suc d)) js)"
      from JArr.prems Cons have "json_ok j" by simp
      then obtain c cs where c: "json_indent (Suc d) j = c # cs" "\<not> json_space c" "c \<noteq> CHR '']''"
        by (rule json_indent_head)
      then obtain t where t: "?J = c # t"
        using Cons by (cases js') auto
      from n m Cons have "Suc (length ?J) \<le> m" by simp
      moreover have "\<forall>j\<in>set js. reads_indented j"
        using JArr by (auto simp: list_all_iff)
      ultimately have "read_elems m (new_line (Suc d) @ ?J @ new_line d @ CHR '']'' # rest) = Some (js, rest)"
        using Cons by (intro read_elems_indent new_line_space) auto
      moreover have "skip_space (new_line (Suc d) @ ?J @ new_line d @ CHR '']'' # rest) = c # t @ new_line d @ CHR '']'' # rest"
        using c(2) t by (simp add: skip_space_same)
      moreover have "json_indent d (JArr js) @ rest = CHR ''['' # new_line (Suc d) @ ?J @ new_line d @ CHR '']'' # rest"
        using Cons by simp
      ultimately show ?thesis
        using c(3) by (simp only: m read_value.simps) (simp add: skip_space_same)
    qed
  qed
next
  case (JObj ms)
  show ?case
    unfolding reads_indented_def
  proof (intro allI impI)
    fix d n rest assume n: "length (json_indent d (JObj ms)) \<le> n"
    then obtain m where m: "n = Suc m" by (cases n) (auto split: if_splits)
    show "read_value n (json_indent d (JObj ms) @ rest) = Some (JObj ms, rest)"
    proof (cases ms)
      case Nil
      with m show ?thesis by (simp add: skip_space_same)
    next
      case (Cons kv ms')
      let ?M = "join_with ('','' @ new_line (Suc d)) (map (member_indent (Suc d)) ms)"
      obtain t where t: "?M = dquote # t"
        using Cons by (cases kv; cases ms') (auto simp: quote_text_def)
      from n m Cons have "Suc (length ?M) \<le> m" by simp
      moreover have "\<forall>kv\<in>set ms. reads_indented (snd kv)"
        using JObj by (fastforce simp: list_all_iff)
      ultimately have "read_members m (new_line (Suc d) @ ?M @ new_line d @ CHR ''}'' # rest) = Some (ms, rest)"
        using Cons by (intro read_members_indent new_line_space) auto
      moreover have "skip_space (new_line (Suc d) @ ?M @ new_line d @ CHR ''}'' # rest) =
          dquote # t @ new_line d @ CHR ''}'' # rest"
        using t by (simp add: skip_space_same)
      moreover have "json_indent d (JObj ms) @ rest = CHR ''{'' # new_line (Suc d) @ ?M @ new_line d @ CHR ''}'' # rest"
        using Cons by simp
      ultimately show ?thesis
        by (simp only: m read_value.simps) (simp add: skip_space_same)
    qed
  qed
qed (use reads_back_scalar in auto)

lemma json_unmarshal_output [simp]:
  assumes "json_ok j" shows "json_unmarshal (json_output pretty j) = Some j"
proof (cases pretty)
  case True
  have "read_value (2 * length (json_indent 0 j) + 2) (json_indent 0 j @ []) = Some (j, [])"
    using reads_indentedD [OF json_ok_reads_indented [OF assms], of "[]" 0 _ "[]"] by (simp del: read_value.simps)
  with True show ?thesis
    by (simp add: json_output_def json_unmarshal_def skip_space_def del: read_value.simps)
qed (simp add: json_output_def assms)

end
