(* ===== verification/Utils.thy ===== *)
theory Utils
  imports GoProcess JsonIndent Runtime
begin

text \<open>
  The developer's command line tool, \<open>cmd/utils/main.go\<close>: it prints an access token, lists clients,
  deletes a client, or makes a key. A command is a \<open>process\<close>; it may never end, because the search
  for the project root does not. What goes to standard output is kept as lines; what goes to standard error (usage, errors, the settings that
  \<open>-verbose\<close> prints) is left out.
\<close>


section \<open>Commands\<close>

record ('k, 'w) cli_state =
  cli_config :: "'k config_state"
  cli_world :: 'w
  cli_stdout :: "string list"

type_synonym ('k, 'w, 'a) cli = "(('k, 'w) cli_state, 'a) process"

text \<open>A computation that takes the outside world as it is.\<close>

definition at_world :: "('w \<Rightarrow> ('k, 'w, 'a) cli) \<Rightarrow> ('k, 'w, 'a) cli" where
  "at_world f s = f (cli_world s) s"

definition Println :: "string \<Rightarrow> ('k, 'w, unit) cli" where
  "Println line s = Some (Returned (), s\<lparr>cli_stdout := cli_stdout s @ [line]\<rparr>)"

text \<open>A call on the outside world.\<close>

definition cli_call :: "('w, 'a) prog \<Rightarrow> ('k, 'w, 'a outcome) cli" where
  "cli_call m s = Some (case m (cli_world s) of
       (Panic p, w) \<Rightarrow> (Crashed p, s\<lparr>cli_world := w\<rparr>)
     | (r, w) \<Rightarrow> (Returned r, s\<lparr>cli_world := w\<rparr>))"

definition call_or_exit :: "('w, 'a) prog \<Rightarrow> ('k, 'w, 'a) cli" where
  "call_or_exit m = cli_bind (cli_call m) or_exit"

text \<open>A method of the API client, whose caches the command does not use again.\<close>

definition client_call :: "'w http_state \<Rightarrow> ('w http_state, 'a) prog \<Rightarrow> ('w, 'a) prog" where
  "client_call st m w = (case m (st\<lparr>env := w\<rparr>) of (r, st') \<Rightarrow> (r, env st'))"

definition load_cli_config :: "('k, 'w) runtime_libs \<Rightarrow> op_context \<Rightarrow> string \<Rightarrow> ('k, 'w, config outcome) cli" where
  "load_cli_config L ctx envFile s =
     map_option (\<lambda>(r, st, w).
         (case r of Panic p \<Rightarrow> Crashed p | _ \<Rightarrow> Returned r, s\<lparr>cli_config := st, cli_world := w\<rparr>))
       (GetConfig (rl_config L) ctx ConfigSourceKoanf envFile (cli_config s, cli_world s))"

definition cli_client :: "('k, 'w) runtime_libs \<Rightarrow> op_context \<Rightarrow> config \<Rightarrow> 'w \<Rightarrow> ('w http_api \<times> 'w http_state) outcome" where
  "cli_client L ctx cfg w =
     NewHttpApiClient (rl_jose L) (rl_jwt L) (rl_net L) (MaskinportenApi cfg) ctx (rl_clock L) w"

text \<open>\<open>setupMaskinportenClient\<close>; every caller exits with 1 on its error.\<close>

definition setupMaskinportenClient ::
  "('k, 'w) runtime_libs \<Rightarrow> go_error option \<Rightarrow> string \<Rightarrow> ('k, 'w, (config \<times> 'w http_api \<times> 'w http_state) outcome) cli"
where
  "setupMaskinportenClient L ctx_err envFile =
     cli_bind (cli_call (Discover (rl_uuid L) ctx_err)) (\<lambda>ctx. case ctx of
         Ok ctx \<Rightarrow> cli_bind (load_cli_config L ctx envFile) (\<lambda>cfg. case cfg of
             Ok cfg \<Rightarrow> at_world (\<lambda>w. case cli_client L ctx cfg w of
                 Ok (c, st) \<Rightarrow> cli_ret (Ok (cfg, c, st))
               | Err e \<Rightarrow> cli_ret (Err (ErrWrap ''failed to create Maskinporten client'' e))
               | Panic p \<Rightarrow> cli_crash p)
           | Err e \<Rightarrow> cli_ret (Err (ErrWrap (''failed to load config from '' @ envFile) e))
           | Panic p \<Rightarrow> cli_crash p)
       | Err e \<Rightarrow> cli_ret (Err (ErrWrap ''failed to discover operator context'' e))
       | Panic p \<Rightarrow> cli_crash p)"


section \<open>The commands\<close>

definition env_flags :: "string \<rightharpoonup> flag_kind" where
  "env_flags = [''env'' \<mapsto> StringFlag, ''verbose'' \<mapsto> BoolFlag]"

definition getToken :: "('k, 'w) runtime_libs \<Rightarrow> go_error option \<Rightarrow> string list \<Rightarrow> ('k, 'w, unit) cli" where
  "getToken L ctx_err args =
     cli_bind (parse_or_exit env_flags args) (\<lambda>fs.
     cli_bind (call_or_exit (Discover (rl_uuid L) ctx_err)) (\<lambda>ctx.
     cli_bind (cli_bind (load_cli_config L ctx (string_flag ''env'' ''dev.env'' fs)) or_exit) (\<lambda>cfg.
     cli_bind (at_world (\<lambda>w. or_exit (cli_client L ctx cfg w))) (\<lambda>(c, st).
     cli_bind (call_or_exit (client_call st (GetAccessToken c))) (\<lambda>tokenResponse.
     cli_bind (or_exit (deref tokenResponse)) (\<lambda>tok.
     Println (tr_AccessToken tok)))))))"

definition enc_client_list :: "jose_lib \<Rightarrow> client_response list \<Rightarrow> json outcome" where
  "enc_client_list J cls = obind (omapM (enc_client_response J) cls) (\<lambda>js. Ok (JArr js))"

definition getClients :: "('k, 'w) runtime_libs \<Rightarrow> go_error option \<Rightarrow> string list \<Rightarrow> ('k, 'w, unit) cli" where
  "getClients L ctx_err args =
     cli_bind (parse_or_exit (env_flags(''pretty'' \<mapsto> BoolFlag)) args) (\<lambda>fs.
     cli_bind (cli_bind (setupMaskinportenClient L ctx_err (string_flag ''env'' ''dev.env'' fs)) or_exit) (\<lambda>(cfg, c, st).
     cli_bind (call_or_exit (client_call st (GetAllClients c))) (\<lambda>clients.
     cli_bind (or_exit (enc_client_list (rl_jose L) clients)) (\<lambda>output.
     Println (json_output (bool_flag ''pretty'' fs) output)))))"

definition deleteClient :: "('k, 'w) runtime_libs \<Rightarrow> go_error option \<Rightarrow> string list \<Rightarrow> ('k, 'w, unit) cli" where
  "deleteClient L ctx_err args =
     cli_bind (parse_or_exit (env_flags(''client-id'' \<mapsto> StringFlag)) args) (\<lambda>fs.
     let clientID = string_flag ''client-id'' [] fs in
     if clientID = [] then os_Exit 1
     else
       cli_bind (cli_bind (setupMaskinportenClient L ctx_err (string_flag ''env'' ''dev.env'' fs)) or_exit) (\<lambda>(cfg, c, st).
       cli_bind (call_or_exit (client_call st (DeleteClient c clientID))) (\<lambda>_.
       Println clientID)))"

definition jwk_flags :: "string \<rightharpoonup> flag_kind" where
  "jwk_flags = [''cert-common-name'' \<mapsto> StringFlag, ''not-after'' \<mapsto> StringFlag,
     ''verbose'' \<mapsto> BoolFlag, ''pretty'' \<mapsto> BoolFlag]"

definition cli_now :: "'w clock \<Rightarrow> ('k, 'w, instant) cli" where
  "cli_now clock = call_or_exit (reading clock)"

text \<open>The expiry: a year from now, or what the flag says.\<close>

definition not_after_time :: "('k, 'w) runtime_libs \<Rightarrow> string \<Rightarrow> ('k, 'w, instant) cli" where
  "not_after_time L notAfterStr =
     (if notAfterStr = [] then cli_bind (cli_now (rl_clock L)) (\<lambda>now. cli_ret (now + Hour * 24 * 365))
      else (case time_Parse notAfterStr of None \<Rightarrow> os_Exit 1 | Some t \<Rightarrow> cli_ret t))"

fun print_lines :: "string list \<Rightarrow> ('k, 'w, unit) cli" where
  "print_lines [] = cli_ret ()"
| "print_lines (l # ls) = cli_bind (Println l) (\<lambda>_. print_lines ls)"

definition createJwk :: "('k, 'w) runtime_libs \<Rightarrow> go_error option \<Rightarrow> string list \<Rightarrow> ('k, 'w, unit) cli" where
  "createJwk L ctx_err args =
     cli_bind (parse_or_exit jwk_flags args) (\<lambda>fs.
     let pretty = bool_flag ''pretty'' fs in
     cli_bind (not_after_time L (string_flag ''not-after'' [] fs)) (\<lambda>notAfter.
     cli_bind (call_or_exit (Discover (rl_uuid L) ctx_err)) (\<lambda>ctx.
     cli_bind (call_or_exit (NewDefaultService ctx (rl_clock L) (rl_random L))) (\<lambda>cryptoService.
     cli_bind (call_or_exit (CreateJwks cryptoService (string_flag ''cert-common-name'' ''default-cert'' fs) notAfter)) (\<lambda>jwks.
     cli_bind (or_exit (index (Keys jwks) 0)) (\<lambda>jwk.
     cli_bind (or_exit (Jwk_Public (rl_jose L) jwk)) (\<lambda>publicJwk.
     cli_bind (or_exit (enc_jwk_ptr (rl_jose L) jwk)) (\<lambda>jwkJson.
     cli_bind (or_exit (enc_jwk_ptr (rl_jose L) publicJwk)) (\<lambda>publicJwkJson.
     print_lines [json_output pretty jwkJson, ''---'', json_output pretty publicJwkJson])))))))))"

text \<open>\<open>main\<close>, with the arguments after the name of the program.\<close>

definition utils_main :: "('k, 'w) runtime_libs \<Rightarrow> go_error option \<Rightarrow> string list \<Rightarrow> ('k, 'w, unit) cli" where
  "utils_main L ctx_err args = (case args of
       command # subcommand # rest \<Rightarrow>
         if command = ''get'' then
           (if subcommand = ''token'' then getToken L ctx_err rest
            else if subcommand = ''clients'' then getClients L ctx_err rest else os_Exit 1)
         else if command = ''create'' then
           (if subcommand = ''jwk'' then createJwk L ctx_err rest else os_Exit 1)
         else if command = ''delete'' then
           (if subcommand = ''client'' then deleteClient L ctx_err rest else os_Exit 1)
         else os_Exit 1
     | _ \<Rightarrow> os_Exit 1)"

end
