(* ===== verification/UtilsProperties.thy ===== *)
theory UtilsProperties
  imports Utils RuntimeProperties ControllerProperties
begin

text \<open>
  The properties of the command line tool: what it prints when a key is made, that a command that
  fails prints nothing, and that a deletion needs an id.
\<close>


section \<open>Failing commands\<close>

text \<open>
  A program that never prints and, if it exits, does so with at most 2; and one that may print,
  but only if it returns.
\<close>

definition silent :: "('k, 'w, 'a) cli \<Rightarrow> bool" where
  "silent m \<longleftrightarrow> (\<forall>s r s'. m s = Some (r, s') \<longrightarrow>
     cli_stdout s' = cli_stdout s \<and> (\<forall>n. r = Exited n \<longrightarrow> n \<le> 2))"

definition quiet :: "('k, 'w, 'a) cli \<Rightarrow> bool" where
  "quiet m \<longleftrightarrow> (\<forall>s r s'. m s = Some (r, s') \<longrightarrow> (\<forall>x. r \<noteq> Returned x) \<longrightarrow>
     cli_stdout s' = cli_stdout s \<and> (\<forall>n. r = Exited n \<longrightarrow> n \<le> 2))"

named_theorems quiet_intros \<open>which programs print nothing\<close>

lemma silent_bind [quiet_intros]:
  assumes "silent m" and "\<And>x. silent (f x)" shows "silent (cli_bind m f)"
  unfolding silent_def
proof (intro allI impI)
  fix s r s' assume "cli_bind m f s = Some (r, s')"
  with assms show "cli_stdout s' = cli_stdout s \<and> (\<forall>n. r = Exited n \<longrightarrow> n \<le> 2)"
    by (fastforce simp: cli_bind_def silent_def split: option.splits prod.splits cli_result.splits)
qed

lemma quiet_bind [quiet_intros]:
  assumes "silent m" and "\<And>x. quiet (f x)" shows "quiet (cli_bind m f)"
  unfolding quiet_def
proof (intro allI impI)
  fix s r s' assume "cli_bind m f s = Some (r, s')" and "\<forall>x. r \<noteq> Returned x"
  with assms show "cli_stdout s' = cli_stdout s \<and> (\<forall>n. r = Exited n \<longrightarrow> n \<le> 2)"
    by (fastforce simp: cli_bind_def silent_def quiet_def split: option.splits prod.splits cli_result.splits)
qed

lemma silent_basic [quiet_intros]:
  "silent (cli_ret x)" "n \<le> 2 \<Longrightarrow> silent (os_Exit n)" "silent (or_exit r)" "silent (cli_call m)"
  "silent (cli_crash p)"
  by (auto simp: silent_def cli_ret_def cli_crash_def os_Exit_def or_exit_def cli_call_def split: outcome.splits prod.splits)

lemma silent_state [quiet_intros]: "(\<And>w. silent (f w)) \<Longrightarrow> silent (at_world f)"
  by (auto simp: silent_def at_world_def)

lemma silent_config [quiet_intros]: "silent (load_cli_config L ctx file)"
  by (auto simp: silent_def load_cli_config_def split: outcome.split_asm)

lemma silent_flags [quiet_intros]: "silent (parse_or_exit formal args)"
  by (auto simp: parse_or_exit_def intro!: quiet_intros split: flag_result.splits)

lemma silent_call [quiet_intros]: "silent (call_or_exit m)"
  unfolding call_or_exit_def by (intro quiet_intros)

lemma silent_setup [quiet_intros]: "silent (setupMaskinportenClient L e file)"
  unfolding setupMaskinportenClient_def
  by (intro quiet_intros) (auto intro!: quiet_intros split: outcome.splits)

lemma silent_not_after [quiet_intros]: "silent (not_after_time L t)"
  unfolding not_after_time_def cli_now_def by (auto intro!: quiet_intros split: option.splits)

lemma print_lines_run: "print_lines ls s = Some (Returned (), s\<lparr>cli_stdout := cli_stdout s @ ls\<rparr>)"
  by (induction ls arbitrary: s) (simp_all add: cli_ret_def cli_bind_def Println_def)

lemma quiet_basic [quiet_intros]: "quiet (Println l)" "quiet (print_lines ls)" "n \<le> 2 \<Longrightarrow> quiet (os_Exit n)"
  by (auto simp: quiet_def Println_def print_lines_run os_Exit_def)

lemma quiet_commands [quiet_intros]:
  "quiet (getToken L e args)" "quiet (getClients L e args)" "quiet (deleteClient L e args)"
  "quiet (createJwk L e args)"
  unfolding getToken_def getClients_def deleteClient_def createJwk_def Let_def
  by (auto intro!: quiet_intros simp del: print_lines.simps split: prod.splits)

text \<open>
  A command that does not return, because it exits or crashes, has printed nothing to standard
  output, and its exit code is 0 (help was asked for), 1 or 2. A deletion without the id of a
  client ends with 1 before anything else is done.
\<close>

theorem failed_command_prints_nothing:
  "(\<forall>r s'. utils_main L ctx_err args s = Some (r, s') \<longrightarrow> r \<noteq> Returned () \<longrightarrow>
      cli_stdout s' = cli_stdout s \<and> (\<forall>n. r = Exited n \<longrightarrow> n \<le> 2)) \<and>
   (\<forall>flags fs. args = ''delete'' # ''client'' # flags \<longrightarrow>
      parse_flags (env_flags(''client-id'' \<mapsto> StringFlag)) [] flags = Parsed fs \<longrightarrow>
      string_flag ''client-id'' [] fs = [] \<longrightarrow> utils_main L ctx_err args s = Some (Exited 1, s))"
proof (rule conjI; intro allI impI)
  fix r s' assume run: "utils_main L ctx_err args s = Some (r, s')" and r: "r \<noteq> Returned ()"
  have "quiet (utils_main L ctx_err args)"
    unfolding utils_main_def by (simp add: quiet_commands quiet_basic split: list.split)
  moreover have "\<forall>x. r \<noteq> Returned x" using r by simp
  ultimately show "cli_stdout s' = cli_stdout s \<and> (\<forall>n. r = Exited n \<longrightarrow> n \<le> 2)"
    using run unfolding quiet_def by blast
qed (simp add: utils_main_def deleteClient_def parse_or_exit_def cli_bind_def cli_ret_def os_Exit_def)

lemma failed_command_prints_nothing_witness:
  "utils_main sample_runtime_libs None [''delete'', ''client'', ''-env=local.env'']
     \<lparr>cli_config = \<lparr>cwd = [''repo''], koanf = ()\<rparr>, cli_world = (sample_start, []), cli_stdout = []\<rparr> =
   Some (Exited 1, \<lparr>cli_config = \<lparr>cwd = [''repo''], koanf = ()\<rparr>, cli_world = (sample_start, []), cli_stdout = []\<rparr>)"
proof -
  have "parse_flags (env_flags(''client-id'' \<mapsto> StringFlag)) [] [''-env=local.env''] =
      Parsed [(''env'', FlagString ''local.env'')]"
    by (simp add: read_flag_def split_flag_def env_flags_def Let_def)
  from conjunct2 [OF failed_command_prints_nothing, rule_format, OF refl this] show ?thesis
    by (simp add: string_flag_def)
qed


section \<open>A new key\<close>

lemma Println_Returned [simp]:
  "Println l s = Some (Returned u, s') \<longleftrightarrow> s' = s\<lparr>cli_stdout := cli_stdout s @ [l]\<rparr>"
  by (auto simp: Println_def)

lemma call_or_exit_Returned:
  "call_or_exit m s = Some (Returned x, s') \<longleftrightarrow>
     (\<exists>w. m (cli_world s) = (Ok x, w) \<and> s' = s\<lparr>cli_world := w\<rparr>)"
  by (auto simp: call_or_exit_def cli_bind_Returned cli_call_def split: outcome.splits prod.splits)

lemma not_after_Returned:
  "not_after_time L str s = Some (Returned t, s') \<Longrightarrow> str \<noteq> [] \<Longrightarrow> time_Parse str = Some t"
  by (auto simp: not_after_time_def split: option.splits)

lemma not_after_stdout:
  "not_after_time L str s = Some (r, s') \<Longrightarrow> cli_stdout s' = cli_stdout s"
  using silent_not_after [of L str] by (simp add: silent_def)

text \<open>
  C40: The command that makes a key prints the key, a line of dashes and its public half: the first
  line, indented or not, reads back as a private RSA key of index 0 whose certificate expires when
  it was asked to, the third as the public half of that key, which is no private key and has no
  certificate.
\<close>

theorem create_jwk_output:
  fixes L :: "('k, 'w) runtime_libs"
  assumes "jose_laws (rl_jose L)" and "createJwk L ctx_err args s = Some (Returned (), s')"
  shows "\<exists>fs k a b. parse_flags jwk_flags [] args = Parsed fs \<and> cli_stdout s' = cli_stdout s @ [a, ''---'', b] \<and>
    Option.bind (json_unmarshal a) (Jwk_UnmarshalJSON (rl_jose L) zero_jwk) = Some k \<and>
    Option.bind (json_unmarshal b) (Jwk_UnmarshalJSON (rl_jose L) zero_jwk) = Some (public_half (rl_jose L) k) \<and>
    private_rsa_key k \<and> key_index k = Some 0 \<and>
    \<not> private_rsa_key (public_half (rl_jose L) k) \<and> jose_Certificates (inner (public_half (rl_jose L) k)) = [] \<and>
    (\<forall>t. string_flag ''not-after'' [] fs \<noteq> [] \<longrightarrow> time_Parse (string_flag ''not-after'' [] fs) = Some t \<longrightarrow>
       cert_expiry k = whole_seconds t)"
proof -
  let ?J = "rl_jose L"
  from assms(2) obtain fs t s1 and crypto :: "'w crypto_service" and jwks jwk pub j pj w w' where fs: "parse_flags jwk_flags [] args = Parsed fs"
    and t: "not_after_time L (string_flag ''not-after'' [] fs) s = Some (Returned t, s1)"
    and create: "CreateJwks crypto (string_flag ''cert-common-name'' ''default-cert'' fs) t w = (Ok jwks, w')"
    and jwk: "index (Keys jwks) 0 = Ok jwk" and pub: "Jwk_Public ?J jwk = Ok pub"
    and enc: "enc_jwk_ptr ?J jwk = Ok j" "enc_jwk_ptr ?J pub = Ok pj"
    and out: "cli_stdout s' = cli_stdout s @ [json_output (bool_flag ''pretty'' fs) j, ''---'',
      json_output (bool_flag ''pretty'' fs) pj]"
    by (clarsimp simp: createJwk_def cli_bind_Returned call_or_exit_Returned parse_or_exit_Returned print_lines_run
        Let_def not_after_stdout simp del: print_lines.simps)
  from create obtain k where keys: "Keys jwks = [Some k]" "good_jwks jwks" "current_key jwks = k"
      "cert_expiry k = whole_seconds t" "key_index k = Some 0"
    by (rule CreateJwks_Ok)
  have good: "private_rsa_key k"
    using keys(1,2) by (auto simp: good_jwks_def good_key_def)
  then have priv: "\<not> jose_IsPublic ?J (inner k)"
    using jose_private_not_public [OF assms(1)] by (auto simp: private_rsa_key_def)
  have k: "jwk = Some k" "pub = Some (public_half ?J k)"
    using jwk pub keys(1) Jwk_Public_private [OF priv] by (auto simp: index_def)
  have "json_ok j \<and> Jwk_UnmarshalJSON ?J zero_jwk j = Some k"
      "json_ok pj \<and> Jwk_UnmarshalJSON ?J zero_jwk pj = Some (public_half ?J k)"
    using enc jose_roundtrip [OF assms(1)]
    by (auto simp: k enc_jwk_ptr_def Jwk_MarshalJSON_def Jwk_UnmarshalJSON_def)
  then have "Option.bind (json_unmarshal (json_output (bool_flag ''pretty'' fs) j)) (Jwk_UnmarshalJSON ?J zero_jwk) = Some k"
      "Option.bind (json_unmarshal (json_output (bool_flag ''pretty'' fs) pj)) (Jwk_UnmarshalJSON ?J zero_jwk) =
        Some (public_half ?J k)"
    by simp_all
  moreover have "\<not> private_rsa_key (public_half ?J k)" by (rule public_half_not_private [OF assms(1)])
  moreover have "jose_Certificates (inner (public_half ?J k)) = []" by (simp add: public_half_def)
  ultimately show ?thesis using fs out good keys(4,5) t not_after_Returned by fastforce
qed

text \<open>A run that makes a key with one day to live, by the clock of the sample world.\<close>

definition cli_cert :: certificate where
  "cli_cert = (sample_cert 0 (1000 * Second) (24 * Hour))
     \<lparr>Subject := \<lparr>Organization = [''local''], CommonName = ''default-cert''\<rparr>,
      Issuer := \<lparr>Organization = [''local''], CommonName = ''default-cert''\<rparr>\<rparr>"

definition cli_key :: jwk where
  "cli_key = Jwk ((inner (sample_key 0 (1000 * Second) (24 * Hour) 0))\<lparr>jose_Certificates := [cli_cert]\<rparr>)"

definition cli_public :: jose_jwk where
  "cli_public = (inner cli_key)\<lparr>jose_Key := RsaPublic (PublicKey (sample_private_key 0)), jose_Certificates := []\<rparr>"

definition cli_libs :: "(unit, script_world) runtime_libs" where
  "cli_libs = sample_runtime_libs\<lparr>rl_jose := table_jose [inner cli_key, cli_public], rl_random := cs_random script_crypto\<rparr>"

definition cli_start :: "(unit, script_world) cli_state" where
  "cli_start = \<lparr>cli_config = \<lparr>cwd = [''repo''], koanf = ()\<rparr>, cli_world = (sample_start, []), cli_stdout = []\<rparr>"

definition cli_args :: "string list" where
  "cli_args = [''-not-after=0001-01-02T00:00:00Z'', ''--pretty'']"

lemma cli_flags: "parse_flags jwk_flags [] cli_args =
    Parsed [(''not-after'', FlagString ''0001-01-02T00:00:00Z''), (''pretty'', FlagBool True)]"
  by (simp add: cli_args_def read_flag_def split_flag_def jwk_flags_def ParseBool_def Let_def)

lemma cli_expiry: "time_Parse ''0001-01-02T00:00:00Z'' = Some (24 * Hour)"
  by (simp add: digit_of_def is_digit_def two_digits_def days_in_month_def days_before_def time_units)

lemma cli_create:
  assumes "NewDefaultService ctx (rl_clock cli_libs) (rl_random cli_libs) w = (Ok crypto, w')"
    and "ServiceOwnerName ctx = ''local''" and "w = (sample_start, [])"
  shows "CreateJwks crypto ''default-cert'' (24 * Hour) w = (Ok \<lparr>Keys = [Some cli_key]\<rparr>, w)"
proof -
  have crypto: "crypto = \<lparr>cs_ctx = ctx, cs_clock = script_clock, cs_random = cs_random script_crypto,
      cs_signatureAlgo = ''RS512'', cs_x509SignatureAlgo = SHA512WithRSA, cs_keySizeBits = 4096\<rparr>"
    using assms(1) by (simp add: NewDefaultService_eq cli_libs_def sample_runtime_libs_def)
  have "createCert crypto ''default-cert'' (24 * Hour) w = (Ok (cli_cert, sample_private_key 0), w)"
    using assms(2,3)
    by (simp add: crypto createCert_def generateCertSerialNumber_def x509_CreateCertificate_def sample_defs
        script_crypto_def fixed_crypto_def script_clock_def wrapping_def bind_def reading_def cli_cert_def sample_cert_def Let_def ret_def
        time_units)
  moreover have "createJWKS crypto cli_cert (sample_private_key 0) 0 w = (Ok \<lparr>Keys = [Some cli_key]\<rparr>, w)"
    by (simp add: crypto createJWKS_def script_crypto_def fixed_crypto_def NewJwks_def NewJwk_def bind_def Let_def ret_def sample_key_def
        cli_key_def)
  ultimately show ?thesis
    by (simp add: CreateJwks_def wrapping_def bind_def)
qed

lemma cli_run:
  "\<exists>s'. createJwk cli_libs None cli_args cli_start = Some (Returned (), s')"
proof -
  have discover: "Discover (rl_uuid cli_libs) None (sample_start, []) =
      (Ok \<lparr>ServiceOwnerName = ''local'', ServiceOwnerOrgNo = ''991825827'', Environment = EnvironmentLocal, RunId = ''run-1''\<rparr>,
       (sample_start, []))"
    by (simp add: Discover_def cli_libs_def sample_runtime_libs_def bind_def ret_def EnvironmentLocal_def)
  obtain crypto where service: "NewDefaultService \<lparr>ServiceOwnerName = ''local'', ServiceOwnerOrgNo = ''991825827'',
      Environment = EnvironmentLocal, RunId = ''run-1''\<rparr> (rl_clock cli_libs) (rl_random cli_libs) (sample_start, []) =
      (Ok crypto, (sample_start, []))"
    by (simp add: NewDefaultService_eq)
  have create: "CreateJwks crypto ''default-cert'' (24 * Hour) (sample_start, []) = (Ok \<lparr>Keys = [Some cli_key]\<rparr>, (sample_start, []))"
    by (rule cli_create [OF service]) simp_all
  have key: "jose_Key (inner cli_key) = RsaPrivate (sample_private_key 0)" by (simp add: cli_key_def sample_key_def)
  have lib: "rl_jose cli_libs = table_jose [inner cli_key, cli_public]" by (simp add: cli_libs_def)
  have "inner (public_half (table_jose [inner cli_key, cli_public]) cli_key) = cli_public"
    by (simp add: public_half_private [OF table_jose_laws key] cli_public_def)
  moreover have "\<not> jose_IsPublic (table_jose [inner cli_key, cli_public]) (inner cli_key)"
    using jose_private_not_public [OF table_jose_laws key] .
  moreover have "inner cli_key \<noteq> cli_public" by (simp add: cli_public_def cli_key_def sample_key_def)
  ultimately have enc: "\<exists>pub j pj. Jwk_Public (rl_jose cli_libs) (Some cli_key) = Ok pub \<and>
      enc_jwk_ptr (rl_jose cli_libs) (Some cli_key) = Ok j \<and> enc_jwk_ptr (rl_jose cli_libs) pub = Ok pj"
    by (simp add: lib Jwk_Public_private enc_jwk_ptr_def Jwk_MarshalJSON_def) (simp add: table_jose_def)
  have flags: "string_flag ''not-after'' [] [(''not-after'', FlagString ''0001-01-02T00:00:00Z''), (''pretty'', FlagBool True)] =
      ''0001-01-02T00:00:00Z''"
      "string_flag ''cert-common-name'' ''default-cert'' [(''not-after'', FlagString ''0001-01-02T00:00:00Z''), (''pretty'', FlagBool True)] =
      ''default-cert''"
    by (simp_all add: string_flag_def)
  show ?thesis
    using enc discover service create
    by (auto simp: createJwk_def cli_bind_Returned call_or_exit_Returned parse_or_exit_Returned print_lines_run cli_flags
        flags not_after_time_def cli_expiry cli_start_def Let_def simp del: print_lines.simps time_Parse.simps)
qed

lemma create_jwk_output_witness:
  "\<exists>s' k a b. createJwk cli_libs None cli_args cli_start = Some (Returned (), s') \<and>
    cli_stdout s' = [a, ''---'', b] \<and> private_rsa_key k \<and> cert_expiry k = 24 * Hour \<and>
    Option.bind (json_unmarshal a) (Jwk_UnmarshalJSON (rl_jose cli_libs) zero_jwk) = Some k \<and>
    Option.bind (json_unmarshal b) (Jwk_UnmarshalJSON (rl_jose cli_libs) zero_jwk) = Some (public_half (rl_jose cli_libs) k)"
proof -
  obtain s' where run: "createJwk cli_libs None cli_args cli_start = Some (Returned (), s')" using cli_run by blast
  have laws: "jose_laws (rl_jose cli_libs)" by (simp add: cli_libs_def table_jose_laws)
  from create_jwk_output [OF laws run] obtain fs k a b where res: "parse_flags jwk_flags [] cli_args = Parsed fs"
      "cli_stdout s' = cli_stdout cli_start @ [a, ''---'', b]" "private_rsa_key k"
      "Option.bind (json_unmarshal a) (Jwk_UnmarshalJSON (rl_jose cli_libs) zero_jwk) = Some k"
      "Option.bind (json_unmarshal b) (Jwk_UnmarshalJSON (rl_jose cli_libs) zero_jwk) = Some (public_half (rl_jose cli_libs) k)"
      "\<forall>t. string_flag ''not-after'' [] fs \<noteq> [] \<longrightarrow> time_Parse (string_flag ''not-after'' [] fs) = Some t \<longrightarrow>
         cert_expiry k = whole_seconds t"
    by blast
  have fs: "fs = [(''not-after'', FlagString ''0001-01-02T00:00:00Z''), (''pretty'', FlagBool True)]"
    using res(1) cli_flags by simp
  have "string_flag ''not-after'' [] fs = ''0001-01-02T00:00:00Z''" by (simp add: fs string_flag_def)
  then have "cert_expiry k = 24 * Hour"
    using res(6) cli_expiry by (simp add: whole_seconds_def time_units del: time_Parse.simps)
  with run res(2-5) show ?thesis by (auto simp: cli_start_def)
qed

end
