(* ===== verification/TestHelpers.thy ===== *)
theory TestHelpers
  imports Config
begin

text \<open>
  The helpers of the tests, \<open>test/utils/utils.go\<close>: commands that run in the project, the client of
  the cluster that they keep in a variable, and the random source of the unit tests. Commands,
  the client library and the generator are parameters. A search for the project may not end, and
  neither then do the helpers that make it: \<open>None\<close>.
\<close>


section \<open>Group and version of the resources\<close>

text \<open>\<open>api/v1alpha1/groupversion_info.go\<close>; the scheme that the types are added to is a library's.\<close>

definition GroupVersion :: "string \<times> string" where
  "GroupVersion = (''resources.altinn.studio'', ''v1alpha1'')"


section \<open>Commands in the project\<close>

text \<open>
  A command that ran has an output, also when it failed, and then the text of an error. \<open>Chdir\<close> to
  a path leads to a directory or fails, which \<open>Run\<close> only reports.
\<close>

record exec_cmd =
  cmd_Args :: "string list"
  cmd_Dir :: string
  cmd_Env :: "string list"

record crd_config =
  rest_Config :: string
  rest_GroupVersion :: "string \<times> string"
  rest_APIPath :: string
  rest_UserAgent :: string

record ('w, 'c) test_lib =
  tl_fs :: file_system
  tl_Chdir :: "directory \<Rightarrow> string \<Rightarrow> directory option"
  tl_Environ :: "string list"
  tl_CombinedOutput :: "exec_cmd \<Rightarrow> 'w \<Rightarrow> (string \<times> string option) \<times> 'w"
  tl_HomeDir :: string
  tl_BuildConfigFromFlags :: "string \<Rightarrow> string \<Rightarrow> ('w, string) prog"
  tl_AddToScheme :: "('w, unit) prog"
  tl_DefaultUserAgent :: string
  tl_UnversionedRESTClientFor :: "crd_config \<Rightarrow> ('w, 'c) prog"

record ('w, 'c) test_state =
  ts_cwd :: directory
  ts_world :: 'w
  ts_k8sClient :: "'c option"

definition stat_error :: go_error where
  "stat_error = ErrExternal ''os''"

partial_function (option) GetProjectDir :: "file_system \<Rightarrow> directory \<Rightarrow> (string outcome \<times> directory) option" where
  "GetProjectDir fs d =
     (if fs_exists fs d ''go.mod'' then
        (if fs_getwd fs d then Some (Ok (dir_text d), d) else Some (Err stat_error, d))
      else if fs_chdir_up fs d then GetProjectDir fs (parent d)
      else Some (Err stat_error, d))"

definition project_dir ::
  "('w, 'c) test_lib \<Rightarrow> ('w, 'c) test_state \<Rightarrow> (string outcome \<times> ('w, 'c) test_state) option"
where
  "project_dir L s = map_option (\<lambda>(r, d). (r, s\<lparr>ts_cwd := d\<rparr>)) (GetProjectDir (tl_fs L) (ts_cwd s))"

definition run_in ::
  "('w, 'c) test_lib \<Rightarrow> string list \<Rightarrow> string \<Rightarrow> ('w, 'c) test_state \<Rightarrow>
   (string \<times> go_error option) \<times> ('w, 'c) test_state"
where
  "run_in L args dir s =
     (let s1 = (case tl_Chdir L (ts_cwd s) dir of None \<Rightarrow> s | Some d \<Rightarrow> s\<lparr>ts_cwd := d\<rparr>);
          cmd = \<lparr>cmd_Args = args, cmd_Dir = dir, cmd_Env = tl_Environ L @ [''GO111MODULE=on'']\<rparr>;
          command = join_with '' '' args
      in case tl_CombinedOutput L cmd (ts_world s1) of ((output, err), w) \<Rightarrow>
          ((output, map_option (\<lambda>e. Errorf ''%s failed with error: (%v) %s'' [command, e, output]) err),
           s1\<lparr>ts_world := w\<rparr>))"

definition Run ::
  "('w, 'c) test_lib \<Rightarrow> string list \<Rightarrow> string \<Rightarrow> ('w, 'c) test_state \<Rightarrow>
   ((string \<times> go_error option) outcome \<times> ('w, 'c) test_state) option"
where
  "Run L args dir s =
     (if dir = [] then
        (case project_dir L s of
           None \<Rightarrow> None
         | Some (Ok dir, s1) \<Rightarrow> Some (map_prod Ok id (run_in L args dir s1))
         | Some (Err e, s1) \<Rightarrow> Some (Ok ([], Some e), s1)
         | Some (Panic p, s1) \<Rightarrow> Some (Panic p, s1))
      else Some (map_prod Ok id (run_in L args dir s)))"

definition error_of :: "(string \<times> go_error option) outcome \<Rightarrow> unit outcome" where
  "error_of r = obind r (\<lambda>(output, err). case err of None \<Rightarrow> Ok () | Some e \<Rightarrow> Err e)"

definition runTestAppMakeTarget ::
  "('w, 'c) test_lib \<Rightarrow> string \<Rightarrow> ('w, 'c) test_state \<Rightarrow> (unit outcome \<times> ('w, 'c) test_state) option"
where
  "runTestAppMakeTarget L target s = (case project_dir L s of
       None \<Rightarrow> None
     | Some (Ok dir, s1) \<Rightarrow>
         map_option (map_prod error_of id) (Run L [''make'', target] (path_Join [dir, ''test'', ''app'']) s1)
     | Some (Err e, s1) \<Rightarrow> Some (Err e, s1)
     | Some (Panic p, s1) \<Rightarrow> Some (Panic p, s1))"

definition StartKindCluster where "StartKindCluster L = runTestAppMakeTarget L ''create''"
definition StartTestApp where "StartTestApp L = runTestAppMakeTarget L ''deploy''"
definition ApplyMaskinportenClient where "ApplyMaskinportenClient L = runTestAppMakeTarget L ''client''"
definition Destroy where "Destroy L = runTestAppMakeTarget L ''destroy''"

definition LoadImageToKindClusterWithName ::
  "('w, 'c) test_lib \<Rightarrow> string \<Rightarrow> ('w, 'c) test_state \<Rightarrow> (unit outcome \<times> ('w, 'c) test_state) option"
where
  "LoadImageToKindClusterWithName L name s = map_option (map_prod error_of id)
     (Run L [''kind'', ''load'', ''docker-image'', name, ''--name'', ''operator''] [] s)"

fun non_empty :: "string list \<Rightarrow> string list \<Rightarrow> string list" where
  "non_empty res [] = res"
| "non_empty res (element # elements) =
     non_empty (if element \<noteq> [] then res @ [element] else res) elements"

definition GetNonEmptyLines :: "string \<Rightarrow> string list" where
  "GetNonEmptyLines output = non_empty [] (split_on (CHR 0x0A) output)"


section \<open>The client of the cluster\<close>

definition in_test_world :: "('w, 'a) prog \<Rightarrow> (('w, 'c) test_state, 'a) prog" where
  "in_test_world = on_part ts_world (\<lambda>w s. s\<lparr>ts_world := w\<rparr>)"

definition GetK8sClient :: "('w, 'c) test_lib \<Rightarrow> (('w, 'c) test_state, 'c) prog" where
  "GetK8sClient L s = (case ts_k8sClient s of
       Some c \<Rightarrow> (Ok c, s)
     | None \<Rightarrow>
         (if tl_HomeDir L = [] then fail (ErrorNew ''Could not get KUBECONFIG'')
          else
            bind (in_test_world (tl_BuildConfigFromFlags L [] (path_Join [tl_HomeDir L, ''.kube'', ''config'']))) (\<lambda>config.
            bind (in_test_world (tl_AddToScheme L)) (\<lambda>_.
            bind (in_test_world (tl_UnversionedRESTClientFor L
                \<lparr>rest_Config = config, rest_GroupVersion = GroupVersion, rest_APIPath = ''/apis'',
                 rest_UserAgent = tl_DefaultUserAgent L\<rparr>)) (\<lambda>c s.
            (Ok c, s\<lparr>ts_k8sClient := Some c\<rparr>))))) s)"


section \<open>The random source of the unit tests\<close>

text \<open>
  The generator fills a buffer; a read of a single byte, which Go's key generation makes or not at
  random, is answered without it, the buffer as it was.
\<close>

type_synonym 's generator = "string \<Rightarrow> 's \<Rightarrow> (nat outcome \<times> string) \<times> 's"

definition NewDeterministicRand :: "(nat \<Rightarrow> 's) \<Rightarrow> 's" where
  "NewDeterministicRand rand_New = rand_New 1337"

definition deterministic_Read :: "'s generator \<Rightarrow> 's generator" where
  "deterministic_Read prng_Read p prng = (if length p = 1 then ((Ok 1, p), prng) else prng_Read p prng)"


section \<open>The searches of the tests and of the operator\<close>

text \<open>
  \<open>GetProjectDir\<close> is the search of \<open>TryFindProjectRoot\<close> with errors where that one has the empty
  text, as long as no directory is told from its \<open>.env\<close> files alone.
\<close>

definition with_errors :: "string \<times> directory \<Rightarrow> string outcome \<times> directory" where
  "with_errors = (\<lambda>(dir, d). (if dir = [] then Err stat_error else Ok dir, d))"

lemma dir_text_not_empty [simp]: "dir_text d \<noteq> []"
  by (simp add: dir_text_def)

lemma GetProjectDir_root:
  assumes "\<And>d. is_root_dir fs d \<longleftrightarrow> fs_exists fs d ''go.mod''"
  shows "GetProjectDir fs d = map_option with_errors (TryFindProjectRoot fs d)"
proof -
  have "GetProjectDir fs d = Some (with_errors r)" if "TryFindProjectRoot fs d = Some r" for r
  proof (rule TryFindProjectRoot.raw_induct
      [where P = "\<lambda>fs' d r. fs' = fs \<longrightarrow> GetProjectDir fs d = Some (with_errors r)", OF _ that, THEN mp, OF _ refl])
    fix f fs' d r
    assume IH: "\<And>fs' d r. f fs' d = Some r \<Longrightarrow> fs' = fs \<longrightarrow> GetProjectDir fs d = Some (with_errors r)"
      and eq: "(if is_root_dir fs' d then (if fs_getwd fs' d then Some (dir_text d, d) else Some ([], d))
        else if fs_chdir_up fs' d then f fs' (parent d) else Some ([], d)) = Some r"
    show "fs' = fs \<longrightarrow> GetProjectDir fs d = Some (with_errors r)"
    proof
      assume "fs' = fs"
      with eq IH [of fs "parent d" r] show "GetProjectDir fs d = Some (with_errors r)"
        by (subst GetProjectDir.simps) (auto simp: assms with_errors_def split: if_splits)
    qed
  qed
  moreover have "\<exists>q. TryFindProjectRoot fs d = Some q" if "GetProjectDir fs d = Some r" for r
  proof (rule GetProjectDir.raw_induct
      [where P = "\<lambda>fs' d r. fs' = fs \<longrightarrow> (\<exists>q. TryFindProjectRoot fs d = Some q)", OF _ that, THEN mp, OF _ refl])
    fix f fs' d and r :: "string outcome \<times> directory"
    assume IH: "\<And>fs' d r. f fs' d = Some r \<Longrightarrow> fs' = fs \<longrightarrow> (\<exists>q. TryFindProjectRoot fs d = Some q)"
      and eq: "(if fs_exists fs' d ''go.mod'' then (if fs_getwd fs' d then Some (Ok (dir_text d), d) else Some (Err stat_error, d))
        else if fs_chdir_up fs' d then f fs' (parent d) else Some (Err stat_error, d)) = Some r"
    show "fs' = fs \<longrightarrow> (\<exists>q. TryFindProjectRoot fs d = Some q)"
    proof
      assume "fs' = fs"
      with eq IH [of fs "parent d" r] show "\<exists>q. TryFindProjectRoot fs d = Some q"
        by (subst TryFindProjectRoot.simps) (auto simp: assms split: if_splits)
    qed
  qed
  ultimately show ?thesis by (cases "TryFindProjectRoot fs d"; cases "GetProjectDir fs d") auto
qed


section \<open>What the helpers do\<close>

text \<open>A target of the test app runs once, in its directory below the project, when there is a project.\<close>

lemma make_target_runs:
  assumes "GetProjectDir (tl_fs L) (ts_cwd s) = Some (Ok dir, d)" and "dir \<noteq> []"
  shows "runTestAppMakeTarget L target s =
    (let path = path_Join [dir, ''test'', ''app''];
         cmd = \<lparr>cmd_Args = [''make'', target], cmd_Dir = path, cmd_Env = tl_Environ L @ [''GO111MODULE=on'']\<rparr>
     in case tl_CombinedOutput L cmd (ts_world s) of ((output, err), w) \<Rightarrow>
       Some (case err of None \<Rightarrow> Ok () | Some e \<Rightarrow> Err (Errorf ''%s failed with error: (%v) %s'' [''make '' @ target, e, output]),
         s\<lparr>ts_cwd := (case tl_Chdir L d path of None \<Rightarrow> d | Some d' \<Rightarrow> d'), ts_world := w\<rparr>))"
proof -
  have "path_Join [dir, ''test'', ''app''] \<noteq> []"
    using assms(2) by (simp add: path_Join_def path_Clean_def Let_def)
  then show ?thesis
    using assms(1)
    by (auto simp: runTestAppMakeTarget_def project_dir_def Run_def run_in_def error_of_def Let_def
        split: prod.split option.split)
qed

lemma non_empty_filter: "non_empty res xs = res @ filter (\<lambda>x. x \<noteq> []) xs"
  by (induction xs arbitrary: res) auto

lemma GetNonEmptyLines_filter: "GetNonEmptyLines output = filter (\<lambda>x. x \<noteq> []) (split_on (CHR 0x0A) output)"
  by (simp add: GetNonEmptyLines_def non_empty_filter)

text \<open>The client is made once.\<close>

lemma GetK8sClient_again:
  assumes "GetK8sClient L s = (Ok c, s1)"
  shows "GetK8sClient L s1 = (Ok c, s1)"
proof -
  from assms have "ts_k8sClient s1 = Some c"
    by (auto simp: GetK8sClient_def bind_eq_Ok_iff split: option.splits if_splits)
  then show ?thesis by (simp add: GetK8sClient_def)
qed

text \<open>Reads of single bytes leave the generator where it is, so what it draws does not depend on them.\<close>

lemma deterministic_Read_skips:
  assumes "length b = 1"
  shows "deterministic_Read G p (snd (deterministic_Read G b prng)) = deterministic_Read G p prng"
  using assms by (simp add: deterministic_Read_def)

end
