(* ===== verification/Spec2Isabelle.thy ===== *)
theory Spec2Isabelle
  imports InfraProperties OperatorProperties DeepCopyProperties DeletionProperties SecrecyProperties
    FakesRestoreProperties FakesOutage FakesRace FakesProcessProperties UtilsProperties TestHelpers
begin

text \<open>
  A model of the Altinn Kubernetes operator, which gives each app that asks for one a client in
  Maskinporten. The operator watches \<open>MaskinportenClient\<close> resources. For each it finds the client
  in the self-service API and the app's secret, decides what to do, and does it: it creates the
  client, rotates its keys, writes keys and client id into the secret, and cleans up when the
  resource is deleted.

  \<^bold>\<open>How Go is modelled.\<close> A function with an error result returns an \<open>outcome\<close>: \<open>Ok\<close>, \<open>Err\<close>, or \<open>Panic\<close>
  for a run-time panic and for \<open>log.Fatal\<close>. A function that touches the outside world is a
  \<open>prog\<close>, a function from a state to an outcome and the state it leaves, also on errors. A pointer
  is an option, \<open>None\<close> being \<open>nil\<close>; a slice whose \<open>nil\<close> matters is an option of a list. Where the
  source shares structs between values that it later writes through, the structs live in a store
  and are named by address (\<open>cmd_heap\<close> in \<open>ClientState\<close>). Time is counted in nanoseconds from Go's
  zero time; a string is a list of bytes.

  \<^bold>\<open>The theories\<close>, from the bottom up, with the files they model:

    \<^item> \<open>Prelude\<close>: outcomes, programs, the clock, \<open>internal/assert\<close>. \<open>GoStrings\<close>, \<open>GoPath\<close>, \<open>Json\<close> and
      \<open>JsonFields\<close>: what the source uses of Go's packages \<open>strings\<close>, \<open>strconv\<close>, \<open>path\<close> and
      \<open>encoding/json\<close>, the latter with a parser and the round trip of printing and parsing.
    \<^item> \<open>OperatorContext\<close>: \<open>internal/operatorcontext\<close>.
    \<^item> \<open>Jwk\<close>, \<open>Crypto\<close>, \<open>Jwt\<close>: \<open>internal/crypto\<close>; key sets and their public halves, the service that
      creates and rotates them, signed tokens.
    \<^item> \<open>Caching\<close>: \<open>internal/caching\<close>; \<open>CachedAtom.Get\<close> as one call, and as the steps of several
      goroutines under its lock (\<open>cache_step\<close>).
    \<^item> \<open>Config\<close>: \<open>internal/config\<close>; both loaders and the search for the project root.
    \<^item> \<open>ClientTypes\<close>, \<open>Resources\<close>: the messages of the self-service API with their JSON, and the
      resource (\<open>api/v1alpha1\<close>).
    \<^item> \<open>ClientState\<close>: \<open>internal/maskinporten/client_state.go\<close>; the contents of the secret and the
      state machine \<open>Reconcile\<close>, from the fetched state of a client to a list of commands.
    \<^item> \<open>HttpApi\<close>: \<open>internal/maskinporten/http_api_client.go\<close>; tokens, every endpoint, retries.
    \<^item> \<open>Runtime\<close>: \<open>internal/internal.go\<close>; how the services are put together.
    \<^item> \<open>Controller\<close>: \<open>internal/controller\<close>; one call of \<open>Reconcile\<close> from the request to the interval
      until the next call.
    \<^item> \<open>Base64\<close>, \<open>FakesDb\<close>, \<open>FakesState\<close>, \<open>FakesServer\<close>: \<open>internal/fakes\<close> and
      \<open>cmd/maskinporten_fakes\<close>, the Maskinporten of the local environment; its database of clients,
      one per run of an operator, and the handlers of its two servers on a response writer.
      \<open>FakesRun\<close> and \<open>FakesLogin\<close> join the API client of \<open>HttpApi\<close> to these servers, and
      \<open>FakesReconcile\<close>, \<open>FakesRestore\<close> and \<open>FakesOutage\<close> the controller.
      \<open>FakesRace\<close> takes insertions apart into statements, for handlers that run at the same time.
      \<open>FakesProcess\<close> is the process around them: the goroutines of \<open>main\<close>, \<open>serve\<close> and
      \<open>setupSignalHandler\<close> as steps (\<open>fakes_step\<close>).
    \<^item> \<open>DeepCopy\<close>: \<open>api/v1alpha1/zz_generated.deepcopy.go\<close>; the generated copies, on an explicit memory
      of arrays and structs, since sharing is what they are about.
    \<^item> \<open>GoProcess\<close>: processes that return, exit or crash, and what they defer. \<open>Telemetry\<close>,
      \<open>OperatorProcess\<close>: \<open>internal/telemetry\<close> and \<open>cmd/main.go\<close>, the process of the operator from its
      flags to the end of the manager.
    \<^item> \<open>GoFlag\<close>, \<open>JsonIndent\<close>, \<open>Utils\<close>: \<open>cmd/utils\<close>, the command line tool, and what it uses of Go's
      packages \<open>flag\<close> and \<open>time\<close> and of \<open>json.MarshalIndent\<close>.
    \<^item> \<open>TestHelpers\<close>: \<open>test/utils\<close>, what the end-to-end test and the unit tests share, with the group and
      version of \<open>groupversion_info.go\<close>; its search for the project is that of \<open>Config\<close>.
    \<^item> \<open>Secrecy\<close>, \<open>FakesSecrecy\<close>: what every operation of the operator and of the fakes preserves when no
      private key may leave; \<open>operator_step\<close> is a call of the controller, or anything that happens
      between calls.
    \<^item> \<open>Samples\<close>, and the theories named \<open>Properties\<close>: the properties with the concrete inputs they
      are tried on.

  \<^bold>\<open>Interfaces.\<close> What a component relies on is a locale, interpreted on the component that provides
  it: the lifetime of a cached value (\<open>atom_cell\<close>, interpreted on both caches of the API client),
  the store of a secret's contents (\<open>secret_store\<close>), the store of client records
  (\<open>record_store\<close>, interpreted on the fake database) and the copy of a value with everything it
  reaches (\<open>deep_copy\<close>, and \<open>struct_copy\<close> for a struct that is copied field by field, interpreted on
  every generated copy). Libraries the source only calls are records of functions with their
  documented behaviour as named hypotheses: go-jose (\<open>jose_laws\<close>, \<open>jwt_laws\<close>), the network
  (\<open>net_laws\<close>), Kubernetes (\<open>k8s_laws\<close>, and \<open>keeps_secret\<close> for a cluster where nobody else writes the
  secret), its copies of metadata (\<open>meta_laws\<close>), the backoff library (\<open>backoff_laws\<close>), the validator
  (\<open>validator_sound\<close>). \<open>Samples\<close> and the
  theories of properties have an instance of each.

  \<^bold>\<open>What is shown.\<close> \<open>KeyProperties\<close>: the shape of every key set that creation and rotation can
  reach, when a rotation happens and what it keeps, that public halves hide private keys, the
  JSON round trip. \<open>InfraProperties\<close>: mutual exclusion and spacing of fetches in the cache, which
  configurations can be returned, termination of the search for the root. \<open>ClientProperties\<close>: the
  commands of \<open>Reconcile\<close> refine a plan stated without the store; no private key is uploaded;
  every command names the right client; creation settles and when the operator is idle.
  \<open>HttpProperties\<close>: retries, token cache, acceptance of grants, only own clients.
  \<open>ControllerProperties\<close>: order of commands, the status after a creation, the interval, and when
  there is no next call. \<open>DeletionProperties\<close>: a call for a resource that is being deleted, from its
  commands to the finalizer. \<open>SecrecyProperties\<close>: over any number of calls no request has a body that
  reads as a private key, so the databases of the fakes hold none. (Only bodies of requests are
  looked at; a grant is signed with the private key of the operator, by a library.)
  \<open>RuntimeProperties\<close>: a runtime is well formed. \<open>FakesProperties\<close>: the fake
  database agrees with a search of its records, and who is let in. \<open>FakesRace\<close>: two insertions at
  the same time may leave a database where a lookup panics. \<open>FakesLogin\<close> composes the two
  sides: the operator logs in, and reads the client that it created. \<open>FakesReconcileProperties\<close>:
  a creation and a rotation reach the API and the secret, and later calls are idle until the key is
  due. \<open>FakesRestoreProperties\<close>: a client that was deleted comes back under the id it had.
  \<open>FakesOutage\<close>: a rotation while the API cannot be reached is lost. These assume a token that has not
  expired at the moments when requests are made with it (\<open>live_token\<close>); between two calls any time
  may pass, requests of other runs may be served and the token may be fetched anew (\<open>later\<close>).
  \<open>FakesProcessProperties\<close>: the fakes end after a signal, and operators that share them do not see
  each other as long as the process lives (\<open>serve_all\<close>).
  \<open>DeepCopyProperties\<close>: a copy shares nothing with its original. \<open>OperatorProperties\<close>: what the
  operator runs, how it exits, and when the telemetry is shut down. \<open>UtilsProperties\<close>: what the tool
  prints, and that it prints nothing when it fails.

  Several properties state what the code does where that is hardly intended, such as a rotation
  that is lost when the upload fails, a finalizer that stays, keys that are not rotated because no call is scheduled, a
  lookup in the fake database that panics after an update, and exits that skip the shutdown of the
  telemetry.

  \<^bold>\<open>Bounds.\<close> All recursion is over data, except three searches: the JSON parser has the length of
  its input as fuel, which is enough for whatever was printed (\<open>json_decode_text\<close>,
  \<open>json_unmarshal_output\<close>); the search for the project root is \<open>partial_function (option)\<close>, and its
  result decides when it does not return; a request is retried while the backoff library grants a
  pause, and \<open>next_pause\<close> ends the retries when the pauses would exceed \<open>MaxElapsedTime\<close>, which a
  library that keeps \<open>backoff_laws\<close> does by itself (\<open>next_pause_lawful\<close>).

  \<^bold>\<open>Not modelled:\<close> logging, spans (but for the one of \<open>main\<close>) and metrics, and what the tool writes to
  standard error; controller-runtime with its queue of requests and its cache, and the exporters of
  OpenTelemetry, which are parameters; the registration of the resource types with a scheme
  (the builder of \<open>groupversion_info.go\<close> and the \<open>init\<close> functions), which only calls a library; handlers of the fakes
  that interleave inside one operation, other than insertions, and the reorderings that Go's memory
  model allows between them; the tests themselves.
\<close>

end
